(* ===== verification/Prelude.thy ===== *)
theory Prelude
  imports Complex_Main
begin

text \<open>
  Shared vocabulary of the development: the exceptions the services throw, the
  state-and-exception monad in which every asynchronous service method is
  written, interactive transactions, and the generic list lemmas the component
  theories use.

  A TypeScript method \<open>async f(x): Promise<T>\<close> that reads and writes a store of
  type \<open>'s\<close> is a function \<open>f x :: 's \<Rightarrow> (error + 'a) \<times> 's\<close>. The store is returned
  on the exceptional exit as well, because writes made before a \<open>throw\<close> outside
  a transaction persist; \<open>transaction\<close> is what discards them.
\<close>

section \<open>Exceptions\<close>

datatype prisma_error =
    PrismaClientKnownRequestError string
  | PrismaClientValidationError

datatype error =
    BadRequestException string
  | NotFoundException string
  | UnauthorizedException string
  | ConflictException string
  | HttpException string nat
  | PrismaException prisma_error
  | PlainError string
  | CodedError string string string

text \<open>\<open>CodedError name code message\<close> is an error object with \<open>name\<close> and \<open>code\<close> properties.\<close>

section \<open>The state and exception monad\<close>

type_synonym ('s, 'a) sm = "'s \<Rightarrow> (error + 'a) \<times> 's"

definition returnM :: "'a \<Rightarrow> ('s, 'a) sm" where
  "returnM a s = (Inr a, s)"

definition throwM :: "error \<Rightarrow> ('s, 'a) sm" where
  "throwM e s = (Inl e, s)"

definition bindM :: "('s, 'a) sm \<Rightarrow> ('a \<Rightarrow> ('s, 'b) sm) \<Rightarrow> ('s, 'b) sm" where
  "bindM m f s = (case m s of (Inl e, s') \<Rightarrow> (Inl e, s') | (Inr a, s') \<Rightarrow> f a s')"

text \<open>\<open>try m catch (e) h\<close>: the handler runs in the state the body left behind.\<close>

definition catchM :: "('s, 'a) sm \<Rightarrow> (error \<Rightarrow> ('s, 'a) sm) \<Rightarrow> ('s, 'a) sm" where
  "catchM m h s = (case m s of (Inl e, s') \<Rightarrow> h e s' | (Inr a, s') \<Rightarrow> (Inr a, s'))"

text \<open>\<open>prisma.$transaction(fn)\<close>: a throw inside rolls every write back.\<close>

definition transaction :: "('s, 'a) sm \<Rightarrow> ('s, 'a) sm" where
  "transaction m s = (case m s of (Inl e, s') \<Rightarrow> (Inl e, s) | (Inr a, s') \<Rightarrow> (Inr a, s'))"

text \<open>
  A transaction whose callback also reads through the root client sees the
  committed state there, which is the state in which the transaction began.
\<close>

definition transactionC :: "('s \<Rightarrow> ('s, 'a) sm) \<Rightarrow> ('s, 'a) sm" where
  "transactionC f s = transaction (f s) s"

text \<open>\<open>for (const x of xs) await f(x)\<close>: stops at the first throw.\<close>

fun forEachM :: "('a \<Rightarrow> ('s, unit) sm) \<Rightarrow> 'a list \<Rightarrow> ('s, unit) sm" where
  "forEachM f [] = returnM ()"
| "forEachM f (x # xs) = bindM (f x) (\<lambda>_. forEachM f xs)"

text \<open>
  Running a computation of one component inside a larger state: \<open>g\<close> reads the
  component, \<open>u\<close> is the record update of the same field.
\<close>

definition zoom :: "('s \<Rightarrow> 't) \<Rightarrow> (('t \<Rightarrow> 't) \<Rightarrow> 's \<Rightarrow> 's) \<Rightarrow> ('t, 'a) sm \<Rightarrow> ('s, 'a) sm" where
  "zoom g u m s = (case m (g s) of (r, t) \<Rightarrow> (r, u (\<lambda>_. t) s))"

named_theorems runM "equations that execute a monadic computation"
named_theorems repo "what a repository method does to its table"

lemma returnM_run [runM, simp]: "returnM a s = (Inr a, s)"
  by (simp add: returnM_def)

lemma throwM_run [runM, simp]: "throwM e s = (Inl e, s)"
  by (simp add: throwM_def)

lemma bindM_Inr [runM]: "m s = (Inr a, s') \<Longrightarrow> bindM m f s = f a s'"
  by (simp add: bindM_def)

lemma bindM_Inl [runM]: "m s = (Inl e, s') \<Longrightarrow> bindM m f s = (Inl e, s')"
  by (simp add: bindM_def)

lemma bindM_return [runM, simp]: "bindM (returnM a) f = f a"
  by (rule ext) (simp add: bindM_def)

lemma bindM_throw [runM, simp]: "bindM (throwM e) f = throwM e"
  by (rule ext) (simp add: bindM_def)

lemma catchM_Inr [runM]: "m s = (Inr a, s') \<Longrightarrow> catchM m h s = (Inr a, s')"
  by (simp add: catchM_def)

lemma catchM_Inl [runM]: "m s = (Inl e, s') \<Longrightarrow> catchM m h s = h e s'"
  by (simp add: catchM_def)

lemma zoom_run [runM]: "m (g s) = (r, t) \<Longrightarrow> zoom g u m s = (r, u (\<lambda>_. t) s)"
  by (simp add: zoom_def)

lemma transaction_Inr [runM]: "m s = (Inr a, s') \<Longrightarrow> transaction m s = (Inr a, s')"
  by (simp add: transaction_def)

lemma transaction_Inl [runM]: "m s = (Inl e, s') \<Longrightarrow> transaction m s = (Inl e, s)"
  by (simp add: transaction_def)

text \<open>Atomicity: a transaction that throws leaves the store as it found it.\<close>

lemma transaction_atomic: "transaction m s = (Inl e, s') \<Longrightarrow> s' = s"
  by (auto simp: transaction_def split: prod.splits sum.splits)

lemma transaction_Inr_iff: "transaction m s = (Inr a, s') \<longleftrightarrow> m s = (Inr a, s')"
  by (auto simp: transaction_def split: prod.splits sum.splits)

lemma transaction_Inl_iff:
  "transaction m s = (Inl e, s') \<longleftrightarrow> s' = s \<and> (\<exists>s''. m s = (Inl e, s''))"
  by (auto simp: transaction_def split: prod.splits sum.splits)

lemma bindM_Inr_iff:
  "bindM m f s = (Inr b, s'') \<longleftrightarrow> (\<exists>a s'. m s = (Inr a, s') \<and> f a s' = (Inr b, s''))"
  by (auto simp: bindM_def split: prod.splits sum.splits)

lemma bindM_assoc: "bindM (bindM m f) g = bindM m (\<lambda>x. bindM (f x) g)"
  by (rule ext) (simp add: bindM_def split: prod.split sum.split)

lemma bindM_InrE:
  assumes "bindM m f s = (Inr b, s'')"
  obtains a s' where "m s = (Inr a, s')" "f a s' = (Inr b, s'')"
  using assms by (auto simp: bindM_Inr_iff)

lemma zoom_Inr_iff:
  "zoom g u m s = (Inr a, s') \<longleftrightarrow> (\<exists>t. m (g s) = (Inr a, t) \<and> s' = u (\<lambda>_. t) s)"
  by (auto simp: zoom_def split: prod.splits)

text \<open>
  An invariant kept by both exits of a computation, and the rules that lift it
  through sequencing, handlers, loops and transactions.
\<close>

definition keeps :: "('s \<Rightarrow> bool) \<Rightarrow> ('s, 'a) sm \<Rightarrow> bool" where
  "keeps I m \<longleftrightarrow> (\<forall>s. I s \<longrightarrow> I (snd (m s)))"

lemma keepsI: "(\<And>s. I s \<Longrightarrow> I (snd (m s))) \<Longrightarrow> keeps I m"
  by (simp add: keeps_def)

lemma keepsD: "keeps I m \<Longrightarrow> I s \<Longrightarrow> I (snd (m s))"
  by (simp add: keeps_def)

lemma keeps_return [intro, simp]: "keeps I (returnM a)"
  by (simp add: keeps_def)

lemma keeps_throw [intro, simp]: "keeps I (throwM e)"
  by (simp add: keeps_def)

lemma keeps_bind [intro]: "keeps I m \<Longrightarrow> (\<And>a. keeps I (f a)) \<Longrightarrow> keeps I (bindM m f)"
  by (force simp: keeps_def bindM_def split: prod.splits sum.splits)

lemma keeps_catch [intro]: "keeps I m \<Longrightarrow> (\<And>e. keeps I (h e)) \<Longrightarrow> keeps I (catchM m h)"
  by (force simp: keeps_def catchM_def split: prod.splits sum.splits)

lemma keeps_transaction [intro]: "keeps I m \<Longrightarrow> keeps I (transaction m)"
  by (force simp: keeps_def transaction_def split: prod.splits sum.splits)

lemma keeps_forEach [intro]: "(\<And>x. keeps I (f x)) \<Longrightarrow> keeps I (forEachM f xs)"
  by (induction xs) auto

lemma keeps_transactionC [intro]: "(\<And>s. keeps I (f s)) \<Longrightarrow> keeps I (transactionC f)"
  using keeps_transaction [of I] by (fastforce simp: keeps_def transactionC_def)

lemma keeps_if: "(b \<Longrightarrow> keeps I m) \<Longrightarrow> (\<not> b \<Longrightarrow> keeps I n) \<Longrightarrow> keeps I (if b then m else n)"
  by simp

lemma keeps_case_option:
  "(x = None \<Longrightarrow> keeps I m) \<Longrightarrow> (\<And>a. x = Some a \<Longrightarrow> keeps I (f a)) \<Longrightarrow> keeps I (case x of None \<Rightarrow> m | Some a \<Rightarrow> f a)"
  by (cases x) auto

lemma keeps_case_sum:
  "(\<And>a. x = Inl a \<Longrightarrow> keeps I (f a)) \<Longrightarrow> (\<And>b. x = Inr b \<Longrightarrow> keeps I (g b)) \<Longrightarrow>
   keeps I (case x of Inl a \<Rightarrow> f a | Inr b \<Rightarrow> g b)"
  by (cases x) auto

lemma keeps_case_prod: "(\<And>a b. x = (a, b) \<Longrightarrow> keeps I (f a b)) \<Longrightarrow> keeps I (case x of (a, b) \<Rightarrow> f a b)"
  by (cases x) auto

lemmas keeps_rules = keeps_bind keeps_return keeps_throw keeps_catch keeps_transaction keeps_transactionC
  keeps_forEach keeps_if keeps_case_option keeps_case_sum keeps_case_prod

lemma keeps_after: "keeps I m \<Longrightarrow> m w = (r, w') \<Longrightarrow> I w \<Longrightarrow> I w'"
  using keepsD [of I m w] by simp

lemma keeps_run:
  assumes "\<And>x. keeps (\<lambda>s. f s = x) m" "m s = (r, s')"
  shows "f s' = f s"
  using keepsD [OF assms(1), of s "f s"] assms(2) by simp

text \<open>Frames: a computation on one component keeps everything that does not read it.\<close>

lemma keeps_zoom_frame: "(\<And>s t. f (u (\<lambda>_. t) s) = f s) \<Longrightarrow> keeps (\<lambda>s. f s = x) (zoom g u m)"
  by (auto simp: keeps_def zoom_def split: prod.splits)

text \<open>A computation that first reads the state it runs in.\<close>

lemma keeps_reader: "(\<And>s0. keeps I (m s0)) \<Longrightarrow> keeps I (\<lambda>s. m s s)"
  by (simp add: keeps_def)

section \<open>Lists as tables\<close>

text \<open>The first row that satisfies \<open>P\<close> is replaced: an update by unique key.\<close>

fun updateFirst :: "('a \<Rightarrow> bool) \<Rightarrow> ('a \<Rightarrow> 'a) \<Rightarrow> 'a list \<Rightarrow> 'a list" where
  "updateFirst P f [] = []"
| "updateFirst P f (x # xs) = (if P x then f x # xs else x # updateFirst P f xs)"

fun deleteFirst :: "('a \<Rightarrow> bool) \<Rightarrow> 'a list \<Rightarrow> 'a list" where
  "deleteFirst P [] = []"
| "deleteFirst P (x # xs) = (if P x then xs else x # deleteFirst P xs)"

text \<open>Keep the first row of every key, as \<open>distinct: [...]\<close> does.\<close>

fun distinctOn :: "('a \<Rightarrow> 'k) \<Rightarrow> 'a list \<Rightarrow> 'a list" where
  "distinctOn k [] = []"
| "distinctOn k (x # xs) = x # distinctOn k (filter (\<lambda>y. k y \<noteq> k x) xs)"

lemma length_updateFirst [simp]: "length (updateFirst P f xs) = length xs"
  by (induction xs) auto

lemma map_updateFirst: "(\<And>x. g (f x) = g x) \<Longrightarrow> map g (updateFirst P f xs) = map g xs"
  by (induction xs) auto

lemma updateFirst_none: "find P xs = None \<Longrightarrow> updateFirst P f xs = xs"
  by (induction xs) (auto split: if_splits)

lemma find_Some_mem: "find P xs = Some x \<Longrightarrow> x \<in> set xs \<and> P x"
  by (induction xs) (auto split: if_splits)

lemma find_cong_list: "(\<And>x. x \<in> set xs \<Longrightarrow> P x = Q x) \<Longrightarrow> find P xs = find Q xs"
  by (induction xs) auto

lemma find_append: "find P (xs @ ys) = (case find P xs of None \<Rightarrow> find P ys | Some x \<Rightarrow> Some x)"
  by (induction xs) auto

lemma find_updateFirst_same:
  "find P xs = Some x \<Longrightarrow> Q (f x) \<Longrightarrow> (\<And>y. y \<in> set xs \<Longrightarrow> Q y \<Longrightarrow> P y) \<Longrightarrow>
   find Q (updateFirst P f xs) = Some (f x)"
  by (induction xs) (auto split: if_splits)

lemma find_updateFirst_other:
  "(\<And>y. y \<in> set xs \<Longrightarrow> P y \<Longrightarrow> \<not> Q y \<and> \<not> Q (f y)) \<Longrightarrow>
   find Q (updateFirst P f xs) = find Q xs"
  by (induction xs) auto

lemma updateFirst_as_map:
  "distinct (map k xs) \<Longrightarrow> (\<And>x. x \<in> set xs \<Longrightarrow> P x \<Longrightarrow> k x = i) \<Longrightarrow>
   updateFirst P f xs = map (\<lambda>x. if P x then f x else x) xs"
proof (induction xs)
  case Nil
  then show ?case by simp
next
  case (Cons x xs)
  show ?case
  proof (cases "P x")
    case True
    have "map (\<lambda>y. if P y then f y else y) xs = xs"
    proof (rule map_idI)
      fix y assume "y \<in> set xs"
      with Cons.prems True show "(if P y then f y else y) = y" by force
    qed
    with True show ?thesis by simp
  next
    case False
    with Cons show ?thesis by simp
  qed
qed

lemma set_updateFirst: "set (updateFirst P f xs) \<subseteq> set xs \<union> f ` {x \<in> set xs. P x}"
  by (induction xs) auto

lemma set_deleteFirst: "set (deleteFirst P xs) \<subseteq> set xs"
  by (induction xs) auto

lemma find_unique_key:
  "distinct (map k xs) \<Longrightarrow> x \<in> set xs \<Longrightarrow> P x \<Longrightarrow> (\<And>y. P y \<Longrightarrow> k y = k x) \<Longrightarrow> find P xs = Some x"
proof (induction xs)
  case Nil
  then show ?case by simp
next
  case (Cons y ys)
  show ?case
  proof (cases "P y")
    case True
    then have "k y = k x" by (rule Cons.prems(4))
    with Cons.prems(1,2) have "y = x" by auto
    with True show ?thesis by simp
  next
    case False
    have "distinct (map k ys)" using Cons.prems(1) by simp
    moreover have "x \<in> set ys" using Cons.prems(2,3) False by auto
    ultimately have "find P ys = Some x" using Cons.prems(3,4) by (rule Cons.IH)
    with False show ?thesis by simp
  qed
qed

lemma sum_updateFirst:
  fixes g :: "'a \<Rightarrow> 'b :: ab_group_add"
  shows "find P xs = Some x \<Longrightarrow>
    sum_list (map g (updateFirst P f xs)) = sum_list (map g xs) - g x + g (f x)"
  by (induction xs) (auto split: if_splits simp: algebra_simps)

section \<open>Strings\<close>

definition toLowerChar :: "char \<Rightarrow> char" where
  "toLowerChar c =
     (let n = of_char c :: nat in if 65 \<le> n \<and> n \<le> 90 then char_of (n + 32) else c)"

definition toLowerCase :: "string \<Rightarrow> string" where
  "toLowerCase = map toLowerChar"

lemma length_toLowerCase [simp]: "length (toLowerCase s) = length s"
  by (simp add: toLowerCase_def)

lemma toLowerChar_idem [simp]: "toLowerChar (toLowerChar c) = toLowerChar c"
proof (cases "65 \<le> (of_char c :: nat) \<and> (of_char c :: nat) \<le> 90")
  case True
  then have "(of_char (char_of ((of_char c :: nat) + 32) :: char) :: nat) = of_char c + 32"
    by (simp add: of_char_of)
  with True show ?thesis by (simp add: toLowerChar_def Let_def)
next
  case False
  then show ?thesis by (auto simp: toLowerChar_def Let_def)
qed

lemma toLowerCase_idem [simp]: "toLowerCase (toLowerCase s) = toLowerCase s"
  by (simp add: toLowerCase_def)

end
