(* ===== verification/Prisma.thy ===== *)
theory Prisma
  imports Prelude
begin

text \<open>
  The boundary to the database. The Prisma client and PostgreSQL are not part of
  the repository, so the model never defines them: every delegate
  (\<open>prisma.user\<close>, \<open>prisma.claim\<close>, \<dots>) is a value of type \<open>engine\<close> that the
  definitions of the other theories take as an argument. What the code relies on
  is the locale \<open>prisma_engine\<close>, one law per query action, in the words of the
  Prisma client reference: \<open>findUnique\<close> and \<open>findFirst\<close> return the first row that
  satisfies \<open>where\<close> or \<open>null\<close>; \<open>update\<close> and \<open>delete\<close> of a row that does not exist
  fail with P2025; \<open>updateMany\<close> and \<open>deleteMany\<close> report how many rows they changed;
  \<open>create\<close> fails when a constraint of the schema is violated and otherwise adds a
  row with a fresh identifier; an argument that is not part of the Prisma API is
  rejected by client-side validation.

  A query is a shallow embedding of the argument object: the conditions of a
  \<open>where\<close> are a predicate on rows and the assignments of a \<open>data\<close> are a function on
  rows, except for the keys the soft-delete middleware inspects and rewrites
  (\<open>deletedAt\<close>, \<open>_includeDeleted\<close>, \<open>_hardDelete\<close>), which stay explicit.
\<close>

section \<open>Rows and queries\<close>

text \<open>Every model of the schema has a primary key and a soft-delete timestamp.\<close>

record row =
  rowId :: string
  deletedAt :: "int option"

text \<open>The shapes of \<open>where.deletedAt\<close> in the sources: \<open>null\<close>, \<open>{not: null}\<close>, \<open>{not: null, lt: d}\<close>.\<close>

datatype deleted_filter = IsNull | NotNull | NotNullLt int

record 'r qwhere =
  w_cond :: "'r \<Rightarrow> bool"
  w_deletedAt :: "deleted_filter option"
  w_includeDeleted :: "bool option"
  w_hardDelete :: "bool option"

text \<open>\<open>d_deletedAt\<close>: \<open>None\<close> the key is absent, \<open>Some None\<close> it is \<open>null\<close>, \<open>Some (Some t)\<close> a date.\<close>

record 'r qdata =
  d_set :: "'r \<Rightarrow> 'r"
  d_deletedAt :: "int option option"

record 'r qcreate =
  c_row :: 'r
  c_deletedAt :: "int option option"

record 'r args =
  a_where :: "'r qwhere option"
  a_data :: "'r qdata option"
  a_create :: "'r qcreate option"
  a_update :: "'r qdata option"
  a_includeDeleted :: "bool option"
  a_hardDelete :: "bool option"
  a_orderBy :: "('r \<Rightarrow> int) option"
  a_distinct :: "('r \<Rightarrow> string) option"
  a_skip :: nat
  a_take :: "nat option"

datatype action =
    FindUnique | FindUniqueOrThrow | FindFirst | FindFirstOrThrow | FindMany
  | Count | Aggregate | GroupBy | Create | Update | UpdateMany | Delete | DeleteMany | Upsert

record 'r params =
  p_model :: string
  p_action :: action
  p_args :: "'r args"

datatype 'r result = RRow "'r option" | RRows "'r list" | RCount nat

definition whereOf :: "('r \<Rightarrow> bool) \<Rightarrow> 'r qwhere" where
  "whereOf P = \<lparr>w_cond = P, w_deletedAt = None, w_includeDeleted = None, w_hardDelete = None\<rparr>"

definition setOf :: "('r \<Rightarrow> 'r) \<Rightarrow> 'r qdata" where
  "setOf f = \<lparr>d_set = f, d_deletedAt = None\<rparr>"

definition rowOf :: "'r \<Rightarrow> 'r qcreate" where
  "rowOf r = \<lparr>c_row = r, c_deletedAt = None\<rparr>"

definition noArgs :: "'r args" where
  "noArgs = \<lparr>a_where = None, a_data = None, a_create = None, a_update = None,
             a_includeDeleted = None, a_hardDelete = None, a_orderBy = None,
             a_distinct = None, a_skip = 0, a_take = None\<rparr>"

lemmas query_defs = whereOf_def setOf_def rowOf_def noArgs_def

section \<open>What a query means on a table\<close>

fun dmatch :: "deleted_filter \<Rightarrow> int option \<Rightarrow> bool" where
  "dmatch IsNull d = (d = None)"
| "dmatch NotNull d = (d \<noteq> None)"
| "dmatch (NotNullLt t) d = (case d of None \<Rightarrow> False | Some x \<Rightarrow> x < t)"

definition matches :: "('a row_scheme) qwhere option \<Rightarrow> 'a row_scheme \<Rightarrow> bool" where
  "matches ow r = (case ow of None \<Rightarrow> True
     | Some w \<Rightarrow> w_cond w r \<and> (case w_deletedAt w of None \<Rightarrow> True | Some f \<Rightarrow> dmatch f (deletedAt r)))"

definition applyData :: "('a row_scheme) qdata option \<Rightarrow> 'a row_scheme \<Rightarrow> 'a row_scheme" where
  "applyData od r = (case od of None \<Rightarrow> r
     | Some d \<Rightarrow> (case d_deletedAt d of None \<Rightarrow> d_set d r | Some x \<Rightarrow> (d_set d r)\<lparr>deletedAt := x\<rparr>))"

definition newRow :: "('a row_scheme) qcreate \<Rightarrow> string \<Rightarrow> 'a row_scheme" where
  "newRow c i = (c_row c)\<lparr>rowId := i, deletedAt := (case c_deletedAt c of None \<Rightarrow> None | Some d \<Rightarrow> d)\<rparr>"

definition window :: "'r args \<Rightarrow> 'r list \<Rightarrow> 'r list" where
  "window a rs =
     (let s = (case a_orderBy a of None \<Rightarrow> rs | Some k \<Rightarrow> sort_key k rs);
          u = (case a_distinct a of None \<Rightarrow> s | Some k \<Rightarrow> distinctOn k s);
          v = drop (a_skip a) u
      in case a_take a of None \<Rightarrow> v | Some n \<Rightarrow> take n v)"

lemma window_noArgs [simp]:
  "a_orderBy a = None \<Longrightarrow> a_distinct a = None \<Longrightarrow> a_skip a = 0 \<Longrightarrow> a_take a = None \<Longrightarrow> window a rs = rs"
  by (simp add: window_def)

lemma set_distinctOn: "set (distinctOn k xs) \<subseteq> set xs"
  by (induction k xs rule: distinctOn.induct) auto

lemma set_window: "set (window a rs) \<subseteq> set rs"
proof -
  let ?s = "case a_orderBy a of None \<Rightarrow> rs | Some k \<Rightarrow> sort_key k rs"
  let ?u = "case a_distinct a of None \<Rightarrow> ?s | Some k \<Rightarrow> distinctOn k ?s"
  have "set ?u \<subseteq> set ?s" by (cases "a_distinct a") (simp_all only: option.case set_distinctOn order_refl)
  then have "set ?u \<subseteq> set rs" by (cases "a_orderBy a") simp_all
  moreover have "set (window a rs) \<subseteq> set ?u"
    using set_drop_subset [of "a_skip a" ?u] set_take_subset [of _ "drop (a_skip a) ?u"]
    by (auto simp: window_def Let_def split: option.splits)
  ultimately show ?thesis by (rule subset_trans [rotated])
qed

definition cleanArgs :: "'r args \<Rightarrow> bool" where
  "cleanArgs a \<longleftrightarrow> a_includeDeleted a = None \<and> a_hardDelete a = None \<and>
     (case a_where a of None \<Rightarrow> True | Some w \<Rightarrow> w_includeDeleted w = None \<and> w_hardDelete w = None)"

section \<open>The delegate interface\<close>

record 'r engine =
  modelName :: string
  nx :: "'r params \<Rightarrow> 'r list \<Rightarrow> (prisma_error + 'r result) \<times> 'r list"
  violates :: "'r \<Rightarrow> 'r list \<Rightarrow> string option"
  genId :: "'r list \<Rightarrow> string"

text \<open>
  \<open>violates e r t\<close> is the error code of the schema constraint that inserting \<open>r\<close>
  would break (P2002 a unique key, P2003 a foreign key), and \<open>genId e t\<close> the
  identifier \<open>@default(uuid())\<close> produces.
\<close>

locale prisma_engine =
  fixes e :: "('a row_scheme) engine"
  assumes genId_fresh: "genId e t \<notin> rowId ` set t"
    and nx_invalid: "\<not> cleanArgs (p_args p) \<Longrightarrow> nx e p t = (Inl PrismaClientValidationError, t)"
    and nx_findUnique: "cleanArgs (p_args p) \<Longrightarrow> p_action p = FindUnique \<Longrightarrow>
      nx e p t = (Inr (RRow (find (matches (a_where (p_args p))) t)), t)"
    and nx_findFirst: "cleanArgs (p_args p) \<Longrightarrow> p_action p = FindFirst \<Longrightarrow>
      nx e p t = (Inr (RRow (find (matches (a_where (p_args p))) t)), t)"
    and nx_findMany: "cleanArgs (p_args p) \<Longrightarrow> p_action p = FindMany \<Longrightarrow>
      nx e p t = (Inr (RRows (window (p_args p) (filter (matches (a_where (p_args p))) t))), t)"
    and nx_count: "cleanArgs (p_args p) \<Longrightarrow> p_action p = Count \<Longrightarrow>
      nx e p t = (Inr (RCount (length (filter (matches (a_where (p_args p))) t))), t)"
    and nx_create: "cleanArgs (p_args p) \<Longrightarrow> p_action p = Create \<Longrightarrow> a_create (p_args p) = Some c \<Longrightarrow>
      nx e p t = (let r = newRow c (genId e t) in
        case violates e r t of
          Some code \<Rightarrow> (Inl (PrismaClientKnownRequestError code), t)
        | None \<Rightarrow> (Inr (RRow (Some r)), t @ [r]))"
    and nx_update: "cleanArgs (p_args p) \<Longrightarrow> p_action p = Update \<Longrightarrow>
      nx e p t = (case find (matches (a_where (p_args p))) t of
          None \<Rightarrow> (Inl (PrismaClientKnownRequestError ''P2025''), t)
        | Some r \<Rightarrow> (Inr (RRow (Some (applyData (a_data (p_args p)) r))),
                     updateFirst (matches (a_where (p_args p))) (applyData (a_data (p_args p))) t))"
    and nx_updateMany: "cleanArgs (p_args p) \<Longrightarrow> p_action p = UpdateMany \<Longrightarrow>
      nx e p t = (Inr (RCount (length (filter (matches (a_where (p_args p))) t))),
        map (\<lambda>r. if matches (a_where (p_args p)) r then applyData (a_data (p_args p)) r else r) t)"
    and nx_delete: "cleanArgs (p_args p) \<Longrightarrow> p_action p = Delete \<Longrightarrow>
      nx e p t = (case find (matches (a_where (p_args p))) t of
          None \<Rightarrow> (Inl (PrismaClientKnownRequestError ''P2025''), t)
        | Some r \<Rightarrow> (Inr (RRow (Some r)), deleteFirst (matches (a_where (p_args p))) t))"
    and nx_deleteMany: "cleanArgs (p_args p) \<Longrightarrow> p_action p = DeleteMany \<Longrightarrow>
      nx e p t = (Inr (RCount (length (filter (matches (a_where (p_args p))) t))),
        filter (\<lambda>r. \<not> matches (a_where (p_args p)) r) t)"
    and nx_upsert: "cleanArgs (p_args p) \<Longrightarrow> p_action p = Upsert \<Longrightarrow> a_create (p_args p) = Some c \<Longrightarrow>
      nx e p t = (case find (matches (a_where (p_args p))) t of
          Some r \<Rightarrow> (Inr (RRow (Some (applyData (a_update (p_args p)) r))),
                     updateFirst (matches (a_where (p_args p))) (applyData (a_update (p_args p))) t)
        | None \<Rightarrow> (let r = newRow c (genId e t) in
            case violates e r t of
              Some code \<Rightarrow> (Inl (PrismaClientKnownRequestError code), t)
            | None \<Rightarrow> (Inr (RRow (Some r)), t @ [r])))"

section \<open>An in-memory delegate\<close>

text \<open>
  A delegate that satisfies every law: rows in a list, identifiers longer than
  every identifier in use, constraints given as a function. It instantiates the
  parameter in the witnesses and shows that the laws are consistent.
\<close>

definition freshId :: "('a row_scheme) list \<Rightarrow> string" where
  "freshId t = replicate (Suc (sum_list (map (length \<circ> rowId) t))) (CHR ''i'')"

definition tableNext ::
  "('a row_scheme \<Rightarrow> ('a row_scheme) list \<Rightarrow> string option) \<Rightarrow> ('a row_scheme) params \<Rightarrow>
   ('a row_scheme) list \<Rightarrow> (prisma_error + ('a row_scheme) result) \<times> ('a row_scheme) list" where
  "tableNext v p t =
    (let a = p_args p; w = matches (a_where a);
         insert = (\<lambda>c. let r = newRow c (freshId t) in
           case v r t of Some code \<Rightarrow> (Inl (PrismaClientKnownRequestError code), t)
                       | None \<Rightarrow> (Inr (RRow (Some r)), t @ [r]))
     in if \<not> cleanArgs a then (Inl PrismaClientValidationError, t)
        else case p_action p of
          FindUnique \<Rightarrow> (Inr (RRow (find w t)), t)
        | FindFirst \<Rightarrow> (Inr (RRow (find w t)), t)
        | FindMany \<Rightarrow> (Inr (RRows (window a (filter w t))), t)
        | Count \<Rightarrow> (Inr (RCount (length (filter w t))), t)
        | Create \<Rightarrow> (case a_create a of None \<Rightarrow> (Inl PrismaClientValidationError, t) | Some c \<Rightarrow> insert c)
        | Update \<Rightarrow> (case find w t of
              None \<Rightarrow> (Inl (PrismaClientKnownRequestError ''P2025''), t)
            | Some r \<Rightarrow> (Inr (RRow (Some (applyData (a_data a) r))), updateFirst w (applyData (a_data a)) t))
        | UpdateMany \<Rightarrow> (Inr (RCount (length (filter w t))),
              map (\<lambda>r. if w r then applyData (a_data a) r else r) t)
        | Delete \<Rightarrow> (case find w t of
              None \<Rightarrow> (Inl (PrismaClientKnownRequestError ''P2025''), t)
            | Some r \<Rightarrow> (Inr (RRow (Some r)), deleteFirst w t))
        | DeleteMany \<Rightarrow> (Inr (RCount (length (filter w t))), filter (\<lambda>r. \<not> w r) t)
        | Upsert \<Rightarrow> (case find w t of
              Some r \<Rightarrow> (Inr (RRow (Some (applyData (a_update a) r))), updateFirst w (applyData (a_update a)) t)
            | None \<Rightarrow> (case a_create a of None \<Rightarrow> (Inl PrismaClientValidationError, t) | Some c \<Rightarrow> insert c))
        | _ \<Rightarrow> (Inr (RRows []), t))"

definition tableEngine ::
  "string \<Rightarrow> ('a row_scheme \<Rightarrow> ('a row_scheme) list \<Rightarrow> string option) \<Rightarrow> ('a row_scheme) engine" where
  "tableEngine m v = \<lparr>modelName = m, nx = tableNext v, violates = v, genId = freshId\<rparr>"

definition noConstraint :: "'r \<Rightarrow> 'r list \<Rightarrow> string option" where
  "noConstraint r t = None"

lemma freshId_fresh: "freshId t \<notin> rowId ` set t"
proof
  assume "freshId t \<in> rowId ` set t"
  then obtain r where r: "r \<in> set t" "rowId r = freshId t" by auto
  have "length (rowId r) \<le> sum_list (map (length \<circ> rowId) t)"
    using r(1) by (intro member_le_sum_list) auto
  with r(2) show False by (simp add: freshId_def)
qed

interpretation memory: prisma_engine "tableEngine m v" for m v
  by unfold_locales
    (simp_all add: tableEngine_def tableNext_def Let_def freshId_fresh split: option.splits)

lemma tableEngine_laws: "prisma_engine (tableEngine m v)"
  by (rule memory.prisma_engine_axioms)

end
