(* ===== verification/Schema.thy ===== *)
theory Schema
  imports Prisma
begin

text \<open>
  The data model of \<open>prisma/schema.prisma\<close>: one record per model, one datatype per
  enum, the database as a record of tables and the Prisma client as a record of
  delegates. Enum constructors carry their enum's name as a prefix because the
  enums share member names (\<open>PENDING\<close>, \<open>ACTIVE\<close>, \dots). Money columns
  (\<open>Decimal(18, 2)\<close>) are exact rationals and timestamps are milliseconds since the
  epoch. Columns that no modelled operation reads or writes (\<open>updatedAt\<close>, back
  relations) are left out.
\<close>

section \<open>JavaScript values\<close>

text \<open>
  The dynamically typed values that JSON columns, event payloads and audit
  snapshots hold: object members keep their order; dates, decimals, bigints,
  buffers and Stellar addresses are the class instances the sources test for.
\<close>

datatype jsval =
    JUndef
  | JNull
  | JBool bool
  | JNum rat
  | JBigInt int
  | JStr string
  | JDate int
  | JDecimal rat
  | JBuffer string
  | JAddress string
  | JArr "jsval list"
  | JObj "(string \<times> jsval) list"

section \<open>Enums\<close>

datatype RiskType = PROJECT_FAILURE | SMART_CONTRACT_EXPLOIT | MARKET_VOLATILITY

datatype ClaimStatus = Claim_PENDING | Claim_APPROVED | Claim_REJECTED | Claim_PAID | Claim_UNDER_REVIEW

datatype PolicyStatus = Policy_ACTIVE | Policy_INACTIVE | Policy_EXPIRED | Policy_CANCELLED | Policy_PENDING

datatype ProjectStatus = Project_ACTIVE | Project_COMPLETED | Project_CANCELLED | Project_SUSPENDED

datatype MilestoneStatus =
  Milestone_PENDING | Milestone_APPROVED | Milestone_REJECTED | Milestone_COMPLETED | Milestone_FUNDED

datatype AuditAction =
    Audit_CREATE | Audit_UPDATE | Audit_DELETE | Audit_APPROVE | Audit_REJECT | Audit_PAYOUT
  | Audit_PURCHASE | Audit_ADD_CAPITAL | Audit_UNLOCK_CAPITAL | Audit_FRAUD_DETECTED
  | Audit_ORACLE_VERIFIED | Audit_LOGIN | Audit_TOKEN_REFRESH | Audit_TOKEN_REVOKE
  | Audit_TOKEN_REUSE_DETECTED

datatype NotificationType =
    Notif_CONTRIBUTION | Notif_MILESTONE | Notif_DEADLINE | Notif_SYSTEM | Notif_POLICY_PURCHASED
  | Notif_CLAIM_CREATED | Notif_CLAIM_APPROVED | Notif_CLAIM_REJECTED | Notif_CLAIM_PAID

datatype EmailStatus = Email_PENDING | Email_SENT | Email_FAILED

text \<open>The text of an enum member inside a template string.\<close>

fun policyStatusText :: "PolicyStatus \<Rightarrow> string" where
  "policyStatusText Policy_ACTIVE = ''ACTIVE''"
| "policyStatusText Policy_INACTIVE = ''INACTIVE''"
| "policyStatusText Policy_EXPIRED = ''EXPIRED''"
| "policyStatusText Policy_CANCELLED = ''CANCELLED''"
| "policyStatusText Policy_PENDING = ''PENDING''"

fun riskTypeText :: "RiskType \<Rightarrow> string" where
  "riskTypeText PROJECT_FAILURE = ''PROJECT_FAILURE''"
| "riskTypeText SMART_CONTRACT_EXPLOIT = ''SMART_CONTRACT_EXPLOIT''"
| "riskTypeText MARKET_VOLATILITY = ''MARKET_VOLATILITY''"

section \<open>Models\<close>

record user = row +
  walletAddress :: string
  profileData :: "jsval option"
  reputationScore :: int
  trustScore :: int
  email :: "string option"
  pushSubscription :: "jsval option"

record project = row +
  pr_contractId :: string
  pr_creatorId :: string
  pr_title :: string
  pr_category :: string
  pr_goal :: int
  pr_currentFunds :: int
  pr_deadline :: int
  pr_status :: ProjectStatus

record contribution = row +
  co_transactionHash :: string
  co_investorId :: string
  co_projectId :: string
  co_amount :: int
  co_timestamp :: int

record milestone = row +
  ms_projectId :: string
  ms_status :: MilestoneStatus
  ms_completionDate :: "int option"
  ms_createdAt :: int

record reputation_history = row +
  rh_userId :: string
  rh_scoreChange :: int
  rh_reason :: string
  rh_timestamp :: int

record insurance_pool = row +
  pool_name :: string
  capital :: rat
  lockedCapital :: rat

record reinsurance_contract = row +
  rc_poolId :: string
  rc_coverageLimit :: rat
  rc_premiumRate :: rat

record insurance_policy = row +
  po_userId :: string
  po_poolId :: string
  po_riskType :: RiskType
  po_status :: PolicyStatus
  po_premium :: rat
  po_coverageAmount :: rat
  po_endDate :: "int option"

record claim = row +
  cl_policyId :: string
  cl_claimAmount :: rat
  cl_status :: ClaimStatus
  cl_payoutAmount :: "rat option"
  cl_createdAt :: int

record audit_log = row +
  au_userId :: "string option"
  au_action :: AuditAction
  au_entityType :: string
  au_entityId :: string
  au_beforeState :: "jsval option"
  au_afterState :: "jsval option"
  au_ipAddress :: "string option"
  au_userAgent :: "string option"
  au_transactionHash :: "string option"
  au_reason :: "string option"
  au_correlationId :: "string option"
  au_timestamp :: int

record refresh_token = row +
  rt_token :: string
  rt_userId :: string
  rt_familyId :: string
  rt_expiresAt :: int
  rt_revokedAt :: "int option"
  rt_replacedByToken :: "string option"
  rt_fingerprint :: "string option"
  rt_createdAt :: int

record ledger_cursor = row +
  lc_network :: string
  lc_lastLedgerSeq :: int
  lc_lastLedgerHash :: "string option"

record processed_event = row +
  pe_eventId :: string
  pe_network :: string
  pe_ledgerSeq :: int
  pe_contractId :: string
  pe_eventType :: string
  pe_transactionHash :: string

record quarantined_event = row +
  qe_eventId :: string
  qe_network :: string
  qe_contractId :: string
  qe_eventType :: string
  qe_ledgerSeq :: int
  qe_transactionHash :: string
  qe_rawXdr :: string
  qe_reason :: string

record indexer_log = row +
  il_level :: string
  il_message :: string
  il_metadata :: jsval

record notification_setting = row +
  ns_userId :: string
  emailEnabled :: bool
  pushEnabled :: bool
  notifyContributions :: bool
  notifyMilestones :: bool
  notifyDeadlines :: bool

record notification = row +
  no_userId :: string
  no_type :: NotificationType
  no_title :: string
  no_message :: string
  no_data :: jsval

record email_outbox = row +
  eo_to :: string
  eo_subject :: string
  eo_html :: string
  eo_status :: EmailStatus
  eo_attempts :: nat
  eo_lastError :: "string option"
  eo_createdAt :: int

record idempotency_key = row +
  ik_key :: string
  ik_method :: string
  ik_endpoint :: string
  ik_requestBody :: jsval
  ik_response :: "jsval option"
  ik_status :: string
  ik_expiresAt :: int
  ik_createdAt :: int

section \<open>The database and the client\<close>

record db =
  users :: "user list"
  projects :: "project list"
  contributions :: "contribution list"
  milestones :: "milestone list"
  reputationHistories :: "reputation_history list"
  insurancePools :: "insurance_pool list"
  reinsuranceContracts :: "reinsurance_contract list"
  insurancePolicies :: "insurance_policy list"
  claims :: "claim list"
  auditLogs :: "audit_log list"
  refreshTokenRows :: "refresh_token list"
  ledgerCursors :: "ledger_cursor list"
  processedEvents :: "processed_event list"
  quarantinedEvents :: "quarantined_event list"
  indexerLogs :: "indexer_log list"
  notificationSettings :: "notification_setting list"
  notifications :: "notification list"
  emailOutboxes :: "email_outbox list"
  idempotencyKeys :: "idempotency_key list"

record client =
  userE :: "user engine"
  projectE :: "project engine"
  contributionE :: "contribution engine"
  milestoneE :: "milestone engine"
  reputationHistoryE :: "reputation_history engine"
  insurancePoolE :: "insurance_pool engine"
  reinsuranceContractE :: "reinsurance_contract engine"
  insurancePolicyE :: "insurance_policy engine"
  claimE :: "claim engine"
  auditLogE :: "audit_log engine"
  refreshTokenE :: "refresh_token engine"
  ledgerCursorE :: "ledger_cursor engine"
  processedEventE :: "processed_event engine"
  quarantinedEventE :: "quarantined_event engine"
  indexerLogE :: "indexer_log engine"
  notificationSettingE :: "notification_setting engine"
  notificationE :: "notification engine"
  emailOutboxE :: "email_outbox engine"
  idempotencyKeyE :: "idempotency_key engine"

definition emptyDb :: db where
  "emptyDb = \<lparr>users = [], projects = [], contributions = [], milestones = [],
    reputationHistories = [], insurancePools = [], reinsuranceContracts = [],
    insurancePolicies = [], claims = [], auditLogs = [], refreshTokenRows = [],
    ledgerCursors = [], processedEvents = [], quarantinedEvents = [], indexerLogs = [],
    notificationSettings = [], notifications = [], emailOutboxes = [], idempotencyKeys = []\<rparr>"

text \<open>A client whose delegates are in-memory tables; unique columns of the schema are enforced.\<close>

definition uniqueOn :: "('r \<Rightarrow> 'k) \<Rightarrow> 'r \<Rightarrow> 'r list \<Rightarrow> string option" where
  "uniqueOn k r t = (if k r \<in> k ` set t then Some ''P2002'' else None)"

definition memoryClient :: client where
  "memoryClient = \<lparr>
     userE = tableEngine ''User'' (uniqueOn walletAddress),
     projectE = tableEngine ''Project'' (uniqueOn pr_contractId),
     contributionE = tableEngine ''Contribution'' (uniqueOn co_transactionHash),
     milestoneE = tableEngine ''Milestone'' noConstraint,
     reputationHistoryE = tableEngine ''ReputationHistory'' noConstraint,
     insurancePoolE = tableEngine ''InsurancePool'' noConstraint,
     reinsuranceContractE = tableEngine ''ReinsuranceContract'' noConstraint,
     insurancePolicyE = tableEngine ''InsurancePolicy'' noConstraint,
     claimE = tableEngine ''Claim'' noConstraint,
     auditLogE = tableEngine ''AuditLog'' noConstraint,
     refreshTokenE = tableEngine ''RefreshToken'' (uniqueOn rt_token),
     ledgerCursorE = tableEngine ''LedgerCursor'' (uniqueOn lc_network),
     processedEventE = tableEngine ''ProcessedEvent'' (uniqueOn pe_eventId),
     quarantinedEventE = tableEngine ''QuarantinedEvent'' (uniqueOn qe_eventId),
     indexerLogE = tableEngine ''IndexerLog'' noConstraint,
     notificationSettingE = tableEngine ''NotificationSetting'' (uniqueOn ns_userId),
     notificationE = tableEngine ''Notification'' noConstraint,
     emailOutboxE = tableEngine ''EmailOutbox'' noConstraint,
     idempotencyKeyE = tableEngine ''IdempotencyKey'' (uniqueOn ik_key)\<rparr>"

end
