(* ===== verification/SoftDelete.thy ===== *)
theory SoftDelete
  imports Schema
begin

text \<open>
  The soft-delete layer: \<open>prisma.soft-delete.middleware.ts\<close> as a function on query
  parameters, its registration in \<open>prisma.service.ts\<close>, and the generic
  \<open>BaseRepository\<close> and \<open>SoftDeleteRepository\<close> on top of it. The locale
  \<open>soft_delete_delegate\<close> is the interface the services rely on: a lawful delegate
  of a tracked model. Its lemmas (collection \<open>repo\<close>) say what every repository call
  does to its table, so that the service theories never look at the middleware again.
\<close>

section \<open>The middleware\<close>

definition SOFT_DELETE_MODELS :: "string list" where
  "SOFT_DELETE_MODELS =
    [''User'', ''Project'', ''Contribution'', ''Milestone'', ''ReputationHistory'', ''Category'',
     ''InsurancePool'', ''ReinsuranceContract'', ''InsurancePolicy'', ''Claim'', ''AuditLog'',
     ''LedgerCursor'', ''ProcessedEvent'', ''QuarantinedEvent'', ''IndexerLog'',
     ''NotificationSetting'', ''Notification'', ''EmailOutbox'', ''IdempotencyKey'', ''RefreshToken'']"

record SoftDeleteConfig =
  excludeDeleted :: bool

definition shouldIncludeDeleted :: "'r args \<Rightarrow> bool" where
  "shouldIncludeDeleted a \<longleftrightarrow>
     (case a_where a of None \<Rightarrow> False | Some w \<Rightarrow> w_includeDeleted w = Some True)
     \<or> a_includeDeleted a = Some True"

definition shouldHardDelete :: "'r args \<Rightarrow> bool" where
  "shouldHardDelete a \<longleftrightarrow>
     (case a_where a of None \<Rightarrow> False | Some w \<Rightarrow> w_hardDelete w = Some True)
     \<or> a_hardDelete a = Some True"

definition removeHardDeleteFlags :: "'r args \<Rightarrow> 'r args" where
  "removeHardDeleteFlags a =
     a\<lparr>a_where := map_option (\<lambda>w. w\<lparr>w_hardDelete := None\<rparr>) (a_where a), a_hardDelete := None\<rparr>"

definition removeIncludeDeletedFlags :: "'r args \<Rightarrow> 'r args" where
  "removeIncludeDeletedFlags a =
     a\<lparr>a_where := map_option (\<lambda>w. w\<lparr>w_includeDeleted := None\<rparr>) (a_where a), a_includeDeleted := None\<rparr>"

text \<open>\<open>{ ...args.where, deletedAt: null }\<close>: the spread comes first, so the literal key wins.\<close>

definition whereLive :: "'r args \<Rightarrow> 'r qwhere" where
  "whereLive a =
     (case a_where a of None \<Rightarrow> whereOf (\<lambda>_. True) | Some w \<Rightarrow> w)\<lparr>w_deletedAt := Some IsNull\<rparr>"

definition readActions :: "action list" where
  "readActions = [FindUnique, FindUniqueOrThrow, FindFirst, FindFirstOrThrow, FindMany,
                  Count, Aggregate, GroupBy]"

definition createSoftDeleteMiddleware ::
  "SoftDeleteConfig \<Rightarrow> int \<Rightarrow> 'r params \<Rightarrow> 'r params" where
  "createSoftDeleteMiddleware config now params =
    (let a = p_args params; act = p_action params in
     if p_model params \<notin> set SOFT_DELETE_MODELS then params
     else if act \<in> set readActions then
       (let a' = (if excludeDeleted config \<and> \<not> shouldIncludeDeleted a
                  then a\<lparr>a_where := Some (whereLive a)\<rparr> else a)
        in params\<lparr>p_args := removeIncludeDeletedFlags a'\<rparr>)
     else if act = Update \<or> act = UpdateMany then
       (let isRestore = (case a_data a of None \<Rightarrow> False | Some d \<Rightarrow> d_deletedAt d = Some None)
        in if excludeDeleted config \<and> \<not> isRestore
           then params\<lparr>p_args := a\<lparr>a_where := Some (whereLive a)\<rparr>\<rparr> else params)
     else if act = Delete \<or> act = DeleteMany then
       (if shouldHardDelete a then params\<lparr>p_args := removeHardDeleteFlags a\<rparr>
        else let a' = removeHardDeleteFlags a in
          params\<lparr>p_action := (if act = Delete then Update else UpdateMany),
                 p_args := noArgs\<lparr>a_where := Some (whereLive a'),
                                   a_data := Some \<lparr>d_set = (\<lambda>r. r), d_deletedAt = Some (Some now)\<rparr>\<rparr>\<rparr>)
     else if act = Upsert then
       (let c = map_option (\<lambda>c. if c_deletedAt c = None then c\<lparr>c_deletedAt := Some None\<rparr> else c) (a_create a);
            u = map_option (\<lambda>d. if d_deletedAt d = None then d\<lparr>d_deletedAt := Some None\<rparr> else d) (a_update a)
        in params\<lparr>p_args := a\<lparr>a_create := c, a_update := u\<rparr>\<rparr>)
     else params)"

text \<open>\<open>PrismaService.onModuleInit\<close> registers the middleware with \<open>excludeDeleted: true\<close>.\<close>

definition onModuleInit :: "'r engine \<Rightarrow> int \<Rightarrow> 'r params \<Rightarrow> 'r list \<Rightarrow> (prisma_error + 'r result) \<times> 'r list" where
  "onModuleInit e now p t = nx e (createSoftDeleteMiddleware \<lparr>excludeDeleted = True\<rparr> now p) t"

section \<open>Delegate calls\<close>

text \<open>\<open>client[model].action(args)\<close>: a Prisma error becomes the exception the promise rejects with.\<close>

definition delegate :: "'r engine \<Rightarrow> int \<Rightarrow> action \<Rightarrow> 'r args \<Rightarrow> ('r list, 'r result) sm" where
  "delegate e now act a t =
    (case onModuleInit e now \<lparr>p_model = modelName e, p_action = act, p_args = a\<rparr> t of
       (Inl x, t') \<Rightarrow> (Inl (PrismaException x), t') | (Inr r, t') \<Rightarrow> (Inr r, t'))"

fun asOption :: "'r result \<Rightarrow> ('s, 'r option) sm" where
  "asOption (RRow r) = returnM r"
| "asOption _ = throwM (PlainError ''unexpected result'')"

fun asRow :: "'r result \<Rightarrow> ('s, 'r) sm" where
  "asRow (RRow (Some r)) = returnM r"
| "asRow _ = throwM (PlainError ''unexpected result'')"

fun asRows :: "'r result \<Rightarrow> ('s, 'r list) sm" where
  "asRows (RRows rs) = returnM rs"
| "asRows _ = throwM (PlainError ''unexpected result'')"

fun asCount :: "'r result \<Rightarrow> ('s, nat) sm" where
  "asCount (RCount n) = returnM n"
| "asCount _ = throwM (PlainError ''unexpected result'')"

definition d_findUnique :: "'r engine \<Rightarrow> int \<Rightarrow> 'r qwhere \<Rightarrow> ('r list, 'r option) sm" where
  "d_findUnique e now w = bindM (delegate e now FindUnique (noArgs\<lparr>a_where := Some w\<rparr>)) asOption"

definition d_findFirst :: "'r engine \<Rightarrow> int \<Rightarrow> 'r qwhere \<Rightarrow> ('r list, 'r option) sm" where
  "d_findFirst e now w = bindM (delegate e now FindFirst (noArgs\<lparr>a_where := Some w\<rparr>)) asOption"

definition d_findMany :: "'r engine \<Rightarrow> int \<Rightarrow> 'r args \<Rightarrow> ('r list, 'r list) sm" where
  "d_findMany e now a = bindM (delegate e now FindMany a) asRows"

definition d_count :: "'r engine \<Rightarrow> int \<Rightarrow> 'r qwhere \<Rightarrow> ('r list, nat) sm" where
  "d_count e now w = bindM (delegate e now Count (noArgs\<lparr>a_where := Some w\<rparr>)) asCount"

definition d_create :: "'r engine \<Rightarrow> int \<Rightarrow> 'r qcreate \<Rightarrow> ('r list, 'r) sm" where
  "d_create e now c = bindM (delegate e now Create (noArgs\<lparr>a_create := Some c\<rparr>)) asRow"

definition d_update :: "'r engine \<Rightarrow> int \<Rightarrow> 'r qwhere \<Rightarrow> 'r qdata \<Rightarrow> ('r list, 'r) sm" where
  "d_update e now w d =
     bindM (delegate e now Update (noArgs\<lparr>a_where := Some w, a_data := Some d\<rparr>)) asRow"

definition d_updateMany :: "'r engine \<Rightarrow> int \<Rightarrow> 'r qwhere \<Rightarrow> 'r qdata \<Rightarrow> ('r list, nat) sm" where
  "d_updateMany e now w d =
     bindM (delegate e now UpdateMany (noArgs\<lparr>a_where := Some w, a_data := Some d\<rparr>)) asCount"

definition d_delete :: "'r engine \<Rightarrow> int \<Rightarrow> 'r args \<Rightarrow> ('r list, 'r) sm" where
  "d_delete e now a = bindM (delegate e now Delete a) asRow"

definition d_deleteMany :: "'r engine \<Rightarrow> int \<Rightarrow> 'r args \<Rightarrow> ('r list, nat) sm" where
  "d_deleteMany e now a = bindM (delegate e now DeleteMany a) asCount"

definition d_upsert ::
  "'r engine \<Rightarrow> int \<Rightarrow> 'r qwhere \<Rightarrow> 'r qcreate \<Rightarrow> 'r qdata \<Rightarrow> ('r list, 'r) sm" where
  "d_upsert e now w c u =
     bindM (delegate e now Upsert (noArgs\<lparr>a_where := Some w, a_create := Some c, a_update := Some u\<rparr>)) asRow"

section \<open>The generic repositories\<close>

subsection \<open>BaseRepository\<close>

text \<open>A repository is constructed with the delegate's key, e.g. \<open>insurancePool\<close> for \<open>InsurancePool\<close>.\<close>

definition delegateKey :: "'r engine \<Rightarrow> string" where
  "delegateKey e = (case modelName e of [] \<Rightarrow> [] | ch # cs \<Rightarrow> toLowerChar ch # cs)"

definition findById :: "('a row_scheme) engine \<Rightarrow> int \<Rightarrow> string \<Rightarrow> (('a row_scheme) list, ('a row_scheme) option) sm" where
  "findById e now i = d_findUnique e now (whereOf (\<lambda>r. rowId r = i))"

definition findMany :: "('a row_scheme) engine \<Rightarrow> int \<Rightarrow> ('a row_scheme) args \<Rightarrow> (('a row_scheme) list, ('a row_scheme) list) sm" where
  "findMany e now a = d_findMany e now a"

definition base_create :: "('a row_scheme) engine \<Rightarrow> int \<Rightarrow> 'a row_scheme \<Rightarrow> (('a row_scheme) list, 'a row_scheme) sm" where
  "base_create e now r = d_create e now (rowOf r)"

definition base_update :: "('a row_scheme) engine \<Rightarrow> int \<Rightarrow> string \<Rightarrow> ('a row_scheme \<Rightarrow> 'a row_scheme) \<Rightarrow> (('a row_scheme) list, 'a row_scheme) sm" where
  "base_update e now i f = d_update e now (whereOf (\<lambda>r. rowId r = i)) (setOf f)"

definition base_delete :: "('a row_scheme) engine \<Rightarrow> int \<Rightarrow> string \<Rightarrow> (('a row_scheme) list, 'a row_scheme) sm" where
  "base_delete e now i = d_delete e now (noArgs\<lparr>a_where := Some (whereOf (\<lambda>r. rowId r = i))\<rparr>)"

definition findByIdOrFail :: "('a row_scheme) engine \<Rightarrow> int \<Rightarrow> string \<Rightarrow> (('a row_scheme) list, 'a row_scheme) sm" where
  "findByIdOrFail e now i =
     bindM (findById e now i) (\<lambda>record.
     case record of
       None \<Rightarrow> throwM (NotFoundException (delegateKey e @ '' with id '' @ i @ '' not found''))
     | Some r \<Rightarrow> returnM r)"

definition base_count :: "('a row_scheme) engine \<Rightarrow> int \<Rightarrow> ('a row_scheme \<Rightarrow> bool) \<Rightarrow> (('a row_scheme) list, nat) sm" where
  "base_count e now P = d_count e now (whereOf P)"

subsection \<open>SoftDeleteRepository\<close>

definition softDelete :: "('a row_scheme) engine \<Rightarrow> int \<Rightarrow> string \<Rightarrow> (('a row_scheme) list, 'a row_scheme) sm" where
  "softDelete e now i =
     d_update e now (whereOf (\<lambda>r. rowId r = i)) \<lparr>d_set = (\<lambda>r. r), d_deletedAt = Some (Some now)\<rparr>"

definition restore :: "('a row_scheme) engine \<Rightarrow> int \<Rightarrow> string \<Rightarrow> (('a row_scheme) list, ('a row_scheme) option) sm" where
  "restore e now i =
     bindM (d_updateMany e now ((whereOf (\<lambda>r. rowId r = i))\<lparr>w_deletedAt := Some NotNull\<rparr>)
              \<lparr>d_set = (\<lambda>r. r), d_deletedAt = Some None\<rparr>) (\<lambda>count.
     if count = 0 then d_findUnique e now (whereOf (\<lambda>r. rowId r = i))
     else d_findUnique e now (whereOf (\<lambda>r. rowId r = i)))"

definition softDeleteMany :: "('a row_scheme) engine \<Rightarrow> int \<Rightarrow> ('a row_scheme \<Rightarrow> bool) \<Rightarrow> (('a row_scheme) list, nat) sm" where
  "softDeleteMany e now P =
     d_updateMany e now (whereOf P) \<lparr>d_set = (\<lambda>r. r), d_deletedAt = Some (Some now)\<rparr>"

section \<open>What the calls do: the interface of a tracked delegate\<close>

definition live :: "('a row_scheme \<Rightarrow> bool) \<Rightarrow> 'a row_scheme \<Rightarrow> bool" where
  "live P r \<longleftrightarrow> P r \<and> deletedAt r = None"

definition stamp :: "int \<Rightarrow> 'a row_scheme \<Rightarrow> 'a row_scheme" where
  "stamp now r = r\<lparr>deletedAt := Some now\<rparr>"

lemma rowId_stamp [simp]: "rowId (stamp now r) = rowId r"
  by (simp add: stamp_def)

lemma deletedAt_stamp [simp]: "deletedAt (stamp now r) = Some now"
  by (simp add: stamp_def)

lemmas middleware_defs = createSoftDeleteMiddleware_def onModuleInit_def delegate_def Let_def
  readActions_def shouldIncludeDeleted_def shouldHardDelete_def removeHardDeleteFlags_def
  removeIncludeDeletedFlags_def whereLive_def query_defs cleanArgs_def

lemma matches_live:
  "matches (Some (w\<lparr>w_deletedAt := Some IsNull\<rparr>)) = live (w_cond w)"
  "matches (Some (w\<lparr>w_deletedAt := Some IsNull, w_includeDeleted := i\<rparr>)) = live (w_cond w)"
  "matches (Some \<lparr>w_cond = P, w_deletedAt = Some IsNull, w_includeDeleted = i, w_hardDelete = h\<rparr>) = live P"
  "matches (Some \<lparr>w_cond = P, w_deletedAt = None, w_includeDeleted = i, w_hardDelete = h\<rparr>) = P"
  "matches (Some \<lparr>w_cond = P, w_deletedAt = Some f, w_includeDeleted = i, w_hardDelete = h\<rparr>) =
     (\<lambda>r. P r \<and> dmatch f (deletedAt r))"
  by (simp_all add: fun_eq_iff matches_def live_def)

lemma applyData_simps:
  "applyData (Some \<lparr>d_set = (\<lambda>r. r), d_deletedAt = Some (Some d)\<rparr>) = stamp d"
  "applyData (Some \<lparr>d_set = f, d_deletedAt = None\<rparr>) = f"
  "applyData (Some \<lparr>d_set = f, d_deletedAt = Some None\<rparr>) = (\<lambda>r. (f r)\<lparr>deletedAt := None\<rparr>)"
  by (simp_all add: fun_eq_iff applyData_def stamp_def)

locale soft_delete_delegate = prisma_engine +
  assumes tracked: "modelName e \<in> set SOFT_DELETE_MODELS"
begin

lemma d_findUnique_any:
  assumes "w_includeDeleted w \<noteq> Some True" "w_hardDelete w = None"
  shows "d_findUnique e now w t = (Inr (find (live (w_cond w)) t), t)"
proof -
  have "delegate e now FindUnique (noArgs\<lparr>a_where := Some w\<rparr>) t = (Inr (RRow (find (live (w_cond w)) t)), t)"
    using assms tracked by (simp add: middleware_defs nx_findUnique matches_live)
  then show ?thesis by (simp add: d_findUnique_def bindM_def)
qed

lemma d_findUnique_run [repo, simp]: "d_findUnique e now (whereOf P) t = (Inr (find (live P) t), t)"
  by (subst d_findUnique_any) (simp_all add: whereOf_def)

lemma d_findFirst_any:
  assumes "w_includeDeleted w \<noteq> Some True" "w_hardDelete w = None"
  shows "d_findFirst e now w t = (Inr (find (live (w_cond w)) t), t)"
proof -
  have "delegate e now FindFirst (noArgs\<lparr>a_where := Some w\<rparr>) t = (Inr (RRow (find (live (w_cond w)) t)), t)"
    using assms tracked by (simp add: middleware_defs nx_findFirst matches_live)
  then show ?thesis by (simp add: d_findFirst_def bindM_def)
qed

lemma d_findFirst_run [repo, simp]: "d_findFirst e now (whereOf P) t = (Inr (find (live P) t), t)"
  by (subst d_findFirst_any) (simp_all add: whereOf_def)

lemma d_findMany_any:
  assumes "a_includeDeleted a \<noteq> Some True" "a_hardDelete a = None"
    and "a_where a = Some w" "w_includeDeleted w \<noteq> Some True" "w_hardDelete w = None"
  shows "d_findMany e now a t = (Inr (window a (filter (live (w_cond w)) t)), t)"
proof -
  have "delegate e now FindMany a t = (Inr (RRows (window a (filter (live (w_cond w)) t))), t)"
    using assms tracked by (simp add: middleware_defs nx_findMany matches_live window_def)
  then show ?thesis by (simp add: d_findMany_def bindM_def)
qed

lemma d_count_any:
  assumes "w_includeDeleted w \<noteq> Some True" "w_hardDelete w = None"
  shows "d_count e now w t = (Inr (length (filter (live (w_cond w)) t)), t)"
proof -
  have "delegate e now Count (noArgs\<lparr>a_where := Some w\<rparr>) t = (Inr (RCount (length (filter (live (w_cond w)) t))), t)"
    using assms tracked by (simp add: middleware_defs nx_count matches_live)
  then show ?thesis by (simp add: d_count_def bindM_def)
qed

lemma d_count_run [repo, simp]: "d_count e now (whereOf P) t = (Inr (length (filter (live P) t)), t)"
  by (subst d_count_any) (simp_all add: whereOf_def)

lemma d_create_run [repo, simp]:
  "d_create e now c t =
     (let r = newRow c (genId e t) in
      case violates e r t of
        Some code \<Rightarrow> (Inl (PrismaException (PrismaClientKnownRequestError code)), t)
      | None \<Rightarrow> (Inr r, t @ [r]))"
  using tracked
  by (simp add: d_create_def bindM_def middleware_defs nx_create split: option.splits)

lemma d_update_any:
  assumes "d_deletedAt d \<noteq> Some None" "w_includeDeleted w = None" "w_hardDelete w = None"
  shows "d_update e now w d t =
    (case find (live (w_cond w)) t of
       None \<Rightarrow> (Inl (PrismaException (PrismaClientKnownRequestError ''P2025'')), t)
     | Some r \<Rightarrow> (Inr (applyData (Some d) r), updateFirst (live (w_cond w)) (applyData (Some d)) t))"
proof -
  have "delegate e now Update (noArgs\<lparr>a_where := Some w, a_data := Some d\<rparr>) t =
    (case find (live (w_cond w)) t of
       None \<Rightarrow> (Inl (PrismaException (PrismaClientKnownRequestError ''P2025'')), t)
     | Some r \<Rightarrow> (Inr (RRow (Some (applyData (Some d) r))), updateFirst (live (w_cond w)) (applyData (Some d)) t))"
    using assms tracked
    by (simp add: middleware_defs nx_update matches_live split: option.splits)
  then show ?thesis by (simp add: d_update_def bindM_def split: option.splits)
qed

lemma d_update_run [repo, simp]:
  "d_update e now (whereOf P) (setOf f) t =
    (case find (live P) t of
       None \<Rightarrow> (Inl (PrismaException (PrismaClientKnownRequestError ''P2025'')), t)
     | Some r \<Rightarrow> (Inr (f r), updateFirst (live P) f t))"
  by (subst d_update_any) (simp_all add: whereOf_def setOf_def applyData_def [abs_def] split: option.splits)

lemma d_update_stamp [repo, simp]:
  "d_update e now (whereOf P) \<lparr>d_set = (\<lambda>r. r), d_deletedAt = Some (Some d)\<rparr> t =
    (case find (live P) t of
       None \<Rightarrow> (Inl (PrismaException (PrismaClientKnownRequestError ''P2025'')), t)
     | Some r \<Rightarrow> (Inr (stamp d r), updateFirst (live P) (stamp d) t))"
  by (subst d_update_any)
    (simp_all add: whereOf_def applyData_def [abs_def] stamp_def [abs_def] split: option.splits)

lemma d_updateMany_any:
  assumes "d_deletedAt d \<noteq> Some None" "w_includeDeleted w = None" "w_hardDelete w = None"
  shows "d_updateMany e now w d t =
    (Inr (length (filter (live (w_cond w)) t)),
     map (\<lambda>r. if live (w_cond w) r then applyData (Some d) r else r) t)"
  using assms tracked
  by (simp add: d_updateMany_def bindM_def middleware_defs nx_updateMany matches_live)

lemma d_updateMany_run [repo, simp]:
  "d_updateMany e now (whereOf P) (setOf f) t =
    (Inr (length (filter (live P) t)), map (\<lambda>r. if live P r then f r else r) t)"
  by (subst d_updateMany_any) (simp_all add: whereOf_def setOf_def applyData_def)

lemma d_updateMany_stamp [repo, simp]:
  "d_updateMany e now (whereOf P) \<lparr>d_set = (\<lambda>r. r), d_deletedAt = Some (Some d)\<rparr> t =
    (Inr (length (filter (live P) t)), map (\<lambda>r. if live P r then stamp d r else r) t)"
  by (subst d_updateMany_any) (simp_all add: whereOf_def applyData_def stamp_def)

lemma d_updateMany_restore [repo, simp]:
  "d_updateMany e now (whereOf P\<lparr>w_deletedAt := Some NotNull\<rparr>) \<lparr>d_set = (\<lambda>r. r), d_deletedAt = Some None\<rparr> t =
    (Inr (length (filter (\<lambda>r. P r \<and> deletedAt r \<noteq> None) t)),
     map (\<lambda>r. if P r \<and> deletedAt r \<noteq> None then r\<lparr>deletedAt := None\<rparr> else r) t)"
  using tracked by (simp add: d_updateMany_def bindM_def middleware_defs nx_updateMany matches_live applyData_simps)

lemma d_delete_soft [repo, simp]:
  "d_delete e now (noArgs\<lparr>a_where := Some (whereOf P)\<rparr>) t =
    (case find (live P) t of
       None \<Rightarrow> (Inl (PrismaException (PrismaClientKnownRequestError ''P2025'')), t)
     | Some r \<Rightarrow> (Inr (stamp now r), updateFirst (live P) (stamp now) t))"
  using tracked
  by (simp add: d_delete_def bindM_def middleware_defs nx_update matches_live(1-4) applyData_simps split: option.splits)

lemma d_delete_hard [repo, simp]:
  "d_delete e now (noArgs\<lparr>a_where := Some (whereOf P), a_hardDelete := Some True\<rparr>) t =
    (case find P t of
       None \<Rightarrow> (Inl (PrismaException (PrismaClientKnownRequestError ''P2025'')), t)
     | Some r \<Rightarrow> (Inr r, deleteFirst P t))"
  using tracked
  by (simp add: d_delete_def bindM_def middleware_defs nx_delete matches_live split: option.splits)

lemma d_deleteMany_soft [repo, simp]:
  "d_deleteMany e now (noArgs\<lparr>a_where := Some (whereOf P)\<rparr>) t =
    (Inr (length (filter (live P) t)), map (\<lambda>r. if live P r then stamp now r else r) t)"
  using tracked
  by (simp add: d_deleteMany_def bindM_def middleware_defs nx_updateMany matches_live(1-4) applyData_simps)

lemma d_deleteMany_hard [repo, simp]:
  "d_deleteMany e now (noArgs\<lparr>a_where := Some (whereOf P), a_hardDelete := Some True\<rparr>) t =
    (Inr (length (filter P t)), filter (\<lambda>r. \<not> P r) t)"
  using tracked by (simp add: d_deleteMany_def bindM_def middleware_defs nx_deleteMany matches_live)

lemma d_deleteMany_hard_lt [repo, simp]:
  "d_deleteMany e now (noArgs\<lparr>a_where := Some (whereOf P\<lparr>w_deletedAt := Some (NotNullLt d)\<rparr>), a_hardDelete := Some True\<rparr>) t =
    (Inr (length (filter (\<lambda>r. P r \<and> dmatch (NotNullLt d) (deletedAt r)) t)),
     filter (\<lambda>r. \<not> (P r \<and> dmatch (NotNullLt d) (deletedAt r))) t)"
  using tracked by (simp add: d_deleteMany_def bindM_def middleware_defs nx_deleteMany matches_live)

lemma d_update_restore [repo, simp]:
  "d_update e now (whereOf P) \<lparr>d_set = (\<lambda>r. r), d_deletedAt = Some None\<rparr> t =
    (case find P t of
       None \<Rightarrow> (Inl (PrismaException (PrismaClientKnownRequestError ''P2025'')), t)
     | Some r \<Rightarrow> (Inr (r\<lparr>deletedAt := None\<rparr>), updateFirst P (deletedAt_update (\<lambda>_. None)) t))"
  using tracked
  by (simp add: d_update_def bindM_def middleware_defs nx_update matches_live applyData_simps
      split: option.splits)

lemma d_updateMany_restore_all [repo, simp]:
  "d_updateMany e now (whereOf P) \<lparr>d_set = (\<lambda>r. r), d_deletedAt = Some None\<rparr> t =
    (Inr (length (filter P t)), map (\<lambda>r. if P r then r\<lparr>deletedAt := None\<rparr> else r) t)"
  using tracked
  by (simp add: d_updateMany_def bindM_def middleware_defs nx_updateMany matches_live applyData_simps)

lemma d_findUnique_including [repo, simp]:
  "d_findUnique e now ((whereOf P)\<lparr>w_includeDeleted := Some True\<rparr>) t = (Inr (find P t), t)"
  using tracked
  by (simp add: d_findUnique_def bindM_def middleware_defs nx_findUnique matches_live)

lemma d_findMany_run [repo, simp]:
  "d_findMany e now (noArgs\<lparr>a_where := Some (whereOf P)\<rparr>) t = (Inr (filter (live P) t), t)"
  by (subst d_findMany_any [where w = "whereOf P"]) (simp_all add: query_defs window_def)

text \<open>An upsert is not restricted to live rows, and its update branch clears the timestamp.\<close>

lemma d_upsert_run [repo, simp]:
  "d_upsert e now (whereOf P) (rowOf r0) (setOf f) t =
    (case find P t of
       Some r \<Rightarrow> (Inr ((f r)\<lparr>deletedAt := None\<rparr>), updateFirst P (\<lambda>r. (f r)\<lparr>deletedAt := None\<rparr>) t)
     | None \<Rightarrow> (let r = newRow (rowOf r0) (genId e t) in
         case violates e r t of
           Some code \<Rightarrow> (Inl (PrismaException (PrismaClientKnownRequestError code)), t)
         | None \<Rightarrow> (Inr r, t @ [r])))"
proof -
  let ?c = "\<lparr>c_row = r0, c_deletedAt = Some None\<rparr>"
  have same: "newRow ?c i = newRow (rowOf r0) i" for i
    by (simp add: newRow_def rowOf_def)
  show ?thesis
    using tracked
    by (simp add: d_upsert_def bindM_def middleware_defs nx_upsert [where c = ?c] matches_live applyData_simps
        same [unfolded rowOf_def] split: option.splits)
qed

end

section \<open>The client\<close>

text \<open>
  What the services rely on of \<open>PrismaService\<close>: each of its delegates is a lawful
  delegate of a tracked model. The in-memory client satisfies it.
\<close>

locale prisma_client =
  fixes c :: client
  assumes user_law [simp]: "soft_delete_delegate (userE c)"
    and project_law [simp]: "soft_delete_delegate (projectE c)"
    and contribution_law [simp]: "soft_delete_delegate (contributionE c)"
    and milestone_law [simp]: "soft_delete_delegate (milestoneE c)"
    and reputationHistory_law [simp]: "soft_delete_delegate (reputationHistoryE c)"
    and insurancePool_law [simp]: "soft_delete_delegate (insurancePoolE c)"
    and reinsuranceContract_law [simp]: "soft_delete_delegate (reinsuranceContractE c)"
    and insurancePolicy_law [simp]: "soft_delete_delegate (insurancePolicyE c)"
    and claim_law [simp]: "soft_delete_delegate (claimE c)"
    and auditLog_law [simp]: "soft_delete_delegate (auditLogE c)"
    and refreshToken_law [simp]: "soft_delete_delegate (refreshTokenE c)"
    and ledgerCursor_law [simp]: "soft_delete_delegate (ledgerCursorE c)"
    and processedEvent_law [simp]: "soft_delete_delegate (processedEventE c)"
    and quarantinedEvent_law [simp]: "soft_delete_delegate (quarantinedEventE c)"
    and indexerLog_law [simp]: "soft_delete_delegate (indexerLogE c)"
    and notificationSetting_law [simp]: "soft_delete_delegate (notificationSettingE c)"
    and notification_law [simp]: "soft_delete_delegate (notificationE c)"
    and emailOutbox_law [simp]: "soft_delete_delegate (emailOutboxE c)"
    and idempotencyKey_law [simp]: "soft_delete_delegate (idempotencyKeyE c)"

lemma tableEngine_tracked:
  assumes "m \<in> set SOFT_DELETE_MODELS"
  shows "soft_delete_delegate (tableEngine m v)"
  using assms by unfold_locales (simp add: tableEngine_def)

interpretation memory_client: prisma_client memoryClient
  by (rule prisma_client.intro) (simp_all add: memoryClient_def tableEngine_tracked SOFT_DELETE_MODELS_def)

lemma memoryClient_laws [simp]: "prisma_client memoryClient"
  by (rule memory_client.prisma_client_axioms)

lemmas client_laws [simp] = prisma_client.user_law prisma_client.project_law prisma_client.contribution_law prisma_client.milestone_law prisma_client.reputationHistory_law prisma_client.insurancePool_law prisma_client.reinsuranceContract_law prisma_client.insurancePolicy_law prisma_client.claim_law prisma_client.auditLog_law prisma_client.refreshToken_law prisma_client.ledgerCursor_law prisma_client.processedEvent_law prisma_client.quarantinedEvent_law prisma_client.indexerLog_law prisma_client.notificationSetting_law prisma_client.notification_law prisma_client.emailOutbox_law prisma_client.idempotencyKey_law

lemmas delegate_runs [simp] =
  soft_delete_delegate.d_findUnique_run soft_delete_delegate.d_findUnique_including
  soft_delete_delegate.d_findFirst_run soft_delete_delegate.d_findMany_run
  soft_delete_delegate.d_count_run soft_delete_delegate.d_create_run
  soft_delete_delegate.d_update_run soft_delete_delegate.d_update_stamp
  soft_delete_delegate.d_update_restore soft_delete_delegate.d_updateMany_run
  soft_delete_delegate.d_updateMany_stamp soft_delete_delegate.d_updateMany_restore
  soft_delete_delegate.d_updateMany_restore_all soft_delete_delegate.d_delete_soft
  soft_delete_delegate.d_delete_hard soft_delete_delegate.d_deleteMany_soft
  soft_delete_delegate.d_deleteMany_hard soft_delete_delegate.d_deleteMany_hard_lt
  soft_delete_delegate.d_upsert_run

section \<open>Live rows by identifier\<close>

lemma delegate_genId: "soft_delete_delegate e \<Longrightarrow> genId e t \<notin> rowId ` set t"
  by (rule prisma_engine.genId_fresh [OF soft_delete_delegate.axioms(1)])

lemma find_live_updateFirst:
  assumes "\<And>r. rowId (f r) = rowId r" "\<And>r. deletedAt (f r) = deletedAt r"
  shows "find (live (\<lambda>r. rowId r = j)) (updateFirst (live (\<lambda>r. rowId r = i)) f t) =
    (if j = i then map_option f (find (live (\<lambda>r. rowId r = i)) t) else find (live (\<lambda>r. rowId r = j)) t)"
  using assms by (induction t) (auto simp: live_def)

lemma find_live_id: "find (live (\<lambda>r. rowId r = i)) t = Some r \<Longrightarrow> rowId r = i \<and> deletedAt r = None \<and> r \<in> set t"
  using find_Some_mem by (fastforce simp: live_def)

end
