(* ===== verification/JsLib.thy ===== *)
theory JsLib
  imports Prelude
begin

text \<open>
  The parts of the JavaScript standard library the sources use on strings and
  dates: regular expressions with backtracking in priority order,
  \<open>String.prototype.replace\<close> with a global expression, \<open>split\<close>, \<open>trim\<close>,
  \<open>Date.prototype.getHours\<close>, \<open>getDay\<close>, \<open>toISOString\<close>, and decimal digits.
\<close>

section \<open>Characters\<close>

definition codePoint :: "char \<Rightarrow> nat" where
  "codePoint ch = of_char ch"

definition inRange :: "char \<Rightarrow> char \<Rightarrow> char \<Rightarrow> bool" where
  "inRange a b ch \<longleftrightarrow> codePoint a \<le> codePoint ch \<and> codePoint ch \<le> codePoint b"

definition isUpper :: "char \<Rightarrow> bool" where "isUpper = inRange (CHR ''A'') (CHR ''Z'')"
definition isLower :: "char \<Rightarrow> bool" where "isLower = inRange (CHR ''a'') (CHR ''z'')"
definition isDigit :: "char \<Rightarrow> bool" where "isDigit = inRange (CHR ''0'') (CHR ''9'')"

definition isAlnum :: "char \<Rightarrow> bool" where
  "isAlnum ch \<longleftrightarrow> isUpper ch \<or> isLower ch \<or> isDigit ch"

text \<open>\<open>\w\<close> and \<open>\s\<close> on the characters below U+0100.\<close>

definition isWord :: "char \<Rightarrow> bool" where
  "isWord ch \<longleftrightarrow> isAlnum ch \<or> ch = CHR ''_''"

definition isSpace :: "char \<Rightarrow> bool" where
  "isSpace ch \<longleftrightarrow> codePoint ch \<in> {9, 10, 11, 12, 13, 32, 160}"

section \<open>Regular expressions\<close>

datatype regex =
    Eps
  | Chr "char \<Rightarrow> bool"
  | Seq regex regex
  | Alt regex regex
  | Rep nat "nat option" regex
  | WordBoundary

text \<open>
  A position is the character before it and the text after it. \<open>rmatch r p\<close> lists
  the positions at which a match of \<open>r\<close> from \<open>p\<close> can end, in the order in which a
  backtracking matcher tries them; the first one is the match JavaScript reports.
\<close>

type_synonym rpos = "char option \<times> string"

fun reps :: "nat \<Rightarrow> (rpos \<Rightarrow> rpos list) \<Rightarrow> nat \<Rightarrow> nat option \<Rightarrow> rpos \<Rightarrow> rpos list" where
  "reps 0 f lo hi p = (if lo = 0 then [p] else [])"
| "reps (Suc k) f lo hi p =
    (if hi = Some 0 then []
     else concat (map (reps k f (lo - 1) (map_option (\<lambda>n. n - 1) hi))
                    (filter (\<lambda>q. length (snd q) < length (snd p)) (f p))))
    @ (if lo = 0 then [p] else [])"

definition wordAt :: "char option \<Rightarrow> bool" where
  "wordAt oc = (case oc of None \<Rightarrow> False | Some ch \<Rightarrow> isWord ch)"

primrec rmatch :: "regex \<Rightarrow> rpos \<Rightarrow> rpos list" where
  "rmatch Eps p = [p]"
| "rmatch (Chr P) p = (case snd p of [] \<Rightarrow> [] | ch # cs \<Rightarrow> if P ch then [(Some ch, cs)] else [])"
| "rmatch (Seq r q) p = concat (map (rmatch q) (rmatch r p))"
| "rmatch (Alt r q) p = rmatch r p @ rmatch q p"
| "rmatch (Rep lo hi r) p = reps (Suc (length (snd p))) (rmatch r) lo hi p"
| "rmatch WordBoundary p =
    (if wordAt (fst p) \<noteq> wordAt (case snd p of [] \<Rightarrow> None | ch # _ \<Rightarrow> Some ch) then [p] else [])"

text \<open>\<open>value.replace(/r/g, by)\<close>, for expressions that never match the empty string.\<close>

function replaceFrom :: "regex \<Rightarrow> string \<Rightarrow> char option \<Rightarrow> string \<Rightarrow> string" where
  "replaceFrom r by prev [] = []"
| "replaceFrom r by prev (ch # cs) =
    (case rmatch r (prev, ch # cs) of
       [] \<Rightarrow> ch # replaceFrom r by (Some ch) cs
     | q # _ \<Rightarrow> (if length (snd q) \<le> length cs then by @ replaceFrom r by (fst q) (snd q)
                 else ch # replaceFrom r by (Some ch) cs))"
  by pat_completeness auto
termination
  by (relation "measure (\<lambda>(r, by, prev, s). length s)") auto

definition replaceAll :: "regex \<Rightarrow> string \<Rightarrow> string \<Rightarrow> string" where
  "replaceAll r by s = replaceFrom r by None s"

text \<open>\<open>/^r$/.test(s)\<close> without the multiline flag.\<close>

definition fullMatch :: "regex \<Rightarrow> string \<Rightarrow> bool" where
  "fullMatch r s \<longleftrightarrow> list_ex (\<lambda>q. snd q = []) (rmatch r (None, s))"

fun seqs :: "regex list \<Rightarrow> regex" where
  "seqs [] = Eps"
| "seqs [r] = r"
| "seqs (r # rs) = Seq r (seqs rs)"

definition lit :: "char \<Rightarrow> regex" where
  "lit ch = Chr (\<lambda>x. x = ch)"

definition opt :: "regex \<Rightarrow> regex" where
  "opt r = Rep 0 (Some 1) r"

definition times :: "nat \<Rightarrow> regex \<Rightarrow> regex" where
  "times n r = Rep n (Some n) r"

text \<open>Matching never lengthens the remaining text.\<close>

lemma reps_shrink:
  assumes "\<And>p q. q \<in> set (f p) \<Longrightarrow> length (snd q) \<le> length (snd p)" "q \<in> set (reps k f lo hi p)"
  shows "length (snd q) \<le> length (snd p)"
  using assms(2)
proof (induction k arbitrary: lo hi p)
  case 0
  then show ?case by (auto split: if_splits)
next
  case (Suc k)
  then show ?case by (force split: if_splits)
qed

lemma rmatch_shrink: "q \<in> set (rmatch r p) \<Longrightarrow> length (snd q) \<le> length (snd p)"
proof (induction r arbitrary: p q)
  case (Seq r1 r2)
  then obtain q1 where "q1 \<in> set (rmatch r1 p)" "q \<in> set (rmatch r2 q1)" by auto
  with Seq.IH show ?case by (meson order_trans)
next
  case (Rep lo hi r)
  have "q \<in> set (reps (Suc (length (snd p))) (rmatch r) lo hi p)"
    using Rep.prems by (simp only: rmatch.simps)
  with Rep.IH show ?case by (rule reps_shrink)
qed (auto split: list.splits if_splits)

lemma reps_suffix:
  assumes "\<And>p q. q \<in> set (f p) \<Longrightarrow> set (snd q) \<subseteq> set (snd p)" "q \<in> set (reps k f lo hi p)"
  shows "set (snd q) \<subseteq> set (snd p)"
  using assms(2)
proof (induction k arbitrary: lo hi p)
  case 0
  then show ?case by (auto split: if_splits)
next
  case (Suc k)
  show ?case
  proof (cases "q = p")
    case False
    then obtain q1 where q1: "q1 \<in> set (f p)"
      and q: "q \<in> set (reps k f (lo - 1) (map_option (\<lambda>n. n - 1) hi) q1)"
      using Suc.prems by (auto split: if_splits)
    from Suc.IH [OF q] assms(1) [OF q1] show ?thesis by (rule subset_trans)
  qed simp
qed

lemma rmatch_suffix: "q \<in> set (rmatch r p) \<Longrightarrow> set (snd q) \<subseteq> set (snd p)"
proof (induction r arbitrary: p q)
  case (Seq r1 r2)
  then obtain q1 where "q1 \<in> set (rmatch r1 p)" "q \<in> set (rmatch r2 q1)" by auto
  with Seq.IH show ?case by (meson subset_trans)
next
  case (Rep lo hi r)
  have "q \<in> set (reps (Suc (length (snd p))) (rmatch r) lo hi p)"
    using Rep.prems by (simp only: rmatch.simps)
  with Rep.IH show ?case by (rule reps_suffix)
next
  case (Alt r1 r2)
  then show ?case by (metis Un_iff rmatch.simps(4) set_append)
qed (auto split: list.splits if_splits)

lemma replaceFrom_chars: "set (replaceFrom r new prev s) \<subseteq> set new \<union> set s"
proof (induction r new prev s rule: replaceFrom.induct)
  case (1 r new prev)
  then show ?case by simp
next
  case (2 r new prev ch cs)
  show ?case
  proof (cases "rmatch r (prev, ch # cs)")
    case Nil
    then show ?thesis using 2(1) by auto
  next
    case (Cons q qs)
    then have "set (snd q) \<subseteq> set (ch # cs)" using rmatch_suffix [of q r "(prev, ch # cs)"] by simp
    with Cons 2(2,3) show ?thesis by auto
  qed
qed

lemma replaceFrom_none:
  "(\<And>prev t. rmatch r (prev, t) = []) \<Longrightarrow> replaceFrom r by prev s = s"
  by (induction s arbitrary: prev) auto

section \<open>Strings\<close>

fun splitOn :: "char \<Rightarrow> string \<Rightarrow> string list" where
  "splitOn sep [] = [[]]"
| "splitOn sep (ch # cs) =
    (if ch = sep then [] # splitOn sep cs
     else case splitOn sep cs of [] \<Rightarrow> [[ch]] | w # ws \<Rightarrow> (ch # w) # ws)"

lemma splitOn_nonempty [simp]: "splitOn sep s \<noteq> []"
  by (induction s) (auto split: list.splits)

lemma splitOn_no_sep: "sep \<notin> set s \<Longrightarrow> splitOn sep s = [s]"
  by (induction s) auto

lemma splitOn_append: "sep \<notin> set a \<Longrightarrow> splitOn sep (a @ sep # b) = a # splitOn sep b"
  by (induction a) auto

definition trim :: "string \<Rightarrow> string" where
  "trim s = rev (dropWhile isSpace (rev (dropWhile isSpace s)))"

section \<open>Numbers and dates\<close>

function showNat :: "nat \<Rightarrow> string" where
  "showNat n = (if n < 10 then [char_of (48 + n)] else showNat (n div 10) @ [char_of (48 + n mod 10)])"
  by pat_completeness auto
termination
  by (relation "measure id") auto

declare showNat.simps [simp del]

definition showInt :: "int \<Rightarrow> string" where
  "showInt i = (if i < 0 then CHR ''-'' # showNat (nat (- i)) else showNat (nat i))"

definition padLeft :: "nat \<Rightarrow> string \<Rightarrow> string" where
  "padLeft n s = replicate (n - length s) (CHR ''0'') @ s"

definition msPerHour :: int where "msPerHour = 3600000"
definition msPerDay :: int where "msPerDay = 86400000"

text \<open>\<open>getHours\<close> and \<open>getDay\<close> in a zone whose offset from UTC is \<open>off\<close> milliseconds; day 0 is Sunday.\<close>

definition getHours :: "int \<Rightarrow> int \<Rightarrow> int" where
  "getHours off t = ((t + off) div msPerHour) mod 24"

definition getDay :: "int \<Rightarrow> int \<Rightarrow> int" where
  "getDay off t = ((t + off) div msPerDay + 4) mod 7"

text \<open>The proleptic Gregorian date of a day count since 1970-01-01.\<close>

definition civil :: "int \<Rightarrow> int \<times> int \<times> int" where
  "civil z0 =
    (let z = z0 + 719468; era = z div 146097; doe = z - era * 146097;
         yoe = (doe - doe div 1460 + doe div 36524 - doe div 146096) div 365;
         doy = doe - (365 * yoe + yoe div 4 - yoe div 100);
         mp = (5 * doy + 2) div 153;
         d = doy - (153 * mp + 2) div 5 + 1;
         m = (if mp < 10 then mp + 3 else mp - 9)
     in ((yoe + era * 400) + (if m \<le> 2 then 1 else 0), m, d))"

definition toISOString :: "int \<Rightarrow> string" where
  "toISOString t =
    (let (y, m, d) = civil (t div msPerDay); r = t mod msPerDay;
         two = (\<lambda>n. padLeft 2 (showInt n))
     in padLeft 4 (showInt y) @ ''-'' @ two m @ ''-'' @ two d @ ''T'' @ two (r div msPerHour) @ '':''
        @ two (r div 60000 mod 60) @ '':'' @ two (r div 1000 mod 60) @ ''.''
        @ padLeft 3 (showInt (r mod 1000)) @ ''Z'')"

end
