(* ===== verification/Redaction.thy ===== *)
theory Redaction
  imports Schema JsLib
begin

text \<open>
  \<open>common/utils/log-redaction.util.ts\<close>: the string patterns, the key lists and the
  recursive \<open>redactValue\<close>, and the JSON round trip \<open>JSON.parse(JSON.stringify(v))\<close>
  the audit service applies to its result.

  Instances of classes that are not part of the repository (\<open>Decimal\<close>, \<open>Buffer\<close>,
  \<open>Address\<close>) are opaque: \<open>entriesOf\<close> gives their own enumerable properties and
  \<open>toJSON\<close> their JSON form. A \<open>Date\<close> has no own enumerable property.
\<close>

section \<open>Patterns\<close>

definition isB64Url :: "char \<Rightarrow> bool" where
  "isB64Url ch \<longleftrightarrow> isAlnum ch \<or> ch = CHR ''_'' \<or> ch = CHR ''-''"

definition sameLetter :: "char \<Rightarrow> char \<Rightarrow> bool" where
  "sameLetter a b \<longleftrightarrow> toLowerChar a = toLowerChar b"

definition litI :: "string \<Rightarrow> regex" where
  "litI s = seqs (map (\<lambda>ch. Chr (sameLetter ch)) s)"

definition isHexI :: "char \<Rightarrow> bool" where
  "isHexI ch \<longleftrightarrow> isDigit ch \<or> inRange (CHR ''a'') (CHR ''f'') (toLowerChar ch)"

definition isSep :: "char \<Rightarrow> bool" where
  "isSep ch \<longleftrightarrow> ch = CHR ''-'' \<or> ch = CHR ''.'' \<or> isSpace ch"

definition digits :: "nat \<Rightarrow> regex" where
  "digits n = times n (Chr isDigit)"

definition JWT_RE :: regex where
  "JWT_RE = seqs
    [opt (Seq (litI ''Bearer'') (Rep 1 None (Chr isSpace))),
     Rep 20 None (Chr isB64Url), lit (CHR ''.''), Rep 20 None (Chr isB64Url), lit (CHR ''.''),
     Rep 20 None (Chr isB64Url)]"

definition EMAIL_RE :: regex where
  "EMAIL_RE = seqs
    [Rep 1 None (Chr (\<lambda>ch. isAlnum ch \<or> ch \<in> set ''._%+-'')), lit (CHR ''@''),
     Rep 1 None (Chr (\<lambda>ch. isAlnum ch \<or> ch \<in> set ''.-'')), lit (CHR ''.''),
     Rep 2 None (Chr (\<lambda>ch. isUpper ch \<or> isLower ch))]"

definition STELLAR_RE :: regex where
  "STELLAR_RE = Seq (lit (CHR ''G'')) (times 55 (Chr (\<lambda>ch. isUpper ch \<or> inRange (CHR ''2'') (CHR ''7'') ch)))"

definition UUID_RE :: regex where
  "UUID_RE = seqs
    [times 8 (Chr isHexI), lit (CHR ''-''), times 4 (Chr isHexI), lit (CHR ''-''), times 4 (Chr isHexI),
     lit (CHR ''-''), times 4 (Chr isHexI), lit (CHR ''-''), times 12 (Chr isHexI)]"

definition PHONE_RE :: regex where
  "PHONE_RE = seqs
    [opt (lit (CHR ''+'')), opt (lit (CHR ''1'')), opt (Chr isSep), opt (lit (CHR ''('')), digits 3,
     opt (lit (CHR '')'')), opt (Chr isSep), digits 3, opt (Chr isSep), digits 4]"

definition IP_RE :: regex where
  "IP_RE = seqs
    [WordBoundary, times 3 (Seq (Rep 1 (Some 3) (Chr isDigit)) (lit (CHR ''.''))),
     Rep 1 (Some 3) (Chr isDigit), WordBoundary]"

definition CC_RE :: regex where
  "CC_RE = seqs
    [WordBoundary, times 3 (Seq (digits 4) (opt (Chr (\<lambda>ch. isSpace ch \<or> ch = CHR ''-'')))),
     digits 4, WordBoundary]"

definition SSN_RE :: regex where
  "SSN_RE = seqs
    [WordBoundary, digits 3, lit (CHR ''-''), digits 2, lit (CHR ''-''), digits 4, WordBoundary]"

section \<open>Keys\<close>

definition REDACTED :: string where
  "REDACTED = ''[REDACTED]''"

definition SENSITIVE_KEYS :: "string list" where
  "SENSITIVE_KEYS =
    [''authorization'', ''cookie'', ''set-cookie'', ''x-api-key'', ''x-auth-token'', ''secret'',
     ''password'', ''token'', ''apikey'', ''api_key'', ''privatekey'', ''private_key'',
     ''encryptionkey'', ''encryption_keys'', ''key'', ''vapidprivatekey'', ''vapidpublickey'',
     ''email'', ''pushsubscription'', ''walletaddress'', ''wallet_address'', ''phone'',
     ''phonenumber'', ''ssn'', ''socialsecurity'', ''creditcard'', ''ipaddress'', ''address'',
     ''name'', ''dateofbirth'', ''dob'', ''birthdate'']"

definition TRACE_CONTEXT_KEYS :: "string list" where
  "TRACE_CONTEXT_KEYS =
    [''correlationid'', ''requestid'', ''traceid'', ''userid'', ''entityid'', ''eventid'']"

section \<open>Redaction\<close>

definition redactString :: "string \<Rightarrow> string" where
  "redactString value =
    (let r1 = replaceAll JWT_RE ''[REDACTED_JWT]'' value;
         r2 = replaceAll EMAIL_RE ''[REDACTED_EMAIL]'' r1;
         r3 = replaceAll STELLAR_RE ''[REDACTED_WALLET]'' r2;
         r4 = replaceAll UUID_RE ''[REDACTED_UUID]'' r3;
         r5 = replaceAll PHONE_RE ''[REDACTED_PHONE]'' r4;
         r6 = replaceAll IP_RE ''[REDACTED_IP]'' r5;
         r7 = replaceAll CC_RE ''[REDACTED_CC]'' r6
     in replaceAll SSN_RE ''[REDACTED_SSN]'' r7)"

fun isJStr :: "jsval \<Rightarrow> bool" where
  "isJStr (JStr s) = True"
| "isJStr _ = False"

fun objectEntries :: "(jsval \<Rightarrow> (string \<times> jsval) list) \<Rightarrow> jsval \<Rightarrow> (string \<times> jsval) list" where
  "objectEntries entriesOf (JObj ms) = ms"
| "objectEntries entriesOf (JDate t) = []"
| "objectEntries entriesOf v = entriesOf v"

function redactValue :: "(jsval \<Rightarrow> (string \<times> jsval) list) \<Rightarrow> nat \<Rightarrow> jsval \<Rightarrow> jsval" where
  "redactValue entriesOf depth value =
    (if depth > 10 then JStr REDACTED
     else case value of
       JUndef \<Rightarrow> value | JNull \<Rightarrow> value | JBool _ \<Rightarrow> value | JNum _ \<Rightarrow> value | JBigInt _ \<Rightarrow> value
     | JStr s \<Rightarrow> JStr (redactString s)
     | JArr xs \<Rightarrow> JArr (map (redactValue entriesOf (Suc depth)) xs)
     | _ \<Rightarrow> JObj (map (\<lambda>(key, val). (key,
              if toLowerCase key \<in> set SENSITIVE_KEYS then JStr REDACTED
              else if toLowerCase key \<in> set TRACE_CONTEXT_KEYS \<and> isJStr val then val
              else redactValue entriesOf (Suc depth) val)) (objectEntries entriesOf value)))"
  by pat_completeness auto
termination
  by (relation "measure (\<lambda>(f, d, v). 12 - d)") auto

declare redactValue.simps [simp del]

section \<open>JSON round trip\<close>

text \<open>\<open>JUndef\<close> as a result stands for \<open>undefined\<close>: dropped in an object, \<open>null\<close> in an array.\<close>

fun jclone :: "(jsval \<Rightarrow> jsval) \<Rightarrow> jsval \<Rightarrow> error + jsval"
  and jcloneList :: "(jsval \<Rightarrow> jsval) \<Rightarrow> jsval list \<Rightarrow> error + jsval list"
  and jcloneMembers :: "(jsval \<Rightarrow> jsval) \<Rightarrow> (string \<times> jsval) list \<Rightarrow> error + (string \<times> jsval) list" where
  "jclone toJSON JUndef = Inr JUndef"
| "jclone toJSON JNull = Inr JNull"
| "jclone toJSON (JBool b) = Inr (JBool b)"
| "jclone toJSON (JNum q) = Inr (JNum q)"
| "jclone toJSON (JBigInt i) = Inl (PlainError ''Do not know how to serialize a BigInt'')"
| "jclone toJSON (JStr s) = Inr (JStr s)"
| "jclone toJSON (JDate t) = Inr (JStr (toISOString t))"
| "jclone toJSON (JDecimal q) = Inr (toJSON (JDecimal q))"
| "jclone toJSON (JBuffer s) = Inr (toJSON (JBuffer s))"
| "jclone toJSON (JAddress s) = Inr (toJSON (JAddress s))"
| "jclone toJSON (JArr xs) =
    (case jcloneList toJSON xs of Inl e \<Rightarrow> Inl e | Inr ys \<Rightarrow> Inr (JArr ys))"
| "jclone toJSON (JObj ms) =
    (case jcloneMembers toJSON ms of Inl e \<Rightarrow> Inl e | Inr ns \<Rightarrow> Inr (JObj ns))"
| "jcloneList toJSON [] = Inr []"
| "jcloneList toJSON (x # xs) =
    (case jclone toJSON x of Inl e \<Rightarrow> Inl e
     | Inr y \<Rightarrow> (case jcloneList toJSON xs of Inl e \<Rightarrow> Inl e
        | Inr ys \<Rightarrow> Inr ((if y = JUndef then JNull else y) # ys)))"
| "jcloneMembers toJSON [] = Inr []"
| "jcloneMembers toJSON ((k, x) # ms) =
    (case jclone toJSON x of Inl e \<Rightarrow> Inl e
     | Inr y \<Rightarrow> (case jcloneMembers toJSON ms of Inl e \<Rightarrow> Inl e
        | Inr ns \<Rightarrow> Inr (if y = JUndef then ns else (k, y) # ns)))"

definition jsonClone :: "(jsval \<Rightarrow> jsval) \<Rightarrow> jsval \<Rightarrow> error + jsval" where
  "jsonClone toJSON v =
    (case jclone toJSON v of
       Inl e \<Rightarrow> Inl e
     | Inr w \<Rightarrow> (if w = JUndef then Inl (PlainError ''undefined is not valid JSON'') else Inr w))"

section \<open>What redaction guarantees\<close>

text \<open>A value in which no sensitive key holds anything but the redaction marker, to any depth.\<close>

fun clean :: "jsval \<Rightarrow> bool" where
  "clean (JArr xs) = list_all clean xs"
| "clean (JObj ms) =
    list_all (\<lambda>(k, v). (toLowerCase k \<in> set SENSITIVE_KEYS \<longrightarrow> v = JStr REDACTED) \<and> clean v) ms"
| "clean _ = True"

fun jdepth :: "jsval \<Rightarrow> nat" where
  "jdepth (JArr xs) = Suc (fold max (map jdepth xs) 0)"
| "jdepth (JObj ms) = Suc (fold max (map (jdepth \<circ> snd) ms) 0)"
| "jdepth _ = 0"

lemma isJStr_clean [simp]: "isJStr v \<Longrightarrow> clean v"
  by (cases v) auto

lemma redactValue_clean: "clean (redactValue entriesOf depth v)"
proof (induction entriesOf depth v rule: redactValue.induct)
  case (1 entriesOf depth v)
  show ?case
  proof (cases "depth > 10")
    case True
    then show ?thesis by (simp add: redactValue.simps)
  next
    case False
    note IH = "1.IH" [OF False]
    show ?thesis
      using False IH
      by (subst redactValue.simps) (auto simp: list_all_iff split: jsval.split)
  qed
qed

lemma fold_max_le: "(\<And>x. x \<in> set xs \<Longrightarrow> x \<le> n) \<Longrightarrow> a \<le> n \<Longrightarrow> fold max xs a \<le> (n :: nat)"
  by (induction xs arbitrary: a) auto

lemma isJStr_depth [simp]: "isJStr v \<Longrightarrow> jdepth v = 0"
  by (cases v) auto

lemma redactValue_depth: "jdepth (redactValue entriesOf depth v) \<le> 11 - depth"
proof (induction "11 - depth" arbitrary: depth v)
  case 0
  then show ?case by (simp add: redactValue.simps)
next
  case (Suc n)
  then have depth: "\<not> depth > 10" by simp
  have IH: "jdepth (redactValue entriesOf (Suc depth) w) \<le> 10 - depth" for w
    using Suc.hyps(1) [of "Suc depth" w] Suc.hyps(2) by simp
  have step: "Suc n \<le> 11 - depth" if "n \<le> 10 - depth" for n
    using that depth by simp
  show ?case
    using depth
    by (subst redactValue.simps) (auto split: jsval.split intro!: step fold_max_le simp: IH)
qed

text \<open>
  Redaction turns class instances into plain objects, so the JSON round trip only
  fails on a bigint; a value without one always has an audit form.
\<close>

fun noBig :: "jsval \<Rightarrow> bool" where
  "noBig (JBigInt i) = False"
| "noBig (JArr xs) = list_all noBig xs"
| "noBig (JObj ms) = list_all (\<lambda>(k, v). noBig v) ms"
| "noBig _ = True"

fun plain :: "jsval \<Rightarrow> bool" where
  "plain (JBigInt i) = False"
| "plain (JDate t) = False"
| "plain (JDecimal q) = False"
| "plain (JBuffer s) = False"
| "plain (JAddress s) = False"
| "plain (JArr xs) = list_all plain xs"
| "plain (JObj ms) = list_all (\<lambda>(k, v). plain v) ms"
| "plain _ = True"

lemma isJStr_plain [simp]: "isJStr v \<Longrightarrow> plain v"
  by (cases v) auto

lemma redactValue_plain:
  assumes "\<And>u. list_all (\<lambda>(k, x). noBig x) (entriesOf u)"
  shows "noBig v \<Longrightarrow> plain (redactValue entriesOf depth v)"
proof (induction "11 - depth" arbitrary: depth v)
  case 0
  then show ?case by (simp add: redactValue.simps)
next
  case (Suc n)
  then have depth: "\<not> depth > 10" by simp
  have IH: "noBig w \<Longrightarrow> plain (redactValue entriesOf (Suc depth) w)" for w
    using Suc.hyps(1) [of "Suc depth" w] Suc.hyps(2) by simp
  have ext: "(k, x) \<in> set (entriesOf u) \<Longrightarrow> noBig x" for k x u
    using assms [of u] by (auto simp: list_all_iff)
  show ?case
    using depth Suc.prems
    by (subst redactValue.simps) (auto simp: list_all_iff dest: ext intro!: IH split: jsval.split)
qed

lemma plain_jclone:
  "plain v \<Longrightarrow> \<exists>w. jclone toJSON v = Inr w \<and> (w = JUndef \<longleftrightarrow> v = JUndef)"
  "list_all plain xs \<Longrightarrow> \<exists>ys. jcloneList toJSON xs = Inr ys"
  "list_all (\<lambda>(k, v). plain v) ms \<Longrightarrow> \<exists>ns. jcloneMembers toJSON ms = Inr ns"
  by (induction toJSON v and toJSON xs and toJSON ms rule: jclone_jcloneList_jcloneMembers.induct) auto

lemma redactValue_defined: "v \<noteq> JUndef \<Longrightarrow> redactValue entriesOf depth v \<noteq> JUndef"
  by (subst redactValue.simps) (auto split: jsval.split)

lemma jsonClone_redacted:
  assumes "\<And>u. list_all (\<lambda>(k, x). noBig x) (entriesOf u)" "noBig v" "v \<noteq> JUndef"
  shows "\<exists>w. jsonClone toJSON (redactValue entriesOf depth v) = Inr w"
proof -
  have "plain (redactValue entriesOf depth v)"
    using assms by (intro redactValue_plain)
  then obtain w where "jclone toJSON (redactValue entriesOf depth v) = Inr w"
    "w = JUndef \<longleftrightarrow> redactValue entriesOf depth v = JUndef"
    using plain_jclone(1) by blast
  with redactValue_defined [OF assms(3)] show ?thesis by (auto simp: jsonClone_def)
qed

section \<open>Properties\<close>

text \<open>
  C30. Nothing sensitive survives redaction, however deep it is nested: in the result every
  member whose key is a sensitive one, in any capitalisation and at any depth, holds the
  marker and nothing else. The result is at most eleven levels deep whatever was passed,
  so the recursion ends on every value, and redacting it again leaves that so.
\<close>

theorem redaction_safe:
  "clean (redactValue entriesOf 0 v) \<and> jdepth (redactValue entriesOf 0 v) \<le> 11"
  using redactValue_clean redactValue_depth [of entriesOf 0 v] by simp

end
