(* ===== verification/Resilience.thy ===== *)
theory Resilience
  imports JsLib
begin

text \<open>
  \<open>common/resilience\<close>: exponential backoff, \<open>withRetry\<close>, \<open>withResilience\<close> and the
  circuit-breaker configuration. The opossum breaker is a parameter \<open>fire\<close>: its
  documented behaviour is \<open>lawfulBreaker\<close>. \<open>pause\<close> stands for the \<open>onRetry\<close> callback
  and the timer, and \<open>rnd\<close> gives the value \<open>Math.random()\<close> returns at each attempt.
\<close>

section \<open>Circuit breaker\<close>

record CircuitBreakerOptions =
  errorThresholdPercentage :: "int option"
  resetTimeout :: "int option"
  volumeThreshold :: "int option"
  rollingCountTimeout :: "int option"
  timeout :: "int option"

record breaker_config =
  bc_name :: string
  bc_errorThresholdPercentage :: int
  bc_resetTimeout :: int
  bc_volumeThreshold :: int
  bc_rollingCountTimeout :: int
  bc_timeout :: int

fun orElse :: "'a option \<Rightarrow> 'a \<Rightarrow> 'a" where
  "orElse None d = d"
| "orElse (Some x) d = x"

definition createCircuitBreaker :: "string \<Rightarrow> CircuitBreakerOptions \<Rightarrow> breaker_config" where
  "createCircuitBreaker name options =
    \<lparr>bc_name = name,
     bc_errorThresholdPercentage = orElse (errorThresholdPercentage options) 50,
     bc_resetTimeout = orElse (resetTimeout options) 30000,
     bc_volumeThreshold = orElse (volumeThreshold options) 5,
     bc_rollingCountTimeout = orElse (rollingCountTimeout options) 10000,
     bc_timeout = orElse (timeout options) 10000\<rparr>"

text \<open>The test reads the \<open>name\<close> and \<open>code\<close> properties; Prisma's known errors carry a \<open>code\<close> too.\<close>

fun isCircuitOpenError :: "error \<Rightarrow> bool" where
  "isCircuitOpenError (CodedError name code m) = (name = ''CircuitBreakerOpenError'' \<or> code = ''EOPENBREAKER'')"
| "isCircuitOpenError (PrismaException (PrismaClientKnownRequestError code)) = (code = ''EOPENBREAKER'')"
| "isCircuitOpenError _ = False"

text \<open>
  \<open>fire(task)\<close> runs the task and settles as it does, or rejects with the open-circuit
  error without running it, or rejects with a timeout while the task takes effect.
\<close>

definition lawfulBreaker :: "(('s, 'a) sm \<Rightarrow> ('s, 'a) sm) \<Rightarrow> bool" where
  "lawfulBreaker fire \<longleftrightarrow> (\<forall>task s.
     fire task s = task s
     \<or> (\<exists>e. isCircuitOpenError e \<and> fire task s = (Inl e, s))
     \<or> (\<exists>e. \<not> isCircuitOpenError e \<and> fire task s = (Inl e, snd (task s))))"

lemma lawful_closed [simp]: "lawfulBreaker (\<lambda>task. task)"
  by (simp add: lawfulBreaker_def)

section \<open>Retry\<close>

record RetryOptions =
  attempts :: nat
  baseDelayMs :: nat
  maxDelayMs :: "nat option"
  jitter :: bool
  retryIf :: "(error \<Rightarrow> nat \<Rightarrow> bool) option"

definition mathRound :: "rat \<Rightarrow> int" where
  "mathRound q = \<lfloor>q + 1 / 2\<rfloor>"

definition computeBackoffDelay :: "rat \<Rightarrow> nat \<Rightarrow> RetryOptions \<Rightarrow> int" where
  "computeBackoffDelay random attempt options =
    (let exponent = attempt - 1;
         exponential = baseDelayMs options * 2 ^ exponent;
         capped = min exponential (orElse (maxDelayMs options) exponential)
     in if \<not> jitter options then int capped
        else mathRound (of_nat capped * (1 / 2 + random * (1 / 2))))"

text \<open>The loop of \<open>withRetry\<close>, with the number of attempts left and the number of this attempt.\<close>

fun retryLoop ::
  "(int \<Rightarrow> ('s, unit) sm) \<Rightarrow> (nat \<Rightarrow> rat) \<Rightarrow> ('s, 'a) sm \<Rightarrow> RetryOptions \<Rightarrow> nat \<Rightarrow> nat \<Rightarrow> error \<Rightarrow> ('s, 'a) sm" where
  "retryLoop pause rnd operation options 0 attempt lastError = throwM lastError"
| "retryLoop pause rnd operation options (Suc left) attempt lastError =
    catchM operation (\<lambda>error.
      let retryable = (case retryIf options of None \<Rightarrow> True | Some p \<Rightarrow> p error attempt) in
      if attempt \<ge> attempts options \<or> \<not> retryable then throwM error
      else bindM (pause (computeBackoffDelay (rnd attempt) attempt options))
        (\<lambda>_. retryLoop pause rnd operation options left (Suc attempt) error))"

definition withRetry ::
  "(int \<Rightarrow> ('s, unit) sm) \<Rightarrow> (nat \<Rightarrow> rat) \<Rightarrow> ('s, 'a) sm \<Rightarrow> RetryOptions \<Rightarrow> ('s, 'a) sm" where
  "withRetry pause rnd operation options =
     retryLoop pause rnd operation options (attempts options) 1 (PlainError ''undefined'')"

section \<open>Resilience\<close>

fun resilienceLoop ::
  "(int \<Rightarrow> ('s, unit) sm) \<Rightarrow> (nat \<Rightarrow> rat) \<Rightarrow> (('s, 'a) sm \<Rightarrow> ('s, 'a) sm) \<Rightarrow> ('s, 'a) sm \<Rightarrow>
   RetryOptions option \<Rightarrow> ('s, 'a) sm option \<Rightarrow> nat \<Rightarrow> nat \<Rightarrow> nat \<Rightarrow> error \<Rightarrow> ('s, 'a) sm" where
  "resilienceLoop pause rnd fire task retry fallback n 0 attempt lastError =
     (if isCircuitOpenError lastError then (case fallback of None \<Rightarrow> throwM lastError | Some f \<Rightarrow> f)
      else throwM lastError)"
| "resilienceLoop pause rnd fire task retry fallback n (Suc left) attempt lastError = (\<lambda>s.
    case fire task s of
      (Inr a, s') \<Rightarrow> (Inr a, s')
    | (Inl error, s') \<Rightarrow>
        (if isCircuitOpenError error then
           (case fallback of None \<Rightarrow> throwM error | Some f \<Rightarrow> f) s'
         else case retry of
           None \<Rightarrow> (Inl error, s')
         | Some r \<Rightarrow>
             (if attempt < n \<and> (case retryIf r of None \<Rightarrow> True | Some p \<Rightarrow> p error attempt)
              then bindM (pause (computeBackoffDelay (rnd attempt) attempt r))
                (\<lambda>_. resilienceLoop pause rnd fire task retry fallback n left (Suc attempt) error) s'
              else (Inl error, s'))))"

definition withResilience ::
  "(int \<Rightarrow> ('s, unit) sm) \<Rightarrow> (nat \<Rightarrow> rat) \<Rightarrow> (('s, 'a) sm \<Rightarrow> ('s, 'a) sm) \<Rightarrow> ('s, 'a) sm \<Rightarrow>
   RetryOptions option \<Rightarrow> ('s, 'a) sm option \<Rightarrow> ('s, 'a) sm" where
  "withResilience pause rnd fire task retry fallback =
    (let n = (case retry of None \<Rightarrow> 1 | Some r \<Rightarrow> max 1 (attempts r))
     in resilienceLoop pause rnd fire task retry fallback n n 1 (PlainError ''undefined''))"

section \<open>Policies\<close>

definition retryPolicy :: "nat \<Rightarrow> nat \<Rightarrow> nat \<Rightarrow> RetryOptions" where
  "retryPolicy n base cap =
    \<lparr>attempts = n, baseDelayMs = base, maxDelayMs = Some cap, jitter = True, retryIf = None\<rparr>"

definition STELLAR_RPC_POLICY :: RetryOptions where "STELLAR_RPC_POLICY = retryPolicy 3 500 5000"
definition AWS_S3_POLICY :: RetryOptions where "AWS_S3_POLICY = retryPolicy 3 250 4000"
definition IPFS_POLICY :: RetryOptions where "IPFS_POLICY = retryPolicy 2 1000 4000"
definition SENDGRID_POLICY :: RetryOptions where "SENDGRID_POLICY = retryPolicy 2 500 3000"
definition WEB_PUSH_POLICY :: RetryOptions where "WEB_PUSH_POLICY = retryPolicy 2 500 3000"
definition REDIS_NONCE_POLICY :: RetryOptions where "REDIS_NONCE_POLICY = retryPolicy 2 200 1000"
definition BULL_QUEUE_POLICY :: RetryOptions where "BULL_QUEUE_POLICY = retryPolicy 2 200 1000"

section \<open>Properties\<close>

lemma capped_bounds:
  fixes random :: rat and cap :: nat
  assumes "0 \<le> random" "random < 1"
  shows "0 \<le> mathRound (of_nat cap * (1 / 2 + random * (1 / 2)))"
    and "mathRound (of_nat cap * (1 / 2 + random * (1 / 2))) \<le> int cap"
    and "int cap \<le> 2 * mathRound (of_nat cap * (1 / 2 + random * (1 / 2)))"
proof -
  let ?q = "of_nat cap * (1 / 2 + random * (1 / 2)) :: rat"
  have nn: "(0 :: rat) \<le> of_nat cap * random" using assms by simp
  have ge: "of_nat cap * (1 / 2) \<le> ?q" using nn by (simp add: algebra_simps)
  have "of_nat cap * random \<le> (of_nat cap :: rat)"
    using assms by (simp add: mult_left_le)
  then have le: "?q \<le> of_nat cap" by (simp add: algebra_simps)
  show "0 \<le> mathRound ?q"
    using ge by (simp add: mathRound_def zero_le_floor)
  have "?q + 1 / 2 < of_int (int cap) + 1" using le by simp
  then show "mathRound ?q \<le> int cap"
    by (simp add: mathRound_def floor_le_iff)
  have "(of_int (int cap) :: rat) / 2 < of_int (mathRound ?q) + 1 / 2"
    using ge floor_correct [of "?q + 1 / 2"] by (simp add: mathRound_def algebra_simps)
  then have "(of_int (int cap) :: rat) < of_int (2 * mathRound ?q + 1)" by simp
  then have "int cap < 2 * mathRound ?q + 1" by (simp only: of_int_less_iff)
  then show "int cap \<le> 2 * mathRound ?q" by simp
qed

lemma lawful_cases:
  assumes "lawfulBreaker fire"
  obtains "fire task s = task s"
  | e where "isCircuitOpenError e" "fire task s = (Inl e, s)"
  | e where "\<not> isCircuitOpenError e" "fire task s = (Inl e, snd (task s))"
  using assms unfolding lawfulBreaker_def by metis

lemma lawful_count:
  fixes cnt :: "'s \<Rightarrow> nat"
  assumes "lawfulBreaker fire" "\<And>s. cnt (snd (task s)) \<le> Suc (cnt s)"
  shows "cnt (snd (fire task s)) \<le> Suc (cnt s)"
  using assms(1)
proof (rule lawful_cases [where task = task and s = s])
qed (simp_all add: assms(2))

lemma resilienceLoop_bound:
  fixes cnt :: "'s \<Rightarrow> nat"
  assumes law: "lawfulBreaker fire"
    and task: "\<And>s. cnt (snd (task s)) \<le> Suc (cnt s)"
    and pause: "\<And>d s. cnt (snd (pause d s)) = cnt s"
    and fallback: "\<And>f s. fallback = Some f \<Longrightarrow> cnt (snd (f s)) = cnt s"
  shows "cnt (snd (resilienceLoop pause rnd fire task retry fallback n k a e s)) \<le> cnt s + k"
proof (induction k arbitrary: a e s)
  case 0
  have "cnt (snd ((case fallback of None \<Rightarrow> throwM e | Some f \<Rightarrow> f) s)) = cnt s"
    by (cases fallback) (simp_all add: fallback)
  then show ?case by simp
next
  case (Suc k)
  obtain r s' where run: "fire task s = (r, s')" by (cases "fire task s") auto
  then have le: "cnt s' \<le> Suc (cnt s)"
    using lawful_count [of fire cnt task s, OF law task] by simp
  have last: "cnt (snd ((case fallback of None \<Rightarrow> throwM err | Some f \<Rightarrow> f) s')) = cnt s'" for err
    by (cases fallback) (simp_all add: fallback)
  have again: "cnt (snd (bindM (pause d)
      (\<lambda>_. resilienceLoop pause rnd fire task retry fallback n k (Suc a) err) s')) \<le> cnt s' + k" for d err
  proof (cases "pause d s'")
    case (Pair r2 s2)
    then have "cnt s2 = cnt s'" using pause [of d s'] by simp
    with Suc.IH [of "Suc a" err s2] Pair show ?thesis by (simp add: bindM_def split: sum.split)
  qed
  show ?case
    using le last again [THEN order_trans] by (cases r; cases retry) (simp_all add: run)
qed

text \<open>
  What a task keeps, the retries keep, and a result is the result of one run of the task in a
  state the earlier runs led to.
\<close>

lemma resilienceLoop_run:
  assumes law: "lawfulBreaker fire" and task: "keeps I task" and "I s"
    and "resilienceLoop (\<lambda>_. returnM ()) rnd fire task retry None n k a e s = (r, s')"
  shows "I s' \<and> (\<forall>x. r = Inr x \<longrightarrow> (\<exists>s0. I s0 \<and> task s0 = (Inr x, s')))"
  using assms(3,4)
proof (induction k arbitrary: a e s)
  case 0
  then show ?case by (auto split: if_splits)
next
  case (Suc k)
  obtain q s1 where fire: "fire task s = (q, s1)" by (cases "fire task s") auto
  obtain p s2 where run: "task s = (p, s2)" by (cases "task s") auto
  then have "I s2" using keepsD [OF task Suc.prems(1)] by simp
  with law have s1: "I s1 \<and> (\<forall>x. q = Inr x \<longrightarrow> task s = (Inr x, s1))"
    by - (rule lawful_cases [where task = task and s = s], assumption, use fire run Suc.prems(1) in auto)
  show ?case
  proof (cases q)
    case (Inr x)
    with s1 Suc.prems fire show ?thesis by auto
  next
    case (Inl err)
    with Suc.prems(2) fire Suc.IH [of s1] s1 show ?thesis
      by (auto simp: bindM_def split: if_splits option.splits)
  qed
qed

lemma resilience_run:
  assumes "lawfulBreaker fire" "keeps I task" "I s"
    and "withResilience (\<lambda>_. returnM ()) rnd fire task retry None s = (r, s')"
  shows "I s' \<and> (\<forall>x. r = Inr x \<longrightarrow> (\<exists>s0. I s0 \<and> task s0 = (Inr x, s')))"
  using assms(4) unfolding withResilience_def Let_def by (rule resilienceLoop_run [OF assms(1-3)])

lemma resilience_keeps:
  "lawfulBreaker fire \<Longrightarrow> keeps I task \<Longrightarrow> keeps I (withResilience (\<lambda>_. returnM ()) rnd fire task retry None)"
  using resilience_run [of fire I task] by (metis keepsI prod.collapse)

text \<open>A task that succeeds behind a closed breaker is not repeated.\<close>

lemma resilience_ok:
  "task s = (Inr a, s') \<Longrightarrow> withResilience pause rnd (\<lambda>task. task) task retry fallback s = (Inr a, s')"
  by (cases "case retry of None \<Rightarrow> 1 | Some r \<Rightarrow> max 1 (attempts r)")
    (auto simp: withResilience_def split: option.splits)

text \<open>
  Back-off bounds. With \<open>Math.random()\<close> in \<open>[0, 1)\<close> the delay before a retry is never
  negative, never above the configured maximum, and never below half of the capped
  exponential delay; without jitter it is exactly that delay.
\<close>

theorem backoff_bounds:
  assumes "0 \<le> random" "random < 1" "maxDelayMs options = Some cap"
  shows "let d = computeBackoffDelay random attempt options;
             exponential = baseDelayMs options * 2 ^ (attempt - 1) in
    0 \<le> d \<and> d \<le> int cap \<and> int (min exponential cap) \<le> 2 * d \<and>
    (\<not> jitter options \<longrightarrow> d = int (min exponential cap))"
proof -
  let ?m = "min (baseDelayMs options * 2 ^ (attempt - 1)) cap"
  note b = capped_bounds [OF assms(1,2), of ?m]
  have le: "mathRound (of_nat ?m * (1 / 2 + random * (1 / 2))) \<le> int cap"
    by (rule order_trans [OF b(2)]) simp
  from b le assms(3) show ?thesis
    unfolding computeBackoffDelay_def Let_def by (cases "jitter options") (simp_all del: times_divide_eq_right)
qed

theorem backoff_bounds_witness:
  "let d = computeBackoffDelay (1 / 2) 9 STELLAR_RPC_POLICY in 0 \<le> d \<and> d \<le> 5000 \<and> 5000 \<le> 2 * d"
  using backoff_bounds [of "1 / 2" STELLAR_RPC_POLICY 5000 9]
  by (simp add: Let_def STELLAR_RPC_POLICY_def retryPolicy_def)

text \<open>
  Bounded attempts. Whatever the task, the circuit breaker and the fallback do,
  \<open>withResilience\<close> starts the task at most as often as the retry policy allows (once
  without a policy): any quantity a single start of the task increases by at most one,
  and pauses and fallback leave alone, grows by at most that number.
\<close>

theorem attempts_bounded:
  fixes cnt :: "'s \<Rightarrow> nat"
  assumes "lawfulBreaker fire" "\<And>s. cnt (snd (task s)) \<le> Suc (cnt s)"
    and "\<And>d s. cnt (snd (pause d s)) = cnt s" "\<And>f s. fallback = Some f \<Longrightarrow> cnt (snd (f s)) = cnt s"
  shows "cnt (snd (withResilience pause rnd fire task retry fallback s)) \<le>
    cnt s + (case retry of None \<Rightarrow> 1 | Some r \<Rightarrow> max 1 (attempts r))"
  unfolding withResilience_def Let_def
  by (rule resilienceLoop_bound) (use assms in blast)+

theorem attempts_bounded_witness:
  "snd (withResilience (\<lambda>d. returnM ()) (\<lambda>n. 0) (\<lambda>task. task) (\<lambda>n. (Inl (PlainError ''down''), Suc n) :: (error + unit) \<times> nat)
     (Some STELLAR_RPC_POLICY) None 0) \<le> 3"
  using attempts_bounded [of "\<lambda>task. task" "\<lambda>n. n" "\<lambda>n. (Inl (PlainError ''down''), Suc n) :: (error + unit) \<times> nat"
      "\<lambda>d. returnM ()" None "\<lambda>n. 0" "Some STELLAR_RPC_POLICY" 0]
  by (simp add: STELLAR_RPC_POLICY_def retryPolicy_def)

end
