(* ===== verification/Runtime.thy ===== *)
theory Runtime
  imports SoftDelete Redaction Resilience
begin

text \<open>
  What a request or a background job runs in. \<open>world\<close> is the mutable state the
  services share: the database and the two Bull queues. \<open>env\<close> is what stays fixed
  while one operation runs: the Prisma client, the clock (every \<open>new Date()\<close> of one
  operation reads the same instant), the request behind the request-scoped audit
  service, the tracing context, and the third-party functions the sources call. The
  locale \<open>runtime\<close> collects what the services rely on of them.
\<close>

record email_job =
  ej_outboxId :: string
  ej_to :: string
  ej_subject :: string
  ej_html :: string
  ej_correlationId :: "string option"

record push_job =
  pj_subscription :: jsval
  pj_title :: string
  pj_body :: string
  pj_data :: jsval
  pj_correlationId :: "string option"

record world =
  store :: db
  emailJobs :: "email_job list"
  pushJobs :: "push_job list"

record env =
  prisma :: client
  now :: int
  tzOffset :: int
  reqUser :: "string option"
  reqIp :: "string option"
  reqUserAgent :: "string option"
  correlationId :: "string option"
  entriesOf :: "jsval \<Rightarrow> (string \<times> jsval) list"
  toJSON :: "jsval \<Rightarrow> jsval"
  decimalText :: "rat \<Rightarrow> string"
  jsonParse :: "string \<Rightarrow> jsval option"
  encryptionKeys :: "(string \<times> string) list"
  aesGcm :: "string \<Rightarrow> string \<Rightarrow> string \<Rightarrow> string \<times> string"
  aesGcmOpen :: "string \<Rightarrow> string \<Rightarrow> string \<Rightarrow> string \<Rightarrow> string option"
  randomIv :: string
  random :: "nat \<Rightarrow> rat"
  fireQueue :: "(world, unit) sm \<Rightarrow> (world, unit) sm"
  emailQueueAdd :: "email_job \<Rightarrow> (world, unit) sm"
  pushQueueAdd :: "push_job \<Rightarrow> (world, unit) sm"

text \<open>Service methods that only use the database run on the \<open>store\<close> component.\<close>

definition inStore :: "(db, 'a) sm \<Rightarrow> (world, 'a) sm" where
  "inStore m = zoom store store_update m"

lemma keeps_inStore: "keeps I m \<Longrightarrow> keeps (\<lambda>w. I (store w)) (inStore m)"
  by (auto simp: keeps_def inStore_def zoom_def split: prod.splits)

lemma inStore_after: "keeps I m \<Longrightarrow> inStore m w = (r, w') \<Longrightarrow> I (store w) \<Longrightarrow> I (store w')"
  using keepsD [OF keeps_inStore, of I m w] by simp

text \<open>
  \<open>Queue.add\<close> either appends the job and resolves, or rejects; it never touches the
  database. Object entries of foreign class instances hold no bigint.
\<close>

locale runtime =
  fixes env :: env
  assumes client_ok [simp]: "prisma_client (prisma env)"
    and entries_ok: "list_all (\<lambda>(k, x). noBig x) (entriesOf env u)"
    and breaker_ok: "lawfulBreaker (fireQueue env)"
    and emailAdd_ok: "emailQueueAdd env j w = (Inr (), w\<lparr>emailJobs := emailJobs w @ [j]\<rparr>)
                      \<or> (\<exists>e. emailQueueAdd env j w = (Inl e, w))"
    and pushAdd_ok: "pushQueueAdd env p w = (Inr (), w\<lparr>pushJobs := pushJobs w @ [p]\<rparr>)
                      \<or> (\<exists>e. pushQueueAdd env p w = (Inl e, w))"

lemmas runtime_client [simp] = runtime.client_ok

context runtime
begin

lemma runtime_self [simp]: "runtime env"
  by (rule runtime_axioms)

end

section \<open>A concrete runtime\<close>

definition memoryEnv :: env where
  "memoryEnv = \<lparr>
     prisma = memoryClient, now = 1000, tzOffset = 0, reqUser = None, reqIp = None,
     reqUserAgent = None, correlationId = None,
     entriesOf = (\<lambda>v. []), toJSON = (\<lambda>v. JNull), decimalText = (\<lambda>q. ''0''),
     jsonParse = (\<lambda>s. None), encryptionKeys = [(''v1'', ''k'')],
     aesGcm = (\<lambda>k iv s. (''tag'', s)), aesGcmOpen = (\<lambda>k iv tag s. Some s), randomIv = ''iv'',
     random = (\<lambda>n. 0), fireQueue = (\<lambda>task. task),
     emailQueueAdd = (\<lambda>j w. (Inr (), w\<lparr>emailJobs := emailJobs w @ [j]\<rparr>)),
     pushQueueAdd = (\<lambda>p w. (Inr (), w\<lparr>pushJobs := pushJobs w @ [p]\<rparr>))\<rparr>"

interpretation memory_runtime: runtime memoryEnv
  by (rule runtime.intro) (simp_all add: memoryEnv_def)

lemma memoryEnv_laws [simp]: "runtime memoryEnv"
  by (rule memory_runtime.runtime_axioms)

end
