(* ===== verification/AuditTrail.thy ===== *)
theory AuditTrail
  imports Runtime
begin

text \<open>
  \<open>insurance/services/audit.service.ts\<close>: the request-scoped \<open>AuditService\<close>, its
  snapshot serialisation and one method per audited action, on top of
  \<open>AuditLogRepository.createLog\<close>. Snapshots are JavaScript values; \<open>poolJs\<close>,
  \<open>policyJs\<close>, \<open>claimJs\<close> and \<open>contractJs\<close> are the objects the Prisma client returns for
  the modelled columns.
\<close>

section \<open>Rows as JavaScript objects\<close>

definition orNull :: "('a \<Rightarrow> jsval) \<Rightarrow> 'a option \<Rightarrow> jsval" where
  "orNull f x = (case x of None \<Rightarrow> JNull | Some a \<Rightarrow> f a)"

definition poolJs :: "insurance_pool \<Rightarrow> jsval" where
  "poolJs p = JObj [(''id'', JStr (rowId p)), (''name'', JStr (pool_name p)),
     (''capital'', JDecimal (capital p)), (''lockedCapital'', JDecimal (lockedCapital p)),
     (''deletedAt'', orNull JDate (deletedAt p))]"

definition policyJs :: "insurance_policy \<Rightarrow> jsval" where
  "policyJs p = JObj [(''id'', JStr (rowId p)), (''userId'', JStr (po_userId p)),
     (''poolId'', JStr (po_poolId p)), (''riskType'', JStr (riskTypeText (po_riskType p))),
     (''status'', JStr (policyStatusText (po_status p))), (''premium'', JDecimal (po_premium p)),
     (''coverageAmount'', JDecimal (po_coverageAmount p)), (''endDate'', orNull JDate (po_endDate p)),
     (''deletedAt'', orNull JDate (deletedAt p))]"

fun claimStatusText :: "ClaimStatus \<Rightarrow> string" where
  "claimStatusText Claim_PENDING = ''PENDING''"
| "claimStatusText Claim_APPROVED = ''APPROVED''"
| "claimStatusText Claim_REJECTED = ''REJECTED''"
| "claimStatusText Claim_PAID = ''PAID''"
| "claimStatusText Claim_UNDER_REVIEW = ''UNDER_REVIEW''"

definition claimMembers :: "claim \<Rightarrow> (string \<times> jsval) list" where
  "claimMembers r = [(''id'', JStr (rowId r)), (''policyId'', JStr (cl_policyId r)),
     (''claimAmount'', JDecimal (cl_claimAmount r)), (''status'', JStr (claimStatusText (cl_status r))),
     (''payoutAmount'', orNull JDecimal (cl_payoutAmount r)), (''createdAt'', JDate (cl_createdAt r)),
     (''deletedAt'', orNull JDate (deletedAt r))]"

definition claimJs :: "claim \<Rightarrow> jsval" where
  "claimJs r = JObj (claimMembers r)"

definition claimWithPolicyJs :: "claim \<times> insurance_policy option \<Rightarrow> jsval" where
  "claimWithPolicyJs cp = JObj (claimMembers (fst cp) @ [(''policy'', orNull policyJs (snd cp))])"

definition contractJs :: "reinsurance_contract \<Rightarrow> jsval" where
  "contractJs r = JObj [(''id'', JStr (rowId r)), (''poolId'', JStr (rc_poolId r)),
     (''coverageLimit'', JDecimal (rc_coverageLimit r)), (''premiumRate'', JDecimal (rc_premiumRate r)),
     (''deletedAt'', orNull JDate (deletedAt r))]"

section \<open>AuditService\<close>

definition createLog :: "env \<Rightarrow> audit_log \<Rightarrow> (db, audit_log) sm" where
  "createLog env r = zoom auditLogs auditLogs_update (d_create (auditLogE (prisma env)) (now env) (rowOf r))"

definition toAuditState :: "env \<Rightarrow> jsval \<Rightarrow> error + jsval" where
  "toAuditState env value =
    (if value = JUndef then Inr JUndef
     else jsonClone (toJSON env) (redactValue (entriesOf env) 0 value))"

text \<open>\<open>x ?? undefined\<close>: the column stays empty for \<open>null\<close> and \<open>undefined\<close>.\<close>

definition nullish :: "jsval \<Rightarrow> jsval option" where
  "nullish v = (if v = JUndef \<or> v = JNull then None else Some v)"

definition auditRow ::
  "env \<Rightarrow> AuditAction \<Rightarrow> string \<Rightarrow> string \<Rightarrow> jsval \<Rightarrow> jsval \<Rightarrow> string option \<Rightarrow> string option \<Rightarrow> audit_log" where
  "auditRow env act entityType entityId before after txHash reason =
    \<lparr>rowId = '''', deletedAt = None, au_userId = reqUser env, au_action = act,
     au_entityType = entityType, au_entityId = entityId,
     au_beforeState = nullish before, au_afterState = nullish after,
     au_ipAddress = reqIp env, au_userAgent = reqUserAgent env, au_transactionHash = txHash,
     au_reason = reason, au_correlationId = correlationId env, au_timestamp = now env\<rparr>"

definition auditService_log ::
  "env \<Rightarrow> AuditAction \<Rightarrow> string \<Rightarrow> string \<Rightarrow> jsval \<Rightarrow> jsval \<Rightarrow> string option \<Rightarrow> string option \<Rightarrow> (db, unit) sm" where
  "auditService_log env act entityType entityId beforeState afterState transactionHash reason =
    (case toAuditState env beforeState of
       Inl e \<Rightarrow> throwM e
     | Inr b \<Rightarrow> (case toAuditState env afterState of
         Inl e \<Rightarrow> throwM e
       | Inr a \<Rightarrow> bindM (createLog env (auditRow env act entityType entityId b a transactionHash reason))
           (\<lambda>_. returnM ())))"

definition logCreate where
  "logCreate env entityType entityId afterState transactionHash reason =
     auditService_log env Audit_CREATE entityType entityId JNull afterState transactionHash reason"

definition logUpdate where
  "logUpdate env entityType entityId beforeState afterState transactionHash reason =
     auditService_log env Audit_UPDATE entityType entityId beforeState afterState transactionHash reason"

definition logDelete where
  "logDelete env entityType entityId beforeState transactionHash reason =
     auditService_log env Audit_DELETE entityType entityId beforeState JNull transactionHash reason"

definition logApprove where
  "logApprove env entityType entityId beforeState afterState transactionHash reason =
     auditService_log env Audit_APPROVE entityType entityId beforeState afterState transactionHash reason"

definition logReject where
  "logReject env entityType entityId beforeState afterState reason =
     auditService_log env Audit_REJECT entityType entityId beforeState afterState None reason"

definition logPayout where
  "logPayout env entityType entityId beforeState afterState transactionHash reason =
     auditService_log env Audit_PAYOUT entityType entityId beforeState afterState transactionHash reason"

definition logPurchase where
  "logPurchase env entityType entityId afterState transactionHash reason =
     auditService_log env Audit_PURCHASE entityType entityId JNull afterState transactionHash reason"

definition logUnlockCapital where
  "logUnlockCapital env entityType entityId beforeState afterState transactionHash reason =
     auditService_log env Audit_UNLOCK_CAPITAL entityType entityId beforeState afterState transactionHash reason"

definition logAddCapital where
  "logAddCapital env entityType entityId beforeState afterState transactionHash reason =
     auditService_log env Audit_ADD_CAPITAL entityType entityId beforeState afterState transactionHash reason"

lemmas audit_methods = logCreate_def logUpdate_def logDelete_def logApprove_def logReject_def
  logPayout_def logPurchase_def logUnlockCapital_def logAddCapital_def

text \<open>\<open>snapshotDiff\<close>: both sides redacted, then through \<open>toAuditState\<close>, which redacts again.\<close>

fun spreadObject :: "jsval \<Rightarrow> jsval" where
  "spreadObject (JObj ms) = JObj ms"
| "spreadObject _ = JObj []"

definition snapshotDiff :: "env \<Rightarrow> jsval \<Rightarrow> jsval \<Rightarrow> error + jsval \<times> jsval" where
  "snapshotDiff env before after =
    (case toAuditState env (redactValue (entriesOf env) 0 (spreadObject before)) of
       Inl e \<Rightarrow> Inl e
     | Inr b \<Rightarrow> (case toAuditState env (redactValue (entriesOf env) 0 (spreadObject after)) of
         Inl e \<Rightarrow> Inl e | Inr a \<Rightarrow> Inr (b, a)))"

section \<open>What an audit call does\<close>

text \<open>The constraints of the audit table (a foreign key to the requesting user) accept this request's rows.\<close>

definition auditAccepts :: "env \<Rightarrow> bool" where
  "auditAccepts env \<longleftrightarrow>
     (\<forall>r t. au_userId r = reqUser env \<longrightarrow> violates (auditLogE (prisma env)) r t = None)"

lemma memoryEnv_audit [simp]: "auditAccepts memoryEnv"
  by (simp add: auditAccepts_def memoryEnv_def memoryClient_def tableEngine_def noConstraint_def)

lemma noBig_rows [simp]:
  "noBig (poolJs p)" "noBig (policyJs q)" "noBig (claimJs r)" "noBig (claimWithPolicyJs cp)" "noBig (contractJs k)"
  by (auto simp: poolJs_def policyJs_def claimJs_def claimMembers_def claimWithPolicyJs_def contractJs_def
      orNull_def split: option.splits)

lemma rows_defined [simp]:
  "poolJs p \<noteq> JUndef" "policyJs q \<noteq> JUndef" "claimJs r \<noteq> JUndef" "claimWithPolicyJs cp \<noteq> JUndef"
  "contractJs k \<noteq> JUndef"
  by (simp_all add: poolJs_def policyJs_def claimJs_def claimWithPolicyJs_def contractJs_def)

text \<open>An audit call touches no table but its own, whatever its outcome.\<close>

lemma auditService_log_frame:
  assumes "runtime env"
  shows "\<exists>l. snd (auditService_log env act ty i b a h r s) = s\<lparr>auditLogs := l\<rparr>"
proof -
  have same: "\<exists>l. s = s\<lparr>auditLogs := l\<rparr>" by (rule exI [of _ "auditLogs s"]) simp
  show ?thesis
    using assms same
    by (auto simp: auditService_log_def createLog_def bindM_def zoom_def Let_def
        split: sum.split option.split)
qed

text \<open>The row a successful call appends.\<close>

definition auditEntry where
  "auditEntry env act ty i b a h r s =
     newRow (rowOf (auditRow env act ty i (projr (toAuditState env b)) (projr (toAuditState env a)) h r))
       (genId (auditLogE (prisma env)) (auditLogs s))"

lemma auditEntry_fields [simp]:
  "au_action (auditEntry env act ty i b a h r s) = act"
  "au_entityType (auditEntry env act ty i b a h r s) = ty"
  "au_entityId (auditEntry env act ty i b a h r s) = i"
  "au_userId (auditEntry env act ty i b a h r s) = reqUser env"
  "au_reason (auditEntry env act ty i b a h r s) = r"
  "au_timestamp (auditEntry env act ty i b a h r s) = now env"
  by (simp_all add: auditEntry_def auditRow_def newRow_def rowOf_def)

lemma auditService_log_Inr:
  assumes "runtime env" "auditService_log env act ty i b a h r s = (Inr u, s')"
  shows "s' = s\<lparr>auditLogs := auditLogs s @ [auditEntry env act ty i b a h r s]\<rparr>"
  using assms
  by (auto simp: auditService_log_def createLog_def bindM_def zoom_def Let_def auditEntry_def
      split: sum.splits option.splits prod.splits)

context runtime
begin

lemma toAuditState_ok:
  assumes "noBig v"
  shows "\<exists>w. toAuditState env v = Inr w"
  using jsonClone_redacted [of "entriesOf env" v "toJSON env" 0] entries_ok assms
  by (auto simp: toAuditState_def)

lemma auditService_log_run:
  assumes "auditAccepts env" "noBig b" "noBig a"
  shows "auditService_log env act ty i b a h r s =
    (Inr (), s\<lparr>auditLogs := auditLogs s @ [auditEntry env act ty i b a h r s]\<rparr>)"
proof -
  obtain b' a' where ba: "toAuditState env b = Inr b'" "toAuditState env a = Inr a'"
    using toAuditState_ok assms(2,3) by blast
  let ?row = "newRow (rowOf (auditRow env act ty i b' a' h r)) (genId (auditLogE (prisma env)) (auditLogs s))"
  have "violates (auditLogE (prisma env)) ?row (auditLogs s) = None"
    using assms(1) by (simp add: auditAccepts_def newRow_def rowOf_def auditRow_def)
  then show ?thesis
    by (simp add: ba auditService_log_def createLog_def bindM_def zoom_def Let_def auditEntry_def)
qed

end

lemmas audit_run = runtime.auditService_log_run

end
