(* ===== verification/Pool.thy ===== *)
theory Pool
  imports AuditTrail
begin

text \<open>
  \<open>insurance/pool.service.ts\<close>, \<open>insurance/pricing.service.ts\<close> and
  \<open>InsurancePoolRepository\<close>: capital added to, locked in and unlocked from a pool.
  The abstract view of the component is a ledger from pool identifiers to the pair of
  capital and locked capital; the lemmas \<open>ledger_add\<close>, \<open>ledger_lock\<close> and
  \<open>ledger_unlock\<close> show that each service method is one ledger step.
\<close>

section \<open>InsurancePoolRepository\<close>

definition findByIdRequired :: "env \<Rightarrow> string \<Rightarrow> (db, insurance_pool option) sm" where
  "findByIdRequired env i = zoom insurancePools insurancePools_update
     (d_findUnique (insurancePoolE (prisma env)) (now env) (whereOf (\<lambda>r. rowId r = i)))"

definition incrementCapital :: "env \<Rightarrow> string \<Rightarrow> rat \<Rightarrow> (db, insurance_pool) sm" where
  "incrementCapital env i amount = zoom insurancePools insurancePools_update
     (d_update (insurancePoolE (prisma env)) (now env) (whereOf (\<lambda>r. rowId r = i))
        (setOf (\<lambda>r. r\<lparr>capital := capital r + amount\<rparr>)))"

definition incrementLockedCapital :: "env \<Rightarrow> string \<Rightarrow> rat \<Rightarrow> (db, insurance_pool) sm" where
  "incrementLockedCapital env i amount = zoom insurancePools insurancePools_update
     (d_update (insurancePoolE (prisma env)) (now env) (whereOf (\<lambda>r. rowId r = i))
        (setOf (\<lambda>r. r\<lparr>lockedCapital := lockedCapital r + amount\<rparr>)))"

definition decrementLockedCapital :: "env \<Rightarrow> string \<Rightarrow> rat \<Rightarrow> (db, insurance_pool) sm" where
  "decrementLockedCapital env i amount = zoom insurancePools insurancePools_update
     (d_update (insurancePoolE (prisma env)) (now env) (whereOf (\<lambda>r. rowId r = i))
        (setOf (\<lambda>r. r\<lparr>lockedCapital := lockedCapital r - amount\<rparr>)))"

section \<open>PoolService\<close>

text \<open>\<open>tx ? execute(tx) : prisma.$transaction(execute)\<close>\<close>

definition withTx :: "bool \<Rightarrow> ('s, 'a) sm \<Rightarrow> ('s, 'a) sm" where
  "withTx tx execute = (if tx then execute else transaction execute)"

definition addCapital :: "env \<Rightarrow> string \<Rightarrow> rat \<Rightarrow> bool \<Rightarrow> (db, insurance_pool) sm" where
  "addCapital env poolId amount tx =
    (if amount \<le> 0 then throwM (BadRequestException ''Amount must be positive'')
     else withTx tx
       (bindM (findByIdRequired env poolId) (\<lambda>found.
        case found of
          None \<Rightarrow> throwM (NotFoundException (''Pool '' @ poolId @ '' not found''))
        | Some pool \<Rightarrow>
            bindM (incrementCapital env poolId amount) (\<lambda>updatedPool.
            bindM (logAddCapital env ''InsurancePool'' poolId (poolJs pool) (poolJs updatedPool) None None) (\<lambda>_.
            returnM updatedPool)))))"

definition lockCapital :: "env \<Rightarrow> string \<Rightarrow> rat \<Rightarrow> bool \<Rightarrow> (db, insurance_pool) sm" where
  "lockCapital env poolId amount tx =
    (if amount \<le> 0 then throwM (BadRequestException ''Amount must be positive'')
     else withTx tx
       (bindM (findByIdRequired env poolId) (\<lambda>found.
        case found of
          None \<Rightarrow> throwM (NotFoundException (''Pool '' @ poolId @ '' not found''))
        | Some pool \<Rightarrow>
            bindM (incrementLockedCapital env poolId amount) (\<lambda>updatedPool.
            bindM (logUpdate env ''InsurancePool'' poolId (poolJs pool) (poolJs updatedPool) None None) (\<lambda>_.
            returnM updatedPool)))))"

definition unlockCapital :: "env \<Rightarrow> string \<Rightarrow> rat \<Rightarrow> bool \<Rightarrow> (db, insurance_pool) sm" where
  "unlockCapital env poolId amount tx =
    (if amount \<le> 0 then throwM (BadRequestException ''Amount must be positive'')
     else withTx tx
       (bindM (findByIdRequired env poolId) (\<lambda>found.
        case found of
          None \<Rightarrow> throwM (NotFoundException (''Pool '' @ poolId @ '' not found''))
        | Some pool \<Rightarrow>
            bindM (decrementLockedCapital env poolId amount) (\<lambda>updatedPool.
            if capital updatedPool - lockedCapital updatedPool < 0
            then throwM (BadRequestException ''Unlocking capital would violate availableCapital invariant'')
            else bindM (logUnlockCapital env ''InsurancePool'' poolId (poolJs pool) (poolJs updatedPool) None None) (\<lambda>_.
            returnM updatedPool)))))"

section \<open>PricingService\<close>

fun baseRate :: "RiskType \<Rightarrow> rat" where
  "baseRate PROJECT_FAILURE = 5 / 100"
| "baseRate SMART_CONTRACT_EXPLOIT = 8 / 100"
| "baseRate MARKET_VOLATILITY = 3 / 100"

definition calculatePremium :: "RiskType \<Rightarrow> rat \<Rightarrow> rat" where
  "calculatePremium riskType coverageAmount = baseRate riskType * coverageAmount"

section \<open>What the operations do\<close>

definition poolOf :: "db \<Rightarrow> string \<Rightarrow> insurance_pool option" where
  "poolOf s i = find (live (\<lambda>r. rowId r = i)) (insurancePools s)"

definition setPool :: "string \<Rightarrow> (insurance_pool \<Rightarrow> insurance_pool) \<Rightarrow> db \<Rightarrow> db" where
  "setPool i f s = s\<lparr>insurancePools := updateFirst (live (\<lambda>r. rowId r = i)) f (insurancePools s)\<rparr>"

definition addAudit where
  "addAudit env act ty i b a h r s = s\<lparr>auditLogs := auditLogs s @ [auditEntry env act ty i b a h r s]\<rparr>"

lemma poolRepository_runs [simp]:
  assumes "runtime env"
  shows "findByIdRequired env i s = (Inr (poolOf s i), s)"
    and "incrementCapital env i a s =
      (case poolOf s i of None \<Rightarrow> (Inl (PrismaException (PrismaClientKnownRequestError ''P2025'')), s)
       | Some p \<Rightarrow> (Inr (p\<lparr>capital := capital p + a\<rparr>), setPool i (\<lambda>r. r\<lparr>capital := capital r + a\<rparr>) s))"
    and "incrementLockedCapital env i a s =
      (case poolOf s i of None \<Rightarrow> (Inl (PrismaException (PrismaClientKnownRequestError ''P2025'')), s)
       | Some p \<Rightarrow> (Inr (p\<lparr>lockedCapital := lockedCapital p + a\<rparr>),
                    setPool i (\<lambda>r. r\<lparr>lockedCapital := lockedCapital r + a\<rparr>) s))"
    and "decrementLockedCapital env i a s =
      (case poolOf s i of None \<Rightarrow> (Inl (PrismaException (PrismaClientKnownRequestError ''P2025'')), s)
       | Some p \<Rightarrow> (Inr (p\<lparr>lockedCapital := lockedCapital p - a\<rparr>),
                    setPool i (\<lambda>r. r\<lparr>lockedCapital := lockedCapital r - a\<rparr>) s))"
  using assms
  by (auto simp: findByIdRequired_def incrementCapital_def incrementLockedCapital_def
      decrementLockedCapital_def zoom_def poolOf_def setPool_def split: option.splits)

lemma poolOf_setPool [simp]:
  assumes "\<And>r. rowId (f r) = rowId r" "\<And>r. deletedAt (f r) = deletedAt r"
  shows "poolOf (setPool i f s) j = (if j = i then map_option f (poolOf s i) else poolOf s j)"
  using assms by (simp add: poolOf_def setPool_def find_live_updateFirst)

lemma setPool_frame [simp]:
  "insurancePolicies (setPool i f s) = insurancePolicies s" "claims (setPool i f s) = claims s"
  "users (setPool i f s) = users s" "auditLogs (setPool i f s) = auditLogs s"
  "reputationHistories (setPool i f s) = reputationHistories s"
  "notifications (setPool i f s) = notifications s"
  "notificationSettings (setPool i f s) = notificationSettings s"
  "emailOutboxes (setPool i f s) = emailOutboxes s"
  "reinsuranceContracts (setPool i f s) = reinsuranceContracts s"
  by (simp_all add: setPool_def)

lemma addAudit_frame [simp]:
  "poolOf (addAudit env act ty k b a h r s) j = poolOf s j"
  "insurancePools (addAudit env act ty k b a h r s) = insurancePools s"
  "insurancePolicies (addAudit env act ty k b a h r s) = insurancePolicies s"
  "claims (addAudit env act ty k b a h r s) = claims s"
  "users (addAudit env act ty k b a h r s) = users s"
  "reputationHistories (addAudit env act ty k b a h r s) = reputationHistories s"
  "notifications (addAudit env act ty k b a h r s) = notifications s"
  "notificationSettings (addAudit env act ty k b a h r s) = notificationSettings s"
  "emailOutboxes (addAudit env act ty k b a h r s) = emailOutboxes s"
  "reinsuranceContracts (addAudit env act ty k b a h r s) = reinsuranceContracts s"
  "auditLogs (addAudit env act ty k b a h r s) = auditLogs s @ [auditEntry env act ty k b a h r s]"
  by (simp_all add: addAudit_def poolOf_def)

lemma auditService_log_add:
  assumes "runtime env" "auditAccepts env" "noBig b" "noBig a"
  shows "auditService_log env act ty i b a h r s = (Inr (), addAudit env act ty i b a h r s)"
  using audit_run [OF assms] by (simp add: addAudit_def)

lemma auditService_log_add_Inr:
  assumes "runtime env" "auditService_log env act ty i b a h r s = (Inr u, s')"
  shows "s' = addAudit env act ty i b a h r s"
  using auditService_log_Inr [OF assms] by (simp add: addAudit_def)

text \<open>The exact result of each pool operation, on every branch.\<close>

lemma addCapital_run:
  assumes "runtime env" "auditAccepts env"
  shows "addCapital env i a tx s =
    (if a \<le> 0 then (Inl (BadRequestException ''Amount must be positive''), s)
     else case poolOf s i of
       None \<Rightarrow> (Inl (NotFoundException (''Pool '' @ i @ '' not found'')), s)
     | Some p \<Rightarrow> (let p' = p\<lparr>capital := capital p + a\<rparr> in
         (Inr p', addAudit env Audit_ADD_CAPITAL ''InsurancePool'' i (poolJs p) (poolJs p') None None
                    (setPool i (\<lambda>r. r\<lparr>capital := capital r + a\<rparr>) s))))"
  using assms
  by (simp add: addCapital_def withTx_def transaction_def bindM_def logAddCapital_def
      auditService_log_add Let_def split: option.split)

lemma lockCapital_run:
  assumes "runtime env" "auditAccepts env"
  shows "lockCapital env i a tx s =
    (if a \<le> 0 then (Inl (BadRequestException ''Amount must be positive''), s)
     else case poolOf s i of
       None \<Rightarrow> (Inl (NotFoundException (''Pool '' @ i @ '' not found'')), s)
     | Some p \<Rightarrow> (let p' = p\<lparr>lockedCapital := lockedCapital p + a\<rparr> in
         (Inr p', addAudit env Audit_UPDATE ''InsurancePool'' i (poolJs p) (poolJs p') None None
                    (setPool i (\<lambda>r. r\<lparr>lockedCapital := lockedCapital r + a\<rparr>) s))))"
  using assms
  by (simp add: lockCapital_def withTx_def transaction_def bindM_def logUpdate_def
      auditService_log_add Let_def split: option.split)

lemma unlockCapital_run:
  assumes "runtime env" "auditAccepts env"
  shows "unlockCapital env i a tx s =
    (if a \<le> 0 then (Inl (BadRequestException ''Amount must be positive''), s)
     else case poolOf s i of
       None \<Rightarrow> (Inl (NotFoundException (''Pool '' @ i @ '' not found'')), s)
     | Some p \<Rightarrow> (let p' = p\<lparr>lockedCapital := lockedCapital p - a\<rparr>;
                      s' = setPool i (\<lambda>r. r\<lparr>lockedCapital := lockedCapital r - a\<rparr>) s in
         if capital p < lockedCapital p - a
         then (Inl (BadRequestException ''Unlocking capital would violate availableCapital invariant''),
               if tx then s' else s)
         else (Inr p', addAudit env Audit_UNLOCK_CAPITAL ''InsurancePool'' i (poolJs p) (poolJs p') None None s')))"
  using assms
  by (simp add: unlockCapital_def withTx_def transaction_def bindM_def logUnlockCapital_def
      auditService_log_add Let_def split: option.split)

text \<open>What a pool operation that returned has done, without any assumption on the audit table.\<close>

lemma addCapital_Inr:
  assumes "runtime env" "addCapital env i a tx s = (Inr p', s')"
  obtains p where "0 < a" "poolOf s i = Some p" "p' = p\<lparr>capital := capital p + a\<rparr>"
    "s' = addAudit env Audit_ADD_CAPITAL ''InsurancePool'' i (poolJs p) (poolJs p') None None
            (setPool i (\<lambda>r. r\<lparr>capital := capital r + a\<rparr>) s)"
  using assms
  by (auto simp: addCapital_def withTx_def transaction_def bindM_def logAddCapital_def
      split: option.splits if_splits prod.splits sum.splits dest!: auditService_log_add_Inr [OF assms(1)])

lemma lockCapital_Inr:
  assumes "runtime env" "lockCapital env i a tx s = (Inr p', s')"
  obtains p where "0 < a" "poolOf s i = Some p" "p' = p\<lparr>lockedCapital := lockedCapital p + a\<rparr>"
    "s' = addAudit env Audit_UPDATE ''InsurancePool'' i (poolJs p) (poolJs p') None None
            (setPool i (\<lambda>r. r\<lparr>lockedCapital := lockedCapital r + a\<rparr>) s)"
  using assms
  by (auto simp: lockCapital_def withTx_def transaction_def bindM_def logUpdate_def
      split: option.splits if_splits prod.splits sum.splits dest!: auditService_log_add_Inr [OF assms(1)])

lemma unlockCapital_Inr:
  assumes "runtime env" "unlockCapital env i a tx s = (Inr p', s')"
  obtains p where "0 < a" "poolOf s i = Some p" "p' = p\<lparr>lockedCapital := lockedCapital p - a\<rparr>"
    "lockedCapital p - a \<le> capital p"
    "s' = addAudit env Audit_UNLOCK_CAPITAL ''InsurancePool'' i (poolJs p) (poolJs p') None None
            (setPool i (\<lambda>r. r\<lparr>lockedCapital := lockedCapital r - a\<rparr>) s)"
  using assms
  by (auto simp: unlockCapital_def withTx_def transaction_def bindM_def logUnlockCapital_def
      split: option.splits if_splits prod.splits sum.splits dest!: auditService_log_add_Inr [OF assms(1)])

section \<open>The abstract ledger\<close>

type_synonym ledger = "string \<Rightarrow> (rat \<times> rat) option"

definition ledgerOf :: "db \<Rightarrow> ledger" where
  "ledgerOf s i = map_option (\<lambda>p. (capital p, lockedCapital p)) (poolOf s i)"

definition ledgerStep :: "(rat \<times> rat \<Rightarrow> rat \<times> rat) \<Rightarrow> string \<Rightarrow> ledger \<Rightarrow> ledger" where
  "ledgerStep f i l = (case l i of None \<Rightarrow> l | Some x \<Rightarrow> l(i \<mapsto> f x))"

definition lockStep :: "rat \<Rightarrow> string \<Rightarrow> ledger \<Rightarrow> ledger" where
  "lockStep a = ledgerStep (\<lambda>(c, l). (c, l + a))"

definition unlockStep :: "rat \<Rightarrow> string \<Rightarrow> ledger \<Rightarrow> ledger" where
  "unlockStep a = ledgerStep (\<lambda>(c, l). (c, l - a))"

lemma unlock_lockStep [simp]: "unlockStep a i (lockStep a i l) = l"
  by (auto simp: unlockStep_def lockStep_def ledgerStep_def fun_eq_iff split: option.split)

text \<open>The tables the clients of the pool service own.\<close>

definition clientTables where
  "clientTables s = (insurancePolicies s, claims s, users s, reputationHistories s,
     notifications s, notificationSettings s, emailOutboxes s, reinsuranceContracts s)"

lemma clientTables_simps [simp]:
  "clientTables (setPool i f s) = clientTables s" "clientTables (addAudit env act ty k b a h r s) = clientTables s"
  by (simp_all add: clientTables_def)

text \<open>
  The interface the policy and claim services use: whenever an operation of the
  provider returns, it has made exactly its step on the ledger, and it leaves the
  tables of its clients alone.
\<close>

locale capital_ledger =
  fixes lock unlock :: "string \<Rightarrow> rat \<Rightarrow> (db, insurance_pool) sm"
  assumes lock_step: "lock i a s = (Inr p, s') \<Longrightarrow>
      0 < a \<and> ledgerOf s i \<noteq> None \<and> ledgerOf s' = lockStep a i (ledgerOf s) \<and> clientTables s' = clientTables s"
    and unlock_step: "unlock i a s = (Inr p, s') \<Longrightarrow>
      0 < a \<and> ledgerOf s i \<noteq> None \<and> ledgerOf s' = unlockStep a i (ledgerOf s) \<and> clientTables s' = clientTables s"
begin

lemma lock_unlock:
  assumes "lock i a s = (Inr p, s1)" "ledgerOf s1 = ledgerOf s2" "unlock i a s2 = (Inr q, s3)"
  shows "ledgerOf s3 = ledgerOf s"
  using lock_step [OF assms(1)] unlock_step [OF assms(3)] assms(2) by (metis unlock_lockStep)

end

text \<open>With an audit table that accepts the rows, the operations also return.\<close>

locale total_capital_ledger = capital_ledger +
  assumes lock_total: "0 < a \<Longrightarrow> ledgerOf s i \<noteq> None \<Longrightarrow> \<exists>p s'. lock i a s = (Inr p, s')"
    and unlock_total: "0 < a \<Longrightarrow> ledgerOf s i = Some (c, l) \<Longrightarrow> l - a \<le> c \<Longrightarrow>
      \<exists>p s'. unlock i a s = (Inr p, s')"
begin

lemma lock_then_unlock:
  assumes "lock i a s = (Inr p, s1)" "ledgerOf s i = Some (c, l)" "l \<le> c"
  shows "\<exists>q s2. unlock i a s1 = (Inr q, s2) \<and> ledgerOf s2 = ledgerOf s"
proof -
  have "0 < a" "ledgerOf s1 i = Some (c, l + a)"
    using lock_step [OF assms(1)] assms(2) by (auto simp: lockStep_def ledgerStep_def)
  then obtain q s2 where "unlock i a s1 = (Inr q, s2)"
    using assms(3) unlock_total [of a s1 i c "l + a"] by auto
  with lock_unlock [OF assms(1) refl] show ?thesis by blast
qed

end

lemma ledgerOf_setPool:
  assumes "\<And>r. rowId (f r) = rowId r" "\<And>r. deletedAt (f r) = deletedAt r"
    and "\<And>r. (capital (f r), lockedCapital (f r)) = g (capital r, lockedCapital r)"
  shows "ledgerOf (setPool i f s) = ledgerStep g i (ledgerOf s)"
  using assms
  by (auto simp: fun_eq_iff ledgerOf_def ledgerStep_def split: option.splits)

lemma ledgerOf_lock [simp]:
  "ledgerOf (setPool i (\<lambda>r. r\<lparr>lockedCapital := lockedCapital r + a\<rparr>) s) = lockStep a i (ledgerOf s)"
  unfolding lockStep_def by (rule ledgerOf_setPool) simp_all

lemma ledgerOf_unlock [simp]:
  "ledgerOf (setPool i (\<lambda>r. r\<lparr>lockedCapital := lockedCapital r - a\<rparr>) s) = unlockStep a i (ledgerOf s)"
  unfolding unlockStep_def by (rule ledgerOf_setPool) simp_all

lemma ledgerOf_addAudit [simp]: "ledgerOf (addAudit env act ty k b a h r s) = ledgerOf s"
  by (simp add: fun_eq_iff ledgerOf_def)

lemma ledgerOf_Some: "poolOf s i = Some p \<Longrightarrow> ledgerOf s i = Some (capital p, lockedCapital p)"
  by (simp add: ledgerOf_def)

lemma addCapital_ledger:
  assumes "runtime env" "addCapital env i a tx s = (Inr p, s')"
  shows "0 < a \<and> ledgerOf s' = ledgerStep (\<lambda>(c, l). (c + a, l)) i (ledgerOf s) \<and> clientTables s' = clientTables s"
  by (rule addCapital_Inr [OF assms]) (simp add: ledgerOf_setPool)

lemma pool_ledger:
  assumes "runtime env"
  shows "capital_ledger (\<lambda>i a. lockCapital env i a tx) (\<lambda>i a. unlockCapital env i a tx)"
proof
  fix i and a :: rat and s p s'
  assume "lockCapital env i a tx s = (Inr p, s')"
  then show "0 < a \<and> ledgerOf s i \<noteq> None \<and> ledgerOf s' = lockStep a i (ledgerOf s) \<and> clientTables s' = clientTables s"
    by (rule lockCapital_Inr [OF assms]) (simp add: ledgerOf_Some)
next
  fix i and a :: rat and s p s'
  assume "unlockCapital env i a tx s = (Inr p, s')"
  then show "0 < a \<and> ledgerOf s i \<noteq> None \<and> ledgerOf s' = unlockStep a i (ledgerOf s) \<and> clientTables s' = clientTables s"
    by (rule unlockCapital_Inr [OF assms]) (simp add: ledgerOf_Some)
qed

lemma unlockCapital_effect:
  assumes "runtime env" "unlockCapital env i a tx s = (Inr p, s')"
  shows "0 < a \<and> ledgerOf s' = unlockStep a i (ledgerOf s) \<and> insurancePolicies s' = insurancePolicies s \<and>
    claims s' = claims s \<and> users s' = users s \<and>
    map au_action (auditLogs s') = map au_action (auditLogs s) @ [Audit_UNLOCK_CAPITAL]"
  by (rule unlockCapital_Inr [OF assms]) simp

lemma lockCapital_effect:
  assumes "runtime env" "lockCapital env i a tx s = (Inr p, s')"
  shows "0 < a \<and> ledgerOf s i \<noteq> None \<and> ledgerOf s' = lockStep a i (ledgerOf s) \<and>
    insurancePolicies s' = insurancePolicies s \<and> claims s' = claims s \<and> users s' = users s \<and>
    map au_action (auditLogs s') = map au_action (auditLogs s) @ [Audit_UPDATE]"
  by (rule lockCapital_Inr [OF assms]) (simp add: ledgerOf_Some)

lemma pool_ledger_total:
  assumes "runtime env" "auditAccepts env"
  shows "total_capital_ledger (\<lambda>i a. lockCapital env i a tx) (\<lambda>i a. unlockCapital env i a tx)"
proof (rule total_capital_ledger.intro [OF pool_ledger [OF assms(1)]], unfold_locales)
  fix i and a :: rat and s
  assume "0 < a" "ledgerOf s i \<noteq> None"
  then show "\<exists>p s'. lockCapital env i a tx s = (Inr p, s')"
    by (auto simp: lockCapital_run [OF assms] ledgerOf_def Let_def)
next
  fix i and a :: rat and s c l
  assume "0 < a" "ledgerOf s i = Some (c, l)" "l - a \<le> c"
  then show "\<exists>p s'. unlockCapital env i a tx s = (Inr p, s')"
    by (auto simp: unlockCapital_run [OF assms] ledgerOf_def Let_def)
qed

interpretation memory_pool: total_capital_ledger
  "\<lambda>i a. lockCapital memoryEnv i a tx" "\<lambda>i a. unlockCapital memoryEnv i a tx" for tx
  by (rule pool_ledger_total) simp_all

section \<open>Properties\<close>

text \<open>A small database for the witnesses: one pool with capital 100, nothing locked.\<close>

definition samplePool :: insurance_pool where
  "samplePool = \<lparr>rowId = ''pool-1'', deletedAt = None, pool_name = ''p'', capital = 100, lockedCapital = 0\<rparr>"

definition sampleDb :: db where
  "sampleDb = emptyDb\<lparr>insurancePools := [samplePool]\<rparr>"

lemma sampleDb_pool [simp]: "poolOf sampleDb ''pool-1'' = Some samplePool"
  by (simp add: poolOf_def sampleDb_def samplePool_def live_def)



text \<open>
  Every branch of \<open>unlockCapital\<close> on its own connection: a non-positive amount and an
  unknown pool are rejected, an amount that would leave the pool with more locked than
  it has is rejected, and in each of these cases the database is left exactly as it was;
  otherwise the call succeeds.
\<close>

theorem unlockCapital_branches:
  assumes "runtime env" "auditAccepts env"
  shows "(a \<le> 0 \<longrightarrow> unlockCapital env i a False s = (Inl (BadRequestException ''Amount must be positive''), s))
    \<and> (0 < a \<and> poolOf s i = None \<longrightarrow>
        unlockCapital env i a False s = (Inl (NotFoundException (''Pool '' @ i @ '' not found'')), s))
    \<and> (0 < a \<and> poolOf s i = Some p \<and> capital p < lockedCapital p - a \<longrightarrow> unlockCapital env i a False s =
        (Inl (BadRequestException ''Unlocking capital would violate availableCapital invariant''), s))
    \<and> (0 < a \<and> poolOf s i = Some p \<and> lockedCapital p - a \<le> capital p \<longrightarrow>
        fst (unlockCapital env i a False s) = Inr (p\<lparr>lockedCapital := lockedCapital p - a\<rparr>))"
  using assms by (auto simp: unlockCapital_run Let_def)

theorem unlockCapital_branches_witness:
  "fst (unlockCapital memoryEnv ''pool-1'' 30 False sampleDb) = Inr (samplePool\<lparr>lockedCapital := - 30\<rparr>)"
  using unlockCapital_branches [of memoryEnv 30 "''pool-1''" sampleDb samplePool]
  by (simp add: samplePool_def [symmetric]) (simp add: samplePool_def)

text \<open>
  \<open>lockCapital\<close> never compares the amount with the available capital: for every pool
  and every positive amount, however large, it succeeds, and an amount above the
  available capital leaves the pool over-committed.
\<close>

theorem lockCapital_overcommits:
  assumes "runtime env" "auditAccepts env" "poolOf s i = Some p" "0 < a" "capital p - lockedCapital p < a"
  shows "\<exists>p' s'. lockCapital env i a tx s = (Inr p', s') \<and> poolOf s' i = Some p' \<and> capital p' < lockedCapital p'"
  using assms by (simp add: lockCapital_run Let_def)

theorem lockCapital_overcommits_witness:
  "\<exists>p' s'. lockCapital memoryEnv ''pool-1'' 500 True sampleDb = (Inr p', s') \<and>
     poolOf s' ''pool-1'' = Some p' \<and> capital p' < lockedCapital p'"
  by (rule lockCapital_overcommits [where p = samplePool]) (simp_all add: samplePool_def)

end
