(* ===== verification/Reputation.thy ===== *)
theory Reputation
  imports Pool "HOL-Library.Multiset"
begin

text \<open>
  The reputation component: the pure calculators of \<open>reputation/calculators\<close>, the
  \<open>ReputationRepository\<close> and \<open>ReputationService\<close>. Floating-point quantities of the
  factor calculators are real numbers; timestamps are milliseconds.
\<close>

section \<open>Constants\<close>

datatype ActivityType =
    SUCCESSFUL_TRANSACTION | FAILED_TRANSACTION | PEER_RATING | COMMUNITY_REVIEW
  | DISPUTE_WON | DISPUTE_LOST | HIGH_VALUE_CONTRIBUTION

definition CLAIM_APPROVED_DELTA :: int where "CLAIM_APPROVED_DELTA = 10"
definition CLAIM_REJECTED_DELTA :: int where "CLAIM_REJECTED_DELTA = - 5"
definition FRAUD_DETECTED_DELTA :: int where "FRAUD_DETECTED_DELTA = - 20"
definition CONTRIBUTION_SUCCESS_DELTA :: int where "CONTRIBUTION_SUCCESS_DELTA = 5"
definition MILESTONE_APPROVED_DELTA :: int where "MILESTONE_APPROVED_DELTA = 15"
definition MILESTONE_REJECTED_DELTA :: int where "MILESTONE_REJECTED_DELTA = - 10"
definition INITIAL_REPUTATION :: int where "INITIAL_REPUTATION = 50"

section \<open>Time decay\<close>

definition timeDecayWeight :: "int \<Rightarrow> int \<Rightarrow> real \<Rightarrow> real" where
  "timeDecayWeight happened tm halfLifeDays =
    (let ageDays = max 0 (of_int (tm - happened) / 86400000) in 2 powr (- ageDays / halfLifeDays))"

definition DECAY_HALF_LIFE_DAYS :: real where
  "DECAY_HALF_LIFE_DAYS = 180"

section \<open>Factor calculators\<close>

record ReputationActivity =
  activityType :: ActivityType
  activityValue :: real
  occurredAt :: int

definition clamp :: "real \<Rightarrow> real" where
  "clamp value = max 0 (min 100 value)"

definition round2 :: "real \<Rightarrow> real" where
  "round2 value = of_int \<lfloor>value * 100 + 1 / 2\<rfloor> / 100"

definition weightOf :: "int \<Rightarrow> ReputationActivity \<Rightarrow> real" where
  "weightOf tm a = timeDecayWeight (occurredAt a) tm DECAY_HALF_LIFE_DAYS"

definition calcSuccessRateScore :: "ReputationActivity list \<Rightarrow> int \<Rightarrow> real" where
  "calcSuccessRateScore activities tm =
    (let transactions = filter (\<lambda>a. activityType a \<in> {SUCCESSFUL_TRANSACTION, FAILED_TRANSACTION}) activities;
         weightedTotal = sum_list (map (weightOf tm) transactions);
         weightedSuccess = sum_list (map (weightOf tm)
           (filter (\<lambda>a. activityType a = SUCCESSFUL_TRANSACTION) transactions))
     in if transactions = [] then 50
        else if weightedTotal = 0 then 50
        else clamp (weightedSuccess / weightedTotal * 100))"

definition calcPeerRatingScore :: "ReputationActivity list \<Rightarrow> int \<Rightarrow> real" where
  "calcPeerRatingScore activities tm =
    (let ratings = filter (\<lambda>a. activityType a = PEER_RATING) activities;
         weightedSum = sum_list (map (\<lambda>r. activityValue r * weightOf tm r) ratings);
         weightedTotal = sum_list (map (weightOf tm) ratings)
     in if ratings = [] then 50
        else if weightedTotal = 0 then 50
        else clamp ((weightedSum / weightedTotal - 1) / 4 * 100))"

definition calcContributionSizeScore :: "ReputationActivity list \<Rightarrow> int \<Rightarrow> real" where
  "calcContributionSizeScore activities tm =
    (let relevant = filter (\<lambda>a. activityType a \<in> {SUCCESSFUL_TRANSACTION, HIGH_VALUE_CONTRIBUTION}) activities;
         weightedValue = sum_list (map (\<lambda>a. activityValue a * weightOf tm a) relevant)
     in if relevant = [] then 0
        else clamp (log 10 (1 + weightedValue) / log 10 (1 + 10000) * 100))"

definition calcCommunityFeedbackScore :: "ReputationActivity list \<Rightarrow> int \<Rightarrow> real" where
  "calcCommunityFeedbackScore activities tm =
    (let reviews = filter (\<lambda>a. activityType a = COMMUNITY_REVIEW) activities;
         disputes = filter (\<lambda>a. activityType a = DISPUTE_WON \<or> activityType a = DISPUTE_LOST) activities;
         wSum = sum_list (map (\<lambda>r. activityValue r * weightOf tm r) reviews);
         wTotal = sum_list (map (weightOf tm) reviews);
         reviewScore = (if reviews \<noteq> [] then (if wTotal > 0 then clamp ((wSum / wTotal - 1) / 4 * 100) else 50) else 50);
         wWon = sum_list (map (weightOf tm) (filter (\<lambda>d. activityType d = DISPUTE_WON) disputes));
         wLost = sum_list (map (weightOf tm) (filter (\<lambda>d. activityType d \<noteq> DISPUTE_WON) disputes));
         disputeScore = (if disputes \<noteq> [] then (if wWon + wLost > 0 then clamp (wWon / (wWon + wLost) * 100) else 50) else 50);
         reviewWeight = (if reviews \<noteq> [] then 7 / 10 else 0);
         disputeWeight = (if disputes \<noteq> [] then 3 / 10 else 0);
         totalWeight = reviewWeight + disputeWeight
     in if reviews = [] \<and> disputes = [] then 50
        else if totalWeight = 0 then 50
        else clamp ((reviewScore * reviewWeight + disputeScore * disputeWeight) / totalWeight))"

record ScoreBreakdown =
  compositeScore :: real
  successRateScore :: real
  peerRatingScore :: real
  contributionSizeScore :: real
  communityFeedbackScore :: real
  activityCount :: nat
  lowConfidence :: bool

definition calculateReputationScore :: "ReputationActivity list \<Rightarrow> int \<Rightarrow> ScoreBreakdown" where
  "calculateReputationScore activities tm =
    (let s = calcSuccessRateScore activities tm; p = calcPeerRatingScore activities tm;
         c = calcContributionSizeScore activities tm; f = calcCommunityFeedbackScore activities tm;
         composite = clamp (s * (35 / 100) + p * (3 / 10) + c * (2 / 10) + f * (15 / 100))
     in \<lparr>compositeScore = round2 composite, successRateScore = round2 s, peerRatingScore = round2 p,
         contributionSizeScore = round2 c, communityFeedbackScore = round2 f,
         activityCount = length activities, lowConfidence = length activities < 5\<rparr>)"

section \<open>Reputation from history\<close>

definition computeReputationFromHistory :: "int list \<Rightarrow> int" where
  "computeReputationFromHistory history =
    (let total = fold (\<lambda>scoreChange acc. acc + scoreChange) history 50 in max 0 (min 1000 total))"

section \<open>Trust score\<close>

definition trustPoints :: "nat \<Rightarrow> nat \<Rightarrow> nat \<Rightarrow> int \<Rightarrow> int \<Rightarrow> int" where
  "trustPoints successfulProjects completedOnTime failedMilestones totalRaised totalDistributed =
    (let score = 500 + int successfulProjects * 100 + int completedOnTime * 50 - int failedMilestones * 75
           + (if totalRaised > 0 then mathRound (of_int totalDistributed / of_int totalRaised * 200) else 0)
     in max 0 (min 1000 score))"

definition calculateTrustScore :: "env \<Rightarrow> string \<Rightarrow> (db, int) sm" where
  "calculateTrustScore env creatorId = (\<lambda>s.
    (bindM (zoom projects projects_update (d_count (projectE (prisma env)) (now env)
        (whereOf (\<lambda>p. pr_creatorId p = creatorId \<and> pr_status p = Project_COMPLETED)))) (\<lambda>successfulProjects.
     bindM (zoom milestones milestones_update (d_findMany (milestoneE (prisma env)) (now env)
        (noArgs\<lparr>a_where := Some (whereOf (\<lambda>m.
           \<exists>p\<in>set (projects s). rowId p = ms_projectId m \<and> pr_creatorId p = creatorId))\<rparr>))) (\<lambda>ms.
     let completedOnTime = length (filter (\<lambda>m. ms_status m = Milestone_APPROVED \<and>
           (case ms_completionDate m of None \<Rightarrow> False | Some d \<Rightarrow> d \<le> ms_createdAt m)) ms);
         failedMilestones = length (filter (\<lambda>m. ms_status m = Milestone_REJECTED) ms)
     in bindM (zoom projects projects_update (d_findMany (projectE (prisma env)) (now env)
        (noArgs\<lparr>a_where := Some (whereOf (\<lambda>p. pr_creatorId p = creatorId))\<rparr>))) (\<lambda>ps.
     returnM (trustPoints successfulProjects completedOnTime failedMilestones
       (sum_list (map pr_goal ps)) (sum_list (map pr_currentFunds ps))))))) s)"

section \<open>ReputationRepository\<close>

definition createHistory :: "env \<Rightarrow> reputation_history \<Rightarrow> (db, reputation_history) sm" where
  "createHistory env r = zoom reputationHistories reputationHistories_update
     (d_create (reputationHistoryE (prisma env)) (now env) (rowOf r))"

definition findUserScore :: "env \<Rightarrow> string \<Rightarrow> (db, int option) sm" where
  "findUserScore env userId =
     bindM (zoom users users_update (d_findUnique (userE (prisma env)) (now env) (whereOf (\<lambda>r. rowId r = userId))))
       (\<lambda>u. returnM (map_option reputationScore u))"

definition updateUserScore :: "env \<Rightarrow> string \<Rightarrow> int \<Rightarrow> (db, user) sm" where
  "updateUserScore env userId score = zoom users users_update
     (d_update (userE (prisma env)) (now env) (whereOf (\<lambda>r. rowId r = userId))
        (setOf (\<lambda>r. r\<lparr>reputationScore := score\<rparr>)))"

definition repo_updateTrustScore :: "env \<Rightarrow> string \<Rightarrow> int \<Rightarrow> (db, user) sm" where
  "repo_updateTrustScore env userId score = zoom users users_update
     (d_update (userE (prisma env)) (now env) (whereOf (\<lambda>r. rowId r = userId))
        (setOf (\<lambda>r. r\<lparr>trustScore := score\<rparr>)))"

section \<open>ReputationService\<close>

definition updateTrustScore :: "env \<Rightarrow> string \<Rightarrow> (db, int) sm" where
  "updateTrustScore env userId =
     bindM (calculateTrustScore env userId) (\<lambda>score.
     bindM (repo_updateTrustScore env userId score) (\<lambda>_. returnM score))"

definition adjustReputation :: "env \<Rightarrow> string \<Rightarrow> int \<Rightarrow> string \<Rightarrow> bool \<Rightarrow> (db, int) sm" where
  "adjustReputation env userId delta reason tx = withTx tx
    (bindM (findUserScore env userId) (\<lambda>user.
     let current = (case user of None \<Rightarrow> 0 | Some n \<Rightarrow> n);
         clamped = max 0 (min 1000 (current + delta))
     in bindM (updateUserScore env userId clamped) (\<lambda>_.
        bindM (createHistory env \<lparr>rowId = '''', deletedAt = None, rh_userId = userId,
                 rh_scoreChange = delta, rh_reason = reason, rh_timestamp = now env\<rparr>) (\<lambda>_.
        returnM clamped))))"

section \<open>Properties of the calculators\<close>

lemma timeDecay_pos: "timeDecayWeight t tm h > 0"
  by (simp add: timeDecayWeight_def Let_def)

lemma clamp_range [simp]: "0 \<le> clamp x" "clamp x \<le> 100"
  by (simp_all add: clamp_def)

lemma round2_mono: "x \<le> y \<Longrightarrow> round2 x \<le> round2 y"
  by (simp add: round2_def divide_right_mono floor_mono)

lemma round2_range:
  assumes "0 \<le> x" "x \<le> 100"
  shows "0 \<le> round2 x \<and> round2 x \<le> 100"
proof -
  have "round2 0 = 0" "round2 100 = 100" by (simp_all add: round2_def floor_eq_iff)
  then show ?thesis using round2_mono [OF assms(1)] round2_mono [OF assms(2)] by simp
qed

lemma factor_ranges:
  "0 \<le> calcSuccessRateScore as tm \<and> calcSuccessRateScore as tm \<le> 100"
  "0 \<le> calcPeerRatingScore as tm \<and> calcPeerRatingScore as tm \<le> 100"
  "0 \<le> calcContributionSizeScore as tm \<and> calcContributionSizeScore as tm \<le> 100"
  "0 \<le> calcCommunityFeedbackScore as tm \<and> calcCommunityFeedbackScore as tm \<le> 100"
  by (simp_all add: calcSuccessRateScore_def calcPeerRatingScore_def calcContributionSizeScore_def
      calcCommunityFeedbackScore_def Let_def)

lemma sum_filter_perm:
  fixes f :: "'a \<Rightarrow> 'b :: comm_monoid_add"
  assumes "mset xs = mset ys"
  shows "sum_list (map f (filter P xs)) = sum_list (map f (filter P ys))"
  using assms by (metis mset_filter mset_map sum_mset_sum_list)

lemma filter_nil_perm: "mset xs = mset ys \<Longrightarrow> (filter P xs = []) = (filter P ys = [])"
  by (metis mset_filter mset_zero_iff)

lemma factors_perm:
  assumes "mset as = mset bs"
  shows "calcSuccessRateScore as tm = calcSuccessRateScore bs tm"
    "calcPeerRatingScore as tm = calcPeerRatingScore bs tm"
    "calcContributionSizeScore as tm = calcContributionSizeScore bs tm"
    "calcCommunityFeedbackScore as tm = calcCommunityFeedbackScore bs tm"
  unfolding calcSuccessRateScore_def calcPeerRatingScore_def calcContributionSizeScore_def
      calcCommunityFeedbackScore_def Let_def filter_filter
  by (simp_all only: sum_filter_perm [OF assms] filter_nil_perm [OF assms])

lemma history_sum: "fold (\<lambda>d acc. acc + d) history (b :: int) = b + sum_list history"
  by (induction history arbitrary: b) auto

section \<open>Properties of the service\<close>

definition userOf :: "db \<Rightarrow> string \<Rightarrow> user option" where
  "userOf s i = find (live (\<lambda>r. rowId r = i)) (users s)"

definition clampScore :: "int \<Rightarrow> int" where
  "clampScore n = max 0 (min 1000 n)"

definition reputationEffect :: "env \<Rightarrow> string \<Rightarrow> int \<Rightarrow> string \<Rightarrow> db \<Rightarrow> db" where
  "reputationEffect env i delta reason s = s\<lparr>
     users := updateFirst (live (\<lambda>r. rowId r = i))
       (\<lambda>r. r\<lparr>reputationScore := clampScore ((case userOf s i of None \<Rightarrow> 0 | Some u \<Rightarrow> reputationScore u) + delta)\<rparr>) (users s),
     reputationHistories := reputationHistories s @
       [newRow (rowOf \<lparr>rowId = '''', deletedAt = None, rh_userId = i, rh_scoreChange = delta,
          rh_reason = reason, rh_timestamp = now env\<rparr>) (genId (reputationHistoryE (prisma env)) (reputationHistories s))]\<rparr>"

lemma adjustReputation_Inr:
  assumes "runtime env" "adjustReputation env i delta reason tx s = (Inr n, s')"
  obtains u where "userOf s i = Some u" "n = clampScore (reputationScore u + delta)"
    "s' = reputationEffect env i delta reason s"
  using assms
  by (auto simp: adjustReputation_def withTx_def transaction_def bindM_def findUserScore_def
      updateUserScore_def createHistory_def zoom_def Let_def userOf_def clampScore_def reputationEffect_def
      split: if_splits option.splits sum.splits prod.splits)

lemma adjustReputation_run:
  assumes "runtime env" "userOf s i = Some u"
    and "\<And>r t. violates (reputationHistoryE (prisma env)) r t = None"
  shows "adjustReputation env i delta reason tx s =
    (Inr (clampScore (reputationScore u + delta)), reputationEffect env i delta reason s)"
  using assms
  by (simp add: adjustReputation_def withTx_def transaction_def bindM_def findUserScore_def
      updateUserScore_def createHistory_def zoom_def Let_def userOf_def clampScore_def reputationEffect_def)

lemma adjustReputation_missing:
  assumes "runtime env" "userOf s i = None"
  shows "adjustReputation env i delta reason tx s =
    (Inl (PrismaException (PrismaClientKnownRequestError ''P2025'')), s)"
  using assms
  by (simp add: adjustReputation_def withTx_def transaction_def bindM_def findUserScore_def
      updateUserScore_def zoom_def Let_def userOf_def)

lemma reputationEffect_frame [simp]:
  "insurancePools (reputationEffect env i d r s) = insurancePools s"
  "insurancePolicies (reputationEffect env i d r s) = insurancePolicies s"
  "claims (reputationEffect env i d r s) = claims s"
  "auditLogs (reputationEffect env i d r s) = auditLogs s"
  "notifications (reputationEffect env i d r s) = notifications s"
  "notificationSettings (reputationEffect env i d r s) = notificationSettings s"
  "emailOutboxes (reputationEffect env i d r s) = emailOutboxes s"
  "poolOf (reputationEffect env i d r s) j = poolOf s j"
  by (simp_all add: reputationEffect_def poolOf_def)

definition scoresInRange :: "db \<Rightarrow> bool" where
  "scoresInRange s \<longleftrightarrow> (\<forall>u\<in>set (users s). 0 \<le> reputationScore u \<and> reputationScore u \<le> 1000)"

lemma clampScore_range [simp]: "0 \<le> clampScore n" "clampScore n \<le> 1000"
  by (simp_all add: clampScore_def)

lemma reputationEffect_range:
  assumes "scoresInRange s"
  shows "scoresInRange (reputationEffect env i d r s)"
  using assms set_updateFirst [of "live (\<lambda>r. rowId r = i)" _ "users s"]
  by (fastforce simp: scoresInRange_def reputationEffect_def)



text \<open>
  A reputation change is exact. For a live user \<open>adjustReputation\<close> stores and returns
  the old score plus the delta, clamped to 0 and 1000, appends one history row with that
  delta and leaves every other user as it was. For an unknown user it fails without a
  change.
\<close>

theorem adjustReputation_exact:
  assumes "runtime env" "\<And>r t. violates (reputationHistoryE (prisma env)) r t = None"
  shows "(case userOf s i of
      None \<Rightarrow> adjustReputation env i delta reason tx s = (Inl (PrismaException (PrismaClientKnownRequestError ''P2025'')), s)
    | Some u \<Rightarrow> \<exists>s'. adjustReputation env i delta reason tx s = (Inr (max 0 (min 1000 (reputationScore u + delta))), s') \<and>
        (\<forall>j. userOf s' j = (if j = i then Some (u\<lparr>reputationScore := max 0 (min 1000 (reputationScore u + delta))\<rparr>) else userOf s j)) \<and>
        map rh_scoreChange (reputationHistories s') = map rh_scoreChange (reputationHistories s) @ [delta])"
proof (cases "userOf s i")
  case None
  then show ?thesis using adjustReputation_missing [OF assms(1) None] by simp
next
  case (Some u)
  let ?s = "reputationEffect env i delta reason s"
  have "userOf ?s j = (if j = i then Some (u\<lparr>reputationScore := clampScore (reputationScore u + delta)\<rparr>) else userOf s j)" for j
    using Some by (simp add: userOf_def reputationEffect_def find_live_updateFirst)
  moreover have "map rh_scoreChange (reputationHistories ?s) = map rh_scoreChange (reputationHistories s) @ [delta]"
    by (simp add: reputationEffect_def newRow_def rowOf_def)
  ultimately show ?thesis
    using adjustReputation_run [OF assms(1) Some assms(2)] Some by (simp add: clampScore_def)
qed

lemma memory_history [simp]: "violates (reputationHistoryE (prisma memoryEnv)) r t = None"
  by (simp add: memoryEnv_def memoryClient_def tableEngine_def noConstraint_def)

theorem adjustReputation_exact_witness:
  "\<exists>s'. adjustReputation memoryEnv ''u1'' 990 ''r'' True (emptyDb\<lparr>users := [\<lparr>rowId = ''u1'', deletedAt = None,
      walletAddress = ''G'', profileData = None, reputationScore = 50, trustScore = 0, email = None, pushSubscription = None\<rparr>]\<rparr>) =
     (Inr 1000, s') \<and> map rh_scoreChange (reputationHistories s') = [990]"
proof -
  let ?u = "\<lparr>rowId = ''u1'', deletedAt = None, walletAddress = ''G'', profileData = None,
    reputationScore = 50, trustScore = 0, email = None, pushSubscription = None\<rparr> :: user"
  have u: "userOf (emptyDb\<lparr>users := [?u]\<rparr>) ''u1'' = Some ?u" by (simp add: userOf_def live_def)
  have none: "reputationHistories (emptyDb\<lparr>users := [?u]\<rparr>) = []" by (simp add: emptyDb_def)
  from adjustReputation_exact [where env = memoryEnv and s = "emptyDb\<lparr>users := [?u]\<rparr>" and i = "''u1''" and delta = 990
      and reason = "''r''" and tx = True, unfolded u none]
  show ?thesis by auto
qed

text \<open>
  Recomputing a score from its history adds all changes to the base of 50 and clamps
  once, so the order of the history does not matter and the result is between 0 and 1000.
\<close>

theorem history_recompute:
  assumes "mset h = mset h'"
  shows "computeReputationFromHistory h = max 0 (min 1000 (50 + sum_list h))
    \<and> computeReputationFromHistory h' = computeReputationFromHistory h"
proof -
  have "sum_list h' = sum_list h" using assms by (metis sum_mset_sum_list)
  then show ?thesis by (simp add: computeReputationFromHistory_def history_sum)
qed

theorem history_recompute_witness:
  "computeReputationFromHistory [10, - 5] = 55 \<and> computeReputationFromHistory [- 5, 10] = computeReputationFromHistory [10, - 5]"
  using history_recompute [of "[10, - 5]" "[- 5, 10]"] by simp

end
