(* ===== verification/Encryption.thy ===== *)
theory Encryption
  imports Runtime
begin

text \<open>
  \<open>encryption/encryption.service.ts\<close>: parsing of the key configuration, and
  \<open>encrypt\<close>/\<open>decrypt\<close> in the format \<open>version:iv:authTag:ciphertext\<close>. AES-256-GCM is the
  pair of parameters \<open>aesGcm\<close> and \<open>aesGcmOpen\<close> of the environment, on hex strings.
\<close>

section \<open>Key configuration\<close>

text \<open>\<open>Map.set\<close>: an existing key keeps its place and takes the new value.\<close>

fun mapSet :: "'k \<Rightarrow> 'v \<Rightarrow> ('k \<times> 'v) list \<Rightarrow> ('k \<times> 'v) list" where
  "mapSet k v [] = [(k, v)]"
| "mapSet k v ((k', v') # m) = (if k' = k then (k, v) # m else (k', v') # mapSet k v m)"

lemma map_of_mapSet: "map_of (mapSet k v m) = (map_of m)(k \<mapsto> v)"
  by (induction m) auto

lemma fst_mapSet: "fst ` set (mapSet k v m) \<subseteq> insert k (fst ` set m)"
  by (simp add: dom_map_of_conv_image_fst [symmetric] map_of_mapSet)

fun parseKeyPairs ::
  "(string \<Rightarrow> string) \<Rightarrow> string list \<Rightarrow> (string \<times> string) list \<Rightarrow> error + (string \<times> string) list" where
  "parseKeyPairs base64 [] keys = Inr keys"
| "parseKeyPairs base64 (pair # pairs) keys =
    (case splitOn (CHR '':'') pair of
       version # base64Key # _ \<Rightarrow>
         (if version = [] \<or> base64Key = []
          then Inl (PlainError (''Invalid encryption key format: '' @ pair))
          else if length (base64 base64Key) \<noteq> 32
          then Inl (PlainError (''Encryption key for '' @ version @ '' must be 32 bytes (256 bits)''))
          else parseKeyPairs base64 pairs (mapSet version (base64 base64Key) keys))
     | _ \<Rightarrow> Inl (PlainError (''Invalid encryption key format: '' @ pair)))"

definition newEncryptionService ::
  "(string \<Rightarrow> string) \<Rightarrow> string option \<Rightarrow> error + (string \<times> string) list" where
  "newEncryptionService base64 keysConfig =
    (case keysConfig of
       None \<Rightarrow> Inl (PlainError ''ENCRYPTION_KEYS environment variable is required'')
     | Some cfg \<Rightarrow>
         (if cfg = [] then Inl (PlainError ''ENCRYPTION_KEYS environment variable is required'')
          else parseKeyPairs base64 (splitOn (CHR '','') cfg) []))"

text \<open>The first version of the configuration is the active one; it stays first in the map.\<close>

definition activeKeyVersion :: "env \<Rightarrow> string" where
  "activeKeyVersion env = (case encryptionKeys env of [] \<Rightarrow> [] | (v, k) # _ \<Rightarrow> v)"

section \<open>Encryption and decryption\<close>

definition encrypt :: "env \<Rightarrow> string \<Rightarrow> error + string" where
  "encrypt env plainText =
    (case map_of (encryptionKeys env) (activeKeyVersion env) of
       None \<Rightarrow> Inl (PlainError (''Active encryption key version '' @ activeKeyVersion env @ '' not found''))
     | Some key \<Rightarrow>
         (let iv = randomIv env; (authTag, encrypted) = aesGcm env key iv plainText in
          Inr (activeKeyVersion env @ '':'' @ iv @ '':'' @ authTag @ '':'' @ encrypted)))"

definition decrypt :: "env \<Rightarrow> string \<Rightarrow> error + string" where
  "decrypt env encryptedText =
    (case splitOn (CHR '':'') encryptedText of
       [version, ivHex, authTagHex, encrypted] \<Rightarrow>
         (case map_of (encryptionKeys env) version of
            None \<Rightarrow> Inl (PlainError (''Encryption key version '' @ version @ '' not found''))
          | Some key \<Rightarrow>
              (case aesGcmOpen env key ivHex authTagHex encrypted of
                 None \<Rightarrow> Inl (PlainError ''Unsupported state or unable to authenticate data'')
               | Some decrypted \<Rightarrow> Inr decrypted))
     | _ \<Rightarrow> Inl (PlainError ''Invalid encrypted text format: expected version:iv:authTag:ciphertext''))"

section \<open>Properties\<close>

text \<open>What the code relies on of the cipher: hex output, and opening inverts sealing under the same key.\<close>

definition lawfulCipher :: "env \<Rightarrow> bool" where
  "lawfulCipher env \<longleftrightarrow> CHR '':'' \<notin> set (randomIv env) \<and>
     (\<forall>k iv p tag ct. aesGcm env k iv p = (tag, ct) \<longrightarrow>
        CHR '':'' \<notin> set tag \<and> CHR '':'' \<notin> set ct \<and> aesGcmOpen env k iv tag ct = Some p)"

lemma splitOn_pieces: "w \<in> set (splitOn sep s) \<Longrightarrow> sep \<notin> set w"
  by (induction s arbitrary: w) (auto split: list.splits if_splits)

lemma parseKeyPairs_versions:
  assumes "parseKeyPairs b ps keys = Inr keys'" "\<forall>v\<in>fst ` set keys. v \<noteq> [] \<and> CHR '':'' \<notin> set v"
  shows "\<forall>v\<in>fst ` set keys'. v \<noteq> [] \<and> CHR '':'' \<notin> set v"
  using assms
proof (induction b ps keys arbitrary: keys' rule: parseKeyPairs.induct)
  case (1 b keys)
  then show ?case by simp
next
  case (2 b pair pairs keys)
  from "2.prems"(1) obtain version key rest where sp: "splitOn (CHR '':'') pair = version # key # rest"
    and ok: "version \<noteq> []" "key \<noteq> []" "length (b key) = 32"
    and more: "parseKeyPairs b pairs (mapSet version (b key) keys) = Inr keys'"
    by (auto split: list.splits if_splits)
  have "CHR '':'' \<notin> set version"
    using splitOn_pieces [of version "CHR '':''" pair] sp by simp
  moreover have "fst ` set (mapSet version (b key) keys) \<subseteq> insert version (fst ` set keys)"
    using fst_mapSet [of version "b key" keys] .
  ultimately have "\<forall>v\<in>fst ` set (mapSet version (b key) keys). v \<noteq> [] \<and> CHR '':'' \<notin> set v"
    using ok(1) "2.prems"(2) by blast
  with "2.IH" [OF sp refl _ _ more] ok show ?case by simp
qed

lemma encrypt_decrypt_gen:
  assumes "lawfulCipher env" "CHR '':'' \<notin> set (activeKeyVersion env)" "encrypt env p = Inr c"
  shows "decrypt env c = Inr p"
proof -
  obtain key where key: "map_of (encryptionKeys env) (activeKeyVersion env) = Some key"
    using assms(3) by (auto simp: encrypt_def split: option.splits)
  obtain tag ct where seal: "aesGcm env key (randomIv env) p = (tag, ct)" by fastforce
  then have law: "CHR '':'' \<notin> set tag" "CHR '':'' \<notin> set ct" "CHR '':'' \<notin> set (randomIv env)"
    "aesGcmOpen env key (randomIv env) tag ct = Some p"
    using assms(1) unfolding lawfulCipher_def by blast+
  have c: "c = activeKeyVersion env @ CHR '':'' # randomIv env @ CHR '':'' # tag @ CHR '':'' # ct"
    using assms(3) key seal by (simp add: encrypt_def)
  have "splitOn (CHR '':'') c = [activeKeyVersion env, randomIv env, tag, ct]"
    using assms(2) law by (simp add: c splitOn_append splitOn_no_sep)
  with key law show ?thesis by (simp add: decrypt_def)
qed

lemma mapSet_nonempty [simp]: "mapSet k v m \<noteq> []"
  by (induction k v m rule: mapSet.induct) simp_all

lemma parseKeyPairs_nonempty: "parseKeyPairs b ps keys = Inr keys' \<Longrightarrow> ps \<noteq> [] \<or> keys \<noteq> [] \<Longrightarrow> keys' \<noteq> []"
  by (induction b ps keys arbitrary: keys' rule: parseKeyPairs.induct) (auto split: list.splits if_splits)

text \<open>A stand-in cipher for the witness: colons and backslashes are escaped.\<close>

fun escape :: "string \<Rightarrow> string" where
  "escape [] = []"
| "escape (ch # cs) =
    (if ch = CHR '':'' then CHR 0x5C # CHR ''c'' # escape cs
     else if ch = CHR 0x5C then CHR 0x5C # CHR 0x5C # escape cs else ch # escape cs)"

fun unescape :: "string \<Rightarrow> string" where
  "unescape [] = []"
| "unescape [ch] = [ch]"
| "unescape (ch # d # cs) =
    (if ch = CHR 0x5C then (if d = CHR ''c'' then CHR '':'' else CHR 0x5C) # unescape cs else ch # unescape (d # cs))"

lemma unescape_plain: "ch \<noteq> CHR 0x5C \<Longrightarrow> unescape (ch # cs) = ch # unescape cs"
  by (cases cs) simp_all

lemma unescape_escape [simp]: "unescape (escape s) = s"
  by (induction s) (simp_all add: unescape_plain)

lemma escape_colon [simp]: "CHR '':'' \<notin> set (escape s)"
  by (induction s) auto

definition cipherEnv :: env where
  "cipherEnv = memoryEnv\<lparr>encryptionKeys := [(''v1'', replicate 32 (CHR ''k''))],
     aesGcm := (\<lambda>k iv s. (''tag'', escape s)), aesGcmOpen := (\<lambda>k iv tag s. Some (unescape s))\<rparr>"

lemma cipherEnv_lawful: "lawfulCipher cipherEnv"
  by (simp add: lawfulCipher_def cipherEnv_def memoryEnv_def)

text \<open>
  C29. Encryption round trip. If the service was constructed from a configuration that it
  accepted, every text can be encrypted, and decrypting the stored form
  \<open>version:iv:authTag:ciphertext\<close> returns that text, provided that the cipher opens what
  it sealed and writes hexadecimal; the configured versions hold no colon because the
  configuration itself is split on colons.
\<close>

theorem encrypt_decrypt_roundtrip:
  assumes "newEncryptionService base64 keysConfig = Inr (encryptionKeys env)" "lawfulCipher env"
  shows "\<exists>c. encrypt env p = Inr c \<and> decrypt env c = Inr p"
proof -
  obtain cfg where "keysConfig = Some cfg" and parse: "parseKeyPairs base64 (splitOn (CHR '','') cfg) [] = Inr (encryptionKeys env)"
    using assms(1) by (auto simp: newEncryptionService_def split: option.splits if_splits)
  then obtain v k m where keys: "encryptionKeys env = (v, k) # m"
    using parseKeyPairs_nonempty [OF parse] by (cases "encryptionKeys env") auto
  have "CHR '':'' \<notin> set v"
    using parseKeyPairs_versions [OF parse] keys by auto
  moreover obtain c where "encrypt env p = Inr c"
    by (cases "aesGcm env k (randomIv env) p") (simp add: encrypt_def keys activeKeyVersion_def)
  ultimately show ?thesis
    using encrypt_decrypt_gen [OF assms(2)] keys by (simp add: activeKeyVersion_def)
qed

theorem encrypt_decrypt_roundtrip_witness:
  "\<exists>c. encrypt cipherEnv ''a:b'' = Inr c \<and> decrypt cipherEnv c = Inr ''a:b''"
proof (rule encrypt_decrypt_roundtrip)
  show "newEncryptionService (\<lambda>s. replicate 32 (CHR ''k'')) (Some ''v1:xyz'') = Inr (encryptionKeys cipherEnv)"
    by (simp add: newEncryptionService_def cipherEnv_def)
  show "lawfulCipher cipherEnv" by (rule cipherEnv_lawful)
qed

end
