(* ===== verification/Sanitization.thy ===== *)
theory Sanitization
  imports Redaction
begin

text \<open>
  \<open>common/utils/sanitization.util.ts\<close>: the string and object sanitisers and the
  identifier validators. Values are trees, so the \<open>visited\<close> set, which only cuts
  cycles, has nothing to do.
\<close>

definition HTML_TAG_RE :: regex where
  "HTML_TAG_RE = seqs [lit (CHR ''<''), Rep 0 None (Chr (\<lambda>ch. ch \<noteq> CHR ''>'')), lit (CHR ''>'')]"

definition MAX_STRING_LENGTH :: nat where "MAX_STRING_LENGTH = 100000"
definition MAX_OBJECT_DEPTH :: nat where "MAX_OBJECT_DEPTH = 10"
definition MAX_OBJECT_KEYS :: nat where "MAX_OBJECT_KEYS = 50"

definition DANGEROUS_KEYS :: "string list" where
  "DANGEROUS_KEYS = [''__proto__'', ''constructor'', ''prototype'', ''__defineGetter__'',
     ''__defineSetter__'', ''__lookupGetter__'', ''__lookupSetter__'']"

definition sanitizeString :: "string \<Rightarrow> string" where
  "sanitizeString value = take MAX_STRING_LENGTH (replaceAll HTML_TAG_RE '''' (trim value))"

definition isValidCuid :: "string \<Rightarrow> bool" where
  "isValidCuid i \<longleftrightarrow> 3 \<le> length i \<and> length i \<le> 64 \<and>
     list_all (\<lambda>ch. isAlnum ch \<or> ch = CHR ''_'' \<or> ch = CHR ''-'') i"

definition isValidStellarAddress :: "string \<Rightarrow> bool" where
  "isValidStellarAddress address \<longleftrightarrow> length address = 56 \<and> hd address = CHR ''G'' \<and>
     list_all (\<lambda>ch. isUpper ch \<or> inRange (CHR ''2'') (CHR ''7'') ch) (tl address)"

definition isValidWalletAddress :: "string \<Rightarrow> bool" where
  "isValidWalletAddress address \<longleftrightarrow> address \<noteq> [] \<and> length address \<le> 256 \<and>
     list_all (\<lambda>ch. isAlnum ch \<or> ch \<in> set ''_-.@'') address"

text \<open>\<open>obj[key] = value\<close> on an ordinary object; \<open>__proto__\<close> sets the prototype, not an own property.\<close>

fun setMember :: "string \<Rightarrow> jsval \<Rightarrow> (string \<times> jsval) list \<Rightarrow> (string \<times> jsval) list" where
  "setMember k v [] = [(k, v)]"
| "setMember k v ((k', v') # ms) = (if k' = k then (k, v) # ms else (k', v') # setMember k v ms)"

definition assignKey :: "string \<Rightarrow> jsval \<Rightarrow> (string \<times> jsval) list \<Rightarrow> (string \<times> jsval) list" where
  "assignKey k v ms = (if k = ''__proto__'' then ms else setMember k v ms)"

definition skipKey :: "string \<Rightarrow> bool" where
  "skipKey key \<longleftrightarrow> key \<in> set DANGEROUS_KEYS \<or> CHR ''$'' \<in> set key \<or> CHR ''.'' \<in> set key
     \<or> sanitizeString key = []"

function sanitizeObject :: "(jsval \<Rightarrow> (string \<times> jsval) list) \<Rightarrow> nat \<Rightarrow> jsval \<Rightarrow> jsval" where
  "sanitizeObject entriesOf depth value =
    (case value of
       JUndef \<Rightarrow> value | JNull \<Rightarrow> value | JBool _ \<Rightarrow> value | JNum _ \<Rightarrow> value
     | JStr s \<Rightarrow> JStr (sanitizeString s)
     | _ \<Rightarrow>
        (if depth > MAX_OBJECT_DEPTH then JUndef
         else case value of
           JArr xs \<Rightarrow> JArr (map (sanitizeObject entriesOf (Suc depth)) (take MAX_OBJECT_KEYS xs))
         | JBigInt _ \<Rightarrow> JUndef
         | _ \<Rightarrow> JObj (fold (\<lambda>(key, val) sanitized.
               if skipKey key then sanitized
               else assignKey (sanitizeString key) (sanitizeObject entriesOf (Suc depth) val) sanitized)
             (take MAX_OBJECT_KEYS (objectEntries entriesOf value)) [])))"
  by pat_completeness auto
termination
  by (relation "measure (\<lambda>(f, d, v). 12 - d)") (auto simp: MAX_OBJECT_DEPTH_def)

declare sanitizeObject.simps [simp del]

section \<open>No tag survives\<close>

definition hasTag :: "string \<Rightarrow> bool" where
  "hasTag s \<longleftrightarrow> (\<exists>a b c. s = a @ CHR ''<'' # b @ CHR ''>'' # c)"

lemma hasTag_Cons: "hasTag (ch # cs) \<longleftrightarrow> (ch = CHR ''<'' \<and> CHR ''>'' \<in> set cs) \<or> hasTag cs"
  unfolding hasTag_def
proof
  assume "\<exists>a b c. ch # cs = a @ CHR ''<'' # b @ CHR ''>'' # c"
  then obtain a b c where eq: "ch # cs = a @ CHR ''<'' # b @ CHR ''>'' # c" by blast
  then show "(ch = CHR ''<'' \<and> CHR ''>'' \<in> set cs) \<or> (\<exists>a b c. cs = a @ CHR ''<'' # b @ CHR ''>'' # c)"
    by (cases a) auto
next
  assume "(ch = CHR ''<'' \<and> CHR ''>'' \<in> set cs) \<or> (\<exists>a b c. cs = a @ CHR ''<'' # b @ CHR ''>'' # c)"
  then show "\<exists>a b c. ch # cs = a @ CHR ''<'' # b @ CHR ''>'' # c"
  proof
    assume "ch = CHR ''<'' \<and> CHR ''>'' \<in> set cs"
    then obtain b c where "cs = b @ CHR ''>'' # c" by (meson split_list)
    with \<open>ch = CHR ''<'' \<and> CHR ''>'' \<in> set cs\<close> have "ch # cs = [] @ CHR ''<'' # b @ CHR ''>'' # c" by simp
    then show ?thesis by blast
  next
    assume "\<exists>a b c. cs = a @ CHR ''<'' # b @ CHR ''>'' # c"
    then show ?thesis by (metis append_Cons)
  qed
qed

lemma hasTag_take: "hasTag (take n s) \<Longrightarrow> hasTag s"
  unfolding hasTag_def by (metis append.assoc append_Cons append_take_drop_id)

text \<open>From a position before a closing bracket the class repetition reaches that bracket.\<close>

definition notGt :: regex where
  "notGt = Chr (\<lambda>ch. ch \<noteq> CHR ''>'')"

lemma reps_to_gt:
  assumes "CHR ''>'' \<in> set s" "length s \<le> k"
  shows "\<exists>q\<in>set (reps k (rmatch notGt) 0 None (prev, s)). \<exists>cs. snd q = CHR ''>'' # cs"
  using assms
proof (induction k arbitrary: prev s)
  case 0
  then show ?case by simp
next
  case (Suc k)
  then obtain ch cs where s: "s = ch # cs" by (cases s) auto
  show ?case
  proof (cases "ch = CHR ''>''")
    case True
    then show ?thesis using s by (simp add: notGt_def) 
  next
    case False
    then have "CHR ''>'' \<in> set cs" "length cs \<le> k" using Suc.prems s by auto
    from Suc.IH [OF this, of "Some ch"] show ?thesis using s False by (simp add: notGt_def)
  qed
qed

lemma tag_matches:
  assumes "CHR ''>'' \<in> set cs"
  shows "rmatch HTML_TAG_RE (prev, CHR ''<'' # cs) \<noteq> []"
proof -
  have "\<exists>q\<in>set (reps (Suc (length cs)) (rmatch notGt) 0 None (Some (CHR ''<''), cs)). \<exists>cs'. snd q = CHR ''>'' # cs'"
    using assms by (rule reps_to_gt) simp
  then obtain q cs' where q: "q \<in> set (reps (Suc (length cs)) (rmatch notGt) 0 None (Some (CHR ''<''), cs))"
    "snd q = CHR ''>'' # cs'" by blast
  then have "(Some (CHR ''>''), cs') \<in> set (rmatch (lit (CHR ''>'')) q)" by (simp add: lit_def)
  with q(1) have "(Some (CHR ''>''), cs') \<in> set (rmatch (Seq (Rep 0 None notGt) (lit (CHR ''>''))) (Some (CHR ''<''), cs))"
    by (auto simp del: reps.simps)
  then have "(Some (CHR ''>''), cs') \<in> set (rmatch HTML_TAG_RE (prev, CHR ''<'' # cs))"
    by (auto simp: HTML_TAG_RE_def lit_def [of "CHR ''<''"] notGt_def [symmetric] simp del: reps.simps)
  then show ?thesis by auto
qed

lemma tag_match_shrinks:
  assumes "q \<in> set (rmatch HTML_TAG_RE (prev, ch # cs))"
  shows "length (snd q) \<le> length cs"
proof -
  obtain q1 where q1: "q1 \<in> set (rmatch (lit (CHR ''<'')) (prev, ch # cs))"
    and q: "q \<in> set (rmatch (Seq (Rep 0 None notGt) (lit (CHR ''>''))) q1)"
    using assms by (auto simp: HTML_TAG_RE_def notGt_def [symmetric] simp del: reps.simps)
  have "length (snd q1) = length cs" using q1 by (auto simp: lit_def split: if_splits)
  with rmatch_shrink [OF q] show ?thesis by simp
qed

lemma replace_no_tag: "\<not> hasTag (replaceFrom HTML_TAG_RE [] prev s)"
proof (induction "length s" arbitrary: prev s rule: less_induct)
  case less
  show ?case
  proof (cases s)
    case Nil
    then show ?thesis by (simp add: hasTag_def)
  next
    case (Cons ch cs)
    show ?thesis
    proof (cases "rmatch HTML_TAG_RE (prev, ch # cs)")
      case Nil
      then have "\<not> (ch = CHR ''<'' \<and> CHR ''>'' \<in> set cs)" using tag_matches by auto
      moreover have "set (replaceFrom HTML_TAG_RE [] (Some ch) cs) \<subseteq> set cs"
        using replaceFrom_chars [of HTML_TAG_RE "[]"] by simp
      ultimately show ?thesis
        using Nil Cons less [of cs "Some ch"] by (auto simp: hasTag_Cons)
    next
      case (Cons q qs)
      then have "length (snd q) \<le> length cs" using tag_match_shrinks [of q prev ch cs] by simp
      with Cons \<open>s = ch # cs\<close> less [of "snd q" "fst q"] show ?thesis by simp
    qed
  qed
qed

section \<open>Keys with a tag in front\<close>

lemma rmatch_tag_other [simp]: "ch \<noteq> CHR ''<'' \<Longrightarrow> rmatch HTML_TAG_RE (prev, ch # cs) = []"
  by (simp add: HTML_TAG_RE_def lit_def)

lemma replace_untagged: "CHR ''<'' \<notin> set s \<Longrightarrow> replaceFrom HTML_TAG_RE r prev s = s"
  by (induction s arbitrary: prev) auto

lemma replace_tag:
  assumes "CHR ''<'' \<notin> set k"
  shows "replaceFrom HTML_TAG_RE [] None (''<b>'' @ k) = k"
proof -
  obtain qs where "rmatch HTML_TAG_RE (None, CHR ''<'' # CHR ''b'' # CHR ''>'' # k) = (Some (CHR ''>''), k) # qs"
    by (simp add: HTML_TAG_RE_def lit_def)
  with assms show ?thesis by (simp add: replace_untagged)
qed

lemma tagged_key_survives:
  assumes "list_all (\<lambda>ch. ch \<notin> set ''<$.'' \<and> \<not> isSpace ch) k" "k \<noteq> []" "k \<noteq> ''__proto__''" "length k \<le> 1000"
  shows "sanitizeObject entriesOf 0 (JObj [(''<b>'' @ k, JNull)]) = JObj [(k, JNull)]"
proof -
  have "\<not> isSpace (CHR ''<'')" by (simp add: isSpace_def codePoint_def)
  then have "trim (''<b>'' @ k) = ''<b>'' @ k"
    using assms(1,2) by (cases k rule: rev_cases) (simp_all add: trim_def)
  moreover have "replaceFrom HTML_TAG_RE [] None (''<b>'' @ k) = k"
    using assms(1) by (intro replace_tag) (auto simp: list_all_iff)
  ultimately have san: "sanitizeString (''<b>'' @ k) = k"
    using assms(4) by (simp only: sanitizeString_def replaceAll_def) (simp add: MAX_STRING_LENGTH_def)
  have keep: "\<not> skipKey (''<b>'' @ k)"
    using assms(1,2) san unfolding skipKey_def by (auto simp: DANGEROUS_KEYS_def list_all_iff)
  have val: "sanitizeObject entriesOf (Suc 0) JNull = JNull"
    by (simp add: sanitizeObject.simps)
  show ?thesis
    using keep san val assms(3)
    by (subst sanitizeObject.simps) (simp add: MAX_OBJECT_DEPTH_def MAX_OBJECT_KEYS_def assignKey_def)
qed

section \<open>Properties\<close>

text \<open>
  Whatever the input, a sanitized string holds no HTML tag (no opening bracket with a
  closing bracket anywhere after it) and at most one hundred thousand characters.
\<close>

theorem sanitizeString_safe:
  "\<not> hasTag (sanitizeString s) \<and> length (sanitizeString s) \<le> MAX_STRING_LENGTH"
proof -
  have "\<not> hasTag (replaceAll HTML_TAG_RE [] (trim s))"
    by (simp add: replaceAll_def replace_no_tag)
  then show ?thesis by (auto simp: sanitizeString_def dest: hasTag_take)
qed

text \<open>
  The key check can be bypassed: \<open>sanitizeObject\<close> looks a key up among the dangerous
  ones before it strips tags from it, so every dangerous key but \<open>__proto__\<close> comes through
  as an own property when it is sent with a tag in front.
\<close>

theorem dangerous_keys_survive:
  "list_all (\<lambda>k. sanitizeObject (\<lambda>v. []) 0 (JObj [(''<b>'' @ k, JNull)]) = JObj [(k, JNull)])
     (removeAll ''__proto__'' DANGEROUS_KEYS)"
proof -
  have "list_all (\<lambda>k. list_all (\<lambda>ch. ch \<notin> set ''<$.'' \<and> \<not> isSpace ch) k \<and> k \<noteq> [] \<and> k \<noteq> ''__proto__'' \<and> length k \<le> 1000)
      (removeAll ''__proto__'' DANGEROUS_KEYS)"
    by code_simp
  then show ?thesis by (rule list.pred_mono_strong) (use tagged_key_survives in blast)
qed

end
