(* ===== verification/User.thy ===== *)
theory User
  imports Reputation Encryption Sanitization
begin

text \<open>
  \<open>user/user.service.ts\<close> and \<open>UserRepository\<close>: lookup, pagination, creation with
  notification settings, profile update, cascading soft delete, and the decrypted
  contact data the notification service asks for.
\<close>

section \<open>UserRepository\<close>

definition usersOp :: "env \<Rightarrow> (user engine \<Rightarrow> int \<Rightarrow> (user list, 'a) sm) \<Rightarrow> (db, 'a) sm" where
  "usersOp env m = zoom users users_update (m (userE (prisma env)) (now env))"

definition findByIdActive :: "env \<Rightarrow> string \<Rightarrow> (db, user option) sm" where
  "findByIdActive env i = usersOp env (\<lambda>e t. d_findFirst e t ((whereOf (\<lambda>r. rowId r = i))\<lparr>w_deletedAt := Some IsNull\<rparr>))"

definition repo_findByWallet :: "env \<Rightarrow> string \<Rightarrow> (db, user option) sm" where
  "repo_findByWallet env w = usersOp env (\<lambda>e t. d_findFirst e t ((whereOf (\<lambda>r. walletAddress r = w))\<lparr>w_deletedAt := Some IsNull\<rparr>))"

definition findByWalletUnique :: "env \<Rightarrow> string \<Rightarrow> (db, user option) sm" where
  "findByWalletUnique env w = usersOp env (\<lambda>e t. d_findUnique e t (whereOf (\<lambda>r. walletAddress r = w)))"

definition repo_findPaginated :: "env \<Rightarrow> nat \<Rightarrow> nat \<Rightarrow> (db, user list) sm" where
  "repo_findPaginated env offset limit = usersOp env (\<lambda>e t. d_findMany e t
     (noArgs\<lparr>a_where := Some ((whereOf (\<lambda>r. True))\<lparr>w_deletedAt := Some IsNull\<rparr>), a_skip := offset, a_take := Some limit\<rparr>))"

definition countActive :: "env \<Rightarrow> (db, nat) sm" where
  "countActive env = usersOp env (\<lambda>e t. d_count e t ((whereOf (\<lambda>r. True))\<lparr>w_deletedAt := Some IsNull\<rparr>))"

text \<open>\<open>include: { notificationSettings: true }\<close>: a nested read, which the middleware does not filter.\<close>

definition settingsOf :: "db \<Rightarrow> string \<Rightarrow> notification_setting option" where
  "settingsOf s userId = find (\<lambda>r. ns_userId r = userId) (notificationSettings s)"

definition findWithSettings :: "env \<Rightarrow> string \<Rightarrow> (db, (user \<times> notification_setting option) option) sm" where
  "findWithSettings env i =
     bindM (usersOp env (\<lambda>e t. d_findFirst e t ((whereOf (\<lambda>r. rowId r = i))\<lparr>w_deletedAt := Some IsNull\<rparr>))) (\<lambda>u s.
       (Inr (map_option (\<lambda>x. (x, settingsOf s i)) u), s))"

definition defaultSettings :: "string \<Rightarrow> notification_setting" where
  "defaultSettings userId = \<lparr>rowId = '''', deletedAt = None, ns_userId = userId, emailEnabled = True,
     pushEnabled = False, notifyContributions = True, notifyMilestones = True, notifyDeadlines = True\<rparr>"

definition createWithSettings :: "env \<Rightarrow> user \<Rightarrow> (db, user) sm" where
  "createWithSettings env r = transaction
     (bindM (usersOp env (\<lambda>e t. d_create e t (rowOf r))) (\<lambda>u.
      bindM (zoom notificationSettings notificationSettings_update
        (d_create (notificationSettingE (prisma env)) (now env) (rowOf (defaultSettings (rowId u))))) (\<lambda>_.
      returnM u)))"

definition updateUser :: "env \<Rightarrow> string \<Rightarrow> (user \<Rightarrow> user) \<Rightarrow> (db, user) sm" where
  "updateUser env i f = usersOp env (\<lambda>e t. d_update e t (whereOf (\<lambda>r. rowId r = i)) (setOf f))"

definition upsertByWallet :: "env \<Rightarrow> string \<Rightarrow> user \<Rightarrow> (user \<Rightarrow> user) \<Rightarrow> (db, user) sm" where
  "upsertByWallet env w new f = usersOp env (\<lambda>e t. d_upsert e t (whereOf (\<lambda>r. walletAddress r = w)) (rowOf new) (setOf f))"

definition stampData :: "int \<Rightarrow> 'r qdata" where
  "stampData d = \<lparr>d_set = (\<lambda>r. r), d_deletedAt = Some (Some d)\<rparr>"

definition cascadeSoftDelete :: "env \<Rightarrow> string \<Rightarrow> int \<Rightarrow> (db, user) sm" where
  "cascadeSoftDelete env i d = transaction
     (bindM (usersOp env (\<lambda>e t. d_update e t (whereOf (\<lambda>r. rowId r = i)) (stampData d))) (\<lambda>user.
      bindM (zoom notifications notifications_update
        (d_updateMany (notificationE (prisma env)) (now env) (whereOf (\<lambda>r. no_userId r = i)) (stampData d))) (\<lambda>_.
      bindM (zoom notificationSettings notificationSettings_update
        (d_updateMany (notificationSettingE (prisma env)) (now env) (whereOf (\<lambda>r. ns_userId r = i)) (stampData d))) (\<lambda>_.
      bindM (zoom insurancePolicies insurancePolicies_update
        (d_updateMany (insurancePolicyE (prisma env)) (now env) (whereOf (\<lambda>r. po_userId r = i)) (stampData d))) (\<lambda>_.
      bindM (\<lambda>s. zoom claims claims_update
        (d_updateMany (claimE (prisma env)) (now env)
           (whereOf (\<lambda>r. \<exists>p\<in>set (insurancePolicies s). rowId p = cl_policyId r \<and> po_userId p = i)) (stampData d)) s) (\<lambda>_.
      returnM user))))))"

section \<open>UserService\<close>

definition decryptUser :: "env \<Rightarrow> user \<Rightarrow> user" where
  "decryptUser env u =
    (let u1 = (case email u of
                 None \<Rightarrow> u
               | Some e \<Rightarrow> (if e = [] then u
                   else case decrypt env e of Inl _ \<Rightarrow> u | Inr p \<Rightarrow> u\<lparr>email := Some p\<rparr>))
     in case pushSubscription u of
          Some (JStr e) \<Rightarrow>
            (if e = [] then u1
             else case decrypt env e of
               Inl _ \<Rightarrow> u1
             | Inr p \<Rightarrow> (case jsonParse env p of None \<Rightarrow> u1 | Some v \<Rightarrow> u1\<lparr>pushSubscription := Some v\<rparr>))
        | _ \<Rightarrow> u1)"

definition service_findById :: "env \<Rightarrow> string \<Rightarrow> (db, user) sm" where
  "service_findById env i =
    (if \<not> isValidCuid i then throwM (BadRequestException ''Invalid user ID format'')
     else bindM (findByIdActive env i) (\<lambda>user.
       case user of
         None \<Rightarrow> throwM (NotFoundException (''User with ID '' @ i @ '' not found''))
       | Some u \<Rightarrow> returnM (decryptUser env u)))"

definition service_findByWallet :: "env \<Rightarrow> string \<Rightarrow> (db, user) sm" where
  "service_findByWallet env w =
    (if \<not> isValidWalletAddress w then throwM (BadRequestException ''Invalid wallet address format'')
     else let a = sanitizeString w in bindM (repo_findByWallet env a) (\<lambda>user.
       case user of
         None \<Rightarrow> throwM (NotFoundException (''User with wallet address '' @ a @ '' not found''))
       | Some u \<Rightarrow> returnM (decryptUser env u)))"

record PaginatedUsers =
  pu_data :: "user list"
  pu_page :: int
  pu_limit :: int
  pu_total :: nat
  pu_totalPages :: int

definition service_findPaginated :: "env \<Rightarrow> int \<Rightarrow> int \<Rightarrow> (db, PaginatedUsers) sm" where
  "service_findPaginated env page limit =
    (let safeLimit = min (max limit 1) 100; offset = max (page - 1) 0 * safeLimit in
     bindM (repo_findPaginated env (nat offset) (nat safeLimit)) (\<lambda>us.
     bindM (countActive env) (\<lambda>total.
     returnM \<lparr>pu_data = map (decryptUser env) us, pu_page = page, pu_limit = safeLimit, pu_total = total,
       pu_totalPages = max \<lceil>of_nat total / of_int safeLimit :: rat\<rceil> 1\<rparr>)))"

definition liftE :: "error + 'a \<Rightarrow> ('s, 'a) sm" where
  "liftE r = (case r of Inl e \<Rightarrow> throwM e | Inr a \<Rightarrow> returnM a)"

definition newUser :: "string \<Rightarrow> string option \<Rightarrow> user" where
  "newUser w enc = \<lparr>rowId = '''', deletedAt = None, walletAddress = w, profileData = None,
     reputationScore = INITIAL_REPUTATION, trustScore = 500, email = enc, pushSubscription = None\<rparr>"

definition service_create :: "env \<Rightarrow> string \<Rightarrow> string option \<Rightarrow> (db, user) sm" where
  "service_create env w mail =
    (if \<not> isValidWalletAddress w then throwM (BadRequestException ''Invalid wallet address format'')
     else let a = sanitizeString w in
       bindM (findByWalletUnique env a) (\<lambda>existing.
       case existing of
         Some _ \<Rightarrow> throwM (ConflictException ''User with this wallet address already exists'')
       | None \<Rightarrow>
          (let sanitizedEmail = (case mail of None \<Rightarrow> None | Some m \<Rightarrow> if m = [] then None else Some (sanitizeString m)) in
           bindM (case sanitizedEmail of
                    None \<Rightarrow> returnM None
                  | Some m \<Rightarrow> (if m = [] then returnM None else bindM (liftE (encrypt env m)) (\<lambda>c. returnM (Some c))))
           (\<lambda>encryptedEmail. transaction (createWithSettings env (newUser a encryptedEmail))))))"

record UpdateUserDto =
  dto_email :: "string option"
  dto_profileData :: "jsval option"
  dto_pushSubscription :: "string option"

definition optM :: "'a option \<Rightarrow> ('a \<Rightarrow> ('s, 'b) sm) \<Rightarrow> ('s, 'b option) sm" where
  "optM x f = (case x of None \<Rightarrow> returnM None | Some a \<Rightarrow> bindM (f a) (\<lambda>b. returnM (Some b)))"

definition profileJs :: "user \<Rightarrow> jsval" where
  "profileJs u = JObj [(''id'', JStr (rowId u)), (''email'', orNull JStr (email u)),
     (''profileData'', orNull (\<lambda>v. v) (profileData u)), (''pushSubscription'', orNull (\<lambda>v. v) (pushSubscription u))]"

definition setProfile :: "string option \<Rightarrow> jsval option \<Rightarrow> string option \<Rightarrow> user \<Rightarrow> user" where
  "setProfile mail prof push u = u\<lparr>
     email := (case mail of None \<Rightarrow> email u | Some x \<Rightarrow> Some x),
     profileData := (case prof of None \<Rightarrow> profileData u | Some x \<Rightarrow> Some x),
     pushSubscription := (case push of None \<Rightarrow> pushSubscription u | Some x \<Rightarrow> Some (JStr x))\<rparr>"

definition service_update :: "env \<Rightarrow> string \<Rightarrow> UpdateUserDto \<Rightarrow> (db, user) sm" where
  "service_update env i dto =
    (if \<not> isValidCuid i then throwM (BadRequestException ''Invalid user ID format'')
     else
       bindM (service_findById env i) (\<lambda>_.
       bindM (optM (dto_email dto) (\<lambda>m. liftE (encrypt env (sanitizeString m)))) (\<lambda>mail.
       bindM (optM (dto_profileData dto) (\<lambda>v. liftE (jsonClone (toJSON env) (sanitizeObject (entriesOf env) 0 v)))) (\<lambda>prof.
       bindM (optM (dto_pushSubscription dto) (\<lambda>p. liftE (encrypt env (sanitizeString p)))) (\<lambda>push.
       bindM (service_findById env i) (\<lambda>beforeUser.
       bindM (transaction (updateUser env i (setProfile mail prof push))) (\<lambda>updatedUser.
       bindM (liftE (snapshotDiff env (profileJs beforeUser) (profileJs updatedUser))) (\<lambda>(beforeState, afterState).
       bindM (auditService_log env Audit_UPDATE ''User'' i beforeState afterState None (Some ''Profile updated'')) (\<lambda>_.
       returnM updatedUser)))))))))"

definition deletedJs :: "string \<Rightarrow> int option \<Rightarrow> jsval" where
  "deletedJs i d = JObj [(''id'', JStr i), (''deletedAt'', orNull JDate d)]"

definition service_delete :: "env \<Rightarrow> string \<Rightarrow> (db, string \<times> int option) sm" where
  "service_delete env i =
     bindM (service_findById env i) (\<lambda>_.
     bindM (cascadeSoftDelete env i (now env)) (\<lambda>deletedUser.
     bindM (auditService_log env Audit_DELETE ''User'' i (deletedJs i None) (deletedJs i (deletedAt deletedUser))
              None (Some ''User soft-deleted'')) (\<lambda>_.
     returnM (rowId deletedUser, deletedAt deletedUser))))"

record contact =
  ct_email :: "string option"
  ct_pushSubscription :: "jsval option"
  ct_settings :: "notification_setting option"

definition getDecryptedContact :: "env \<Rightarrow> string \<Rightarrow> (db, contact) sm" where
  "getDecryptedContact env userId =
    (if \<not> isValidCuid userId then throwM (BadRequestException ''Invalid user ID format'')
     else bindM (findWithSettings env userId) (\<lambda>user.
       case user of
         None \<Rightarrow> throwM (NotFoundException (''User with ID '' @ userId @ '' not found''))
       | Some (u, settings) \<Rightarrow> (let d = decryptUser env u in
           returnM \<lparr>ct_email = email d, ct_pushSubscription = pushSubscription d, ct_settings = settings\<rparr>)))"

section \<open>What the operations do\<close>

lemma find_live_deleted [simp]:
  "soft_delete_delegate e \<Longrightarrow> d_findFirst e t (whereOf P\<lparr>w_deletedAt := Some IsNull\<rparr>) s = (Inr (find (live P) s), s)"
  by (subst soft_delete_delegate.d_findFirst_any) (simp_all add: whereOf_def)

lemma getDecryptedContact_pure:
  assumes "runtime env"
  shows "snd (getDecryptedContact env i s) = s"
  using assms
  by (simp add: getDecryptedContact_def findWithSettings_def usersOp_def bindM_def zoom_def Let_def
      split: option.split)

lemma service_findById_run:
  assumes "runtime env"
  shows "service_findById env i s =
    (if \<not> isValidCuid i then (Inl (BadRequestException ''Invalid user ID format''), s)
     else case userOf s i of
       None \<Rightarrow> (Inl (NotFoundException (''User with ID '' @ i @ '' not found'')), s)
     | Some u \<Rightarrow> (Inr (decryptUser env u), s))"
  using assms
  by (simp add: service_findById_def findByIdActive_def usersOp_def bindM_def zoom_def userOf_def
      split: option.split)

text \<open>The rows that belong to a user, in every table the cascade touches.\<close>

definition ownedBy :: "string \<Rightarrow> db \<Rightarrow> bool" where
  "ownedBy i s \<longleftrightarrow>
     list_ex (\<lambda>r. no_userId r = i \<and> deletedAt r = None) (notifications s) \<or>
     list_ex (\<lambda>r. ns_userId r = i \<and> deletedAt r = None) (notificationSettings s) \<or>
     list_ex (\<lambda>r. po_userId r = i \<and> deletedAt r = None) (insurancePolicies s) \<or>
     list_ex (\<lambda>r. deletedAt r = None \<and>
       list_ex (\<lambda>p. rowId p = cl_policyId r \<and> po_userId p = i) (insurancePolicies s)) (claims s)"

lemma list_ex_stamped: "\<not> list_ex (\<lambda>r. P r \<and> deletedAt r = None) (map (\<lambda>r. if live P r then stamp d r else r) t)"
  if "\<And>r. P (stamp d r) = P r"
  using that by (auto simp: list_ex_iff live_def)

lemma cascade_run:
  assumes "runtime env" "userOf s i = Some u"
  shows "\<exists>s'. cascadeSoftDelete env i d s = (Inr (stamp d u), s') \<and>
    users s' = updateFirst (live (\<lambda>r. rowId r = i)) (stamp d) (users s) \<and>
    notifications s' = map (\<lambda>r. if live (\<lambda>r. no_userId r = i) r then stamp d r else r) (notifications s) \<and>
    notificationSettings s' = map (\<lambda>r. if live (\<lambda>r. ns_userId r = i) r then stamp d r else r) (notificationSettings s) \<and>
    insurancePolicies s' = map (\<lambda>r. if live (\<lambda>r. po_userId r = i) r then stamp d r else r) (insurancePolicies s) \<and>
    claims s' = map (\<lambda>r. if live (\<lambda>r. \<exists>p\<in>set (insurancePolicies s'). rowId p = cl_policyId r \<and> po_userId p = i) r
                         then stamp d r else r) (claims s)"
  using assms
  by (simp add: cascadeSoftDelete_def transaction_def bindM_def zoom_def usersOp_def stampData_def userOf_def)

lemma ids_stamped: "map rowId (map (\<lambda>r. if P r then stamp d r else r) t) = map rowId t"
  by (induction t) auto

section \<open>Properties\<close>



text \<open>
  Pagination. Whatever page and limit a client asks for, negative ones included, a page
  holds at most 100 users and at most the effective limit, and is exactly the slice of the
  live users that starts at the page's offset; pages below 1 are the first page.
\<close>

theorem pagination_bounded:
  assumes "runtime env"
  shows "\<exists>r. service_findPaginated env page limit s = (Inr r, s) \<and> 1 \<le> pu_limit r \<and> pu_limit r \<le> 100 \<and>
    int (length (pu_data r)) \<le> pu_limit r \<and> pu_total r = length (filter (\<lambda>u. deletedAt u = None) (users s)) \<and>
    pu_data r = map (decryptUser env) (take (nat (pu_limit r))
      (drop (nat (max (page - 1) 0 * pu_limit r)) (filter (\<lambda>u. deletedAt u = None) (users s))))"
proof -
  let ?l = "min (max limit 1) 100" and ?a = "filter (\<lambda>u. deletedAt u = None) (users s)"
  have all: "filter (live (\<lambda>r. True)) (users s) = ?a" by (simp add: live_def [abs_def])
  have "repo_findPaginated env off n s = (Inr (take n (drop off ?a)), s)" for off n
    unfolding repo_findPaginated_def usersOp_def zoom_def using assms
    by (subst soft_delete_delegate.d_findMany_any [where w = "whereOf (\<lambda>r. True)\<lparr>w_deletedAt := Some IsNull\<rparr>"])
      (simp_all add: query_defs window_def all)
  moreover have "countActive env s = (Inr (length ?a), s)"
    unfolding countActive_def usersOp_def zoom_def using assms
    by (subst soft_delete_delegate.d_count_any) (simp_all add: query_defs all)
  moreover have "int (length (take (nat ?l) xs)) \<le> ?l" for xs :: "user list"
  proof -
    have "int (length (take (nat ?l) xs)) \<le> int (nat ?l)"
      by (simp only: length_take of_nat_le_iff min.cobounded2)
    also have "\<dots> = ?l" by (intro int_nat_eq [THEN trans] if_P) (simp add: le_max_iff_disj)
    finally show ?thesis .
  qed
  ultimately show ?thesis by (simp add: service_findPaginated_def bindM_def Let_def del: length_take)
qed

theorem pagination_bounded_witness:
  "\<exists>r. service_findPaginated memoryEnv (- 3) 1000 emptyDb = (Inr r, emptyDb) \<and> pu_limit r \<le> 100"
  using pagination_bounded [of memoryEnv "- 3" 1000 emptyDb] by auto

end
