(* ===== verification/Notification.thy ===== *)
theory Notification
  imports User
begin

text \<open>
  The notification component: \<open>notification.service.ts\<close> (the transactional half
  \<open>prepareNotification\<close> and the post-commit half \<open>dispatchPrepared\<close>), its
  repositories, the email and push workers, and the two scheduled tasks.

  \<open>prepareNotification\<close> reads the contact data through the root client, outside the
  transaction it writes in, so it takes the committed database as an argument.
\<close>

section \<open>Repositories\<close>

definition createNotification :: "env \<Rightarrow> notification \<Rightarrow> (db, notification) sm" where
  "createNotification env r = zoom notifications notifications_update
     (d_create (notificationE (prisma env)) (now env) (rowOf r))"

definition upsertForUser :: "env \<Rightarrow> string \<Rightarrow> (db, notification_setting) sm" where
  "upsertForUser env userId = zoom notificationSettings notificationSettings_update
     (d_upsert (notificationSettingE (prisma env)) (now env) (whereOf (\<lambda>r. ns_userId r = userId))
        (rowOf (defaultSettings userId)) (setOf (\<lambda>r. r)))"

definition createOutbox :: "env \<Rightarrow> email_outbox \<Rightarrow> (db, email_outbox) sm" where
  "createOutbox env r = zoom emailOutboxes emailOutboxes_update
     (d_create (emailOutboxE (prisma env)) (now env) (rowOf r))"

definition outbox_updateStatus :: "env \<Rightarrow> string \<Rightarrow> (email_outbox \<Rightarrow> email_outbox) \<Rightarrow> (db, email_outbox) sm" where
  "outbox_updateStatus env i f = zoom emailOutboxes emailOutboxes_update
     (d_update (emailOutboxE (prisma env)) (now env) (whereOf (\<lambda>r. rowId r = i)) (setOf f))"

definition findPendingBatch :: "env \<Rightarrow> nat \<Rightarrow> nat \<Rightarrow> (db, email_outbox list) sm" where
  "findPendingBatch env limit maxAttempts = zoom emailOutboxes emailOutboxes_update
     (d_findMany (emailOutboxE (prisma env)) (now env)
        (noArgs\<lparr>a_where := Some (whereOf (\<lambda>r. eo_status r = Email_PENDING \<and> eo_attempts r < maxAttempts)),
                a_orderBy := Some eo_createdAt, a_take := Some limit\<rparr>))"

section \<open>NotificationService\<close>

record prepared_email =
  pe_outboxId :: string
  pe_to :: string
  pe_subject :: string
  pe_html :: string

record prepared_push =
  pp_subscription :: jsval
  pp_title :: string
  pp_body :: string
  pp_data :: jsval

record PreparedNotification =
  prep_email :: "prepared_email option"
  prep_push :: "prepared_push option"

fun truthy :: "jsval \<Rightarrow> bool" where
  "truthy JUndef = False"
| "truthy JNull = False"
| "truthy (JBool b) = b"
| "truthy (JNum q) = (q \<noteq> 0)"
| "truthy (JBigInt i) = (i \<noteq> 0)"
| "truthy (JStr s) = (s \<noteq> [])"
| "truthy _ = True"

fun memberOf :: "string \<Rightarrow> jsval \<Rightarrow> jsval" where
  "memberOf k (JObj ms) = (case map_of ms k of None \<Rightarrow> JUndef | Some v \<Rightarrow> v)"
| "memberOf k _ = JUndef"

fun isObject :: "jsval \<Rightarrow> bool" where
  "isObject JUndef = False"
| "isObject JNull = False"
| "isObject (JBool b) = False"
| "isObject (JNum q) = False"
| "isObject (JBigInt i) = False"
| "isObject (JStr s) = False"
| "isObject _ = True"

definition isPushSubscription :: "jsval \<Rightarrow> bool" where
  "isPushSubscription v \<longleftrightarrow> isObject v \<and> isJStr (memberOf ''endpoint'' v) \<and> truthy (memberOf ''keys'' v)"

definition getPushSubscription :: "env \<Rightarrow> jsval option \<Rightarrow> jsval option" where
  "getPushSubscription env value =
    (case value of
       None \<Rightarrow> None
     | Some (JStr s) \<Rightarrow>
         (case jsonParse env s of
            None \<Rightarrow> None
          | Some parsed \<Rightarrow> if isPushSubscription parsed then Some parsed else None)
     | Some v \<Rightarrow> if isPushSubscription v then Some v else None)"

definition notificationRow :: "string \<Rightarrow> NotificationType \<Rightarrow> string \<Rightarrow> string \<Rightarrow> jsval \<Rightarrow> notification" where
  "notificationRow userId ty title message data = \<lparr>rowId = '''', deletedAt = None, no_userId = userId,
     no_type = ty, no_title = title, no_message = message, no_data = data\<rparr>"

definition outboxRow :: "env \<Rightarrow> string \<Rightarrow> string \<Rightarrow> string \<Rightarrow> email_outbox" where
  "outboxRow env to title message = \<lparr>rowId = '''', deletedAt = None, eo_to = to, eo_subject = title,
     eo_html = ''<p>'' @ message @ ''</p>'', eo_status = Email_PENDING, eo_attempts = 0,
     eo_lastError = None, eo_createdAt = now env\<rparr>"

definition optedOut :: "NotificationType \<Rightarrow> notification_setting \<Rightarrow> bool" where
  "optedOut ty settings \<longleftrightarrow>
     (ty = Notif_CONTRIBUTION \<and> \<not> notifyContributions settings) \<or>
     (ty = Notif_MILESTONE \<and> \<not> notifyMilestones settings) \<or>
     (ty = Notif_DEADLINE \<and> \<not> notifyDeadlines settings)"

definition prepareEmail ::
  "env \<Rightarrow> notification_setting \<Rightarrow> string option \<Rightarrow> string \<Rightarrow> string \<Rightarrow> (db, prepared_email option) sm" where
  "prepareEmail env settings mail title message =
    (case mail of
       None \<Rightarrow> returnM None
     | Some to \<Rightarrow>
         (if emailEnabled settings \<and> to \<noteq> [] then
            bindM (createOutbox env (outboxRow env to title message)) (\<lambda>outbox.
              returnM (Some \<lparr>pe_outboxId = rowId outbox, pe_to = eo_to outbox,
                 pe_subject = eo_subject outbox, pe_html = eo_html outbox\<rparr>))
          else returnM None))"

definition prepareNotification ::
  "env \<Rightarrow> db \<Rightarrow> string \<Rightarrow> NotificationType \<Rightarrow> string \<Rightarrow> string \<Rightarrow> jsval \<Rightarrow> (db, PreparedNotification option) sm" where
  "prepareNotification env committed userId ty title message data =
    (case fst (getDecryptedContact env userId committed) of
       Inl _ \<Rightarrow> returnM None
     | Inr contactData \<Rightarrow>
         bindM (case ct_settings contactData of
                  None \<Rightarrow> upsertForUser env userId | Some st \<Rightarrow> returnM st) (\<lambda>settings.
         if optedOut ty settings then returnM None
         else
           bindM (createNotification env (notificationRow userId ty title message data)) (\<lambda>_.
           bindM (prepareEmail env settings (ct_email contactData) title message) (\<lambda>mail.
           returnM (Some \<lparr>prep_email = mail,
             prep_push = (if pushEnabled settings
               then map_option (\<lambda>sub. \<lparr>pp_subscription = sub, pp_title = title, pp_body = message, pp_data = data\<rparr>)
                      (getPushSubscription env (ct_pushSubscription contactData))
               else None)\<rparr>)))))"

definition noPause :: "int \<Rightarrow> (world, unit) sm" where
  "noPause d = returnM ()"

definition emailJob :: "env \<Rightarrow> prepared_email \<Rightarrow> email_job" where
  "emailJob env e = \<lparr>ej_outboxId = pe_outboxId e, ej_to = pe_to e, ej_subject = pe_subject e,
     ej_html = pe_html e, ej_correlationId = correlationId env\<rparr>"

definition pushJob :: "env \<Rightarrow> prepared_push \<Rightarrow> push_job" where
  "pushJob env p = \<lparr>pj_subscription = pp_subscription p, pj_title = pp_title p, pj_body = pp_body p,
     pj_data = pp_data p, pj_correlationId = correlationId env\<rparr>"

definition dispatchItem :: "env \<Rightarrow> PreparedNotification \<Rightarrow> (world, unit) sm" where
  "dispatchItem env item =
     bindM (case prep_email item of
              None \<Rightarrow> returnM ()
            | Some e \<Rightarrow> catchM (withResilience noPause (random env) (fireQueue env)
                (emailQueueAdd env (emailJob env e)) (Some BULL_QUEUE_POLICY) (Some (returnM ()))) (\<lambda>_. returnM ())) (\<lambda>_.
     case prep_push item of
       None \<Rightarrow> returnM ()
     | Some p \<Rightarrow> catchM (withResilience noPause (random env) (fireQueue env)
         (pushQueueAdd env (pushJob env p)) (Some BULL_QUEUE_POLICY) (Some (returnM ()))) (\<lambda>_. returnM ()))"

definition dispatchPrepared :: "env \<Rightarrow> PreparedNotification list \<Rightarrow> (world, unit) sm" where
  "dispatchPrepared env items = forEachM (dispatchItem env) items"

fun optList :: "'a option \<Rightarrow> 'a list" where
  "optList None = []"
| "optList (Some x) = [x]"

definition notify ::
  "env \<Rightarrow> string \<Rightarrow> NotificationType \<Rightarrow> string \<Rightarrow> string \<Rightarrow> jsval \<Rightarrow> (world, unit) sm" where
  "notify env userId ty title message data =
     bindM (\<lambda>w. inStore (prepareNotification env (store w) userId ty title message data) w)
       (\<lambda>prepared. dispatchPrepared env (optList prepared))"

section \<open>EmailService\<close>

definition EMAIL_MAX_ATTEMPTS :: nat where
  "EMAIL_MAX_ATTEMPTS = 5"

definition isValidEmail :: "string \<Rightarrow> bool" where
  "isValidEmail mail \<longleftrightarrow> fullMatch
     (let r = Rep 1 None (Chr (\<lambda>ch. \<not> isSpace ch \<and> ch \<noteq> CHR ''@''))
      in seqs [r, lit (CHR ''@''), r, lit (CHR ''.''), r]) mail"

text \<open>SendGrid, its breaker, the configured key and the text of a foreign error.\<close>

record mailer =
  apiKey :: string
  sendMail :: "string \<Rightarrow> string \<Rightarrow> string \<Rightarrow> (world, unit) sm"
  fireMail :: "(world, unit) sm \<Rightarrow> (world, unit) sm"
  prismaMessage :: "prisma_error \<Rightarrow> string"

fun errorMessage :: "(prisma_error \<Rightarrow> string) \<Rightarrow> error \<Rightarrow> string" where
  "errorMessage pm (BadRequestException m) = m"
| "errorMessage pm (NotFoundException m) = m"
| "errorMessage pm (UnauthorizedException m) = m"
| "errorMessage pm (ConflictException m) = m"
| "errorMessage pm (HttpException m n) = m"
| "errorMessage pm (PrismaException p) = pm p"
| "errorMessage pm (PlainError m) = m"
| "errorMessage pm (CodedError n k m) = m"

definition markFailed :: "env \<Rightarrow> string \<Rightarrow> string \<Rightarrow> (world, unit) sm" where
  "markFailed env outboxId reason =
     bindM (inStore (outbox_updateStatus env outboxId
       (\<lambda>r. r\<lparr>eo_status := Email_FAILED, eo_lastError := Some reason\<rparr>))) (\<lambda>_. returnM ())"

definition processEmailJob :: "env \<Rightarrow> mailer \<Rightarrow> email_job \<Rightarrow> nat \<Rightarrow> (world, unit) sm" where
  "processEmailJob env m job attemptsMade =
    (if \<not> isValidEmail (ej_to job) then
       bindM (markFailed env (ej_outboxId job) (''Invalid email address: '' @ ej_to job)) (\<lambda>_.
       throwM (BadRequestException (''Invalid email address: '' @ ej_to job)))
     else if apiKey m = [] then
       bindM (markFailed env (ej_outboxId job) ''SENDGRID_API_KEY not set. Email not sent.'') (\<lambda>_.
       throwM (PlainError ''SENDGRID_API_KEY not set. Email not sent.''))
     else
       catchM
         (bindM (withResilience noPause (random env) (fireMail m)
                   (sendMail m (ej_to job) (ej_subject job) (ej_html job)) (Some SENDGRID_POLICY) None) (\<lambda>_.
          bindM (inStore (outbox_updateStatus env (ej_outboxId job)
                   (\<lambda>r. r\<lparr>eo_status := Email_SENT, eo_attempts := attemptsMade + 1\<rparr>))) (\<lambda>_. returnM ())))
         (\<lambda>error.
            let n = attemptsMade + 1; isFinal = n \<ge> EMAIL_MAX_ATTEMPTS in
            bindM (inStore (outbox_updateStatus env (ej_outboxId job)
               (\<lambda>r. r\<lparr>eo_attempts := n, eo_lastError := Some (errorMessage (prismaMessage m) error),
                      eo_status := (if isFinal then Email_FAILED else Email_PENDING)\<rparr>))) (\<lambda>_.
            throwM error)))"

section \<open>WebPushService\<close>

definition processPushJob ::
  "env \<Rightarrow> string \<Rightarrow> (error \<Rightarrow> nat option) \<Rightarrow> ((world, unit) sm \<Rightarrow> (world, unit) sm) \<Rightarrow> (push_job \<Rightarrow> (world, unit) sm) \<Rightarrow>
   push_job \<Rightarrow> (world, unit) sm" where
  "processPushJob env publicKey statusCode firePush sendNotification job =
    (if publicKey = [] then returnM ()
     else catchM
       (withResilience noPause (random env) firePush (sendNotification job)
          (Some (WEB_PUSH_POLICY\<lparr>retryIf := Some (\<lambda>error n. statusCode error \<noteq> Some 410)\<rparr>)) None)
       (\<lambda>error. if statusCode error = Some 410 then returnM () else throwM error))"

section \<open>Scheduled tasks\<close>

definition emailRetry_handleCron :: "env \<Rightarrow> (world, unit) sm" where
  "emailRetry_handleCron env =
     bindM (inStore (findPendingBatch env 50 EMAIL_MAX_ATTEMPTS)) (\<lambda>pending.
     forEachM (\<lambda>e. emailQueueAdd env \<lparr>ej_outboxId = rowId e, ej_to = eo_to e, ej_subject = eo_subject e,
        ej_html = eo_html e, ej_correlationId = None\<rparr>) pending)"

definition deadlineAlert_handleCron :: "env \<Rightarrow> (world, unit) sm" where
  "deadlineAlert_handleCron env =
     bindM (inStore (zoom projects projects_update (d_findMany (projectE (prisma env)) (now env)
        (noArgs\<lparr>a_where := Some (whereOf (\<lambda>p. pr_status p = Project_ACTIVE \<and>
           now env < pr_deadline p \<and> pr_deadline p \<le> now env + 24 * 60 * 60 * 1000))\<rparr>)))) (\<lambda>ps w0.
     forEachM (\<lambda>p.
       let alertTitle = ''24 Hours Left: '' @ pr_title p in
       bindM (inStore (zoom notifications notifications_update (d_findMany (notificationE (prisma env)) (now env)
         (noArgs\<lparr>a_where := Some (whereOf (\<lambda>n. no_type n = Notif_DEADLINE \<and> no_title n = alertTitle)),
                 a_take := Some 1\<rparr>)))) (\<lambda>existing.
       if existing \<noteq> [] then returnM ()
       else forEachM (\<lambda>co. catchM
           (notify env (co_investorId co) Notif_DEADLINE alertTitle
              (''Only 24 hours left for project '' @ pr_title p @ '' to reach its goal.'')
              (JObj [(''projectId'', JStr (rowId p))])) (\<lambda>_. returnM ()))
         (distinctOn co_investorId (filter (\<lambda>co. co_projectId co = rowId p) (contributions (store w0)))))) ps w0)"

section \<open>What the operations do\<close>

lemma keeps_pause [simp]: "keeps I (noPause d)"
  by (simp add: noPause_def)

lemma keeps_lawful:
  assumes "lawfulBreaker fire" "keeps I task"
  shows "keeps I (fire task)"
proof (rule keepsI)
  fix s assume "I s"
  then have "I (snd (task s))" using assms(2) by (simp add: keepsD)
  with \<open>I s\<close> show "I (snd (fire task s))"
    by (cases rule: lawful_cases [OF assms(1), of task s]) simp_all
qed

lemma keeps_resilienceLoop:
  assumes "lawfulBreaker fire" "keeps I task" "\<And>d. keeps I (pause d)" "\<And>f. fallback = Some f \<Longrightarrow> keeps I f"
  shows "keeps I (resilienceLoop pause rnd fire task retry fallback n k a e)"
proof (induction k arbitrary: a e)
  case 0
  then show ?case using assms(4) by (cases fallback) auto
next
  case (Suc k)
  have fired: "keeps I (fire task)" by (rule keeps_lawful [OF assms(1,2)])
  have again: "keeps I (bindM (pause d) (\<lambda>_. resilienceLoop pause rnd fire task retry fallback n k (Suc a) err))" for d err
    using assms(3) Suc.IH by auto
  have last: "keeps I (case fallback of None \<Rightarrow> throwM err | Some f \<Rightarrow> f)" for err
    using assms(4) by (cases fallback) auto
  show ?case
  proof (rule keepsI)
    fix s assume "I s"
    obtain r s' where run: "fire task s = (r, s')" by (cases "fire task s") auto
    then have "I s'" using keepsD [OF fired \<open>I s\<close>] by simp
    with again [THEN keepsD] last [THEN keepsD]
    show "I (snd (resilienceLoop pause rnd fire task retry fallback n (Suc k) a e s))"
      by (cases r; cases retry) (simp_all add: run)
  qed
qed

lemma keeps_withResilience:
  assumes "lawfulBreaker fire" "keeps I task" "\<And>d. keeps I (pause d)" "\<And>f. fallback = Some f \<Longrightarrow> keeps I f"
  shows "keeps I (withResilience pause rnd fire task retry fallback)"
  unfolding withResilience_def Let_def using assms by (rule keeps_resilienceLoop)

context runtime
begin

lemma keeps_store_emailAdd [simp]: "keeps (\<lambda>w. store w = d) (emailQueueAdd env j)"
proof (rule keepsI)
  fix w :: world assume "store w = d"
  then show "store (snd (emailQueueAdd env j w)) = d" using emailAdd_ok [of j w] by auto
qed

lemma keeps_store_pushAdd [simp]: "keeps (\<lambda>w. store w = d) (pushQueueAdd env p)"
proof (rule keepsI)
  fix w :: world assume "store w = d"
  then show "store (snd (pushQueueAdd env p w)) = d" using pushAdd_ok [of p w] by auto
qed

lemma keeps_store_dispatch: "keeps (\<lambda>w. store w = d) (dispatchPrepared env items)"
proof -
  have res: "keeps (\<lambda>w. store w = d)
      (catchM (withResilience noPause (random env) (fireQueue env) task (Some BULL_QUEUE_POLICY) (Some (returnM ())))
        (\<lambda>_. returnM ()))"
    if "keeps (\<lambda>w. store w = d) task" for task
    using breaker_ok that by (intro keeps_catch keeps_withResilience) auto
  have "keeps (\<lambda>w. store w = d) (dispatchItem env item)" for item
    unfolding dispatchItem_def
    by (intro keeps_bind) (auto split: option.split intro!: res)
  then show ?thesis unfolding dispatchPrepared_def by (intro keeps_forEach)
qed

lemma dispatchItem_ok: "fst (dispatchItem env item w) = Inr ()"
proof -
  have "fst (catchM m (\<lambda>_. returnM ()) w') = Inr ()" for m :: "(world, unit) sm" and w'
    by (simp add: catchM_def split: prod.split sum.split)
  then show ?thesis
    by (auto simp: dispatchItem_def bindM_def split: option.split prod.split sum.split)
      (metis fst_conv Inl_Inr_False)+
qed

lemma dispatchPrepared_ok: "fst (dispatchPrepared env items w) = Inr ()"
proof (induction items arbitrary: w)
  case Nil
  then show ?case by (simp add: dispatchPrepared_def)
next
  case (Cons item items)
  obtain w' where "dispatchItem env item w = (Inr (), w')"
    using dispatchItem_ok [of item w] by (metis prod.collapse)
  with Cons show ?case by (simp add: dispatchPrepared_def bindM_def)
qed

lemma dispatchPrepared_store: "store (snd (dispatchPrepared env items w)) = store w"
  using keepsD [OF keeps_store_dispatch, of w "store w"] by simp

text \<open>Lifting to the world: what a transaction keeps of the store, the dispatch keeps too.\<close>

lemma keeps_dispatch: "keeps (\<lambda>w. I (store w)) (dispatchPrepared env ns)"
  by (rule keepsI) (simp add: dispatchPrepared_store)

text \<open>
  The shape every notifying service method has: a transaction that also returns the
  prepared notifications, then their dispatch. Its outcome is the transaction's.
\<close>

lemma committed_Inr:
  assumes "bindM (inStore (transactionC T)) (\<lambda>(r, ns). bindM (dispatchPrepared env (g ns)) (\<lambda>_. returnM r)) w = (Inr x, w')"
  shows "\<exists>ns. T (store w) (store w) = (Inr (x, ns), store w')"
proof -
  obtain rn w1 where t: "inStore (transactionC T) w = (Inr rn, w1)"
    and rest: "(case rn of (r, ns) \<Rightarrow> bindM (dispatchPrepared env (g ns)) (\<lambda>_. returnM r)) w1 = (Inr x, w')"
    using assms by (rule bindM_InrE)
  obtain r ns where rn: "rn = (r, ns)" by fastforce
  obtain w2 where d: "dispatchPrepared env (g ns) w1 = (Inr (), w2)"
    using dispatchPrepared_ok [of "g ns" w1] by (metis prod.collapse)
  have "r = x" "w2 = w'" using rest by (simp_all add: rn bindM_def d)
  moreover have "store w2 = store w1" using dispatchPrepared_store [of "g ns" w1] d by simp
  moreover have "T (store w) (store w) = (Inr (r, ns), store w1)"
    using t by (auto simp: inStore_def zoom_Inr_iff transactionC_def transaction_Inr_iff rn)
  ultimately show ?thesis by auto
qed

lemma committed_Inl:
  assumes "bindM (inStore (transactionC T)) (\<lambda>(r, ns). bindM (dispatchPrepared env (g ns)) (\<lambda>_. returnM r)) w = (Inl e, w')"
  shows "w' = w"
proof -
  obtain o1 s1 where t: "T (store w) (store w) = (o1, s1)" by fastforce
  show ?thesis
  proof (cases o1)
    case (Inl e1)
    then show ?thesis using assms t
      by (simp add: inStore_def zoom_def transactionC_def transaction_def bindM_def)
  next
    case (Inr rn)
    obtain r ns where rn: "rn = (r, ns)" by fastforce
    obtain w2 where "dispatchPrepared env (g ns) (w\<lparr>store := s1\<rparr>) = (Inr (), w2)"
      using dispatchPrepared_ok [of "g ns" "w\<lparr>store := s1\<rparr>"] by (metis prod.collapse)
    then show ?thesis using assms t
      by (simp add: inStore_def zoom_def transactionC_def transaction_def bindM_def Inr rn)
  qed
qed

lemma committed_unchanged:
  assumes "T (store w) (store w) = (Inr (x, ns), store w)" "g ns = []"
  shows "bindM (inStore (transactionC T)) (\<lambda>(r, ns). bindM (dispatchPrepared env (g ns)) (\<lambda>_. returnM r)) w = (Inr x, w)"
  using assms by (simp add: inStore_def zoom_def transactionC_def transaction_def bindM_def dispatchPrepared_def)

end

section \<open>Properties\<close>

text \<open>
  Dispatch is best effort. Queuing the jobs of prepared notifications never throws,
  whatever the queues and the circuit breaker do, and never touches the database, so it
  cannot undo or fail the committed business operation it follows.
\<close>

theorem dispatch_best_effort:
  assumes "runtime env"
  shows "\<exists>w'. dispatchPrepared env items w = (Inr (), w') \<and> store w' = store w"
proof -
  have "dispatchPrepared env items w = (Inr (), snd (dispatchPrepared env items w))"
    using runtime.dispatchPrepared_ok [OF assms, of items w] by (metis prod.collapse)
  with runtime.dispatchPrepared_store [OF assms, of items w] show ?thesis by blast
qed

theorem dispatch_best_effort_witness:
  "\<exists>w'. dispatchPrepared memoryEnv [\<lparr>prep_email = Some \<lparr>pe_outboxId = ''o1'', pe_to = ''a'', pe_subject = ''s'', pe_html = ''h''\<rparr>,
      prep_push = None\<rparr>] \<lparr>store = emptyDb, emailJobs = [], pushJobs = []\<rparr> = (Inr (), w') \<and> store w' = emptyDb"
  using dispatch_best_effort [OF memoryEnv_laws] by fastforce

end
