(* ===== verification/Insurance.thy ===== *)
theory Insurance
  imports Notification
begin

text \<open>
  \<open>insurance/insurance.service.ts\<close> and \<open>InsurancePolicyRepository\<close>: purchase,
  cancellation and expiry of policies. The database part of a purchase is one
  transaction; the queue jobs of its notification are added after the commit, so the
  method runs on \<open>world\<close> while cancellation and expiry run on \<open>db\<close>.
\<close>

section \<open>InsurancePolicyRepository\<close>

definition policiesOp :: "env \<Rightarrow> (insurance_policy engine \<Rightarrow> int \<Rightarrow> (insurance_policy list, 'a) sm) \<Rightarrow> (db, 'a) sm" where
  "policiesOp env m = zoom insurancePolicies insurancePolicies_update (m (insurancePolicyE (prisma env)) (now env))"

definition policy_findById :: "env \<Rightarrow> string \<Rightarrow> (db, insurance_policy option) sm" where
  "policy_findById env i = policiesOp env (\<lambda>e t. d_findUnique e t (whereOf (\<lambda>r. rowId r = i)))"

definition createPolicy :: "env \<Rightarrow> insurance_policy \<Rightarrow> (db, insurance_policy) sm" where
  "createPolicy env r = policiesOp env (\<lambda>e t. d_create e t (rowOf r))"

definition policy_updateStatus :: "env \<Rightarrow> string \<Rightarrow> PolicyStatus \<Rightarrow> (db, insurance_policy) sm" where
  "policy_updateStatus env i st = policiesOp env (\<lambda>e t. d_update e t (whereOf (\<lambda>r. rowId r = i))
     (setOf (\<lambda>r. r\<lparr>po_status := st\<rparr>)))"

section \<open>InsuranceService\<close>

definition coveringPolicy :: "string \<Rightarrow> string \<Rightarrow> insurance_policy \<Rightarrow> bool" where
  "coveringPolicy userId poolId r \<longleftrightarrow> po_userId r = userId \<and> po_poolId r = poolId \<and>
     po_status r \<in> {Policy_ACTIVE, Policy_PENDING}"

definition policyRow :: "string \<Rightarrow> string \<Rightarrow> RiskType \<Rightarrow> rat \<Rightarrow> rat \<Rightarrow> insurance_policy" where
  "policyRow userId poolId riskType coverageAmount premium = \<lparr>rowId = '''', deletedAt = None,
     po_userId = userId, po_poolId = poolId, po_riskType = riskType, po_status = Policy_ACTIVE,
     po_premium = premium, po_coverageAmount = coverageAmount, po_endDate = None\<rparr>"

definition purchaseTx ::
  "env \<Rightarrow> string \<Rightarrow> string \<Rightarrow> RiskType \<Rightarrow> rat \<Rightarrow> db \<Rightarrow> (db, insurance_policy \<times> PreparedNotification option) sm" where
  "purchaseTx env userId poolId riskType coverageAmount committed =
     bindM (policiesOp env (\<lambda>e t. d_findFirst e t (whereOf (coveringPolicy userId poolId)))) (\<lambda>existingPolicy.
     case existingPolicy of
       Some p \<Rightarrow> returnM (p, None)
     | None \<Rightarrow>
        (let premium = calculatePremium riskType coverageAmount in
         bindM (lockCapital env poolId coverageAmount True) (\<lambda>_.
         bindM (createPolicy env (policyRow userId poolId riskType coverageAmount premium)) (\<lambda>created.
         bindM (logPurchase env ''InsurancePolicy'' (rowId created) (policyJs created) None (Some ''Policy purchased'')) (\<lambda>_.
         bindM (prepareNotification env committed userId Notif_POLICY_PURCHASED ''Policy Purchased''
            (''Your '' @ riskTypeText riskType @ '' policy is now active with coverage of ''
               @ decimalText env coverageAmount @ ''.'')
            (JObj [(''policyId'', JStr (rowId created)), (''riskType'', JStr (riskTypeText riskType)),
                   (''coverageAmount'', JStr (decimalText env coverageAmount))])) (\<lambda>purchaseNotification.
         returnM (created, purchaseNotification)))))))"

definition purchasePolicy ::
  "env \<Rightarrow> string \<Rightarrow> string \<Rightarrow> RiskType \<Rightarrow> rat \<Rightarrow> (world, insurance_policy) sm" where
  "purchasePolicy env userId poolId riskType coverageAmount =
    (if userId = [] \<or> poolId = [] then throwM (BadRequestException ''userId and poolId are required'')
     else if coverageAmount \<le> 0 then throwM (BadRequestException ''Coverage amount must be positive'')
     else
       bindM (inStore (transactionC (purchaseTx env userId poolId riskType coverageAmount))) (\<lambda>(created, prepared).
       bindM (dispatchPrepared env (optList prepared)) (\<lambda>_.
       returnM created)))"

definition terminal :: "PolicyStatus \<Rightarrow> bool" where
  "terminal st \<longleftrightarrow> st = Policy_CANCELLED \<or> st = Policy_EXPIRED"

definition cancelPolicy :: "env \<Rightarrow> string \<Rightarrow> (db, insurance_policy) sm" where
  "cancelPolicy env policyId = transaction
     (bindM (policy_findById env policyId) (\<lambda>found.
      case found of
        None \<Rightarrow> throwM (BadRequestException (''Policy '' @ policyId @ '' not found''))
      | Some policy \<Rightarrow>
         (if po_status policy = Policy_CANCELLED \<or> po_status policy = Policy_EXPIRED then returnM policy
          else
            bindM (policy_updateStatus env policyId Policy_CANCELLED) (\<lambda>updated.
            bindM (unlockCapital env (po_poolId policy) (po_coverageAmount policy) True) (\<lambda>_.
            bindM (logUpdate env ''InsurancePolicy'' policyId (policyJs policy) (policyJs updated) None
                     (Some ''Policy cancelled'')) (\<lambda>_.
            returnM updated))))))"

definition expirePolicy :: "env \<Rightarrow> string \<Rightarrow> (db, insurance_policy) sm" where
  "expirePolicy env policyId = transaction
     (bindM (policy_findById env policyId) (\<lambda>found.
      case found of
        None \<Rightarrow> throwM (BadRequestException (''Policy '' @ policyId @ '' not found''))
      | Some policy \<Rightarrow>
         (if po_status policy = Policy_EXPIRED \<or> po_status policy = Policy_CANCELLED then returnM policy
          else
            bindM (policy_updateStatus env policyId Policy_EXPIRED) (\<lambda>updated.
            bindM (unlockCapital env (po_poolId policy) (po_coverageAmount policy) True) (\<lambda>_.
            bindM (logUpdate env ''InsurancePolicy'' policyId (policyJs policy) (policyJs updated) None
                     (Some ''Policy expired'')) (\<lambda>_.
            returnM updated))))))"

section \<open>Frames\<close>

text \<open>Everything but the three tables a notification writes.\<close>

definition coreTables where
  "coreTables s = (users s, insurancePools s, insurancePolicies s, claims s, auditLogs s,
     reputationHistories s, reinsuranceContracts s)"

lemma prepareNotification_core:
  assumes "runtime env"
  shows "keeps (\<lambda>s. coreTables s = x) (prepareNotification env c0 u ty ti m d)"
proof -
  have up: "keeps (\<lambda>s. coreTables s = x) (upsertForUser env u)"
    using assms by (auto intro!: keepsI simp: upsertForUser_def zoom_def coreTables_def Let_def split: option.splits)
  have new: "keeps (\<lambda>s. coreTables s = x) (createNotification env r)" for r
    using assms by (auto intro!: keepsI simp: createNotification_def zoom_def coreTables_def Let_def split: option.splits)
  have out: "keeps (\<lambda>s. coreTables s = x) (createOutbox env r)" for r
    using assms by (auto intro!: keepsI simp: createOutbox_def zoom_def coreTables_def Let_def split: option.splits)
  have mail: "keeps (\<lambda>s. coreTables s = x) (prepareEmail env st ml ti m)" for st ml
    using out by (auto simp: prepareEmail_def split: option.splits)
  show ?thesis
    unfolding prepareNotification_def by (intro keeps_rules up new mail)
qed

lemma prepareNotification_frame:
  assumes "runtime env" "prepareNotification env c0 u ty ti m d s = (r, s')"
  shows "coreTables s' = coreTables s"
  using keepsD [OF prepareNotification_core [OF assms(1)], of s "coreTables s" c0 u ty ti m d] assms(2) by simp

lemma coreTables_simps:
  "coreTables s' = coreTables s \<Longrightarrow> users s' = users s \<and> insurancePools s' = insurancePools s \<and>
     insurancePolicies s' = insurancePolicies s \<and> claims s' = claims s \<and> auditLogs s' = auditLogs s \<and>
     reputationHistories s' = reputationHistories s"
  by (simp add: coreTables_def)

lemma ledgerOf_cong: "insurancePools s = insurancePools s' \<Longrightarrow> ledgerOf s = ledgerOf s'"
  by (simp add: fun_eq_iff ledgerOf_def poolOf_def)

section \<open>Policies by identifier\<close>

definition policyOf :: "db \<Rightarrow> string \<Rightarrow> insurance_policy option" where
  "policyOf s i = find (live (\<lambda>r. rowId r = i)) (insurancePolicies s)"

definition setPolicy :: "string \<Rightarrow> PolicyStatus \<Rightarrow> db \<Rightarrow> db" where
  "setPolicy i st s = s\<lparr>insurancePolicies :=
     updateFirst (live (\<lambda>r. rowId r = i)) (\<lambda>r. r\<lparr>po_status := st\<rparr>) (insurancePolicies s)\<rparr>"

lemma policy_runs [simp]:
  assumes "runtime env"
  shows "policy_findById env i s = (Inr (policyOf s i), s)"
    and "policy_updateStatus env i st s =
      (case policyOf s i of None \<Rightarrow> (Inl (PrismaException (PrismaClientKnownRequestError ''P2025'')), s)
       | Some p \<Rightarrow> (Inr (p\<lparr>po_status := st\<rparr>), setPolicy i st s))"
  using assms
  by (auto simp: policy_findById_def policy_updateStatus_def policiesOp_def zoom_def policyOf_def setPolicy_def
      split: option.splits)

lemma policyOf_setPolicy [simp]:
  "policyOf (setPolicy i st s) j =
     (if j = i then map_option (\<lambda>r. r\<lparr>po_status := st\<rparr>) (policyOf s i) else policyOf s j)"
  by (simp add: policyOf_def setPolicy_def find_live_updateFirst)

lemma setPolicy_frame [simp]:
  "poolOf (setPolicy i st s) j = poolOf s j" "auditLogs (setPolicy i st s) = auditLogs s"
  "insurancePools (setPolicy i st s) = insurancePools s" "claims (setPolicy i st s) = claims s"
  "users (setPolicy i st s) = users s" "ledgerOf (setPolicy i st s) = ledgerOf s"
  by (simp_all add: setPolicy_def poolOf_def fun_eq_iff ledgerOf_def)

lemma policyOf_frames [simp]:
  "policyOf (setPool k f s) j = policyOf s j"
  "policyOf (addAudit env act ty k b a h r s) j = policyOf s j"
  by (simp_all add: policyOf_def)

section \<open>Cancellation and expiry\<close>

text \<open>Both operations are one generic step, which differs in the target status and the audit reason.\<close>

definition endPolicy :: "env \<Rightarrow> string \<Rightarrow> PolicyStatus \<Rightarrow> string \<Rightarrow> (db, insurance_policy) sm" where
  "endPolicy env policyId st reason = transaction
     (bindM (policy_findById env policyId) (\<lambda>found.
      case found of
        None \<Rightarrow> throwM (BadRequestException (''Policy '' @ policyId @ '' not found''))
      | Some policy \<Rightarrow>
         (if terminal (po_status policy) then returnM policy
          else
            bindM (policy_updateStatus env policyId st) (\<lambda>updated.
            bindM (unlockCapital env (po_poolId policy) (po_coverageAmount policy) True) (\<lambda>_.
            bindM (logUpdate env ''InsurancePolicy'' policyId (policyJs policy) (policyJs updated) None (Some reason)) (\<lambda>_.
            returnM updated))))))"

lemma cancel_expire_end:
  "cancelPolicy env i = endPolicy env i Policy_CANCELLED ''Policy cancelled''"
  "expirePolicy env i = endPolicy env i Policy_EXPIRED ''Policy expired''"
  by (simp_all add: cancelPolicy_def expirePolicy_def endPolicy_def terminal_def disj_commute
      cong: option.case_cong)

lemma endPolicy_missing:
  assumes "runtime env" "policyOf s i = None"
  shows "endPolicy env i st reason s = (Inl (BadRequestException (''Policy '' @ i @ '' not found'')), s)"
  using assms by (simp add: endPolicy_def transaction_def bindM_def)

lemma endPolicy_terminal:
  assumes "runtime env" "policyOf s i = Some p" "terminal (po_status p)"
  shows "endPolicy env i st reason s = (Inr p, s)"
  using assms by (simp add: endPolicy_def transaction_def bindM_def)

lemma endPolicy_Inr:
  assumes "runtime env" "endPolicy env i st reason s = (Inr p', s')" "policyOf s i = Some p" "\<not> terminal (po_status p)"
  shows "p' = p\<lparr>po_status := st\<rparr> \<and> policyOf s' i = Some p' \<and> (\<forall>j. j \<noteq> i \<longrightarrow> policyOf s' j = policyOf s j)
    \<and> 0 < po_coverageAmount p \<and> ledgerOf s' = unlockStep (po_coverageAmount p) (po_poolId p) (ledgerOf s)
    \<and> map au_action (auditLogs s') = map au_action (auditLogs s) @ [Audit_UNLOCK_CAPITAL, Audit_UPDATE]"
proof -
  obtain q s2 s3 where run:
    "unlockCapital env (po_poolId p) (po_coverageAmount p) True (setPolicy i st s) = (Inr q, s2)"
    "logUpdate env ''InsurancePolicy'' i (policyJs p) (policyJs (p\<lparr>po_status := st\<rparr>)) None (Some reason) s2 = (Inr (), s3)"
    and p': "p' = p\<lparr>po_status := st\<rparr>" "s' = s3"
    using assms
    by (auto simp: endPolicy_def transaction_def bindM_def split: prod.splits sum.splits)
  have s3: "s3 = addAudit env Audit_UPDATE ''InsurancePolicy'' i (policyJs p) (policyJs (p\<lparr>po_status := st\<rparr>)) None (Some reason) s2"
    using run(2) assms(1) auditService_log_add_Inr by (simp add: logUpdate_def)
  show ?thesis
    by (rule unlockCapital_Inr [OF assms(1) run(1)])
      (simp add: s3 p' assms(3))
qed

lemma endPolicy_Inr_cases:
  assumes "runtime env" "endPolicy env i st reason s = (Inr p', s')"
  obtains (terminal) p where "policyOf s i = Some p" "terminal (po_status p)" "p' = p" "s' = s"
  | (ended) p where "policyOf s i = Some p" "\<not> terminal (po_status p)" "p' = p\<lparr>po_status := st\<rparr>"
proof (cases "policyOf s i")
  case None
  then show thesis using endPolicy_missing [OF assms(1) None] assms(2) by simp
next
  case (Some p)
  show thesis
  proof (cases "terminal (po_status p)")
    case True
    then show thesis
      using endPolicy_terminal [OF assms(1) Some True, of st reason] assms(2) Some by (intro that(1)) simp_all
  next
    case False
    then show thesis using endPolicy_Inr [OF assms Some False] Some by (intro that(2)) simp_all
  qed
qed

section \<open>Purchase\<close>

lemma purchaseTx_existing:
  assumes "runtime env" "find (live (coveringPolicy u k)) (insurancePolicies s) = Some p"
  shows "purchaseTx env u k rt cov c0 s = (Inr (p, None), s)"
  using assms by (simp add: purchaseTx_def policiesOp_def zoom_def bindM_def)

lemma createPolicy_Inr:
  assumes "runtime env" "createPolicy env r s = (Inr p, s')"
  shows "p = newRow (rowOf r) (genId (insurancePolicyE (prisma env)) (insurancePolicies s)) \<and>
    s' = s\<lparr>insurancePolicies := insurancePolicies s @ [p]\<rparr>"
  using assms
  by (auto simp: createPolicy_def policiesOp_def zoom_def Let_def split: option.splits)

lemma newRow_policy [simp]:
  "rowId (newRow (rowOf r) i) = i" "deletedAt (newRow (rowOf r) i) = None"
  by (simp_all add: newRow_def rowOf_def)

lemma purchaseTx_Inr:
  assumes "runtime env" "find (live (coveringPolicy u k)) (insurancePolicies s) = None"
    and "purchaseTx env u k rt cov c0 s = (Inr (p, prep), s')"
  shows "p = newRow (rowOf (policyRow u k rt cov (calculatePremium rt cov))) (rowId p)
    \<and> rowId p \<notin> rowId ` set (insurancePolicies s) \<and> insurancePolicies s' = insurancePolicies s @ [p]
    \<and> ledgerOf s' = lockStep cov k (ledgerOf s) \<and> ledgerOf s k \<noteq> None
    \<and> map au_action (auditLogs s') = map au_action (auditLogs s) @ [Audit_UPDATE, Audit_PURCHASE]"
proof -
  obtain q s1 s2 s3 where run:
    "lockCapital env k cov True s = (Inr q, s1)"
    "createPolicy env (policyRow u k rt cov (calculatePremium rt cov)) s1 = (Inr p, s2)"
    "logPurchase env ''InsurancePolicy'' (rowId p) (policyJs p) None (Some ''Policy purchased'') s2 = (Inr (), s3)"
    and prep: "\<exists>ty ti m d. prepareNotification env c0 u ty ti m d s3 = (Inr prep, s')"
    using assms
    by (simp add: purchaseTx_def policiesOp_def zoom_def bindM_def split: prod.splits sum.splits) blast
  note created = createPolicy_Inr [OF assms(1) run(2)]
  have s3: "s3 = addAudit env Audit_PURCHASE ''InsurancePolicy'' (rowId p) JNull (policyJs p) None (Some ''Policy purchased'') s2"
    using run(3) auditService_log_add_Inr [OF assms(1)] by (simp add: logPurchase_def)
  have core: "insurancePools s' = insurancePools s3 \<and> insurancePolicies s' = insurancePolicies s3 \<and> auditLogs s' = auditLogs s3"
    using prep prepareNotification_frame [OF assms(1)] coreTables_simps by blast
  have fresh: "genId (insurancePolicyE (prisma env)) t \<notin> rowId ` set t" for t
    using assms(1) by (intro delegate_genId) simp
  have locked: "insurancePolicies s1 = insurancePolicies s \<and> ledgerOf s1 = lockStep cov k (ledgerOf s) \<and>
      ledgerOf s k \<noteq> None \<and> map au_action (auditLogs s1) = map au_action (auditLogs s) @ [Audit_UPDATE]"
    by (rule lockCapital_Inr [OF assms(1) run(1)]) (simp add: ledgerOf_Some)
  have pol: "insurancePolicies s' = insurancePolicies s @ [p]"
    using core s3 created locked by simp
  have led: "ledgerOf s' = ledgerOf s1"
    by (rule ledgerOf_cong) (simp add: core s3 created)
  have aud: "map au_action (auditLogs s') = map au_action (auditLogs s1) @ [Audit_PURCHASE]"
    by (simp add: core s3 created)
  have row: "rowId p = genId (insurancePolicyE (prisma env)) (insurancePolicies s)"
    using created locked by simp
  then have "p = newRow (rowOf (policyRow u k rt cov (calculatePremium rt cov))) (rowId p)"
    using created locked by simp
  moreover have "rowId p \<notin> rowId ` set (insurancePolicies s)"
    unfolding row by (rule fresh)
  ultimately show ?thesis using pol led aud locked by simp
qed

end
