(* ===== verification/Claims.thy ===== *)
theory Claims
  imports Insurance
begin

text \<open>
  \<open>insurance/claim.service.ts\<close>, \<open>insurance/reinsurance.service.ts\<close> and their
  repositories: submission, assessment (fraud heuristics, oracle check, approval or
  rejection) and payout of claims, and reinsurance contracts. A claim read with
  \<open>include: { policy: true }\<close> is a pair of the claim and the policy row it refers to;
  the nested row is not filtered by the soft-delete middleware.
\<close>

section \<open>ClaimRepository\<close>

definition claimsOp :: "env \<Rightarrow> (claim engine \<Rightarrow> int \<Rightarrow> (claim list, 'a) sm) \<Rightarrow> (db, 'a) sm" where
  "claimsOp env m = zoom claims claims_update (m (claimE (prisma env)) (now env))"

type_synonym ClaimWithPolicy = "claim \<times> insurance_policy option"

definition includePolicy :: "db \<Rightarrow> claim \<Rightarrow> ClaimWithPolicy" where
  "includePolicy s r = (r, find (\<lambda>p. rowId p = cl_policyId r) (insurancePolicies s))"

definition findByIdWithPolicy :: "env \<Rightarrow> string \<Rightarrow> (db, ClaimWithPolicy option) sm" where
  "findByIdWithPolicy env i =
     bindM (claimsOp env (\<lambda>e t. d_findUnique e t (whereOf (\<lambda>r. rowId r = i)))) (\<lambda>found s.
       (Inr (map_option (includePolicy s) found), s))"

definition repo_createClaim :: "env \<Rightarrow> claim \<Rightarrow> (db, claim) sm" where
  "repo_createClaim env r = claimsOp env (\<lambda>e t. d_create e t (rowOf r))"

definition updateStatusWithPolicy :: "env \<Rightarrow> string \<Rightarrow> (claim \<Rightarrow> claim) \<Rightarrow> (db, ClaimWithPolicy) sm" where
  "updateStatusWithPolicy env i f =
     bindM (claimsOp env (\<lambda>e t. d_update e t (whereOf (\<lambda>r. rowId r = i)) (setOf f))) (\<lambda>r s.
       (Inr (includePolicy s r), s))"

definition countDuplicates :: "env \<Rightarrow> string \<Rightarrow> rat \<Rightarrow> string \<Rightarrow> int \<Rightarrow> ClaimStatus \<Rightarrow> (db, nat) sm" where
  "countDuplicates env policyId amount excludeId since excludeStatus =
     claimsOp env (\<lambda>e t. d_count e t (whereOf (\<lambda>r. cl_policyId r = policyId \<and> cl_claimAmount r = amount \<and>
       cl_status r \<noteq> excludeStatus \<and> rowId r \<noteq> excludeId \<and> since < cl_createdAt r)))"

definition countRecent :: "env \<Rightarrow> string \<Rightarrow> int \<Rightarrow> (db, nat) sm" where
  "countRecent env policyId since =
     claimsOp env (\<lambda>e t. d_count e t (whereOf (\<lambda>r. cl_policyId r = policyId \<and> since < cl_createdAt r)))"

section \<open>ClaimService\<close>

definition runFraudDetection :: "env \<Rightarrow> claim \<Rightarrow> (db, bool) sm" where
  "runFraudDetection env c =
     bindM (countDuplicates env (cl_policyId c) (cl_claimAmount c) (rowId c) (now env - 30 * msPerDay) Claim_REJECTED)
       (\<lambda>duplicateClaims.
     bindM (countRecent env (cl_policyId c) (now env - 90 * msPerDay)) (\<lambda>recentClaims.
     let hour = getHours (tzOffset env) (cl_createdAt c);
         dayOfWeek = getDay (tzOffset env) (cl_createdAt c);
         fraudIndicators =
           (if duplicateClaims > 0 then [''DUPLICATE_CLAIM''] else []) @
           (if recentClaims \<ge> 3 then [''HIGH_FREQUENCY''] else []) @
           (if hour < 6 \<or> hour > 22 \<or> dayOfWeek = 0 \<or> dayOfWeek = 6 then [''UNUSUAL_TIMING''] else [])
     in returnM (length fraudIndicators \<ge> 2)))"

definition verifyOracle :: "env \<Rightarrow> string \<Rightarrow> (db, bool) sm" where
  "verifyOracle env claimId = catchM
     (bindM (findByIdWithPolicy env claimId) (\<lambda>found.
      case found of
        Some (c, Some p) \<Rightarrow>
          (if po_status p \<noteq> Policy_ACTIVE \<or> (case po_endDate p of None \<Rightarrow> False | Some d \<Rightarrow> d < now env)
           then returnM False
           else if cl_claimAmount c \<le> 0 \<or> cl_claimAmount c > po_coverageAmount p then returnM False
           else bindM (auditService_log env Audit_ORACLE_VERIFIED ''Claim'' claimId JUndef JUndef None
                         (Some ''Oracle verification successful'')) (\<lambda>_. returnM True))
      | _ \<Rightarrow> returnM False))
     (\<lambda>_. returnM False)"

definition rejectClaim ::
  "env \<Rightarrow> db \<Rightarrow> string \<Rightarrow> jsval \<Rightarrow> string \<Rightarrow> insurance_policy \<Rightarrow> (db, ClaimWithPolicy \<times> PreparedNotification list) sm" where
  "rejectClaim env committed claimId beforeState reason p =
     bindM (updateStatusWithPolicy env claimId (\<lambda>r. r\<lparr>cl_status := Claim_REJECTED\<rparr>)) (\<lambda>updated.
     bindM (unlockCapital env (po_poolId p) (cl_claimAmount (fst updated)) True) (\<lambda>_.
     bindM (logReject env ''Claim'' claimId beforeState (claimWithPolicyJs updated) (Some reason)) (\<lambda>_.
     bindM (adjustReputation env (po_userId p) CLAIM_REJECTED_DELTA
              (''Claim '' @ claimId @ '' rejected: '' @ reason) True) (\<lambda>_.
     bindM (prepareNotification env committed (po_userId p) Notif_CLAIM_REJECTED ''Claim Rejected''
              (''Your claim '' @ claimId @ '' was rejected: '' @ reason)
              (JObj [(''claimId'', JStr claimId), (''policyId'', JStr (rowId p)), (''reason'', JStr reason)])) (\<lambda>prepared.
     returnM (updated, optList prepared))))))"

definition approveClaim ::
  "env \<Rightarrow> db \<Rightarrow> string \<Rightarrow> jsval \<Rightarrow> claim \<Rightarrow> insurance_policy \<Rightarrow> (db, ClaimWithPolicy \<times> PreparedNotification list) sm" where
  "approveClaim env committed claimId beforeState c p =
     bindM (updateStatusWithPolicy env claimId
              (\<lambda>r. r\<lparr>cl_status := Claim_APPROVED, cl_payoutAmount := Some (cl_claimAmount c)\<rparr>)) (\<lambda>updated.
     bindM (logApprove env ''Claim'' claimId beforeState (claimWithPolicyJs updated) None None) (\<lambda>_.
     bindM (adjustReputation env (po_userId p) CLAIM_APPROVED_DELTA (''Claim '' @ claimId @ '' approved'') True) (\<lambda>_.
     bindM (prepareNotification env committed (po_userId p) Notif_CLAIM_APPROVED ''Claim Approved''
              (''Your claim '' @ claimId @ '' has been approved for payout.'')
              (JObj [(''claimId'', JStr claimId), (''policyId'', JStr (rowId p))])) (\<lambda>prepared.
     returnM (updated, optList prepared)))))"

definition flagFraud :: "env \<Rightarrow> string \<Rightarrow> jsval \<Rightarrow> claim \<Rightarrow> insurance_policy \<Rightarrow> (db, unit) sm" where
  "flagFraud env claimId beforeState c p =
     bindM (runFraudDetection env c) (\<lambda>isFraudulent.
     if isFraudulent then
       bindM (auditService_log env Audit_FRAUD_DETECTED ''Claim'' claimId beforeState
                (claimWithPolicyJs (c, Some p)) None (Some ''High fraud risk score detected'')) (\<lambda>_.
       bindM (adjustReputation env (po_userId p) FRAUD_DETECTED_DELTA
                (''Fraud detected on claim '' @ claimId) True) (\<lambda>_. returnM ()))
     else returnM ())"

definition assessTx :: "env \<Rightarrow> string \<Rightarrow> db \<Rightarrow> (db, ClaimWithPolicy \<times> PreparedNotification list) sm" where
  "assessTx env claimId committed =
     bindM (findByIdWithPolicy env claimId) (\<lambda>found.
     case found of
       None \<Rightarrow> throwM (NotFoundException (''Claim with ID '' @ claimId @ '' not found''))
     | Some (c, None) \<Rightarrow> throwM (NotFoundException (''Policy for claim '' @ claimId @ '' not found''))
     | Some (c, Some p) \<Rightarrow>
        (if cl_status c \<noteq> Claim_PENDING then returnM ((c, Some p), [])
         else let beforeState = claimWithPolicyJs (c, Some p) in
           if po_status p \<noteq> Policy_ACTIVE then
             rejectClaim env committed claimId beforeState
               (''Policy is not active: '' @ policyStatusText (po_status p)) p
           else if cl_claimAmount c > po_coverageAmount p then
             rejectClaim env committed claimId beforeState ''Claim amount exceeds coverage'' p
           else
             bindM (flagFraud env claimId beforeState c p) (\<lambda>_.
             bindM (verifyOracle env claimId) (\<lambda>oracleVerified.
             if \<not> oracleVerified then
               rejectClaim env committed claimId beforeState ''Oracle verification failed'' p
             else approveClaim env committed claimId beforeState c p))))"

definition assessClaim :: "env \<Rightarrow> string \<Rightarrow> (world, ClaimWithPolicy) sm" where
  "assessClaim env claimId =
     bindM (inStore (transactionC (assessTx env claimId))) (\<lambda>(result, preparedNotifications).
     bindM (dispatchPrepared env preparedNotifications) (\<lambda>_.
     returnM result))"

definition payTx :: "env \<Rightarrow> string \<Rightarrow> db \<Rightarrow> (db, ClaimWithPolicy \<times> PreparedNotification list) sm" where
  "payTx env claimId committed =
     bindM (findByIdWithPolicy env claimId) (\<lambda>found.
     case found of
       None \<Rightarrow> throwM (NotFoundException (''Claim with ID '' @ claimId @ '' not found''))
     | Some (c, op) \<Rightarrow>
        (if cl_status c = Claim_PAID then returnM ((c, op), [])
         else
           bindM (updateStatusWithPolicy env claimId (\<lambda>r. r\<lparr>cl_status := Claim_PAID\<rparr>)) (\<lambda>updatedClaim.
           bindM (case op of None \<Rightarrow> returnM ()
                  | Some p \<Rightarrow> bindM (unlockCapital env (po_poolId p) (cl_claimAmount c) True) (\<lambda>_. returnM ())) (\<lambda>_.
           bindM (logPayout env ''Claim'' claimId (claimWithPolicyJs (c, op)) (claimWithPolicyJs updatedClaim) None None) (\<lambda>_.
           bindM (case op of None \<Rightarrow> returnM None
                  | Some p \<Rightarrow> prepareNotification env committed (po_userId p) Notif_CLAIM_PAID ''Claim Paid''
                      (''Your claim '' @ claimId @ '' has been paid out.'')
                      (JObj [(''claimId'', JStr claimId), (''policyId'', JStr (rowId p)),
                             (''payoutAmount'', JStr (decimalText env (cl_claimAmount c)))])) (\<lambda>payoutNotification.
           returnM (updatedClaim, optList payoutNotification)))))))"

definition payClaim :: "env \<Rightarrow> string \<Rightarrow> (world, ClaimWithPolicy) sm" where
  "payClaim env claimId =
     bindM (inStore (transactionC (payTx env claimId))) (\<lambda>(result, payoutNotification).
     bindM (dispatchPrepared env payoutNotification) (\<lambda>_.
     returnM result))"

definition claimRow :: "env \<Rightarrow> string \<Rightarrow> rat \<Rightarrow> claim" where
  "claimRow env policyId amount = \<lparr>rowId = '''', deletedAt = None, cl_policyId = policyId,
     cl_claimAmount = amount, cl_status = Claim_PENDING, cl_payoutAmount = None, cl_createdAt = now env\<rparr>"

definition createClaimTx :: "env \<Rightarrow> string \<Rightarrow> rat \<Rightarrow> db \<Rightarrow> (db, claim \<times> PreparedNotification list) sm" where
  "createClaimTx env policyId claimAmount committed =
     bindM (policy_findById env policyId) (\<lambda>found.
     case found of
       None \<Rightarrow> throwM (BadRequestException (''Policy '' @ policyId @ '' not found''))
     | Some p \<Rightarrow>
        bindM (repo_createClaim env (claimRow env policyId claimAmount)) (\<lambda>created.
        bindM (logCreate env ''Claim'' (rowId created) (claimJs created) None None) (\<lambda>_.
        bindM (prepareNotification env committed (po_userId p) Notif_CLAIM_CREATED ''Claim Submitted''
                 (''Your claim of '' @ decimalText env claimAmount @ '' has been submitted for review.'')
                 (JObj [(''claimId'', JStr (rowId created)), (''policyId'', JStr policyId)])) (\<lambda>createdNotification.
        returnM (created, optList createdNotification)))))"

definition createClaim :: "env \<Rightarrow> string \<Rightarrow> rat \<Rightarrow> (world, claim) sm" where
  "createClaim env policyId claimAmount =
     bindM (inStore (transactionC (createClaimTx env policyId claimAmount))) (\<lambda>(created, createdNotification).
     bindM (dispatchPrepared env createdNotification) (\<lambda>_.
     returnM created))"

section \<open>ReinsuranceService\<close>

definition contractsOp ::
  "env \<Rightarrow> (reinsurance_contract engine \<Rightarrow> int \<Rightarrow> (reinsurance_contract list, 'a) sm) \<Rightarrow> (db, 'a) sm" where
  "contractsOp env m = zoom reinsuranceContracts reinsuranceContracts_update (m (reinsuranceContractE (prisma env)) (now env))"

definition repo_createContract :: "env \<Rightarrow> reinsurance_contract \<Rightarrow> (db, reinsurance_contract) sm" where
  "repo_createContract env r = contractsOp env (\<lambda>e t. d_create e t (rowOf r))"

definition findByIdStrict :: "env \<Rightarrow> string \<Rightarrow> (db, reinsurance_contract option) sm" where
  "findByIdStrict env i = contractsOp env (\<lambda>e t. d_findUnique e t (whereOf (\<lambda>r. rowId r = i)))"

definition deleteContract :: "env \<Rightarrow> string \<Rightarrow> (db, reinsurance_contract) sm" where
  "deleteContract env i = contractsOp env (\<lambda>e t. d_delete e t (noArgs\<lparr>a_where := Some (whereOf (\<lambda>r. rowId r = i))\<rparr>))"

definition createContract :: "env \<Rightarrow> string \<Rightarrow> rat \<Rightarrow> rat \<Rightarrow> (db, reinsurance_contract) sm" where
  "createContract env poolId coverageLimit premiumRate = transaction
     (bindM (repo_createContract env \<lparr>rowId = '''', deletedAt = None, rc_poolId = poolId,
               rc_coverageLimit = coverageLimit, rc_premiumRate = premiumRate\<rparr>) (\<lambda>contract.
      bindM (logCreate env ''ReinsuranceContract'' (rowId contract) (contractJs contract) None None) (\<lambda>_.
      returnM contract)))"

definition releaseContract :: "env \<Rightarrow> string \<Rightarrow> (db, reinsurance_contract) sm" where
  "releaseContract env contractId = transaction
     (bindM (findByIdStrict env contractId) (\<lambda>found.
      case found of
        None \<Rightarrow> throwM (BadRequestException (''Reinsurance contract '' @ contractId @ '' not found''))
      | Some existing \<Rightarrow>
         (if deletedAt existing \<noteq> None then returnM existing
          else
            bindM (deleteContract env contractId) (\<lambda>released.
            bindM (logDelete env ''ReinsuranceContract'' contractId (contractJs existing) None
                     (Some ''Reinsurance contract released'')) (\<lambda>_.
            returnM released)))))"

section \<open>What the parts do\<close>

definition claimOf :: "db \<Rightarrow> string \<Rightarrow> claim option" where
  "claimOf s i = find (live (\<lambda>r. rowId r = i)) (claims s)"

definition setClaim :: "string \<Rightarrow> (claim \<Rightarrow> claim) \<Rightarrow> db \<Rightarrow> db" where
  "setClaim i f s = s\<lparr>claims := updateFirst (live (\<lambda>r. rowId r = i)) f (claims s)\<rparr>"

definition policyRef :: "db \<Rightarrow> claim \<Rightarrow> insurance_policy option" where
  "policyRef s r = find (\<lambda>p. rowId p = cl_policyId r) (insurancePolicies s)"

lemma claim_runs [simp]:
  assumes "runtime env"
  shows "findByIdWithPolicy env i s = (Inr (map_option (\<lambda>r. (r, policyRef s r)) (claimOf s i)), s)"
    and "updateStatusWithPolicy env i f s =
      (case claimOf s i of None \<Rightarrow> (Inl (PrismaException (PrismaClientKnownRequestError ''P2025'')), s)
       | Some r \<Rightarrow> (Inr (f r, policyRef s (f r)), setClaim i f s))"
  using assms
  by (auto simp: findByIdWithPolicy_def updateStatusWithPolicy_def claimsOp_def zoom_def bindM_def claimOf_def
      setClaim_def policyRef_def includePolicy_def fun_eq_iff split: option.splits intro!: option.map_cong)

lemma setClaim_frame [simp]:
  "insurancePolicies (setClaim i f s) = insurancePolicies s" "insurancePools (setClaim i f s) = insurancePools s"
  "poolOf (setClaim i f s) j = poolOf s j" "policyOf (setClaim i f s) j = policyOf s j"
  "policyRef (setClaim i f s) r = policyRef s r" "ledgerOf (setClaim i f s) = ledgerOf s"
  "auditLogs (setClaim i f s) = auditLogs s" "users (setClaim i f s) = users s"
  by (simp_all add: setClaim_def poolOf_def policyOf_def policyRef_def fun_eq_iff ledgerOf_def)

lemma claimOf_setClaim [simp]:
  assumes "\<And>r. rowId (f r) = rowId r" "\<And>r. deletedAt (f r) = deletedAt r"
  shows "claimOf (setClaim i f s) j = (if j = i then map_option f (claimOf s i) else claimOf s j)"
  using assms by (simp add: claimOf_def setClaim_def find_live_updateFirst)

lemma claimOf_frames [simp]:
  "claimOf (setPool k f s) j = claimOf s j" "claimOf (addAudit env act ty k b a h r s) j = claimOf s j"
  "claimOf (setPolicy k st s) j = claimOf s j"
  by (simp_all add: claimOf_def)

text \<open>The tables in which money and status live.\<close>

definition moneyTables where
  "moneyTables s = (insurancePools s, insurancePolicies s, claims s)"

lemma moneyTables_eq:
  assumes "moneyTables s' = moneyTables s"
  shows "ledgerOf s' = ledgerOf s" "claimOf s' i = claimOf s i" "policyOf s' i = policyOf s i"
    "claims s' = claims s" "insurancePolicies s' = insurancePolicies s" "insurancePools s' = insurancePools s"
    "policyRef s' r = policyRef s r"
proof -
  have eq: "insurancePools s' = insurancePools s" "insurancePolicies s' = insurancePolicies s" "claims s' = claims s"
    using assms by (simp_all add: moneyTables_def)
  show "ledgerOf s' = ledgerOf s" using eq(1) by (rule ledgerOf_cong)
qed (use assms in \<open>simp_all add: moneyTables_def claimOf_def policyOf_def policyRef_def\<close>)

context runtime
begin

lemma money_audit: "keeps (\<lambda>s. moneyTables s = x) (auditService_log env act ty i b a h r)"
proof (rule keepsI)
  fix s :: db assume "moneyTables s = x"
  then show "moneyTables (snd (auditService_log env act ty i b a h r s)) = x"
    using auditService_log_frame [OF runtime_axioms, of act ty i b a h r s] by (auto simp: moneyTables_def)
qed

lemma money_adjust: "keeps (\<lambda>s. moneyTables s = x) (adjustReputation env i d r tx)"
proof -
  have "keeps (\<lambda>s. moneyTables s = x) (findUserScore env i)"
    by (rule keepsI) (simp add: findUserScore_def zoom_def bindM_def moneyTables_def)
  moreover have "keeps (\<lambda>s. moneyTables s = x) (updateUserScore env i n)" for n
    by (rule keepsI) (simp add: updateUserScore_def zoom_def moneyTables_def split: option.split)
  moreover have "keeps (\<lambda>s. moneyTables s = x) (createHistory env h)" for h
    by (rule keepsI) (simp add: createHistory_def zoom_def moneyTables_def Let_def split: option.split)
  ultimately show ?thesis
    unfolding adjustReputation_def withTx_def Let_def by (intro keeps_rules)
qed

lemma money_prepare: "keeps (\<lambda>s. moneyTables s = x) (prepareNotification env c0 u ty ti m d)"
proof (rule keepsI)
  fix s :: db assume "moneyTables s = x"
  moreover have "coreTables (snd (prepareNotification env c0 u ty ti m d s)) = coreTables s"
    using prepareNotification_frame [OF runtime_axioms, of c0 u ty ti m d s] by (metis prod.collapse)
  ultimately show "moneyTables (snd (prepareNotification env c0 u ty ti m d s)) = x"
    by (simp add: moneyTables_def coreTables_def)
qed

lemma money_fraud: "keeps (\<lambda>s. moneyTables s = x) (flagFraud env i b c p)"
proof -
  have "keeps (\<lambda>s. moneyTables s = x) (runFraudDetection env c)"
    by (rule keepsI)
      (simp add: runFraudDetection_def countDuplicates_def countRecent_def claimsOp_def zoom_def bindM_def moneyTables_def Let_def)
  then show ?thesis
    unfolding flagFraud_def by (intro keeps_rules money_audit money_adjust)
qed

lemma money_oracle: "keeps (\<lambda>s. moneyTables s = x) (verifyOracle env i)"
proof -
  have "keeps (\<lambda>s. moneyTables s = x) (findByIdWithPolicy env i)"
    by (rule keepsI) simp
  then show ?thesis
    unfolding verifyOracle_def by (intro keeps_rules money_audit)
qed

end

text \<open>What the oracle checks.\<close>

definition payable :: "env \<Rightarrow> claim \<Rightarrow> insurance_policy \<Rightarrow> bool" where
  "payable env c p \<longleftrightarrow> po_status p = Policy_ACTIVE \<and> (case po_endDate p of None \<Rightarrow> True | Some d \<Rightarrow> now env \<le> d) \<and>
     0 < cl_claimAmount c \<and> cl_claimAmount c \<le> po_coverageAmount p"

lemma verifyOracle_run:
  assumes "runtime env" "claimOf s i = Some c" "policyRef s c = Some p"
  shows "verifyOracle env i s =
    (if payable env c p
     then case auditService_log env Audit_ORACLE_VERIFIED ''Claim'' i JUndef JUndef None
                 (Some ''Oracle verification successful'') s of
            (Inl e, s') \<Rightarrow> (Inr False, s') | (Inr u, s') \<Rightarrow> (Inr True, s')
     else (Inr False, s))"
proof (cases "payable env c p")
  case True
  then have "\<not> (po_status p \<noteq> Policy_ACTIVE \<or> (case po_endDate p of None \<Rightarrow> False | Some d \<Rightarrow> d < now env))"
    "\<not> (cl_claimAmount c \<le> 0 \<or> cl_claimAmount c > po_coverageAmount p)"
    by (auto simp: payable_def split: option.splits)
  with True assms show ?thesis
    by (simp add: verifyOracle_def catchM_def bindM_def split: prod.split sum.split)
next
  case False
  then have "(po_status p \<noteq> Policy_ACTIVE \<or> (case po_endDate p of None \<Rightarrow> False | Some d \<Rightarrow> d < now env)) \<or>
    (cl_claimAmount c \<le> 0 \<or> cl_claimAmount c > po_coverageAmount p)"
    by (auto simp: payable_def split: option.splits)
  with False assms show ?thesis
    by (auto simp: verifyOracle_def catchM_def bindM_def)
qed

lemma verifyOracle_total: "\<exists>b s'. verifyOracle env i s = (Inr b, s')"
proof -
  have "\<exists>b s'. catchM m (\<lambda>_. returnM x) s = (Inr b, s')" for m :: "(db, bool) sm" and x
    by (cases "m s"; cases "fst (m s)") (simp_all add: catchM_def)
  then show ?thesis unfolding verifyOracle_def .
qed

section \<open>Rejection, approval, assessment\<close>

lemma rejectClaim_Inr:
  assumes "runtime env" "claimOf s i = Some c" "rejectClaim env c0 i b reason p s = (Inr (cp, ns), s')"
  shows "cp = (c\<lparr>cl_status := Claim_REJECTED\<rparr>, policyRef s c) \<and>
    claims s' = claims (setClaim i (\<lambda>r. r\<lparr>cl_status := Claim_REJECTED\<rparr>) s) \<and>
    insurancePolicies s' = insurancePolicies s \<and>
    0 < cl_claimAmount c \<and> ledgerOf s' = unlockStep (cl_claimAmount c) (po_poolId p) (ledgerOf s)"
  using assms(3) unfolding rejectClaim_def
proof (elim bindM_InrE)
  let ?f = "\<lambda>r. r\<lparr>cl_status := Claim_REJECTED\<rparr>"
  fix updated s1 q s2 u s3 n s4 pn s5
  assume 1: "updateStatusWithPolicy env i ?f s = (Inr updated, s1)"
    and 2: "unlockCapital env (po_poolId p) (cl_claimAmount (fst updated)) True s1 = (Inr q, s2)"
    and 3: "logReject env ''Claim'' i b (claimWithPolicyJs updated) (Some reason) s2 = (Inr u, s3)"
    and 4: "adjustReputation env (po_userId p) CLAIM_REJECTED_DELTA (''Claim '' @ i @ '' rejected: '' @ reason) True s3 = (Inr n, s4)"
    and 5: "prepareNotification env c0 (po_userId p) Notif_CLAIM_REJECTED ''Claim Rejected''
              (''Your claim '' @ i @ '' was rejected: '' @ reason)
              (JObj [(''claimId'', JStr i), (''policyId'', JStr (rowId p)), (''reason'', JStr reason)]) s4 = (Inr pn, s5)"
    and 6: "returnM (updated, optList pn) s5 = (Inr (cp, ns), s')"
  have s1: "s1 = setClaim i ?f s" and updated: "updated = (?f c, policyRef s c)"
    using 1 assms(1,2) by (auto simp: policyRef_def)
  have "moneyTables s3 = moneyTables s2"
    using keeps_run [OF runtime.money_audit [OF assms(1)] 3 [unfolded logReject_def]] .
  moreover have "moneyTables s4 = moneyTables s3"
    using keeps_run [OF runtime.money_adjust [OF assms(1)] 4] .
  moreover have "moneyTables s' = moneyTables s4"
    using keeps_run [OF runtime.money_prepare [OF assms(1)] 5] 6 by simp
  ultimately have money: "moneyTables s' = moneyTables s2" by simp
  have "cp = updated" using 6 by simp
  then show ?thesis
    using unlockCapital_effect [OF assms(1) 2] by (simp add: updated s1 moneyTables_eq [OF money])
qed

lemma approveClaim_Inr:
  assumes "runtime env" "claimOf s i = Some c0" "approveClaim env cm i b c p s = (Inr (cp, ns), s')"
  shows "cp = (c0\<lparr>cl_status := Claim_APPROVED, cl_payoutAmount := Some (cl_claimAmount c)\<rparr>, policyRef s c0) \<and>
    claims s' = claims (setClaim i (\<lambda>r. r\<lparr>cl_status := Claim_APPROVED, cl_payoutAmount := Some (cl_claimAmount c)\<rparr>) s) \<and>
    insurancePolicies s' = insurancePolicies s \<and> ledgerOf s' = ledgerOf s"
  using assms(3) unfolding approveClaim_def
proof (elim bindM_InrE)
  let ?f = "\<lambda>r. r\<lparr>cl_status := Claim_APPROVED, cl_payoutAmount := Some (cl_claimAmount c)\<rparr>"
  fix updated s1 u s3 n s4 pn s5
  assume 1: "updateStatusWithPolicy env i ?f s = (Inr updated, s1)"
    and 3: "logApprove env ''Claim'' i b (claimWithPolicyJs updated) None None s1 = (Inr u, s3)"
    and 4: "adjustReputation env (po_userId p) CLAIM_APPROVED_DELTA (''Claim '' @ i @ '' approved'') True s3 = (Inr n, s4)"
    and 5: "prepareNotification env cm (po_userId p) Notif_CLAIM_APPROVED ''Claim Approved''
              (''Your claim '' @ i @ '' has been approved for payout.'')
              (JObj [(''claimId'', JStr i), (''policyId'', JStr (rowId p))]) s4 = (Inr pn, s5)"
    and 6: "returnM (updated, optList pn) s5 = (Inr (cp, ns), s')"
  have s1: "s1 = setClaim i ?f s" and updated: "updated = (?f c0, policyRef s c0)"
    using 1 assms(1,2) by (auto simp: policyRef_def)
  have "moneyTables s3 = moneyTables s1"
    using keeps_run [OF runtime.money_audit [OF assms(1)] 3 [unfolded logApprove_def]] .
  moreover have "moneyTables s4 = moneyTables s3"
    using keeps_run [OF runtime.money_adjust [OF assms(1)] 4] .
  moreover have "moneyTables s' = moneyTables s4"
    using keeps_run [OF runtime.money_prepare [OF assms(1)] 5] 6 by simp
  ultimately have money: "moneyTables s' = moneyTables s1" by simp
  have "cp = updated" using 6 by simp
  then show ?thesis by (simp add: updated s1 moneyTables_eq [OF money])
qed

text \<open>
  The decision the assessment makes, as a specification: which outcome a claim gets
  from its row, its policy and the clock.
\<close>

datatype decision = Unchanged | Reject | Approve

definition decide :: "env \<Rightarrow> claim \<Rightarrow> insurance_policy \<Rightarrow> decision" where
  "decide env c p =
    (if cl_status c \<noteq> Claim_PENDING then Unchanged
     else if payable env c p then Approve else Reject)"

text \<open>The effect of a decision on the claim and on the ledger.\<close>

definition decided :: "decision \<Rightarrow> claim \<Rightarrow> claim" where
  "decided d c = (case d of
      Unchanged \<Rightarrow> c
    | Reject \<Rightarrow> c\<lparr>cl_status := Claim_REJECTED\<rparr>
    | Approve \<Rightarrow> c\<lparr>cl_status := Claim_APPROVED, cl_payoutAmount := Some (cl_claimAmount c)\<rparr>)"

definition decidedLedger :: "decision \<Rightarrow> claim \<Rightarrow> insurance_policy \<Rightarrow> ledger \<Rightarrow> ledger" where
  "decidedLedger d c p l = (if d = Reject then unlockStep (cl_claimAmount c) (po_poolId p) l else l)"

lemma assessTx_missing:
  assumes "runtime env" "claimOf s i = None"
  shows "assessTx env i c0 s = (Inl (NotFoundException (''Claim with ID '' @ i @ '' not found'')), s)"
  using assms by (simp add: assessTx_def bindM_def)

lemma assessTx_unchanged:
  assumes "runtime env" "claimOf s i = Some c" "policyRef s c = Some p" "cl_status c \<noteq> Claim_PENDING"
  shows "assessTx env i c0 s = (Inr ((c, Some p), []), s)"
  using assms by (simp add: assessTx_def bindM_def)

lemma assessTx_run:
  assumes "runtime env" "claimOf s i = Some c" "policyRef s c = Some p" "cl_status c = Claim_PENDING"
  shows "assessTx env i c0 s =
    (let b = claimWithPolicyJs (c, Some p) in
     if po_status p \<noteq> Policy_ACTIVE then
       rejectClaim env c0 i b (''Policy is not active: '' @ policyStatusText (po_status p)) p s
     else if cl_claimAmount c > po_coverageAmount p then
       rejectClaim env c0 i b ''Claim amount exceeds coverage'' p s
     else bindM (flagFraud env i b c p) (\<lambda>_. bindM (verifyOracle env i) (\<lambda>v.
       if \<not> v then rejectClaim env c0 i b ''Oracle verification failed'' p else approveClaim env c0 i b c p)) s)"
  using assms by (simp add: assessTx_def bindM_def Let_def)

lemma claimOf_cong: "claims s = claims s' \<Longrightarrow> claimOf s i = claimOf s' i"
  by (simp add: claimOf_def)

text \<open>Only claim \<open>i\<close> changed, and how.\<close>

definition claimChanged :: "string \<Rightarrow> claim \<Rightarrow> db \<Rightarrow> db \<Rightarrow> bool" where
  "claimChanged i c s s' \<longleftrightarrow> claimOf s' i = Some c \<and> (\<forall>j. j \<noteq> i \<longrightarrow> claimOf s' j = claimOf s j) \<and>
     insurancePolicies s' = insurancePolicies s"

lemma reject_changed:
  assumes "runtime env" "claimOf s i = Some c" "policyRef s c = Some p"
    and "rejectClaim env c0 i b reason q s = (Inr (cp, ns), s')"
  shows "cp = (decided Reject c, Some p) \<and> claimChanged i (decided Reject c) s s' \<and>
    ledgerOf s' = unlockStep (cl_claimAmount c) (po_poolId q) (ledgerOf s)"
  using rejectClaim_Inr [OF assms(1,2,4)] claimOf_cong [of s' "setClaim i (\<lambda>r. r\<lparr>cl_status := Claim_REJECTED\<rparr>) s"]
  by (simp add: assms decided_def claimChanged_def)

lemma approve_changed:
  assumes "runtime env" "claimOf s i = Some c" "policyRef s c = Some p"
    and "approveClaim env c0 i b c q s = (Inr (cp, ns), s')"
  shows "cp = (decided Approve c, Some p) \<and> claimChanged i (decided Approve c) s s' \<and> ledgerOf s' = ledgerOf s"
  using approveClaim_Inr [OF assms(1,2,4)]
    claimOf_cong [of s' "setClaim i (\<lambda>r. r\<lparr>cl_status := Claim_APPROVED, cl_payoutAmount := Some (cl_claimAmount c)\<rparr>) s"]
  by (simp add: assms decided_def claimChanged_def)

lemma claimChanged_money:
  assumes "claimChanged i c s1 s'" "moneyTables s1 = moneyTables s"
  shows "claimChanged i c s s'"
  using assms(1) by (simp add: claimChanged_def moneyTables_eq [OF assms(2)])

lemma assessTx_outcome:
  assumes env: "runtime env"
    and c: "claimOf s i = Some c" "policyRef s c = Some p" "cl_status c = Claim_PENDING"
    and run: "assessTx env i c0 s = (Inr (cp, ns), s')"
  shows "\<exists>d. cp = (decided d c, Some p) \<and> claimChanged i (decided d c) s s' \<and>
    ledgerOf s' = decidedLedger d c p (ledgerOf s) \<and> (auditAccepts env \<longrightarrow> d = decide env c p)"
proof (cases "po_status p \<noteq> Policy_ACTIVE \<or> cl_claimAmount c > po_coverageAmount p")
  case True
  then obtain reason where "rejectClaim env c0 i (claimWithPolicyJs (c, Some p)) reason p s = (Inr (cp, ns), s')"
    using run assessTx_run [OF env c] by (auto simp: Let_def split: if_splits)
  moreover have "decide env c p = Reject" using True c(3) by (auto simp: decide_def payable_def)
  ultimately show ?thesis
    using reject_changed [OF env c(1,2)] by (intro exI [of _ Reject]) (simp add: decidedLedger_def)
next
  case False
  let ?b = "claimWithPolicyJs (c, Some p)"
  have "bindM (flagFraud env i ?b c p) (\<lambda>_. bindM (verifyOracle env i) (\<lambda>v.
      if \<not> v then rejectClaim env c0 i ?b ''Oracle verification failed'' p else approveClaim env c0 i ?b c p)) s
      = (Inr (cp, ns), s')"
    using run False assessTx_run [OF env c, of c0] by (simp add: Let_def)
  then obtain u s1 where fraud: "flagFraud env i ?b c p s = (Inr u, s1)"
    and rest: "bindM (verifyOracle env i) (\<lambda>v.
      if \<not> v then rejectClaim env c0 i ?b ''Oracle verification failed'' p else approveClaim env c0 i ?b c p) s1
      = (Inr (cp, ns), s')"
    by (rule bindM_InrE)
  from rest obtain v s2 where ver: "verifyOracle env i s1 = (Inr v, s2)"
    and last: "(if \<not> v then rejectClaim env c0 i ?b ''Oracle verification failed'' p else approveClaim env c0 i ?b c p) s2
      = (Inr (cp, ns), s')"
    by (rule bindM_InrE)
  have m1: "moneyTables s1 = moneyTables s"
    using keeps_run [OF runtime.money_fraud [OF env] fraud] .
  have m2: "moneyTables s2 = moneyTables s"
    using keeps_run [OF runtime.money_oracle [OF env] ver] m1 by simp
  have c1: "claimOf s1 i = Some c" "policyRef s1 c = Some p" and c2: "claimOf s2 i = Some c" "policyRef s2 c = Some p"
    using c by (simp_all add: moneyTables_eq [OF m1] moneyTables_eq [OF m2])
  have v: "auditAccepts env \<longrightarrow> v = payable env c p"
    using verifyOracle_run [OF env c1] ver by (auto simp: auditService_log_add [OF env] split: if_splits)
  show ?thesis
  proof (cases v)
    case True
    then have "approveClaim env c0 i ?b c p s2 = (Inr (cp, ns), s')" using last by simp
    from approve_changed [OF env c2 this] True v c(3) show ?thesis
      by (intro exI [of _ Approve]) (simp add: decide_def decidedLedger_def claimChanged_money [OF _ m2] moneyTables_eq [OF m2])
  next
    case vF: False
    then have "rejectClaim env c0 i ?b ''Oracle verification failed'' p s2 = (Inr (cp, ns), s')" using last by simp
    from reject_changed [OF env c2 this] vF v c(3) show ?thesis
      by (intro exI [of _ Reject]) (simp add: decide_def decidedLedger_def claimChanged_money [OF _ m2] moneyTables_eq [OF m2])
  qed
qed

lemma assessTx_Inr:
  assumes "runtime env" "auditAccepts env" "claimOf s i = Some c" "policyRef s c = Some p" "cl_status c = Claim_PENDING"
    and "assessTx env i c0 s = (Inr (cp, ns), s')"
  shows "cp = (decided (decide env c p) c, Some p) \<and> claimChanged i (decided (decide env c p) c) s s' \<and>
    ledgerOf s' = decidedLedger (decide env c p) c p (ledgerOf s)"
  using assessTx_outcome [OF assms(1,3-6)] assms(2) by blast

section \<open>Payout and submission\<close>

lemma payTx_missing:
  assumes "runtime env" "claimOf s i = None"
  shows "payTx env i c0 s = (Inl (NotFoundException (''Claim with ID '' @ i @ '' not found'')), s)"
  using assms by (simp add: payTx_def bindM_def)

lemma payTx_paid:
  assumes "runtime env" "claimOf s i = Some c" "cl_status c = Claim_PAID"
  shows "payTx env i c0 s = (Inr ((c, policyRef s c), []), s)"
  using assms by (simp add: payTx_def bindM_def)

lemma payTx_Inr:
  assumes "runtime env" "claimOf s i = Some c" "policyRef s c = Some p" "cl_status c \<noteq> Claim_PAID"
    and run: "payTx env i c0 s = (Inr (cp, ns), s')"
  shows "cp = (c\<lparr>cl_status := Claim_PAID\<rparr>, Some p) \<and> claimChanged i (c\<lparr>cl_status := Claim_PAID\<rparr>) s s' \<and>
    0 < cl_claimAmount c \<and> ledgerOf s' = unlockStep (cl_claimAmount c) (po_poolId p) (ledgerOf s)"
proof -
  let ?f = "\<lambda>r. r\<lparr>cl_status := Claim_PAID\<rparr>"
  have ref: "policyRef s (?f c) = Some p" using assms(3) by (simp add: policyRef_def)
  have found: "findByIdWithPolicy env i s = (Inr (Some (c, Some p)), s)"
    and upd: "updateStatusWithPolicy env i ?f s = (Inr (?f c, Some p), setClaim i ?f s)"
    using assms(1,2,3) ref by simp_all
  have "bindM (unlockCapital env (po_poolId p) (cl_claimAmount c) True) (\<lambda>_.
      bindM (logPayout env ''Claim'' i (claimWithPolicyJs (c, Some p)) (claimWithPolicyJs (?f c, Some p)) None None) (\<lambda>_.
      bindM (prepareNotification env c0 (po_userId p) Notif_CLAIM_PAID ''Claim Paid''
          (''Your claim '' @ i @ '' has been paid out.'')
          (JObj [(''claimId'', JStr i), (''policyId'', JStr (rowId p)),
                 (''payoutAmount'', JStr (decimalText env (cl_claimAmount c)))])) (\<lambda>pn.
      returnM ((?f c, Some p), optList pn)))) (setClaim i ?f s) = (Inr (cp, ns), s')"
    using run assms(1,2,3,4) by (simp add: payTx_def bindM_assoc
        bindM_Inr [of "findByIdWithPolicy env i" s, OF found] bindM_Inr [of "updateStatusWithPolicy env i ?f" s, OF upd])
  then show ?thesis
  proof (elim bindM_InrE)
    fix q s2 u s3 pn s4
    assume 2: "unlockCapital env (po_poolId p) (cl_claimAmount c) True (setClaim i ?f s) = (Inr q, s2)"
      and 3: "logPayout env ''Claim'' i (claimWithPolicyJs (c, Some p)) (claimWithPolicyJs (?f c, Some p)) None None s2 = (Inr u, s3)"
      and 4: "prepareNotification env c0 (po_userId p) Notif_CLAIM_PAID ''Claim Paid''
          (''Your claim '' @ i @ '' has been paid out.'')
          (JObj [(''claimId'', JStr i), (''policyId'', JStr (rowId p)),
                 (''payoutAmount'', JStr (decimalText env (cl_claimAmount c)))]) s3 = (Inr pn, s4)"
      and 5: "returnM ((?f c, Some p), optList pn) s4 = (Inr (cp, ns), s')"
    have m3: "moneyTables s3 = moneyTables s2"
      using keeps_run [OF runtime.money_audit [OF assms(1)] 3 [unfolded logPayout_def]] .
    have m4: "moneyTables s' = moneyTables s3"
      using keeps_run [OF runtime.money_prepare [OF assms(1)] 4] 5 by simp
    have money: "moneyTables s' = moneyTables s2" using m3 m4 by simp
    note eff = unlockCapital_effect [OF assms(1) 2]
    have "claimOf s2 j = claimOf (setClaim i ?f s) j" for j
      using eff by (intro claimOf_cong) simp
    then show ?thesis
      using eff 5 assms(2) by (simp add: claimChanged_def moneyTables_eq [OF money])
  qed
qed

text \<open>A claim whose policy row is gone is marked paid without a release.\<close>

lemma payTx_orphan_Inr:
  assumes "runtime env" "claimOf s i = Some c" "policyRef s c = None" "cl_status c \<noteq> Claim_PAID"
    and run: "payTx env i c0 s = (Inr (cp, ns), s')"
  shows "claimChanged i (c\<lparr>cl_status := Claim_PAID\<rparr>) s s' \<and> ledgerOf s' = ledgerOf s"
proof -
  let ?f = "\<lambda>r. r\<lparr>cl_status := Claim_PAID\<rparr>"
  have ref: "policyRef s (?f c) = None" using assms(3) by (simp add: policyRef_def)
  have found: "findByIdWithPolicy env i s = (Inr (Some (c, None)), s)"
    and upd: "updateStatusWithPolicy env i ?f s = (Inr (?f c, None), setClaim i ?f s)"
    using assms(1,2,3) ref by simp_all
  have "bindM (logPayout env ''Claim'' i (claimWithPolicyJs (c, None)) (claimWithPolicyJs (?f c, None)) None None)
      (\<lambda>_ s. (Inr ((?f c, None), []), s)) (setClaim i ?f s) = (Inr (cp, ns), s')"
    using run assms(4) by (simp add: payTx_def
        bindM_Inr [of "findByIdWithPolicy env i" s, OF found] bindM_Inr [of "updateStatusWithPolicy env i ?f" s, OF upd])
  then obtain u where log: "logPayout env ''Claim'' i (claimWithPolicyJs (c, None)) (claimWithPolicyJs (?f c, None)) None None
      (setClaim i ?f s) = (Inr u, s')"
    by (elim bindM_InrE) simp
  have money: "moneyTables s' = moneyTables (setClaim i ?f s)"
    using keeps_run [OF runtime.money_audit [OF assms(1)] log [unfolded logPayout_def]] .
  show ?thesis using assms(2) by (simp add: claimChanged_def moneyTables_eq [OF money])
qed

lemma repo_createClaim_Inr:
  assumes "runtime env" "repo_createClaim env r s = (Inr c, s')"
  shows "c = newRow (rowOf r) (genId (claimE (prisma env)) (claims s)) \<and> s' = s\<lparr>claims := claims s @ [c]\<rparr>"
  using assms by (auto simp: repo_createClaim_def claimsOp_def zoom_def Let_def split: option.splits)

lemma createClaimTx_Inr:
  assumes "runtime env" and run: "createClaimTx env k a c0 s = (Inr (c, ns), s')"
  shows "policyOf s k \<noteq> None \<and> c = newRow (rowOf (claimRow env k a)) (rowId c) \<and> rowId c \<notin> rowId ` set (claims s) \<and>
    claims s' = claims s @ [c] \<and> insurancePolicies s' = insurancePolicies s \<and> ledgerOf s' = ledgerOf s"
proof -
  obtain p where p: "policyOf s k = Some p"
    using run assms(1) by (cases "policyOf s k") (auto simp: createClaimTx_def bindM_def)
  have "bindM (repo_createClaim env (claimRow env k a)) (\<lambda>created.
      bindM (logCreate env ''Claim'' (rowId created) (claimJs created) None None) (\<lambda>_.
      bindM (prepareNotification env c0 (po_userId p) Notif_CLAIM_CREATED ''Claim Submitted''
         (''Your claim of '' @ decimalText env a @ '' has been submitted for review.'')
         (JObj [(''claimId'', JStr (rowId created)), (''policyId'', JStr k)])) (\<lambda>pn.
      returnM (created, optList pn)))) s = (Inr (c, ns), s')"
    using run assms(1) p by (simp add: createClaimTx_def bindM_def [of "policy_findById env k"])
  then show ?thesis
  proof (elim bindM_InrE)
    fix c1 s2 u s3 pn s4
    assume 2: "repo_createClaim env (claimRow env k a) s = (Inr c1, s2)"
      and 3: "logCreate env ''Claim'' (rowId c1) (claimJs c1) None None s2 = (Inr u, s3)"
      and 4: "prepareNotification env c0 (po_userId p) Notif_CLAIM_CREATED ''Claim Submitted''
         (''Your claim of '' @ decimalText env a @ '' has been submitted for review.'')
         (JObj [(''claimId'', JStr (rowId c1)), (''policyId'', JStr k)]) s3 = (Inr pn, s4)"
      and 5: "returnM (c1, optList pn) s4 = (Inr (c, ns), s')"
    have m3: "moneyTables s3 = moneyTables s2"
      using keeps_run [OF runtime.money_audit [OF assms(1)] 3 [unfolded logCreate_def]] .
    have m4: "moneyTables s' = moneyTables s3"
      using keeps_run [OF runtime.money_prepare [OF assms(1)] 4] 5 by simp
    have money: "moneyTables s' = moneyTables s2" using m3 m4 by simp
    have c1: "c = c1" using 5 by simp
    note new = repo_createClaim_Inr [OF assms(1) 2]
    have led: "ledgerOf s2 = ledgerOf s" by (rule ledgerOf_cong) (simp add: new)
    have fresh: "rowId c1 \<notin> rowId ` set (claims s)"
      using assms(1) new delegate_genId [of "claimE (prisma env)" "claims s"] by simp
    have row: "c1 = newRow (rowOf (claimRow env k a)) (rowId c1)" using new by simp
    show ?thesis
      unfolding c1 using p fresh row led new by (simp add: moneyTables_eq [OF money])
  qed
qed

section \<open>Reinsurance\<close>

definition contractOf :: "db \<Rightarrow> string \<Rightarrow> reinsurance_contract option" where
  "contractOf s i = find (live (\<lambda>r. rowId r = i)) (reinsuranceContracts s)"

lemma releaseContract_missing:
  assumes "runtime env" "contractOf s i = None"
  shows "releaseContract env i s = (Inl (BadRequestException (''Reinsurance contract '' @ i @ '' not found'')), s)"
  using assms
  by (simp add: releaseContract_def findByIdStrict_def contractsOp_def zoom_def contractOf_def transaction_def bindM_def)

lemma releaseContract_run:
  assumes "runtime env" "auditAccepts env" "contractOf s i = Some r"
  shows "releaseContract env i s = (Inr (stamp (now env) r),
    addAudit env Audit_DELETE ''ReinsuranceContract'' i (contractJs r) JNull None (Some ''Reinsurance contract released'')
      (s\<lparr>reinsuranceContracts := updateFirst (live (\<lambda>r. rowId r = i)) (stamp (now env)) (reinsuranceContracts s)\<rparr>))"
proof -
  have "deletedAt r = None" using assms(3) by (auto simp: contractOf_def dest: find_live_id)
  with assms show ?thesis
    by (simp add: releaseContract_def findByIdStrict_def deleteContract_def contractsOp_def zoom_def contractOf_def
        transaction_def bindM_def logDelete_def auditService_log_add)
qed

end
