(* ===== verification/Lifecycle.thy ===== *)
theory Lifecycle
  imports Claims
begin

text \<open>
  The insurance services together. First progress: when the database constraints accept
  the rows, assessment returns. Then the properties of the policy and claim operations,
  stated of the service methods as the controllers call them: a transaction on the store
  followed by the dispatch of the prepared notifications.
\<close>

section \<open>Progress\<close>

text \<open>
  The constraints of the tables the services append to: none but the unique user of a
  notification setting, and the foreign key of the audit table.
\<close>

definition storeAccepts :: "env \<Rightarrow> bool" where
  "storeAccepts env \<longleftrightarrow> auditAccepts env \<and>
     (\<forall>r t. violates (reputationHistoryE (prisma env)) r t = None) \<and>
     (\<forall>r t. violates (notificationE (prisma env)) r t = None) \<and>
     (\<forall>r t. violates (emailOutboxE (prisma env)) r t = None) \<and>
     (\<forall>r t. ns_userId r \<notin> ns_userId ` set t \<longrightarrow> violates (notificationSettingE (prisma env)) r t = None)"

lemma memoryEnv_accepts [simp]: "storeAccepts memoryEnv"
  unfolding storeAccepts_def using memoryEnv_audit
  by (simp add: memoryEnv_def memoryClient_def tableEngine_def noConstraint_def uniqueOn_def)

lemma storeAccepts_audit [simp]: "storeAccepts env \<Longrightarrow> auditAccepts env"
  by (simp add: storeAccepts_def)

lemma upsertForUser_total:
  assumes "runtime env" "storeAccepts env"
  shows "\<exists>n s'. upsertForUser env u s = (Inr n, s')"
proof (cases "find (\<lambda>r. ns_userId r = u) (notificationSettings s)")
  case None
  let ?r = "newRow (rowOf (defaultSettings u)) (genId (notificationSettingE (prisma env)) (notificationSettings s))"
  have "ns_userId ?r \<notin> ns_userId ` set (notificationSettings s)"
    using None by (auto simp: find_None_iff defaultSettings_def newRow_def rowOf_def)
  then have "violates (notificationSettingE (prisma env)) ?r (notificationSettings s) = None"
    using assms(2) unfolding storeAccepts_def by blast
  then show ?thesis
    using assms(1) None by (simp add: upsertForUser_def zoom_def Let_def)
next
  case (Some r)
  then show ?thesis using assms by (simp add: upsertForUser_def zoom_def)
qed

lemma prepareEmail_total:
  assumes "runtime env" "storeAccepts env"
  shows "\<exists>n s'. prepareEmail env st ml ti m s = (Inr n, s')"
  using assms
  by (simp add: prepareEmail_def createOutbox_def zoom_def bindM_def storeAccepts_def Let_def split: option.split)

lemma createNotification_total:
  assumes "runtime env" "storeAccepts env"
  shows "\<exists>n s'. createNotification env r s = (Inr n, s')"
  using assms by (simp add: createNotification_def zoom_def storeAccepts_def Let_def)

lemma bindM_total:
  assumes "\<exists>a s'. m s = (Inr a, s')" "\<And>a s'. \<exists>b s''. f a s' = (Inr b, s'')"
  shows "\<exists>b s''. bindM m f s = (Inr b, s'')"
  using assms by (fastforce simp: bindM_def)

lemma bindM_ex:
  assumes "m s = (Inr a, s')" "\<exists>b s''. f a s' = (Inr b, s'')"
  shows "\<exists>b s''. bindM m f s = (Inr b, s'')"
  using assms by (simp add: bindM_def)

lemma prepareNotification_total:
  assumes "runtime env" "storeAccepts env"
  shows "\<exists>n s'. prepareNotification env c0 u ty ti m d s = (Inr n, s')"
proof (cases "fst (getDecryptedContact env u c0)")
  case (Inl e)
  then show ?thesis by (simp add: prepareNotification_def)
next
  case (Inr ct)
  have settings: "\<exists>a s'. (case ct_settings ct of None \<Rightarrow> upsertForUser env u | Some st \<Rightarrow> returnM st) s = (Inr a, s')" for s
    using upsertForUser_total [OF assms] by (cases "ct_settings ct") simp_all
  show ?thesis
    unfolding prepareNotification_def Inr sum.case
    by (intro bindM_total settings)
      (auto intro!: bindM_total createNotification_total [OF assms] prepareEmail_total [OF assms])
qed

text \<open>Reading users through the steps of an assessment.\<close>

lemma userOf_frames [simp]:
  "userOf (addAudit env act ty k b a h r s) j = userOf s j" "userOf (setClaim i f s) j = userOf s j"
  "userOf (setPool k g s) j = userOf s j" "userOf (setPolicy k st s) j = userOf s j"
  by (simp_all add: userOf_def setPolicy_def)

lemma userOf_effect:
  "userOf (reputationEffect env i d r s) j =
     (if j = i then map_option (\<lambda>u. u\<lparr>reputationScore := clampScore (reputationScore u + d)\<rparr>) (userOf s i) else userOf s j)"
  by (cases "userOf s i")
    (simp_all add: userOf_def reputationEffect_def find_live_updateFirst)

lemma adjustReputation_ok:
  assumes "runtime env" "storeAccepts env" "userOf s i = Some u"
  shows "adjustReputation env i d r tx s = (Inr (clampScore (reputationScore u + d)), reputationEffect env i d r s)"
  using assms by (intro adjustReputation_run) (simp_all add: storeAccepts_def)

lemma flagFraud_ok:
  assumes "runtime env" "storeAccepts env" "userOf s (po_userId p) = Some u"
  shows "\<exists>s'. flagFraud env i (claimWithPolicyJs cp) c p s = (Inr (), s') \<and> userOf s' (po_userId p) \<noteq> None \<and>
    moneyTables s' = moneyTables s"
proof -
  obtain v where v: "runFraudDetection env c s = (Inr v, s)"
    using assms(1)
    by (simp add: runFraudDetection_def countDuplicates_def countRecent_def claimsOp_def zoom_def bindM_def Let_def)
  let ?s = "addAudit env Audit_FRAUD_DETECTED ''Claim'' i (claimWithPolicyJs cp) (claimWithPolicyJs (c, Some p)) None
    (Some ''High fraud risk score detected'') s"
  have log: "auditService_log env Audit_FRAUD_DETECTED ''Claim'' i (claimWithPolicyJs cp) (claimWithPolicyJs (c, Some p)) None
    (Some ''High fraud risk score detected'') s = (Inr (), ?s)"
    using assms by (intro auditService_log_add) simp_all
  have u: "userOf ?s (po_userId p) = Some u" using assms(3) by simp
  show ?thesis
    by (cases v)
      (simp_all add: flagFraud_def bindM_def v log adjustReputation_ok [OF assms(1,2) u] userOf_effect assms(3) moneyTables_def)
qed

lemma unlockCapital_ok:
  assumes "runtime env" "storeAccepts env" "0 < a" "ledgerOf s k = Some (c, l)" "l - a \<le> c"
  shows "\<exists>q s'. unlockCapital env k a True s = (Inr q, s') \<and> users s' = users s"
proof -
  obtain q s' where run: "unlockCapital env k a True s = (Inr q, s')"
    using total_capital_ledger.unlock_total [OF pool_ledger_total] assms by (metis storeAccepts_audit)
  with unlockCapital_effect [OF assms(1) run] show ?thesis by blast
qed

lemma rejectClaim_ok:
  assumes env: "runtime env" "storeAccepts env" and c: "claimOf s i = Some c" "userOf s (po_userId p) \<noteq> None"
    and pool: "0 < cl_claimAmount c" "ledgerOf s (po_poolId p) = Some (k, l)" "l - cl_claimAmount c \<le> k"
  shows "\<exists>r s'. rejectClaim env c0 i (claimWithPolicyJs cp) reason p s = (Inr r, s')"
proof -
  let ?f = "\<lambda>r. r\<lparr>cl_status := Claim_REJECTED\<rparr>"
  let ?up = "(?f c, policyRef s (?f c))"
  have upd: "updateStatusWithPolicy env i ?f s = (Inr ?up, setClaim i ?f s)"
    using env c by simp
  obtain q s2 where unl: "unlockCapital env (po_poolId p) (cl_claimAmount c) True (setClaim i ?f s) = (Inr q, s2)"
    and us: "users s2 = users s"
    using unlockCapital_ok [OF env pool(1), of "setClaim i ?f s" "po_poolId p" k l] pool by auto
  have log: "logReject env ''Claim'' i (claimWithPolicyJs cp) (claimWithPolicyJs ?up) (Some reason) s2 =
    (Inr (), addAudit env Audit_REJECT ''Claim'' i (claimWithPolicyJs cp) (claimWithPolicyJs ?up) None (Some reason) s2)"
    using env by (simp add: logReject_def auditService_log_add)
  obtain u where u: "userOf (addAudit env Audit_REJECT ''Claim'' i (claimWithPolicyJs cp) (claimWithPolicyJs ?up) None (Some reason) s2)
      (po_userId p) = Some u"
    using c(2) us by (auto simp: userOf_def)
  have tail: "\<exists>r s'. bindM (prepareNotification env c0 (po_userId p) Notif_CLAIM_REJECTED ti m d) (\<lambda>pn. returnM (?up, optList pn)) s3 = (Inr r, s')"
    for ti m d s3
    by (intro bindM_total prepareNotification_total [OF env]) simp
  have unl': "unlockCapital env (po_poolId p) (cl_claimAmount (fst ?up)) True (setClaim i ?f s) = (Inr q, s2)"
    using unl by simp
  show ?thesis
    unfolding rejectClaim_def
    by (rule bindM_ex, rule upd, rule bindM_ex, rule unl', rule bindM_ex, rule log, rule bindM_ex,
        rule adjustReputation_ok [OF env u], rule tail)
qed

lemma approveClaim_ok:
  assumes env: "runtime env" "storeAccepts env" and c: "claimOf s i = Some c" "userOf s (po_userId p) \<noteq> None"
  shows "\<exists>r s'. approveClaim env c0 i (claimWithPolicyJs cp) c p s = (Inr r, s')"
proof -
  let ?f = "\<lambda>r. r\<lparr>cl_status := Claim_APPROVED, cl_payoutAmount := Some (cl_claimAmount c)\<rparr>"
  let ?up = "(?f c, policyRef s (?f c))"
  let ?s = "addAudit env Audit_APPROVE ''Claim'' i (claimWithPolicyJs cp) (claimWithPolicyJs ?up) None None (setClaim i ?f s)"
  have upd: "updateStatusWithPolicy env i ?f s = (Inr ?up, setClaim i ?f s)"
    using env c by simp
  have log: "logApprove env ''Claim'' i (claimWithPolicyJs cp) (claimWithPolicyJs ?up) None None (setClaim i ?f s) = (Inr (), ?s)"
    using env by (simp add: logApprove_def auditService_log_add)
  obtain u where u: "userOf ?s (po_userId p) = Some u"
    using c(2) by auto
  have tail: "\<exists>r s'. bindM (prepareNotification env c0 (po_userId p) Notif_CLAIM_APPROVED ti m d) (\<lambda>pn. returnM (?up, optList pn)) s3 = (Inr r, s')"
    for ti m d s3
    by (intro bindM_total prepareNotification_total [OF env]) simp
  show ?thesis
    unfolding approveClaim_def
    by (rule bindM_ex, rule upd, rule bindM_ex, rule log, rule bindM_ex, rule adjustReputation_ok [OF env u], rule tail)
qed

text \<open>An assessment returns, unless it must release more than the pool of the policy can account for.\<close>

lemma assessTx_ok:
  assumes env: "runtime env" "storeAccepts env"
    and c: "claimOf s i = Some c" "policyRef s c = Some p" "userOf s (po_userId p) \<noteq> None"
    and pool: "decide env c p = Reject \<Longrightarrow> 0 < cl_claimAmount c \<and>
      (\<exists>k l. ledgerOf s (po_poolId p) = Some (k, l) \<and> l - cl_claimAmount c \<le> k)"
  shows "\<exists>r s'. assessTx env i c0 s = (Inr r, s')"
proof (cases "cl_status c = Claim_PENDING")
  case False
  then show ?thesis using assessTx_unchanged [OF env(1) c(1,2)] by simp
next
  case True
  let ?b = "claimWithPolicyJs (c, Some p)"
  have rej: "\<exists>r s'. rejectClaim env c0 i ?b reason p s1 = (Inr r, s')"
    if "decide env c p = Reject" "moneyTables s1 = moneyTables s" "userOf s1 (po_userId p) \<noteq> None" for reason s1
    using pool [OF that(1)] rejectClaim_ok [OF env _ that(3), of i c] c(1) by (auto simp: moneyTables_eq [OF that(2)])
  show ?thesis
  proof (cases "po_status p \<noteq> Policy_ACTIVE \<or> cl_claimAmount c > po_coverageAmount p")
    case bad: True
    then have "decide env c p = Reject" using True by (auto simp: decide_def payable_def)
    then show ?thesis
      using rej [OF _ refl c(3)] bad by (auto simp: assessTx_run [OF env(1) c(1,2) True] Let_def)
  next
    case good: False
    obtain s1 where f: "flagFraud env i ?b c p s = (Inr (), s1)" and u1: "userOf s1 (po_userId p) \<noteq> None"
      and m1: "moneyTables s1 = moneyTables s"
      using flagFraud_ok [OF env] c(3) by blast
    have c1: "claimOf s1 i = Some c" "policyRef s1 c = Some p" using c by (simp_all add: moneyTables_eq [OF m1])
    obtain s2 where v: "verifyOracle env i s1 = (Inr (payable env c p), s2)" and u2: "userOf s2 (po_userId p) \<noteq> None"
      using verifyOracle_run [OF env(1) c1] env u1 by (cases "payable env c p") (simp_all add: auditService_log_add)
    have m2: "moneyTables s2 = moneyTables s"
      using keeps_run [OF runtime.money_oracle [OF env(1)] v] m1 by simp
    have c2: "claimOf s2 i = Some c" using c by (simp add: moneyTables_eq [OF m2])
    have last: "\<exists>r s'. (if \<not> payable env c p then rejectClaim env c0 i ?b ''Oracle verification failed'' p
        else approveClaim env c0 i ?b c p) s2 = (Inr r, s')"
      using rej [OF _ m2 u2] approveClaim_ok [OF env c2 u2] True by (simp add: decide_def)
    have "\<exists>r s'. bindM (flagFraud env i ?b c p) (\<lambda>_. bindM (verifyOracle env i) (\<lambda>v.
        if \<not> v then rejectClaim env c0 i ?b ''Oracle verification failed'' p else approveClaim env c0 i ?b c p)) s = (Inr r, s')"
      by (rule bindM_ex, rule f, rule bindM_ex, rule v, rule last)
    then show ?thesis using good by (simp add: assessTx_run [OF env(1) c(1,2) True] Let_def)
  qed
qed

lemma endPolicy_ok:
  assumes env: "runtime env" "auditAccepts env" and p: "policyOf s i = Some p" "\<not> terminal (po_status p)"
    and pool: "0 < po_coverageAmount p" "ledgerOf s (po_poolId p) = Some (c, l)" "l - po_coverageAmount p \<le> c"
  shows "\<exists>p' s'. endPolicy env i st reason s = (Inr p', s')"
proof -
  let ?p = "p\<lparr>po_status := st\<rparr>"
  obtain q s2 where unl: "unlockCapital env (po_poolId p) (po_coverageAmount p) True (setPolicy i st s) = (Inr q, s2)"
    using total_capital_ledger.unlock_total [OF pool_ledger_total [OF env], of "po_coverageAmount p" "setPolicy i st s" "po_poolId p" c l True]
      pool by auto
  have upd: "policy_updateStatus env i st s = (Inr ?p, setPolicy i st s)"
    using env p by simp
  obtain s3 where log: "logUpdate env ''InsurancePolicy'' i (policyJs p) (policyJs ?p) None (Some reason) s2 = (Inr (), s3)"
    using env by (simp add: logUpdate_def auditService_log_add)
  have found: "policy_findById env i s = (Inr (Some p), s)" using env p by simp
  show ?thesis
    unfolding endPolicy_def transaction_Inr_iff
    by (rule bindM_ex, rule found, simp only: option.case p(2) if_False,
        rule bindM_ex, rule upd, rule bindM_ex, rule unl, rule bindM_ex, rule log) simp
qed

lemma purchaseTx_ok:
  assumes env: "runtime env" "storeAccepts env" "\<And>r t. violates (insurancePolicyE (prisma env)) r t = None"
    and new: "find (live (coveringPolicy u k)) (insurancePolicies s) = None"
    and pool: "0 < cov" "ledgerOf s k \<noteq> None"
  shows "\<exists>r s'. purchaseTx env u k rt cov c0 s = (Inr r, s')"
proof -
  let ?row = "policyRow u k rt cov (calculatePremium rt cov)"
  obtain q s1 where lock: "lockCapital env k cov True s = (Inr q, s1)"
    using total_capital_ledger.lock_total [OF pool_ledger_total [OF env(1)], of cov s k True] env(2) pool by auto
  obtain p s2 where create: "createPolicy env ?row s1 = (Inr p, s2)"
    using env(1,3) by (simp add: createPolicy_def policiesOp_def zoom_def Let_def)
  obtain s3 where log: "logPurchase env ''InsurancePolicy'' (rowId p) (policyJs p) None (Some ''Policy purchased'') s2 = (Inr (), s3)"
    using env(1,2) by (simp add: logPurchase_def auditService_log_add)
  have found: "policiesOp env (\<lambda>e t. d_findFirst e t (whereOf (coveringPolicy u k))) s = (Inr None, s)"
    using env(1) new by (simp add: policiesOp_def zoom_def)
  have tail: "\<exists>r s'. bindM (prepareNotification env c0 u Notif_POLICY_PURCHASED ti m d) (\<lambda>pn. returnM (p, pn)) s3 = (Inr r, s')"
    for ti m d
    by (intro bindM_total prepareNotification_total [OF env(1,2)]) simp
  show ?thesis
    unfolding purchaseTx_def Let_def
    by (rule bindM_ex, rule found, simp only: option.case, rule bindM_ex, rule lock,
        rule bindM_ex, rule create, rule bindM_ex, rule log, rule tail)
qed

lemma payTx_ok:
  assumes env: "runtime env" "storeAccepts env"
    and c: "claimOf s i = Some c" "policyRef s c = Some p" "cl_status c \<noteq> Claim_PAID"
    and pool: "0 < cl_claimAmount c" "ledgerOf s (po_poolId p) = Some (k, l)" "l - cl_claimAmount c \<le> k"
  shows "\<exists>r s'. payTx env i c0 s = (Inr r, s')"
proof -
  let ?f = "\<lambda>r. r\<lparr>cl_status := Claim_PAID\<rparr>"
  have ref: "policyRef s (?f c) = Some p" using c(2) by (simp add: policyRef_def)
  have found: "findByIdWithPolicy env i s = (Inr (Some (c, Some p)), s)"
    and upd: "updateStatusWithPolicy env i ?f s = (Inr (?f c, Some p), setClaim i ?f s)"
    using env(1) c ref by simp_all
  obtain q s2 where unl: "unlockCapital env (po_poolId p) (cl_claimAmount c) True (setClaim i ?f s) = (Inr q, s2)"
    using unlockCapital_ok [OF env pool(1), of "setClaim i ?f s" "po_poolId p" k l] pool by auto
  obtain s3 where log: "logPayout env ''Claim'' i (claimWithPolicyJs (c, Some p)) (claimWithPolicyJs (?f c, Some p)) None None s2 = (Inr (), s3)"
    using env by (simp add: logPayout_def auditService_log_add)
  have tail: "\<exists>r s'. bindM (prepareNotification env c0 (po_userId p) Notif_CLAIM_PAID ti m d)
      (\<lambda>pn. returnM ((?f c, Some p), optList pn)) s3 = (Inr r, s')" for ti m d
    by (intro bindM_total prepareNotification_total [OF env]) simp
  show ?thesis
    unfolding payTx_def
    by (rule bindM_ex, rule found, simp only: option.case prod.case c(3) if_False bindM_assoc bindM_return,
        rule bindM_ex, rule upd, rule bindM_ex, rule unl, rule bindM_ex, rule log, rule tail)
qed

lemma policyRow_fields:
  "po_status (newRow (rowOf (policyRow u k rt cov pm)) i) = Policy_ACTIVE"
  "po_coverageAmount (newRow (rowOf (policyRow u k rt cov pm)) i) = cov"
  "po_poolId (newRow (rowOf (policyRow u k rt cov pm)) i) = k"
  by (simp_all add: newRow_def rowOf_def policyRow_def)

lemma atomic_operations:
  "cancelPolicy env i s = (Inl e, s') \<Longrightarrow> s' = s" "expirePolicy env i s = (Inl e, s') \<Longrightarrow> s' = s"
  "createContract env k a b s = (Inl e, s') \<Longrightarrow> s' = s" "releaseContract env i s = (Inl e, s') \<Longrightarrow> s' = s"
  "addCapital env k a False s = (Inl e, s') \<Longrightarrow> s' = s" "lockCapital env k a False s = (Inl e, s') \<Longrightarrow> s' = s"
  "unlockCapital env k a False s = (Inl e, s') \<Longrightarrow> s' = s"
  by (auto simp: cancelPolicy_def expirePolicy_def createContract_def releaseContract_def addCapital_def
      lockCapital_def unlockCapital_def withTx_def split: if_splits dest: transaction_atomic)

lemma find_stamped_none:
  "distinct (map rowId t) \<Longrightarrow> find (live (\<lambda>r. rowId r = i)) (updateFirst (live (\<lambda>r. rowId r = i)) (stamp d) t) = None"
proof (induction t)
  case Nil
  then show ?case by simp
next
  case (Cons x t)
  have "find (live (\<lambda>r. rowId r = i)) t = None" if "rowId x = i"
    using Cons.prems that by (simp add: find_None_iff live_def) (metis image_eqI)
  with Cons show ?case by (simp add: live_def [abs_def])
qed

section \<open>Committed transactions\<close>

context runtime
begin

lemma committed_ex:
  assumes "\<exists>r s'. T (store w) (store w) = (Inr r, s')"
  shows "\<exists>x w'. bindM (inStore (transactionC T)) (\<lambda>(r, ns). bindM (dispatchPrepared env (g ns)) (\<lambda>_. returnM r)) w = (Inr x, w')"
proof -
  obtain x ns s' where T: "T (store w) (store w) = (Inr (x, ns), s')" using assms by auto
  have t: "inStore (transactionC T) w = (Inr (x, ns), w\<lparr>store := s'\<rparr>)"
    using T by (simp add: inStore_def zoom_def transactionC_def transaction_def)
  obtain w2 where "dispatchPrepared env (g ns) (w\<lparr>store := s'\<rparr>) = (Inr (), w2)"
    using dispatchPrepared_ok [of "g ns" "w\<lparr>store := s'\<rparr>"] by (metis prod.collapse)
  with t show ?thesis by (simp add: bindM_def)
qed

end

lemma assessClaim_Inr:
  assumes "runtime env" "assessClaim env i w = (Inr cp, w')"
  shows "\<exists>ns. assessTx env i (store w) (store w) = (Inr (cp, ns), store w')"
  using runtime.committed_Inr [OF assms(1), where T = "assessTx env i" and g = "\<lambda>ns. ns"] assms(2)
  by (simp add: assessClaim_def)

lemma payClaim_Inr:
  assumes "runtime env" "payClaim env i w = (Inr cp, w')"
  shows "\<exists>ns. payTx env i (store w) (store w) = (Inr (cp, ns), store w')"
  using runtime.committed_Inr [OF assms(1), where T = "payTx env i" and g = "\<lambda>ns. ns"] assms(2)
  by (simp add: payClaim_def)

lemma createClaim_Inr:
  assumes "runtime env" "createClaim env k a w = (Inr c, w')"
  shows "\<exists>ns. createClaimTx env k a (store w) (store w) = (Inr (c, ns), store w')"
  using runtime.committed_Inr [OF assms(1), where T = "createClaimTx env k a" and g = "\<lambda>ns. ns"] assms(2)
  by (simp add: createClaim_def)

lemma purchasePolicy_Inr:
  assumes "runtime env" "purchasePolicy env u k rt cov w = (Inr p, w')"
  shows "u \<noteq> [] \<and> k \<noteq> [] \<and> 0 < cov \<and>
    (\<exists>n. purchaseTx env u k rt cov (store w) (store w) = (Inr (p, n), store w'))"
  using runtime.committed_Inr [OF assms(1), where T = "purchaseTx env u k rt cov" and g = optList and w = w and x = p and w' = w'] assms(2)
  by (auto simp: purchasePolicy_def split: if_splits)

text \<open>A notifying method that throws leaves database and queues as they were.\<close>

lemma notifying_Inl:
  assumes "runtime env"
  shows "assessClaim env i w = (Inl e, w') \<Longrightarrow> w' = w"
    and "payClaim env i w = (Inl e, w') \<Longrightarrow> w' = w"
    and "createClaim env k a w = (Inl e, w') \<Longrightarrow> w' = w"
    and "purchasePolicy env u k rt cov w = (Inl e, w') \<Longrightarrow> w' = w"
  using runtime.committed_Inl [OF assms, where T = "assessTx env i" and g = "\<lambda>ns. ns" and w = w and w' = w']
    runtime.committed_Inl [OF assms, where T = "payTx env i" and g = "\<lambda>ns. ns" and w = w and w' = w']
    runtime.committed_Inl [OF assms, where T = "createClaimTx env k a" and g = "\<lambda>ns. ns" and w = w and w' = w']
    runtime.committed_Inl [OF assms, where T = "purchaseTx env u k rt cov" and g = optList and w = w and w' = w']
  by (auto simp: assessClaim_def payClaim_def createClaim_def purchasePolicy_def split: if_splits)

lemma assessClaim_ex:
  assumes "runtime env" "\<exists>r s'. assessTx env i (store w) (store w) = (Inr r, s')"
  shows "\<exists>cp w'. assessClaim env i w = (Inr cp, w')"
  using runtime.committed_ex [OF assms(1), of "assessTx env i" w "\<lambda>ns. ns"] assms(2) by (simp add: assessClaim_def)

lemma assessClaim_rejected:
  assumes "runtime env" "auditAccepts env" "claimOf (store w) i = Some c" "policyRef (store w) c = Some p"
    and "decide env c p = Reject" "assessClaim env i w = (Inr cp, w')"
  shows "claimOf (store w') i = Some (decided Reject c)" "policyRef (store w') (decided Reject c) = Some p"
    "ledgerOf (store w') = unlockStep (cl_claimAmount c) (po_poolId p) (ledgerOf (store w))"
proof -
  obtain ns where run: "assessTx env i (store w) (store w) = (Inr (cp, ns), store w')"
    using assessClaim_Inr [OF assms(1,6)] by blast
  have pend: "cl_status c = Claim_PENDING" using assms(5) by (simp add: decide_def split: if_splits)
  note rejected = assessTx_Inr [OF assms(1-4) pend run, unfolded assms(5)]
  show "claimOf (store w') i = Some (decided Reject c)" "policyRef (store w') (decided Reject c) = Some p"
    "ledgerOf (store w') = unlockStep (cl_claimAmount c) (po_poolId p) (ledgerOf (store w))"
    using rejected assms(4) by (simp_all add: claimChanged_def policyRef_def decided_def decidedLedger_def)
qed

lemma payClaim_ex:
  assumes "runtime env" "\<exists>r s'. payTx env i (store w) (store w) = (Inr r, s')"
  shows "\<exists>cp w'. payClaim env i w = (Inr cp, w')"
  using runtime.committed_ex [OF assms(1), of "payTx env i" w "\<lambda>ns. ns"] assms(2) by (simp add: payClaim_def)

lemma purchasePolicy_ex:
  assumes "runtime env" "u \<noteq> []" "k \<noteq> []" "0 < cov" "\<exists>r s'. purchaseTx env u k rt cov (store w) (store w) = (Inr r, s')"
  shows "\<exists>p w'. purchasePolicy env u k rt cov w = (Inr p, w')"
  using runtime.committed_ex [OF assms(1), of "purchaseTx env u k rt cov" w optList] assms(2-5)
  by (simp add: purchasePolicy_def)

section \<open>A sample of the insurance tables\<close>

text \<open>
  For the witnesses: one user, one pool with 100 of capital of which 40 is locked by one
  active policy, and a pending claim of 30 on it.
\<close>

definition sampleUser :: user where
  "sampleUser = \<lparr>rowId = ''user-1'', deletedAt = None, walletAddress = ''GA'', profileData = None,
     reputationScore = 50, trustScore = 0, email = None, pushSubscription = None\<rparr>"

definition samplePolicy :: insurance_policy where
  "samplePolicy = \<lparr>rowId = ''policy-1'', deletedAt = None, po_userId = ''user-1'', po_poolId = ''pool-1'',
     po_riskType = PROJECT_FAILURE, po_status = Policy_ACTIVE, po_premium = 5, po_coverageAmount = 40, po_endDate = None\<rparr>"

definition sampleClaim :: claim where
  "sampleClaim = \<lparr>rowId = ''claim-1'', deletedAt = None, cl_policyId = ''policy-1'', cl_claimAmount = 30,
     cl_status = Claim_PENDING, cl_payoutAmount = None, cl_createdAt = 0\<rparr>"

definition insuredDb :: "claim \<Rightarrow> db" where
  "insuredDb c = emptyDb\<lparr>users := [sampleUser], insurancePools := [samplePool\<lparr>lockedCapital := 40\<rparr>],
     insurancePolicies := [samplePolicy], claims := [c]\<rparr>"

definition insuredWorld :: "claim \<Rightarrow> world" where
  "insuredWorld c = \<lparr>store = insuredDb c, emailJobs = [], pushJobs = []\<rparr>"

lemma insured_rows [simp]:
  "store (insuredWorld c) = insuredDb c"
  "userOf (insuredDb c) ''user-1'' = Some sampleUser"
  "policyOf (insuredDb c) ''policy-1'' = Some samplePolicy"
  "ledgerOf (insuredDb c) ''pool-1'' = Some (100, 40)"
  by (simp_all add: insuredWorld_def insuredDb_def userOf_def sampleUser_def policyOf_def samplePolicy_def
      ledgerOf_def poolOf_def samplePool_def live_def)

lemma insured_claim [simp]:
  assumes "rowId c = ''claim-1''" "deletedAt c = None" "cl_policyId c = ''policy-1''"
  shows "claimOf (insuredDb c) ''claim-1'' = Some c" "policyRef (insuredDb c) c = Some samplePolicy"
  using assms by (simp_all add: insuredDb_def claimOf_def policyRef_def samplePolicy_def live_def)

lemma sampleClaim_fields [simp]:
  "rowId sampleClaim = ''claim-1''" "deletedAt sampleClaim = None" "cl_policyId sampleClaim = ''policy-1''"
  "cl_status sampleClaim = Claim_PENDING" "cl_claimAmount sampleClaim = 30"
  by (simp_all add: sampleClaim_def)

lemma samplePolicy_fields [simp]:
  "po_userId samplePolicy = ''user-1''" "po_poolId samplePolicy = ''pool-1''" "po_status samplePolicy = Policy_ACTIVE"
  "po_coverageAmount samplePolicy = 40" "po_endDate samplePolicy = None"
  by (simp_all add: samplePolicy_def)

lemma sample_decision [simp]: "decide memoryEnv sampleClaim samplePolicy = Approve"
  by (simp add: decide_def payable_def)

lemma sample_assessed: "\<exists>cp w'. assessClaim memoryEnv ''claim-1'' (insuredWorld sampleClaim) = (Inr cp, w')"
  by (intro assessClaim_ex assessTx_ok [where c = sampleClaim and p = samplePolicy]) simp_all

definition emptyWorld :: world where
  "emptyWorld = \<lparr>store = sampleDb, emailJobs = [], pushJobs = []\<rparr>"

lemma sample_policies [simp]: "store emptyWorld = sampleDb" "insurancePolicies sampleDb = []"
  "ledgerOf sampleDb ''pool-1'' = Some (100, 0)"
  by (simp_all add: emptyWorld_def sampleDb_def emptyDb_def ledgerOf_def poolOf_def samplePool_def live_def)

lemma memory_policies [simp]: "violates (insurancePolicyE (prisma memoryEnv)) r t = None"
  by (simp add: memoryEnv_def memoryClient_def tableEngine_def noConstraint_def)

lemma sample_purchased:
  "\<exists>p w'. purchasePolicy memoryEnv ''user-1'' ''pool-1'' PROJECT_FAILURE 40 emptyWorld = (Inr p, w')"
  by (intro purchasePolicy_ex purchaseTx_ok) simp_all

section \<open>Properties\<close>







text \<open>
  Cancellation and expiry, on every branch: an unknown policy is refused and a policy
  that was already cancelled or expired is returned, both without any change; every other
  policy takes the new status, exactly its coverage is released from its pool, and no
  other policy changes.
\<close>

theorem end_policy_spec:
  assumes "runtime env" "auditAccepts env"
    and "(endp = cancelPolicy env \<and> st = Policy_CANCELLED) \<or> (endp = expirePolicy env \<and> st = Policy_EXPIRED)"
  shows "(policyOf s i = None \<longrightarrow> endp i s = (Inl (BadRequestException (''Policy '' @ i @ '' not found'')), s))
    \<and> (policyOf s i = Some p \<and> terminal (po_status p) \<longrightarrow> endp i s = (Inr p, s))
    \<and> (policyOf s i = Some p \<and> \<not> terminal (po_status p) \<and> 0 < po_coverageAmount p \<and>
         ledgerOf s (po_poolId p) = Some (c, l) \<and> l - po_coverageAmount p \<le> c \<longrightarrow>
       (\<exists>s'. endp i s = (Inr (p\<lparr>po_status := st\<rparr>), s') \<and>
          ledgerOf s' = unlockStep (po_coverageAmount p) (po_poolId p) (ledgerOf s) \<and>
          (\<forall>j. policyOf s' j = (if j = i then Some (p\<lparr>po_status := st\<rparr>) else policyOf s j))))"
proof -
  obtain reason where e: "endp i = endPolicy env i st reason"
    using assms(3) by (auto simp: cancel_expire_end)
  show ?thesis
    unfolding e
  proof (intro conjI impI; (elim conjE)?)
    assume "policyOf s i = None"
    then show "endPolicy env i st reason s = (Inl (BadRequestException (''Policy '' @ i @ '' not found'')), s)"
      by (rule endPolicy_missing [OF assms(1)])
  next
    assume "policyOf s i = Some p" "terminal (po_status p)"
    then show "endPolicy env i st reason s = (Inr p, s)" by (rule endPolicy_terminal [OF assms(1)])
  next
    assume p: "policyOf s i = Some p" "\<not> terminal (po_status p)"
      and pool: "0 < po_coverageAmount p" "ledgerOf s (po_poolId p) = Some (c, l)" "l - po_coverageAmount p \<le> c"
    obtain p' s' where run: "endPolicy env i st reason s = (Inr p', s')"
      using endPolicy_ok [OF assms(1,2) p pool] by blast
    from endPolicy_Inr [OF assms(1) run p] run
    show "\<exists>s'. endPolicy env i st reason s = (Inr (p\<lparr>po_status := st\<rparr>), s') \<and>
        ledgerOf s' = unlockStep (po_coverageAmount p) (po_poolId p) (ledgerOf s) \<and>
        (\<forall>j. policyOf s' j = (if j = i then Some (p\<lparr>po_status := st\<rparr>) else policyOf s j))"
      by auto
  qed
qed

theorem end_policy_spec_witness:
  "\<exists>s'. cancelPolicy memoryEnv ''policy-1'' (insuredDb sampleClaim) = (Inr (samplePolicy\<lparr>po_status := Policy_CANCELLED\<rparr>), s') \<and>
     ledgerOf s' = unlockStep 40 ''pool-1'' (ledgerOf (insuredDb sampleClaim))"
  using end_policy_spec [of memoryEnv "cancelPolicy memoryEnv" Policy_CANCELLED "insuredDb sampleClaim" "''policy-1''" samplePolicy 100 40]
  by (simp add: terminal_def) blast



text \<open>
  C7. Errors are atomic. Whenever one of the insurance operations throws, at whatever
  point of its work, the database is exactly what it was before the call, and the
  notifying operations have queued nothing.
\<close>

theorem failures_atomic:
  assumes "runtime env"
  shows "(\<forall>e w'. purchasePolicy env u k rt cov w = (Inl e, w') \<longrightarrow> w' = w)
    \<and> (\<forall>e w'. createClaim env k a w = (Inl e, w') \<longrightarrow> w' = w)
    \<and> (\<forall>e w'. assessClaim env i w = (Inl e, w') \<longrightarrow> w' = w)
    \<and> (\<forall>e w'. payClaim env i w = (Inl e, w') \<longrightarrow> w' = w)
    \<and> (\<forall>e s'. cancelPolicy env i s = (Inl e, s') \<longrightarrow> s' = s)
    \<and> (\<forall>e s'. expirePolicy env i s = (Inl e, s') \<longrightarrow> s' = s)
    \<and> (\<forall>e s'. createContract env k a b s = (Inl e, s') \<longrightarrow> s' = s)
    \<and> (\<forall>e s'. releaseContract env i s = (Inl e, s') \<longrightarrow> s' = s)
    \<and> (\<forall>e s'. addCapital env k a False s = (Inl e, s') \<longrightarrow> s' = s)
    \<and> (\<forall>e s'. lockCapital env k a False s = (Inl e, s') \<longrightarrow> s' = s)
    \<and> (\<forall>e s'. unlockCapital env k a False s = (Inl e, s') \<longrightarrow> s' = s)"
  by (intro conjI allI impI) (erule notifying_Inl [OF assms] atomic_operations)+

theorem failures_atomic_witness:
  "assessClaim memoryEnv ''nobody'' emptyWorld = (Inl (NotFoundException ''Claim with ID nobody not found''), emptyWorld)"
proof -
  have none: "claimOf sampleDb ''nobody'' = None" by (simp add: claimOf_def sampleDb_def emptyDb_def)
  obtain w' where run: "assessClaim memoryEnv ''nobody'' emptyWorld = (Inl (NotFoundException ''Claim with ID nobody not found''), w')"
    using assessTx_missing [OF _ none, of memoryEnv sampleDb]
    by (simp add: assessClaim_def inStore_def zoom_def transactionC_def transaction_def bindM_def)
  have "w' = emptyWorld"
    using failures_atomic [of memoryEnv, THEN conjunct2, THEN conjunct2, THEN conjunct1, of "''nobody''" emptyWorld] run by simp
  with run show ?thesis by simp
qed



text \<open>
  The same money is released twice: when a claim is rejected and then paid, both
  operations release its amount from the pool, so the pool ends with twice the amount
  less locked than before, whatever was locked for the policy.
\<close>

theorem rejected_then_paid_releases_twice:
  assumes "runtime env" "auditAccepts env" "claimOf (store w) i = Some c" "policyRef (store w) c = Some p"
    and "decide env c p = Reject" "assessClaim env i w = (Inr cp, w1)" "payClaim env i w1 = (Inr cp', w2)"
  shows "ledgerOf (store w2) =
    unlockStep (cl_claimAmount c) (po_poolId p) (unlockStep (cl_claimAmount c) (po_poolId p) (ledgerOf (store w)))"
proof -
  note rejected = assessClaim_rejected [OF assms(1-6)]
  have unpaid: "cl_status (decided Reject c) \<noteq> Claim_PAID" by (simp add: decided_def)
  obtain ns' where "payTx env i (store w1) (store w1) = (Inr (cp', ns'), store w2)"
    using payClaim_Inr [OF assms(1,7)] by blast
  from payTx_Inr [OF assms(1) rejected(1,2) unpaid this] rejected(3) show ?thesis
    by (simp add: decided_def)
qed

theorem rejected_then_paid_releases_twice_witness:
  "\<exists>cp w1 cp' w2. assessClaim memoryEnv ''claim-1'' (insuredWorld (sampleClaim\<lparr>cl_claimAmount := 50\<rparr>)) = (Inr cp, w1) \<and>
     payClaim memoryEnv ''claim-1'' w1 = (Inr cp', w2) \<and> ledgerOf (store w2) ''pool-1'' = Some (100, - 60)"
proof -
  let ?c = "sampleClaim\<lparr>cl_claimAmount := 50\<rparr>"
  have rej: "decide memoryEnv ?c samplePolicy = Reject" by (simp add: decide_def payable_def)
  obtain cp w1 where run1: "assessClaim memoryEnv ''claim-1'' (insuredWorld ?c) = (Inr cp, w1)"
    using assessClaim_ex [of memoryEnv "''claim-1''" "insuredWorld ?c"]
      assessTx_ok [of memoryEnv "insuredDb ?c" "''claim-1''" ?c samplePolicy "insuredDb ?c"]
    by auto
  have w1: "claimOf (store w1) ''claim-1'' = Some (decided Reject ?c)" "policyRef (store w1) (decided Reject ?c) = Some samplePolicy"
    "ledgerOf (store w1) ''pool-1'' = Some (100, - 10)"
    using assessClaim_rejected [OF _ _ _ _ rej run1] by (simp_all add: unlockStep_def ledgerStep_def)
  obtain cp' w2 where run2: "payClaim memoryEnv ''claim-1'' w1 = (Inr cp', w2)"
    using payClaim_ex [of memoryEnv "''claim-1''" w1] payTx_ok [OF _ _ w1(1,2), of memoryEnv 100 "- 10" "store w1"] w1(3)
    by (auto simp: decided_def)
  from rejected_then_paid_releases_twice [OF _ _ _ _ rej run1 run2] run1 run2 show ?thesis
    by (auto simp: unlockStep_def ledgerStep_def)
qed

text \<open>
  Releasing a reinsurance contract is a soft delete with an audit row, and it is not
  idempotent: the released row is invisible to the lookup of a second call, which fails
  with the same error as for an unknown contract.
\<close>

theorem release_contract_once:
  assumes "runtime env" "auditAccepts env" "runtime env'" "distinct (map rowId (reinsuranceContracts s))"
    and "contractOf s i = Some r"
  shows "\<exists>s'. releaseContract env i s = (Inr (stamp (now env) r), s') \<and>
    map rowId (reinsuranceContracts s') = map rowId (reinsuranceContracts s) \<and>
    map au_action (auditLogs s') = map au_action (auditLogs s) @ [Audit_DELETE] \<and>
    releaseContract env' i s' = (Inl (BadRequestException (''Reinsurance contract '' @ i @ '' not found'')), s')"
proof -
  let ?t = "updateFirst (live (\<lambda>r. rowId r = i)) (stamp (now env)) (reinsuranceContracts s)"
  let ?s = "addAudit env Audit_DELETE ''ReinsuranceContract'' i (contractJs r) JNull None
    (Some ''Reinsurance contract released'') (s\<lparr>reinsuranceContracts := ?t\<rparr>)"
  have "find (live (\<lambda>r. rowId r = i)) ?t = None"
    by (rule find_stamped_none [OF assms(4)])
  then have "contractOf ?s i = None" by (simp add: contractOf_def)
  from releaseContract_missing [OF assms(3) this] releaseContract_run [OF assms(1,2,5)]
  show ?thesis by (simp add: map_updateFirst)
qed

theorem release_contract_once_witness:
  "\<exists>s'. releaseContract memoryEnv ''rc-1'' (emptyDb\<lparr>reinsuranceContracts :=
      [\<lparr>rowId = ''rc-1'', deletedAt = None, rc_poolId = ''pool-1'', rc_coverageLimit = 1, rc_premiumRate = 1\<rparr>]\<rparr>) =
      (Inr (stamp 1000 \<lparr>rowId = ''rc-1'', deletedAt = None, rc_poolId = ''pool-1'', rc_coverageLimit = 1, rc_premiumRate = 1\<rparr>), s')
    \<and> releaseContract memoryEnv ''rc-1'' s' =
      (Inl (BadRequestException ''Reinsurance contract rc-1 not found''), s')"
proof -
  have t: "now memoryEnv = 1000" by (simp add: memoryEnv_def)
  let ?r = "\<lparr>rowId = ''rc-1'', deletedAt = None, rc_poolId = ''pool-1'', rc_coverageLimit = 1, rc_premiumRate = 1\<rparr>"
  have "contractOf (emptyDb\<lparr>reinsuranceContracts := [?r]\<rparr>) ''rc-1'' = Some ?r"
    by (simp add: contractOf_def live_def)
  from release_contract_once [OF memoryEnv_laws memoryEnv_audit memoryEnv_laws _ this] show ?thesis
    by (auto simp: t)
qed

end
