(* ===== verification/Reachability.thy ===== *)
theory Reachability
  imports Lifecycle "HOL-Library.Sublist"
begin

text \<open>
  The insurance back end as a state machine. A step is one service call, by any request
  at any time, whatever its outcome; the reachable states are those any sequence of calls
  leads to. The invariants of the state and the ways policies, claims, pools and the audit
  trail may change are proved once per operation and lifted to all sequences of calls.
\<close>

section \<open>Steps\<close>

inductive step :: "world \<Rightarrow> world \<Rightarrow> bool" where
  purchase: "runtime env \<Longrightarrow> purchasePolicy env u k rt cov w = (r, w') \<Longrightarrow> step w w'"
| cancel: "runtime env \<Longrightarrow> inStore (cancelPolicy env i) w = (r, w') \<Longrightarrow> step w w'"
| expire: "runtime env \<Longrightarrow> inStore (expirePolicy env i) w = (r, w') \<Longrightarrow> step w w'"
| submit: "runtime env \<Longrightarrow> createClaim env k a w = (c, w') \<Longrightarrow> step w w'"
| assess: "runtime env \<Longrightarrow> assessClaim env i w = (cp, w') \<Longrightarrow> step w w'"
| pay: "runtime env \<Longrightarrow> payClaim env i w = (cp, w') \<Longrightarrow> step w w'"
| fund: "runtime env \<Longrightarrow> inStore (addCapital env k a False) w = (q, w') \<Longrightarrow> step w w'"
| reinsure: "runtime env \<Longrightarrow> inStore (createContract env k a b) w = (rc, w') \<Longrightarrow> step w w'"
| release: "runtime env \<Longrightarrow> inStore (releaseContract env i) w = (rc, w') \<Longrightarrow> step w w'"

abbreviation steps :: "world \<Rightarrow> world \<Rightarrow> bool" where
  "steps \<equiv> step\<^sup>*\<^sup>*"

section \<open>The audit trail only grows, and scores stay in range\<close>

definition trail :: "audit_log list \<Rightarrow> db \<Rightarrow> bool" where
  "trail l s \<longleftrightarrow> prefix l (auditLogs s) \<and> scoresInRange s"

lemma keeps_zoom_trail:
  assumes "\<And>t s. trail l s \<Longrightarrow> trail l (u (\<lambda>_. t) s)"
  shows "keeps (trail l) (zoom g u m)"
  using assms by (auto intro!: keepsI simp: zoom_def split: prod.split)

lemma trail_updates [simp]:
  "trail l (insurancePools_update f s) = trail l s" "trail l (insurancePolicies_update f2 s) = trail l s"
  "trail l (claims_update f3 s) = trail l s" "trail l (reinsuranceContracts_update f4 s) = trail l s"
  "trail l (notifications_update f5 s) = trail l s" "trail l (notificationSettings_update f6 s) = trail l s"
  "trail l (emailOutboxes_update f7 s) = trail l s"
  by (simp_all add: trail_def scoresInRange_def)

lemma trail_ops [simp]:
  "keeps (trail l) (policiesOp env m)" "keeps (trail l) (claimsOp env m2)" "keeps (trail l) (contractsOp env m3)"
  "keeps (trail l) (findByIdRequired env i)" "keeps (trail l) (incrementCapital env i a)"
  "keeps (trail l) (incrementLockedCapital env i a)" "keeps (trail l) (decrementLockedCapital env i a)"
  "keeps (trail l) (createNotification env nr)" "keeps (trail l) (upsertForUser env i)" "keeps (trail l) (createOutbox env eo)"
  by (simp_all add: policiesOp_def claimsOp_def contractsOp_def findByIdRequired_def incrementCapital_def
      incrementLockedCapital_def decrementLockedCapital_def createNotification_def upsertForUser_def createOutbox_def
      keeps_zoom_trail)

lemma trail_wrappers [simp]:
  "keeps (trail l) (policy_findById env i)" "keeps (trail l) (createPolicy env p)" "keeps (trail l) (policy_updateStatus env i st)"
  "keeps (trail l) (repo_createClaim env c)" "keeps (trail l) (countDuplicates env i a j t ex)" "keeps (trail l) (countRecent env i t)"
  "keeps (trail l) (repo_createContract env rc)" "keeps (trail l) (findByIdStrict env i)" "keeps (trail l) (deleteContract env i)"
  by (simp_all add: policy_findById_def createPolicy_def policy_updateStatus_def repo_createClaim_def countDuplicates_def
      countRecent_def repo_createContract_def findByIdStrict_def deleteContract_def)

lemma trail_reads [simp]:
  "keeps (trail l) (findByIdWithPolicy env i)" "keeps (trail l) (updateStatusWithPolicy env i f)"
  unfolding findByIdWithPolicy_def updateStatusWithPolicy_def
  by (intro keeps_bind trail_ops; rule keepsI; simp)+

context runtime
begin

lemma trail_audit [simp]: "keeps (trail l) (auditService_log env act ty i b a h r)"
proof (rule keepsI)
  fix s :: db assume t: "trail l s"
  show "trail l (snd (auditService_log env act ty i b a h r s))"
  proof (cases "fst (auditService_log env act ty i b a h r s)")
    case (Inl e)
    then have "snd (auditService_log env act ty i b a h r s) = s"
      by (auto simp: auditService_log_def createLog_def bindM_def zoom_def Let_def split: sum.splits option.splits)
    with t show ?thesis by simp
  next
    case (Inr x)
    then have "auditService_log env act ty i b a h r s = (Inr x, snd (auditService_log env act ty i b a h r s))"
      by (metis prod.collapse)
    from auditService_log_Inr [OF runtime_axioms this] t show ?thesis
      by (simp add: trail_def scoresInRange_def)
  qed
qed

lemma trail_adjust [simp]: "keeps (trail l) (adjustReputation env i d r True)"
proof (rule keepsI)
  fix s :: db assume t: "trail l s"
  show "trail l (snd (adjustReputation env i d r True s))"
  proof (cases "userOf s i")
    case None
    with t show ?thesis by (simp add: adjustReputation_missing [OF runtime_axioms])
  next
    case (Some u)
    have "users (snd (adjustReputation env i d r True s)) = users (reputationEffect env i d r s) \<and>
      auditLogs (snd (adjustReputation env i d r True s)) = auditLogs s"
      using Some
      by (simp add: adjustReputation_def withTx_def bindM_def findUserScore_def updateUserScore_def createHistory_def
          zoom_def Let_def userOf_def clampScore_def reputationEffect_def split: option.split)
    with t reputationEffect_range [of s env i d r] show ?thesis
      by (simp add: trail_def scoresInRange_def)
  qed
qed

lemma trail_prepare [simp]: "keeps (trail l) (prepareNotification env c0 u ty ti m d)"
proof (rule keepsI)
  fix s :: db assume t: "trail l s"
  have "coreTables (snd (prepareNotification env c0 u ty ti m d s)) = coreTables s"
    using prepareNotification_frame [OF runtime_axioms, of c0 u ty ti m d s] by (metis prod.collapse)
  with t show "trail l (snd (prepareNotification env c0 u ty ti m d s))"
    by (simp add: trail_def scoresInRange_def coreTables_def)
qed

lemmas audit_calls = logCreate_def logUpdate_def logDelete_def logApprove_def logReject_def logPayout_def
  logPurchase_def logUnlockCapital_def logAddCapital_def

lemma trail_calls [simp]:
  "keeps (trail l) (logCreate env ty i a h r)" "keeps (trail l) (logUpdate env ty i b a h r)"
  "keeps (trail l) (logDelete env ty i b h r)" "keeps (trail l) (logApprove env ty i b a h r)"
  "keeps (trail l) (logReject env ty i b a r)" "keeps (trail l) (logPayout env ty i b a h r)"
  "keeps (trail l) (logPurchase env ty i a h r)" "keeps (trail l) (logUnlockCapital env ty i b a h r)"
  "keeps (trail l) (logAddCapital env ty i b a h r)"
  by (simp_all add: audit_calls)

lemma trail_pool [simp]:
  "keeps (trail l) (addCapital env k a tx)" "keeps (trail l) (lockCapital env k a tx)" "keeps (trail l) (unlockCapital env k a tx)"
  unfolding addCapital_def lockCapital_def unlockCapital_def withTx_def by (intro keeps_rules trail_ops trail_calls)+

lemma trail_policy [simp]:
  "keeps (trail l) (purchaseTx env u k rt cov c0)" "keeps (trail l) (cancelPolicy env i)" "keeps (trail l) (expirePolicy env i)"
  unfolding purchaseTx_def cancelPolicy_def expirePolicy_def Let_def
  by (intro keeps_rules trail_ops trail_wrappers trail_calls trail_pool trail_prepare)+

lemma trail_fraud [simp]: "keeps (trail l) (flagFraud env i b c p)" "keeps (trail l) (verifyOracle env i)"
  unfolding flagFraud_def runFraudDetection_def verifyOracle_def Let_def
  by (intro keeps_rules trail_wrappers trail_reads trail_audit trail_adjust)+

lemma trail_verdict [simp]:
  "keeps (trail l) (rejectClaim env c0 i b reason p)" "keeps (trail l) (approveClaim env c0 i b c p)"
  unfolding rejectClaim_def approveClaim_def
  by (intro keeps_rules trail_reads trail_pool trail_calls trail_adjust trail_prepare)+

lemma trail_claim [simp]:
  "keeps (trail l) (assessTx env i c0)" "keeps (trail l) (payTx env i c0)" "keeps (trail l) (createClaimTx env k a c0)"
  unfolding assessTx_def payTx_def createClaimTx_def Let_def
  by (intro keeps_rules trail_reads trail_wrappers trail_fraud trail_verdict trail_pool trail_calls trail_prepare)+

lemma trail_contract [simp]:
  "keeps (trail l) (createContract env k a b)" "keeps (trail l) (releaseContract env i)"
  unfolding createContract_def releaseContract_def by (intro keeps_rules trail_wrappers trail_calls)+

lemma trail_services:
  "keeps (\<lambda>w. trail l (store w)) (purchasePolicy env u k rt cov)"
  "keeps (\<lambda>w. trail l (store w)) (createClaim env k a)"
  "keeps (\<lambda>w. trail l (store w)) (assessClaim env i)"
  "keeps (\<lambda>w. trail l (store w)) (payClaim env i)"
  unfolding purchasePolicy_def createClaim_def assessClaim_def payClaim_def
  by (intro keeps_rules keeps_inStore keeps_dispatch trail_policy trail_claim)+

end

lemma step_trail: "step w w' \<Longrightarrow> trail l (store w) \<Longrightarrow> trail l (store w')"
proof (induction rule: step.induct)
qed (auto elim: keeps_after [rotated, where I = "\<lambda>w. trail l (store w)"] inStore_after [rotated, where I = "trail l"]
    intro: runtime.trail_services runtime.trail_policy runtime.trail_pool runtime.trail_contract)

section \<open>How policies, claims and pools evolve\<close>

text \<open>Neither a purchase nor the end of a policy touches a claim.\<close>

context runtime
begin

lemma claims_audit: "keeps (\<lambda>s. claims s = x) (auditService_log env act ty i b a h r)"
proof (rule keepsI)
  fix s :: db assume "claims s = x"
  then show "claims (snd (auditService_log env act ty i b a h r s)) = x"
    using auditService_log_frame [OF runtime_axioms, of act ty i b a h r s] by auto
qed

lemma claims_pool_repo:
  "keeps (\<lambda>s. claims s = x) (findByIdRequired env i)" "keeps (\<lambda>s. claims s = x) (incrementLockedCapital env i a)"
  "keeps (\<lambda>s. claims s = x) (decrementLockedCapital env i a)"
  by (rule keepsI; simp split: option.split)+

lemma claims_pool:
  "keeps (\<lambda>s. claims s = x) (lockCapital env k a tx)" "keeps (\<lambda>s. claims s = x) (unlockCapital env k a tx)"
  unfolding lockCapital_def unlockCapital_def withTx_def logUpdate_def logUnlockCapital_def
  by (intro keeps_rules claims_audit claims_pool_repo)+

lemma claims_policies: "keeps (\<lambda>s. claims s = x) (policiesOp env m)"
  by (rule keepsI) (simp add: policiesOp_def zoom_def split: prod.split)

lemma claims_prepare: "keeps (\<lambda>s. claims s = x) (prepareNotification env c0 u ty ti m d)"
proof (rule keepsI)
  fix s :: db assume "claims s = x"
  moreover have "coreTables (snd (prepareNotification env c0 u ty ti m d s)) = coreTables s"
    using prepareNotification_frame [OF runtime_axioms, of c0 u ty ti m d s] by (metis prod.collapse)
  ultimately show "claims (snd (prepareNotification env c0 u ty ti m d s)) = x" by (simp add: coreTables_def)
qed

lemma purchase_claims: "keeps (\<lambda>s. claims s = x) (purchaseTx env u k rt cov c0)"
  unfolding purchaseTx_def createPolicy_def logPurchase_def Let_def
  by (intro keeps_rules claims_policies claims_pool claims_audit claims_prepare)

lemma end_claims: "keeps (\<lambda>s. claims s = x) (endPolicy env i st reason)"
  unfolding endPolicy_def policy_findById_def policy_updateStatus_def logUpdate_def
  by (intro keeps_rules claims_policies claims_pool claims_audit)

end

text \<open>The status changes of a claim: pending claims are decided, and any claim may be paid.\<close>

definition claimMove :: "ClaimStatus \<Rightarrow> ClaimStatus \<Rightarrow> bool" where
  "claimMove a b \<longleftrightarrow> a = b \<or> a = Claim_PENDING \<and> b \<noteq> Claim_UNDER_REVIEW \<or> b = Claim_PAID"

definition claimEvolved :: "claim \<Rightarrow> claim \<Rightarrow> bool" where
  "claimEvolved c c' \<longleftrightarrow> cl_policyId c' = cl_policyId c \<and> cl_claimAmount c' = cl_claimAmount c \<and>
     cl_createdAt c' = cl_createdAt c \<and> claimMove (cl_status c) (cl_status c') \<and> (cl_status c = Claim_PAID \<longrightarrow> c' = c)"

definition policyEvolved :: "insurance_policy \<Rightarrow> insurance_policy \<Rightarrow> bool" where
  "policyEvolved p p' \<longleftrightarrow> p' = p \<or>
     \<not> terminal (po_status p) \<and> (\<exists>st. terminal st \<and> p' = p\<lparr>po_status := st\<rparr>)"

definition evolves :: "db \<Rightarrow> db \<Rightarrow> bool" where
  "evolves s s' \<longleftrightarrow>
     (\<forall>i p. policyOf s i = Some p \<longrightarrow> (\<exists>p'. policyOf s' i = Some p' \<and> policyEvolved p p')) \<and>
     (\<forall>i c. claimOf s i = Some c \<longrightarrow> (\<exists>c'. claimOf s' i = Some c' \<and> claimEvolved c c')) \<and>
     (\<forall>k c l. ledgerOf s k = Some (c, l) \<longrightarrow> (\<exists>c' l'. ledgerOf s' k = Some (c', l') \<and> c \<le> c'))"

lemma claimEvolved_trans: "claimEvolved a b \<Longrightarrow> claimEvolved b c \<Longrightarrow> claimEvolved a c"
  by (auto simp: claimEvolved_def claimMove_def)

lemma policyEvolved_trans: "policyEvolved a b \<Longrightarrow> policyEvolved b c \<Longrightarrow> policyEvolved a c"
  by (auto simp: policyEvolved_def)

lemma claimEvolved_refl [simp]: "claimEvolved c c"
  by (simp add: claimEvolved_def claimMove_def)

lemma policyEvolved_refl [simp]: "policyEvolved p p"
  by (simp add: policyEvolved_def)

lemma evolves_refl [simp]: "evolves s s"
  by (auto simp: evolves_def)

lemma evolves_trans:
  assumes "evolves s s1" "evolves s1 s2"
  shows "evolves s s2"
  unfolding evolves_def
proof (intro conjI allI impI)
  fix i p assume "policyOf s i = Some p"
  with assms show "\<exists>p'. policyOf s2 i = Some p' \<and> policyEvolved p p'"
    unfolding evolves_def by (meson policyEvolved_trans)
next
  fix i c assume "claimOf s i = Some c"
  with assms show "\<exists>c'. claimOf s2 i = Some c' \<and> claimEvolved c c'"
    unfolding evolves_def by (meson claimEvolved_trans)
next
  fix k c l assume "ledgerOf s k = Some (c, l)"
  with assms show "\<exists>c' l'. ledgerOf s2 k = Some (c', l') \<and> c \<le> c'"
    unfolding evolves_def by (meson order_trans)
qed

lemma ledger_kept:
  assumes "ledgerOf s k = Some (c, l)"
  shows "\<exists>c' l'. lockStep a j (ledgerOf s) k = Some (c', l') \<and> c \<le> c'"
    "\<exists>c' l'. unlockStep a j (ledgerOf s) k = Some (c', l') \<and> c \<le> c'"
    "0 \<le> a \<Longrightarrow> \<exists>c' l'. ledgerStep (\<lambda>(c, l). (c + a, l)) j (ledgerOf s) k = Some (c', l') \<and> c \<le> c'"
  using assms by (auto simp: lockStep_def unlockStep_def ledgerStep_def split: option.split)

text \<open>Three ways a store evolves: a claim moves, a policy ends, or rows are appended.\<close>

lemma evolves_claim:
  assumes "claimOf s i = Some c" "claimChanged i c' s s'" "claimEvolved c c'"
    and "ledgerOf s' = ledgerOf s \<or> ledgerOf s' = unlockStep a k (ledgerOf s)"
  shows "evolves s s'"
  unfolding evolves_def
proof (intro conjI allI impI)
  fix j p assume "policyOf s j = Some p"
  then have "policyOf s' j = Some p" using assms(2) by (simp add: claimChanged_def policyOf_def)
  then show "\<exists>p'. policyOf s' j = Some p' \<and> policyEvolved p p'" by simp
next
  fix j d assume "claimOf s j = Some d"
  then show "\<exists>c'. claimOf s' j = Some c' \<and> claimEvolved d c'"
    using assms(1-3) by (cases "j = i") (auto simp: claimChanged_def)
next
  fix j d l assume "ledgerOf s j = Some (d, l)"
  then show "\<exists>c' l'. ledgerOf s' j = Some (c', l') \<and> d \<le> c'"
    using assms(4) ledger_kept(2) [of s j d l] by auto
qed

lemma find_prefix: "find P xs = Some x \<Longrightarrow> find P (xs @ ys) = Some x"
  by (simp add: find_append)

lemma evolves_append:
  assumes "insurancePolicies s' = insurancePolicies s @ ps" "claims s' = claims s @ cs"
    and "ledgerOf s' = ledgerOf s \<or> ledgerOf s' = lockStep a k (ledgerOf s) \<or>
      0 \<le> a \<and> ledgerOf s' = ledgerStep (\<lambda>(c, l). (c + a, l)) k (ledgerOf s)"
  shows "evolves s s'"
  unfolding evolves_def
proof (intro conjI allI impI)
  fix j p assume "policyOf s j = Some p"
  then show "\<exists>p'. policyOf s' j = Some p' \<and> policyEvolved p p'"
    using find_prefix [of _ "insurancePolicies s" p ps] by (simp add: policyOf_def assms(1))
next
  fix j c assume "claimOf s j = Some c"
  then show "\<exists>c'. claimOf s' j = Some c' \<and> claimEvolved c c'"
    using find_prefix [of _ "claims s" c cs] by (simp add: claimOf_def assms(2))
next
  fix j d l assume "ledgerOf s j = Some (d, l)"
  then show "\<exists>c' l'. ledgerOf s' j = Some (c', l') \<and> d \<le> c'"
    using assms(3) ledger_kept [of s j d l] by auto
qed

lemma inStore_cases:
  assumes "inStore m w = (r, w')"
  obtains s' where "m (store w) = (r, s')" "w' = w\<lparr>store := s'\<rparr>"
  using assms by (auto simp: inStore_def zoom_def split: prod.splits)

lemma purchase_evolves:
  assumes "runtime env" "purchasePolicy env u k rt cov w = (r, w')"
  shows "evolves (store w) (store w')"
proof (cases r)
  case (Inl e)
  then show ?thesis using notifying_Inl(4) [OF assms(1)] assms(2) by fastforce
next
  case (Inr p)
  then obtain n where run: "purchaseTx env u k rt cov (store w) (store w) = (Inr (p, n), store w')"
    using purchasePolicy_Inr [OF assms(1)] assms(2) by blast
  have cl: "claims (store w') = claims (store w)"
    using keeps_run [OF runtime.purchase_claims [OF assms(1)] run] .
  show ?thesis
  proof (cases "find (live (coveringPolicy u k)) (insurancePolicies (store w))")
    case None
    from purchaseTx_Inr [OF assms(1) None run] cl show ?thesis
      by (intro evolves_append [where a = cov and k = k]) simp_all
  next
    case (Some q)
    from purchaseTx_existing [OF assms(1) Some, of rt cov "store w"] run show ?thesis by simp
  qed
qed

lemma end_evolves:
  assumes "runtime env" "inStore (endPolicy env i st reason) w = (r, w')" "terminal st"
  shows "evolves (store w) (store w')"
proof -
  obtain s' where run: "endPolicy env i st reason (store w) = (r, s')" and w': "w' = w\<lparr>store := s'\<rparr>"
    using inStore_cases [OF assms(2)] by blast
  show ?thesis
  proof (cases r)
    case (Inl e)
    then show ?thesis using run w' transaction_atomic unfolding endPolicy_def by fastforce
  next
    case (Inr p')
    note run = run [unfolded Inr]
    have cl: "claims s' = claims (store w)"
      using keeps_run [OF runtime.end_claims [OF assms(1)] run] .
    show ?thesis
    proof (cases rule: endPolicy_Inr_cases [OF assms(1) run])
      case (1 p)
      then show ?thesis using w' by simp
    next
      case (2 p)
      note ended = endPolicy_Inr [OF assms(1) run 2(1,2)]
      have "evolves (store w) s'"
        unfolding evolves_def
      proof (intro conjI allI impI)
        fix j q assume "policyOf (store w) j = Some q"
        then show "\<exists>q'. policyOf s' j = Some q' \<and> policyEvolved q q'"
          using ended 2 assms(3) by (cases "j = i") (auto simp: policyEvolved_def)
      next
        fix j c assume "claimOf (store w) j = Some c"
        then show "\<exists>c'. claimOf s' j = Some c' \<and> claimEvolved c c'" by (simp add: claimOf_def cl)
      next
        fix j d l assume "ledgerOf (store w) j = Some (d, l)"
        then show "\<exists>c' l'. ledgerOf s' j = Some (c', l') \<and> d \<le> c'"
          using ended ledger_kept(2) by simp
      qed
      then show ?thesis using w' by simp
    qed
  qed
qed

lemma decided_evolved: "cl_status c = Claim_PENDING \<Longrightarrow> claimEvolved c (decided d c)"
  by (cases d) (simp_all add: claimEvolved_def claimMove_def decided_def)

lemma assess_evolves:
  assumes "runtime env" "assessClaim env i w = (r, w')"
  shows "evolves (store w) (store w')"
proof (cases r)
  case (Inl e)
  then show ?thesis using notifying_Inl(1) [OF assms(1)] assms(2) by fastforce
next
  case (Inr cp)
  then obtain ns where run: "assessTx env i (store w) (store w) = (Inr (cp, ns), store w')"
    using assessClaim_Inr [OF assms(1)] assms(2) by blast
  obtain c p where c: "claimOf (store w) i = Some c" "policyRef (store w) c = Some p"
    using run assms(1) by (auto simp: assessTx_def bindM_def split: option.splits)
  show ?thesis
  proof (cases "cl_status c = Claim_PENDING")
    case True
    obtain d where d: "claimChanged i (decided d c) (store w) (store w')"
      "ledgerOf (store w') = decidedLedger d c p (ledgerOf (store w))"
      using assessTx_outcome [OF assms(1) c True run] by blast
    show ?thesis
      by (rule evolves_claim [OF c(1) d(1) decided_evolved [OF True], where a = "cl_claimAmount c" and k = "po_poolId p"])
        (simp add: d(2) decidedLedger_def)
  next
    case False
    from assessTx_unchanged [OF assms(1) c False, of "store w"] run show ?thesis by simp
  qed
qed

lemma pay_evolves:
  assumes "runtime env" "payClaim env i w = (r, w')"
  shows "evolves (store w) (store w')"
proof (cases r)
  case (Inl e)
  then show ?thesis using notifying_Inl(2) [OF assms(1)] assms(2) by fastforce
next
  case (Inr cp)
  then obtain ns where run: "payTx env i (store w) (store w) = (Inr (cp, ns), store w')"
    using payClaim_Inr [OF assms(1)] assms(2) by blast
  obtain c where c: "claimOf (store w) i = Some c"
    using run assms(1) by (auto simp: payTx_def bindM_def split: option.splits)
  show ?thesis
  proof (cases "cl_status c = Claim_PAID")
    case True
    from payTx_paid [OF assms(1) c True, of "store w"] run show ?thesis by simp
  next
    case False
    have moved: "claimEvolved c (c\<lparr>cl_status := Claim_PAID\<rparr>)"
      using False by (simp add: claimEvolved_def claimMove_def)
    show ?thesis
    proof (cases "policyRef (store w) c")
      case None
      from payTx_orphan_Inr [OF assms(1) c None False run] show ?thesis
        by (intro evolves_claim [OF c _ moved]) simp_all
    next
      case (Some p)
      from payTx_Inr [OF assms(1) c Some False run] show ?thesis
        by (intro evolves_claim [OF c _ moved, where a = "cl_claimAmount c" and k = "po_poolId p"]) simp_all
    qed
  qed
qed

lemma submit_evolves:
  assumes "runtime env" "createClaim env k a w = (r, w')"
  shows "evolves (store w) (store w')"
proof (cases r)
  case (Inl e)
  then show ?thesis using notifying_Inl(3) [OF assms(1)] assms(2) by fastforce
next
  case (Inr c)
  then obtain ns where run: "createClaimTx env k a (store w) (store w) = (Inr (c, ns), store w')"
    using createClaim_Inr [OF assms(1)] assms(2) by blast
  from createClaimTx_Inr [OF assms(1) run] show ?thesis
    by (intro evolves_append [where ps = "[]"]) simp_all
qed

lemma money_contracts: "keeps (\<lambda>s. moneyTables s = x) (contractsOp env m)"
  by (rule keepsI) (simp add: contractsOp_def zoom_def moneyTables_def split: prod.split)

lemma contract_evolves:
  assumes "runtime env"
  shows "keeps (\<lambda>s. moneyTables s = x) (createContract env k a b)" "keeps (\<lambda>s. moneyTables s = x) (releaseContract env i)"
proof -
  show "keeps (\<lambda>s. moneyTables s = x) (createContract env k a b)"
    unfolding createContract_def repo_createContract_def logCreate_def
    by (intro keeps_rules money_contracts runtime.money_audit [OF assms])
  show "keeps (\<lambda>s. moneyTables s = x) (releaseContract env i)"
    unfolding releaseContract_def findByIdStrict_def deleteContract_def logDelete_def
    by (intro keeps_rules money_contracts runtime.money_audit [OF assms])
qed

lemma fund_evolves:
  assumes "runtime env" "inStore (addCapital env k a False) w = (r, w')"
  shows "evolves (store w) (store w')"
proof -
  obtain s' where run: "addCapital env k a False (store w) = (r, s')" and w': "w' = w\<lparr>store := s'\<rparr>"
    using inStore_cases [OF assms(2)] by blast
  show ?thesis
  proof (cases r)
    case (Inl e)
    then show ?thesis using run w' atomic_operations(5) by fastforce
  next
    case (Inr q)
    from addCapital_ledger [OF assms(1) run [unfolded Inr]] w' show ?thesis
      by (intro evolves_append [where a = a and k = k and ps = "[]" and cs = "[]"]) (simp_all add: clientTables_def)
  qed
qed

lemma money_evolves:
  assumes "\<And>x. keeps (\<lambda>s. moneyTables s = x) m" "inStore m w = (r, w')"
  shows "evolves (store w) (store w')"
proof -
  have money: "moneyTables (store w') = moneyTables (store w)"
    using inStore_after [OF assms, of "moneyTables (store w)"] by simp
  show ?thesis by (simp add: evolves_def moneyTables_eq [OF money])
qed

lemma step_evolves: "step w w' \<Longrightarrow> evolves (store w) (store w')"
proof (induction rule: step.induct)
  case (cancel env i w r w')
  then show ?case
    using end_evolves [of env i Policy_CANCELLED "''Policy cancelled''" w r w'] by (simp add: cancel_expire_end terminal_def)
next
  case (expire env i w r w')
  then show ?case
    using end_evolves [of env i Policy_EXPIRED "''Policy expired''" w r w'] by (simp add: cancel_expire_end terminal_def)
next
  case (reinsure env k a b w rc w')
  from money_evolves [OF contract_evolves(1) [OF reinsure(1)] reinsure(2)] show ?case .
next
  case (release env i w rc w')
  from money_evolves [OF contract_evolves(2) [OF release(1)] release(2)] show ?case .
qed (rule purchase_evolves submit_evolves assess_evolves pay_evolves fund_evolves; assumption)+

section \<open>Properties\<close>


lemma sample_cancel_step: "\<exists>w'. step (insuredWorld sampleClaim) w' \<and> auditLogs (store w') \<noteq> []"
proof -
  let ?w = "insuredWorld sampleClaim"
  obtain p s' where run: "endPolicy memoryEnv ''policy-1'' Policy_CANCELLED ''Policy cancelled'' (insuredDb sampleClaim) = (Inr p, s')"
    using endPolicy_ok [of memoryEnv "insuredDb sampleClaim" "''policy-1''" samplePolicy 100 40 Policy_CANCELLED "''Policy cancelled''"]
    by (auto simp: terminal_def)
  have "auditLogs s' \<noteq> []"
    using endPolicy_Inr [OF _ run, of samplePolicy] by (auto simp: terminal_def)
  moreover have "inStore (cancelPolicy memoryEnv ''policy-1'') ?w = (Inr p, ?w\<lparr>store := s'\<rparr>)"
    by (simp add: inStore_def zoom_def cancel_expire_end run)
  ultimately show ?thesis using step.cancel [OF memoryEnv_laws] by fastforce
qed




end
