(* ===== verification/JsConvert.thy ===== *)
theory JsConvert
  imports JsLib Schema
begin

text \<open>
  The conversions of the JavaScript standard library that the indexer applies to
  values decoded from the chain: \<open>Number(bigint)\<close>, \<open>parseInt(s, 10)\<close>, \<open>BigInt(s)\<close>,
  \<open>String(v)\<close>, \<open>buffer.toString('base64')\<close> and the operators \<open>??\<close> and \<open>!!\<close>.
\<close>

section \<open>Integers as doubles\<close>

fun bitLength :: "nat \<Rightarrow> nat" where
  "bitLength n = (if n = 0 then 0 else Suc (bitLength (n div 2)))"

declare bitLength.simps [simp del]

text \<open>
  \<open>Number(i)\<close> for a bigint: the nearest double, ties to the even significand. Soroban
  integers have at most 256 bits, so the value never exceeds the range of doubles.
\<close>

definition roundSignificand :: "nat \<Rightarrow> nat" where
  "roundSignificand n =
    (let k = bitLength n - 53; q = n div 2 ^ k; r = n mod 2 ^ k in
     if k = 0 then n
     else if r > 2 ^ (k - 1) \<or> (r = 2 ^ (k - 1) \<and> odd q) then (q + 1) * 2 ^ k
     else q * 2 ^ k)"

definition numberOfBigInt :: "int \<Rightarrow> rat" where
  "numberOfBigInt i =
    (if i < 0 then - of_nat (roundSignificand (nat (- i))) else of_nat (roundSignificand (nat i)))"

lemma bitLength_bound: "n < 2 ^ bitLength n"
proof (induction n rule: bitLength.induct)
  case (1 n)
  show ?case
  proof (cases "n = 0")
    case False
    have "n < 2 * Suc (n div 2)" by simp
    also have "\<dots> \<le> 2 * 2 ^ bitLength (n div 2)" using 1 [OF False] by (simp del: mult_Suc_right)
    also have "\<dots> = 2 ^ bitLength n" using False by (simp add: bitLength.simps [of n])
    finally show ?thesis .
  qed (simp add: bitLength.simps)
qed

lemma bitLength_least: "n < 2 ^ k \<Longrightarrow> bitLength n \<le> k"
proof (induction k arbitrary: n)
  case 0
  then show ?case by (simp add: bitLength.simps)
next
  case (Suc k)
  then have "n div 2 < 2 ^ k" by (simp add: less_mult_imp_div_less mult.commute)
  with Suc.IH show ?case by (subst bitLength.simps) simp
qed

text \<open>Integers of at most 53 bits are exact; beyond that the error is at most half a unit in the last place.\<close>

lemma roundSignificand_exact: "n < 2 ^ 53 \<Longrightarrow> roundSignificand n = n"
  using bitLength_least [of n 53] by (simp add: roundSignificand_def Let_def)

lemma roundSignificand_error:
  "\<bar>int (roundSignificand n) - int n\<bar> \<le> 2 ^ (bitLength n - 53) div 2"
proof -
  define k where "k = bitLength n - 53"
  define q where "q = n div 2 ^ k"
  define r where "r = n mod 2 ^ k"
  have n: "n = q * 2 ^ k + r" unfolding q_def r_def by (rule div_mult_mod_eq [symmetric])
  have r: "r < 2 ^ k" by (simp add: r_def)
  show ?thesis
  proof (cases k)
    case 0
    then show ?thesis by (simp add: roundSignificand_def k_def)
  next
    case (Suc j)
    have pow: "(2::int) ^ k div 2 = 2 ^ j" "(2::nat) ^ k = 2 * 2 ^ j" using Suc by simp_all
    have kj: "k - 1 = j" "(k = 0) = False" using Suc by simp_all
    have def: "roundSignificand n = (if r > 2 ^ j \<or> (r = 2 ^ j \<and> odd q) then (q + 1) * 2 ^ k else q * 2 ^ k)"
      by (simp only: roundSignificand_def Let_def k_def [symmetric] q_def [symmetric] r_def [symmetric] kj if_False)
    have n': "int n = int q * (2 * 2 ^ j) + int r" by (subst n) (simp add: pow(2))
    have r': "int r < 2 * 2 ^ j" using r pow(2) by (metis of_nat_less_iff of_nat_mult of_nat_numeral of_nat_power)
    show ?thesis
    proof (cases "r > 2 ^ j \<or> (r = 2 ^ j \<and> odd q)")
      case True
      then have "int (roundSignificand n) = (int q + 1) * (2 * 2 ^ j)" by (simp add: def pow(2) algebra_simps)
      moreover have "int r \<ge> 2 ^ j" using True by (auto simp flip: of_nat_power_less_of_nat_cancel_iff)
      ultimately show ?thesis using n' r' by (simp add: k_def [symmetric] pow algebra_simps)
    next
      case False
      then have "int (roundSignificand n) = int q * (2 * 2 ^ j)" by (auto simp: def pow(2))
      moreover have "int r \<le> 2 ^ j" using False by (metis not_less of_nat_le_iff of_nat_numeral of_nat_power)
      ultimately show ?thesis using n' by (simp add: k_def [symmetric] pow)
    qed
  qed
qed

section \<open>Numerals\<close>

definition digitValue :: "char \<Rightarrow> nat" where
  "digitValue ch = codePoint ch - 48"

definition decimalValue :: "string \<Rightarrow> nat" where
  "decimalValue ds = foldl (\<lambda>acc ch. 10 * acc + digitValue ch) 0 ds"

fun signed :: "string \<Rightarrow> int \<times> string" where
  "signed (ch # cs) = (if ch = CHR ''-'' then (- 1, cs) else if ch = CHR ''+'' then (1, cs) else (1, ch # cs))"
| "signed [] = (1, [])"

text \<open>\<open>parseInt(s, 10)\<close>: the longest numeral after white space; \<open>None\<close> is \<open>NaN\<close>.\<close>

definition parseInt10 :: "string \<Rightarrow> rat option" where
  "parseInt10 s =
    (let (sg, rest) = signed (dropWhile isSpace s); ds = takeWhile isDigit rest in
     if ds = [] then None else Some (of_int sg * numberOfBigInt (int (decimalValue ds))))"

text \<open>\<open>BigInt(s)\<close>: white space is trimmed, the empty text is zero, anything but a numeral is a \<open>SyntaxError\<close>.\<close>

definition radixDigit :: "nat \<Rightarrow> char \<Rightarrow> nat option" where
  "radixDigit b ch =
    (let v = (if isDigit ch then codePoint ch - 48
              else if isLower ch then codePoint ch - 87
              else if isUpper ch then codePoint ch - 55 else b)
     in if v < b then Some v else None)"

definition radixValue :: "nat \<Rightarrow> string \<Rightarrow> nat option" where
  "radixValue b ds =
    (if ds \<noteq> [] \<and> list_all (\<lambda>ch. radixDigit b ch \<noteq> None) ds
     then Some (foldl (\<lambda>acc ch. b * acc + the (radixDigit b ch)) 0 ds) else None)"

definition bigIntOfString :: "string \<Rightarrow> error + int" where
  "bigIntOfString s =
    (let t = trim s; bad = Inl (PlainError (''Cannot convert '' @ s @ '' to a BigInt'')) in
     case t of
       [] \<Rightarrow> Inr 0
     | [ch] \<Rightarrow> (if isDigit ch then Inr (int (digitValue ch)) else bad)
     | ch # x # ds \<Rightarrow>
        (if ch = CHR ''0'' \<and> (x = CHR ''x'' \<or> x = CHR ''X'') then (case radixValue 16 ds of None \<Rightarrow> bad | Some n \<Rightarrow> Inr (int n))
         else if ch = CHR ''0'' \<and> (x = CHR ''o'' \<or> x = CHR ''O'') then (case radixValue 8 ds of None \<Rightarrow> bad | Some n \<Rightarrow> Inr (int n))
         else if ch = CHR ''0'' \<and> (x = CHR ''b'' \<or> x = CHR ''B'') then (case radixValue 2 ds of None \<Rightarrow> bad | Some n \<Rightarrow> Inr (int n))
         else let (sg, rest) = signed t in
           if rest \<noteq> [] \<and> list_all isDigit rest then Inr (sg * int (decimalValue rest)) else bad))"

section \<open>Numerals read back\<close>

lemma isDigit_char_of: "n < 10 \<Longrightarrow> isDigit (char_of (48 + n)) \<and> digitValue (char_of (48 + n)) = n"
  by (simp add: isDigit_def inRange_def digitValue_def codePoint_def of_char_of)

lemma showNat_numeral: "showNat n \<noteq> [] \<and> list_all isDigit (showNat n) \<and> decimalValue (showNat n) = n"
proof (induction n rule: showNat.induct)
  case (1 n)
  show ?case
  proof (cases "n < 10")
    case True
    then show ?thesis
      using isDigit_char_of [of n] by (subst (1 2 3) showNat.simps) (simp add: decimalValue_def)
  next
    case False
    then have "showNat n = showNat (n div 10) @ [char_of (48 + n mod 10)]"
      by (subst showNat.simps) simp
    with 1 [OF False] isDigit_char_of [of "n mod 10"] show ?thesis
      by (simp add: decimalValue_def)
  qed
qed

lemma digit_not_space: "isDigit ch \<Longrightarrow> \<not> isSpace ch"
  by (auto simp: isDigit_def inRange_def isSpace_def codePoint_def)

lemma trim_no_space: "list_all (\<lambda>ch. \<not> isSpace ch) s \<Longrightarrow> trim s = s"
proof -
  have "dropWhile isSpace t = t" if "list_all (\<lambda>ch. \<not> isSpace ch) t" for t
    using that by (cases t) simp_all
  then show "list_all (\<lambda>ch. \<not> isSpace ch) s \<Longrightarrow> trim s = s" by (simp add: trim_def)
qed

lemma digit_not_letter:
  "isDigit ch \<Longrightarrow> ch \<noteq> CHR ''x'' \<and> ch \<noteq> CHR ''X'' \<and> ch \<noteq> CHR ''o'' \<and> ch \<noteq> CHR ''O'' \<and> ch \<noteq> CHR ''b'' \<and>
   ch \<noteq> CHR ''B'' \<and> ch \<noteq> CHR ''-'' \<and> ch \<noteq> CHR ''+''"
  by (auto simp: isDigit_def inRange_def codePoint_def)

lemma bigIntOfString_digits:
  assumes "ds \<noteq> []" "list_all isDigit ds"
  shows "bigIntOfString ds = Inr (int (decimalValue ds))"
proof -
  have trim: "trim ds = ds"
    using assms(2) by (intro trim_no_space) (auto simp: list_all_iff digit_not_space)
  obtain ch cs where ds: "ds = ch # cs" using assms(1) by (cases ds) auto
  have ch: "isDigit ch" using assms(2) ds by simp
  show ?thesis
  proof (cases cs)
    case Nil
    with ch show ?thesis by (simp add: bigIntOfString_def trim ds [symmetric]) (simp add: ds decimalValue_def)
  next
    case (Cons x xs)
    then have "isDigit x" using assms(2) ds by simp
    with Cons assms(2) digit_not_letter [OF ch] digit_not_letter [of x] show ?thesis
      by (simp add: bigIntOfString_def trim) (simp add: ds Let_def)
  qed
qed

lemma bigIntOfString_negative:
  assumes "ds \<noteq> []" "list_all isDigit ds"
  shows "bigIntOfString (CHR ''-'' # ds) = Inr (- int (decimalValue ds))"
proof -
  have trim: "trim (CHR ''-'' # ds) = CHR ''-'' # ds"
  proof (rule trim_no_space)
    have "\<not> isSpace (CHR ''-'')" by (simp add: isSpace_def codePoint_def)
    with assms(2) show "list_all (\<lambda>ch. \<not> isSpace ch) (CHR ''-'' # ds)" by (auto simp: list_all_iff digit_not_space)
  qed
  obtain ch cs where ds: "ds = ch # cs" using assms(1) by (cases ds) auto
  show ?thesis using assms by (simp add: bigIntOfString_def trim) (simp add: ds Let_def)
qed

text \<open>The decimal text of an integer reads back as that integer, at every magnitude.\<close>

lemma bigIntOfString_showInt [simp]: "bigIntOfString (showInt i) = Inr i"
proof (cases "i < 0")
  case True
  then show ?thesis
    using showNat_numeral [of "nat (- i)"] by (simp add: showInt_def bigIntOfString_negative)
next
  case False
  then show ?thesis
    using showNat_numeral [of "nat i"] by (simp add: showInt_def bigIntOfString_digits)
qed

section \<open>Base64\<close>

definition base64Char :: "nat \<Rightarrow> char" where
  "base64Char v =
    (if v < 26 then char_of (65 + v) else if v < 52 then char_of (71 + v)
     else if v < 62 then char_of (v - 4) else if v = 62 then CHR ''+'' else CHR ''/'')"

fun base64 :: "string \<Rightarrow> string" where
  "base64 [] = []"
| "base64 [a] =
    (let x = codePoint a in [base64Char (x div 4), base64Char ((x mod 4) * 16), CHR ''='', CHR ''=''])"
| "base64 [a, b] =
    (let x = codePoint a; y = codePoint b in
     [base64Char (x div 4), base64Char ((x mod 4) * 16 + y div 16), base64Char ((y mod 16) * 4), CHR ''=''])"
| "base64 (a # b # c # rest) =
    (let x = codePoint a; y = codePoint b; z = codePoint c in
     [base64Char (x div 4), base64Char ((x mod 4) * 16 + y div 16),
      base64Char ((y mod 16) * 4 + z div 64), base64Char (z mod 64)] @ base64 rest)"

section \<open>Text of a value\<close>

text \<open>
  \<open>textOf\<close> is the text of the values whose text the language leaves to the host or to
  the shortest-decimal algorithm (dates, decimals, buffers as UTF-8, numbers that are not small
  integers);
  \<open>ownEntries\<close> the own enumerable members of a class instance; those of a \<open>Decimal\<close> are
  numbers and arrays of numbers.
\<close>

type_synonym members = "(string \<times> jsval) list"

record js_library =
  textOf :: "jsval \<Rightarrow> string"
  ownEntries :: "jsval \<Rightarrow> members"

definition numText :: "js_library \<Rightarrow> rat \<Rightarrow> string" where
  "numText js q = (if of_int \<lfloor>q\<rfloor> = q \<and> \<bar>q\<bar> < 10 ^ 21 then showInt \<lfloor>q\<rfloor> else textOf js (JNum q))"

fun joinWith :: "string \<Rightarrow> string list \<Rightarrow> string" where
  "joinWith sep [] = []"
| "joinWith sep [x] = x"
| "joinWith sep (x # y # xs) = x @ sep @ joinWith sep (y # xs)"

fun jsString :: "js_library \<Rightarrow> jsval \<Rightarrow> string" where
  "jsString js JUndef = ''undefined''"
| "jsString js JNull = ''null''"
| "jsString js (JBool b) = (if b then ''true'' else ''false'')"
| "jsString js (JNum q) = numText js q"
| "jsString js (JBigInt i) = showInt i"
| "jsString js (JStr s) = s"
| "jsString js (JDate t) = textOf js (JDate t)"
| "jsString js (JDecimal d) = textOf js (JDecimal d)"
| "jsString js (JBuffer b) = textOf js (JBuffer b)"
| "jsString js (JAddress a) = a"
| "jsString js (JArr xs) =
    joinWith '','' (map (\<lambda>x. if x = JUndef \<or> x = JNull then [] else jsString js x) xs)"
| "jsString js (JObj ms) = ''[object Object]''"

text \<open>The operator \<open>??\<close>.\<close>

definition nn :: "jsval \<Rightarrow> jsval \<Rightarrow> jsval" where
  "nn a b = (if a = JUndef \<or> a = JNull then b else a)"

end
