(* ===== verification/XdrDecoder.thy ===== *)
theory XdrDecoder
  imports JsConvert
begin

text \<open>
  \<open>indexer/services/xdr-decoder.service.ts\<close> and \<open>indexer/types/event-types.ts\<close>: the
  contract events, the decoder of each event type and the quarantine of values that
  cannot be decoded. The TypeScript interfaces of the payloads are shapes (field names
  with their types); \<open>decode_typed\<close> checks every decoder against the interface of its
  event. \<open>xdr.ScVal.fromXDR\<close> and \<open>scValToNative\<close> belong to stellar-sdk and are
  parameters; a throw is the message on the left.
\<close>

section \<open>Event types\<close>

datatype (plugins only: size code) ContractEventType =
    PROJECT_CREATED | PROJECT_FUNDED | PROJECT_COMPLETED | PROJECT_FAILED
  | CONTRIBUTION_MADE | REFUND_ISSUED | ESCROW_INITIALIZED | FUNDS_LOCKED
  | FUNDS_RELEASED | MILESTONE_CREATED | MILESTONE_SUBMITTED | MILESTONE_APPROVED
  | MILESTONE_REJECTED | MILESTONE_COMPLETED | VALIDATORS_UPDATED | PROFIT_DISTRIBUTED
  | DIVIDEND_CLAIMED | PROPOSAL_CREATED | VOTE_CAST | PROPOSAL_EXECUTED
  | USER_REGISTERED | REPUTATION_UPDATED | BADGE_EARNED | PAYMENT_SETUP
  | PAYMENT_RECEIVED | PAYMENT_WITHDRAWN | SUBSCRIPTION_CREATED | SUBSCRIPTION_CANCELLED
  | SUBSCRIPTION_MODIFIED | SUBSCRIPTION_PAUSED | SUBSCRIPTION_RESUMED | PAYMENT_FAILED
  | SUBSCRIPTION_PAYMENT | BRIDGE_INITIALIZED | SUPPORTED_CHAIN_ADDED | SUPPORTED_CHAIN_REMOVED
  | ASSET_WRAPPED | ASSET_UNWRAPPED | BRIDGE_DEPOSIT | BRIDGE_WITHDRAW
  | BRIDGE_PAUSED | BRIDGE_UNPAUSED | RELAYER_ADDED | RELAYER_REMOVED
  | BRIDGE_TX_CONFIRMED | BRIDGE_TX_FAILED | CONTRACT_PAUSED | CONTRACT_RESUMED
  | UPGRADE_SCHEDULED | UPGRADE_EXECUTED | UPGRADE_CANCELLED

primrec eventTypeText :: "ContractEventType \<Rightarrow> string" where
  "eventTypeText PROJECT_CREATED = ''proj_new''"
| "eventTypeText PROJECT_FUNDED = ''proj_fund''"
| "eventTypeText PROJECT_COMPLETED = ''proj_done''"
| "eventTypeText PROJECT_FAILED = ''proj_fail''"
| "eventTypeText CONTRIBUTION_MADE = ''contrib''"
| "eventTypeText REFUND_ISSUED = ''refund''"
| "eventTypeText ESCROW_INITIALIZED = ''esc_init''"
| "eventTypeText FUNDS_LOCKED = ''lock''"
| "eventTypeText FUNDS_RELEASED = ''release''"
| "eventTypeText MILESTONE_CREATED = ''m_create''"
| "eventTypeText MILESTONE_SUBMITTED = ''m_submit''"
| "eventTypeText MILESTONE_APPROVED = ''m_apprv''"
| "eventTypeText MILESTONE_REJECTED = ''m_reject''"
| "eventTypeText MILESTONE_COMPLETED = ''milestone''"
| "eventTypeText VALIDATORS_UPDATED = ''v_update''"
| "eventTypeText PROFIT_DISTRIBUTED = ''profit''"
| "eventTypeText DIVIDEND_CLAIMED = ''claim''"
| "eventTypeText PROPOSAL_CREATED = ''proposal''"
| "eventTypeText VOTE_CAST = ''vote''"
| "eventTypeText PROPOSAL_EXECUTED = ''execute''"
| "eventTypeText USER_REGISTERED = ''user_reg''"
| "eventTypeText REPUTATION_UPDATED = ''rep_up''"
| "eventTypeText BADGE_EARNED = ''badge''"
| "eventTypeText PAYMENT_SETUP = ''pay_setup''"
| "eventTypeText PAYMENT_RECEIVED = ''pay_recv''"
| "eventTypeText PAYMENT_WITHDRAWN = ''pay_withd''"
| "eventTypeText SUBSCRIPTION_CREATED = ''subscr''"
| "eventTypeText SUBSCRIPTION_CANCELLED = ''sub_cancl''"
| "eventTypeText SUBSCRIPTION_MODIFIED = ''sub_mod''"
| "eventTypeText SUBSCRIPTION_PAUSED = ''sub_pause''"
| "eventTypeText SUBSCRIPTION_RESUMED = ''sub_resum''"
| "eventTypeText PAYMENT_FAILED = ''pay_fail''"
| "eventTypeText SUBSCRIPTION_PAYMENT = ''deposit''"
| "eventTypeText BRIDGE_INITIALIZED = ''br_init''"
| "eventTypeText SUPPORTED_CHAIN_ADDED = ''chain_add''"
| "eventTypeText SUPPORTED_CHAIN_REMOVED = ''chain_rem''"
| "eventTypeText ASSET_WRAPPED = ''wrap''"
| "eventTypeText ASSET_UNWRAPPED = ''unwrap''"
| "eventTypeText BRIDGE_DEPOSIT = ''br_dep''"
| "eventTypeText BRIDGE_WITHDRAW = ''br_wdraw''"
| "eventTypeText BRIDGE_PAUSED = ''br_pause''"
| "eventTypeText BRIDGE_UNPAUSED = ''br_res''"
| "eventTypeText RELAYER_ADDED = ''rel_add''"
| "eventTypeText RELAYER_REMOVED = ''rel_rem''"
| "eventTypeText BRIDGE_TX_CONFIRMED = ''tx_conf''"
| "eventTypeText BRIDGE_TX_FAILED = ''tx_fail''"
| "eventTypeText CONTRACT_PAUSED = ''esc_pause''"
| "eventTypeText CONTRACT_RESUMED = ''esc_resum''"
| "eventTypeText UPGRADE_SCHEDULED = ''upg_sched''"
| "eventTypeText UPGRADE_EXECUTED = ''upg_exec''"
| "eventTypeText UPGRADE_CANCELLED = ''upg_canc''"

definition eventTypes :: "ContractEventType list" where
  "eventTypes =
    [PROJECT_CREATED, PROJECT_FUNDED, PROJECT_COMPLETED, PROJECT_FAILED,
     CONTRIBUTION_MADE, REFUND_ISSUED, ESCROW_INITIALIZED, FUNDS_LOCKED,
     FUNDS_RELEASED, MILESTONE_CREATED, MILESTONE_SUBMITTED, MILESTONE_APPROVED,
     MILESTONE_REJECTED, MILESTONE_COMPLETED, VALIDATORS_UPDATED, PROFIT_DISTRIBUTED,
     DIVIDEND_CLAIMED, PROPOSAL_CREATED, VOTE_CAST, PROPOSAL_EXECUTED,
     USER_REGISTERED, REPUTATION_UPDATED, BADGE_EARNED, PAYMENT_SETUP,
     PAYMENT_RECEIVED, PAYMENT_WITHDRAWN, SUBSCRIPTION_CREATED, SUBSCRIPTION_CANCELLED,
     SUBSCRIPTION_MODIFIED, SUBSCRIPTION_PAUSED, SUBSCRIPTION_RESUMED, PAYMENT_FAILED,
     SUBSCRIPTION_PAYMENT, BRIDGE_INITIALIZED, SUPPORTED_CHAIN_ADDED, SUPPORTED_CHAIN_REMOVED,
     ASSET_WRAPPED, ASSET_UNWRAPPED, BRIDGE_DEPOSIT, BRIDGE_WITHDRAW,
     BRIDGE_PAUSED, BRIDGE_UNPAUSED, RELAYER_ADDED, RELAYER_REMOVED,
     BRIDGE_TX_CONFIRMED, BRIDGE_TX_FAILED, CONTRACT_PAUSED, CONTRACT_RESUMED,
     UPGRADE_SCHEDULED, UPGRADE_EXECUTED, UPGRADE_CANCELLED]"

section \<open>Payload interfaces\<close>

datatype field_type = TNumber | TString | TBoolean

type_synonym shape = "(string \<times> field_type) list"

fun hasType :: "field_type \<Rightarrow> jsval \<Rightarrow> bool" where
  "hasType TNumber (JNum _) = True"
| "hasType TString (JStr _) = True"
| "hasType TBoolean (JBool _) = True"
| "hasType _ _ = False"

definition conforms :: "shape \<Rightarrow> members \<Rightarrow> bool" where
  "conforms sh ms \<longleftrightarrow> map fst ms = map fst sh \<and> list_all2 (\<lambda>f m. hasType (snd f) (snd m)) sh ms"

definition QuarantineMarker :: shape where
  "QuarantineMarker = [(''_quarantined'', TBoolean), (''_quarantineReason'', TString), (''rawXdr'', TString)]"

definition ProjectCreatedEvent :: shape where
  "ProjectCreatedEvent = [(''projectId'', TNumber), (''creator'', TString), (''fundingGoal'', TString), (''deadline'', TNumber), (''token'', TString)]"

definition ProjectFundedEvent :: shape where
  "ProjectFundedEvent = [(''projectId'', TNumber), (''amount'', TString), (''totalRaised'', TString)]"

definition ContributionMadeEvent :: shape where
  "ContributionMadeEvent = [(''projectId'', TNumber), (''contributor'', TString), (''amount'', TString), (''totalRaised'', TString)]"

definition RefundIssuedEvent :: shape where
  "RefundIssuedEvent = [(''projectId'', TNumber), (''contributor'', TString), (''amount'', TString)]"

definition EscrowInitializedEvent :: shape where
  "EscrowInitializedEvent = [(''projectId'', TNumber), (''escrowId'', TString), (''totalAmount'', TString)]"

definition FundsLockedEvent :: shape where
  "FundsLockedEvent = [(''projectId'', TNumber), (''milestoneId'', TNumber), (''amount'', TString)]"

definition FundsReleasedEvent :: shape where
  "FundsReleasedEvent = [(''projectId'', TNumber), (''milestoneId'', TNumber), (''amount'', TString)]"

definition MilestoneCreatedEvent :: shape where
  "MilestoneCreatedEvent = [(''projectId'', TNumber), (''milestoneId'', TNumber), (''fundingAmount'', TString)]"

definition MilestoneSubmittedEvent :: shape where
  "MilestoneSubmittedEvent = [(''projectId'', TNumber), (''milestoneId'', TNumber), (''submitter'', TString)]"

definition MilestoneApprovedEvent :: shape where
  "MilestoneApprovedEvent = [(''projectId'', TNumber), (''milestoneId'', TNumber), (''approvalCount'', TNumber)]"

definition MilestoneRejectedEvent :: shape where
  "MilestoneRejectedEvent = [(''projectId'', TNumber), (''milestoneId'', TNumber), (''rejectionCount'', TNumber)]"

definition MilestoneCompletedEvent :: shape where
  "MilestoneCompletedEvent = [(''projectId'', TNumber), (''milestoneId'', TNumber)]"

definition ValidatorsUpdatedEvent :: shape where
  "ValidatorsUpdatedEvent = [(''projectId'', TNumber), (''validatorCount'', TNumber)]"

definition ProfitDistributedEvent :: shape where
  "ProfitDistributedEvent = [(''poolId'', TString), (''totalProfit'', TString), (''perShare'', TString)]"

definition DividendClaimedEvent :: shape where
  "DividendClaimedEvent = [(''poolId'', TString), (''claimer'', TString), (''amount'', TString)]"

definition ProposalCreatedEvent :: shape where
  "ProposalCreatedEvent = [(''proposalId'', TNumber), (''proposer'', TString), (''title'', TString)]"

definition VoteCastEvent :: shape where
  "VoteCastEvent = [(''proposalId'', TNumber), (''voter'', TString), (''support'', TString)]"

definition ProposalExecutedEvent :: shape where
  "ProposalExecutedEvent = [(''proposalId'', TNumber), (''success'', TBoolean)]"

definition UserRegisteredEvent :: shape where
  "UserRegisteredEvent = [(''user'', TString)]"

definition ReputationUpdatedEvent :: shape where
  "ReputationUpdatedEvent = [(''user'', TString), (''score'', TNumber), (''delta'', TNumber)]"

definition BadgeEarnedEvent :: shape where
  "BadgeEarnedEvent = [(''user'', TString), (''badge'', TString)]"

definition PaymentSetupEvent :: shape where
  "PaymentSetupEvent = [(''paymentId'', TString), (''payer'', TString), (''payee'', TString)]"

definition PaymentReceivedEvent :: shape where
  "PaymentReceivedEvent = [(''paymentId'', TString), (''amount'', TString)]"

definition PaymentWithdrawnEvent :: shape where
  "PaymentWithdrawnEvent = [(''paymentId'', TString), (''recipient'', TString), (''amount'', TString)]"

definition SubscriptionCreatedEvent :: shape where
  "SubscriptionCreatedEvent = [(''subscriptionId'', TString), (''subscriber'', TString), (''plan'', TString), (''amount'', TString)]"

definition SubscriptionStatusEvent :: shape where
  "SubscriptionStatusEvent = [(''subscriptionId'', TString), (''status'', TString)]"

definition SubscriptionModifiedEvent :: shape where
  "SubscriptionModifiedEvent = [(''subscriptionId'', TString), (''plan'', TString), (''amount'', TString)]"

definition PaymentFailedEvent :: shape where
  "PaymentFailedEvent = [(''subscriptionId'', TString), (''reason'', TString)]"

definition SubscriptionPaymentEvent :: shape where
  "SubscriptionPaymentEvent = [(''subscriptionId'', TString), (''amount'', TString)]"

definition BridgeInitializedEvent :: shape where
  "BridgeInitializedEvent = [(''bridgeId'', TString), (''admin'', TString)]"

definition SupportedChainAddedEvent :: shape where
  "SupportedChainAddedEvent = [(''chainId'', TNumber), (''chainName'', TString)]"

definition SupportedChainRemovedEvent :: shape where
  "SupportedChainRemovedEvent = [(''chainId'', TNumber)]"

definition AssetWrappedEvent :: shape where
  "AssetWrappedEvent = [(''asset'', TString), (''wrappedAsset'', TString), (''amount'', TString)]"

definition AssetUnwrappedEvent :: shape where
  "AssetUnwrappedEvent = [(''asset'', TString), (''amount'', TString)]"

definition BridgeDepositEvent :: shape where
  "BridgeDepositEvent = [(''chainId'', TNumber), (''depositor'', TString), (''amount'', TString)]"

definition BridgeWithdrawEvent :: shape where
  "BridgeWithdrawEvent = [(''chainId'', TNumber), (''recipient'', TString), (''amount'', TString)]"

definition BridgeLifecycleEvent :: shape where
  "BridgeLifecycleEvent = [(''bridgeId'', TString)]"

definition RelayerEvent :: shape where
  "RelayerEvent = [(''relayer'', TString)]"

definition BridgeTxEvent :: shape where
  "BridgeTxEvent = [(''txHash'', TString), (''status'', TString)]"

definition ContractLifecycleEvent :: shape where
  "ContractLifecycleEvent = [(''contractId'', TString)]"

definition UpgradeEvent :: shape where
  "UpgradeEvent = [(''contractId'', TString), (''newWasmHash'', TString)]"

definition ProjectStatusEvent :: shape where
  "ProjectStatusEvent = [(''projectId'', TNumber), (''status'', TString)]"

text \<open>The interface of the payload of each event type.\<close>

fun eventInterface :: "ContractEventType \<Rightarrow> shape" where
  "eventInterface PROJECT_CREATED = ProjectCreatedEvent"
| "eventInterface PROJECT_FUNDED = ProjectFundedEvent"
| "eventInterface PROJECT_COMPLETED = ProjectStatusEvent"
| "eventInterface PROJECT_FAILED = ProjectStatusEvent"
| "eventInterface CONTRIBUTION_MADE = ContributionMadeEvent"
| "eventInterface REFUND_ISSUED = RefundIssuedEvent"
| "eventInterface ESCROW_INITIALIZED = EscrowInitializedEvent"
| "eventInterface FUNDS_LOCKED = FundsLockedEvent"
| "eventInterface FUNDS_RELEASED = FundsReleasedEvent"
| "eventInterface MILESTONE_CREATED = MilestoneCreatedEvent"
| "eventInterface MILESTONE_SUBMITTED = MilestoneSubmittedEvent"
| "eventInterface MILESTONE_APPROVED = MilestoneApprovedEvent"
| "eventInterface MILESTONE_REJECTED = MilestoneRejectedEvent"
| "eventInterface MILESTONE_COMPLETED = MilestoneCompletedEvent"
| "eventInterface VALIDATORS_UPDATED = ValidatorsUpdatedEvent"
| "eventInterface PROFIT_DISTRIBUTED = ProfitDistributedEvent"
| "eventInterface DIVIDEND_CLAIMED = DividendClaimedEvent"
| "eventInterface PROPOSAL_CREATED = ProposalCreatedEvent"
| "eventInterface VOTE_CAST = VoteCastEvent"
| "eventInterface PROPOSAL_EXECUTED = ProposalExecutedEvent"
| "eventInterface USER_REGISTERED = UserRegisteredEvent"
| "eventInterface REPUTATION_UPDATED = ReputationUpdatedEvent"
| "eventInterface BADGE_EARNED = BadgeEarnedEvent"
| "eventInterface PAYMENT_SETUP = PaymentSetupEvent"
| "eventInterface PAYMENT_RECEIVED = PaymentReceivedEvent"
| "eventInterface PAYMENT_WITHDRAWN = PaymentWithdrawnEvent"
| "eventInterface SUBSCRIPTION_CREATED = SubscriptionCreatedEvent"
| "eventInterface SUBSCRIPTION_CANCELLED = SubscriptionStatusEvent"
| "eventInterface SUBSCRIPTION_MODIFIED = SubscriptionModifiedEvent"
| "eventInterface SUBSCRIPTION_PAUSED = SubscriptionStatusEvent"
| "eventInterface SUBSCRIPTION_RESUMED = SubscriptionStatusEvent"
| "eventInterface PAYMENT_FAILED = PaymentFailedEvent"
| "eventInterface SUBSCRIPTION_PAYMENT = SubscriptionPaymentEvent"
| "eventInterface BRIDGE_INITIALIZED = BridgeInitializedEvent"
| "eventInterface SUPPORTED_CHAIN_ADDED = SupportedChainAddedEvent"
| "eventInterface SUPPORTED_CHAIN_REMOVED = SupportedChainRemovedEvent"
| "eventInterface ASSET_WRAPPED = AssetWrappedEvent"
| "eventInterface ASSET_UNWRAPPED = AssetUnwrappedEvent"
| "eventInterface BRIDGE_DEPOSIT = BridgeDepositEvent"
| "eventInterface BRIDGE_WITHDRAW = BridgeWithdrawEvent"
| "eventInterface BRIDGE_PAUSED = BridgeLifecycleEvent"
| "eventInterface BRIDGE_UNPAUSED = BridgeLifecycleEvent"
| "eventInterface RELAYER_ADDED = RelayerEvent"
| "eventInterface RELAYER_REMOVED = RelayerEvent"
| "eventInterface BRIDGE_TX_CONFIRMED = BridgeTxEvent"
| "eventInterface BRIDGE_TX_FAILED = BridgeTxEvent"
| "eventInterface CONTRACT_PAUSED = ContractLifecycleEvent"
| "eventInterface CONTRACT_RESUMED = ContractLifecycleEvent"
| "eventInterface UPGRADE_SCHEDULED = UpgradeEvent"
| "eventInterface UPGRADE_EXECUTED = UpgradeEvent"
| "eventInterface UPGRADE_CANCELLED = UpgradeEvent"

section \<open>Field extraction\<close>

text \<open>Primitive values become the empty object; arrays and class instances have none of the fields.\<close>

fun asObject :: "jsval \<Rightarrow> members" where
  "asObject (JObj ms) = ms"
| "asObject _ = []"

definition field :: "members \<Rightarrow> string \<Rightarrow> jsval" where
  "field obj key =
    (case map_of obj key of
       Some v \<Rightarrow> (if v \<noteq> JUndef then v
                  else case find (\<lambda>(k, _). toLowerCase k = toLowerCase key) obj of None \<Rightarrow> JUndef | Some (_, w) \<Rightarrow> w)
     | None \<Rightarrow> (case find (\<lambda>(k, _). toLowerCase k = toLowerCase key) obj of None \<Rightarrow> JUndef | Some (_, w) \<Rightarrow> w))"

fun str :: "js_library \<Rightarrow> jsval \<Rightarrow> string" where
  "str js JNull = []"
| "str js JUndef = []"
| "str js (JStr s) = s"
| "str js (JBigInt i) = showInt i"
| "str js (JNum q) = numText js q"
| "str js (JAddress a) = a"
| "str js (JBuffer b) = base64 b"
| "str js v = jsString js v"

fun num :: "jsval \<Rightarrow> rat" where
  "num (JBigInt i) = numberOfBigInt i"
| "num (JNum q) = q"
| "num (JStr s) = (case parseInt10 s of None \<Rightarrow> 0 | Some q \<Rightarrow> q)"
| "num _ = 0"

fun bigStr :: "jsval \<Rightarrow> string" where
  "bigStr (JBigInt i) = showInt i"
| "bigStr (JNum q) = showInt \<lfloor>q\<rfloor>"
| "bigStr (JStr s) = s"
| "bigStr _ = ''0''"

fun coerceScalar :: "js_library \<Rightarrow> jsval \<Rightarrow> jsval" where
  "coerceScalar js (JBigInt i) = JStr (showInt i)"
| "coerceScalar js (JAddress a) = JStr a"
| "coerceScalar js (JBuffer b) = JStr (base64 b)"
| "coerceScalar js (JArr xs) = JArr (map (coerceScalar js) xs)"
| "coerceScalar js (JObj ms) = JObj (map (\<lambda>(k, v). (k, coerceScalar js v)) ms)"
| "coerceScalar js (JDate t) = JObj []"
| "coerceScalar js (JDecimal d) = JObj (ownEntries js (JDecimal d))"
| "coerceScalar js v = v"

definition normalizeNative :: "js_library \<Rightarrow> jsval \<Rightarrow> members" where
  "normalizeNative js v =
    (case v of
       JArr xs \<Rightarrow> [(''items'', JArr (map (coerceScalar js) xs))]
     | JObj ms \<Rightarrow> map (\<lambda>(k, x). (k, coerceScalar js x)) ms
     | JDate t \<Rightarrow> []
     | JDecimal d \<Rightarrow> map (\<lambda>(k, x). (k, coerceScalar js x)) (ownEntries js v)
     | JBuffer b \<Rightarrow> map (\<lambda>(k, x). (k, coerceScalar js x)) (ownEntries js v)
     | JAddress a \<Rightarrow> map (\<lambda>(k, x). (k, coerceScalar js x)) (ownEntries js v)
     | _ \<Rightarrow> [(''value'', coerceScalar js v)])"

section \<open>Decoders\<close>

definition decodeProjectCreated :: "js_library \<Rightarrow> jsval \<Rightarrow> members" where
  "decodeProjectCreated js n =
    (let obj = asObject n in
        [(''projectId'', JNum (num (nn (field obj ''project_id'') (field obj ''id'')))),
         (''creator'', JStr (str js (nn (field obj ''creator'') (field obj ''owner'')))),
         (''fundingGoal'', JStr (bigStr (nn (field obj ''funding_goal'') (field obj ''goal'')))),
         (''deadline'', JNum (num (field obj ''deadline''))),
         (''token'', JStr (str js (field obj ''token'')))])"

definition decodeProjectFunded :: "js_library \<Rightarrow> jsval \<Rightarrow> members" where
  "decodeProjectFunded js n =
    (let obj = asObject n in
        [(''projectId'', JNum (num (nn (field obj ''project_id'') (field obj ''id'')))),
         (''amount'', JStr (bigStr (field obj ''amount''))),
         (''totalRaised'', JStr (bigStr (field obj ''total_raised'')))])"

definition decodeProjectStatus :: "js_library \<Rightarrow> jsval \<Rightarrow> members" where
  "decodeProjectStatus js n =
    (let obj = asObject n; status = str js (field obj ''status'') in
        [(''projectId'', JNum (num (nn (field obj ''project_id'') (field obj ''id'')))),
         (''status'', JStr (if status = [] then ''unknown'' else status))])"

definition decodeContributionMade :: "js_library \<Rightarrow> jsval \<Rightarrow> members" where
  "decodeContributionMade js n =
    (let obj = asObject n in
        [(''projectId'', JNum (num (nn (field obj ''project_id'') (field obj ''id'')))),
         (''contributor'', JStr (str js (nn (field obj ''contributor'') (field obj ''investor'')))),
         (''amount'', JStr (bigStr (field obj ''amount''))),
         (''totalRaised'', JStr (bigStr (field obj ''total_raised'')))])"

definition decodeRefundIssued :: "js_library \<Rightarrow> jsval \<Rightarrow> members" where
  "decodeRefundIssued js n =
    (let obj = asObject n in
        [(''projectId'', JNum (num (nn (field obj ''project_id'') (field obj ''id'')))),
         (''contributor'', JStr (str js (field obj ''contributor''))),
         (''amount'', JStr (bigStr (field obj ''amount'')))])"

definition decodeEscrowInitialized :: "js_library \<Rightarrow> jsval \<Rightarrow> members" where
  "decodeEscrowInitialized js n =
    (let obj = asObject n in
        [(''projectId'', JNum (num (nn (field obj ''project_id'') (field obj ''id'')))),
         (''escrowId'', JStr (str js (field obj ''escrow_id''))),
         (''totalAmount'', JStr (bigStr (field obj ''total_amount'')))])"

definition decodeFundsLocked :: "js_library \<Rightarrow> jsval \<Rightarrow> members" where
  "decodeFundsLocked js n =
    (let obj = asObject n in
        [(''projectId'', JNum (num (nn (field obj ''project_id'') (field obj ''id'')))),
         (''milestoneId'', JNum (num (field obj ''milestone_id''))),
         (''amount'', JStr (bigStr (field obj ''amount'')))])"

definition decodeFundsReleased :: "js_library \<Rightarrow> jsval \<Rightarrow> members" where
  "decodeFundsReleased js n =
    (let obj = asObject n in
        [(''projectId'', JNum (num (nn (field obj ''project_id'') (field obj ''id'')))),
         (''milestoneId'', JNum (num (field obj ''milestone_id''))),
         (''amount'', JStr (bigStr (field obj ''amount'')))])"

definition decodeMilestoneCreated :: "js_library \<Rightarrow> jsval \<Rightarrow> members" where
  "decodeMilestoneCreated js n =
    (let obj = asObject n in
        [(''projectId'', JNum (num (nn (field obj ''project_id'') (field obj ''id'')))),
         (''milestoneId'', JNum (num (field obj ''milestone_id''))),
         (''fundingAmount'', JStr (bigStr (field obj ''funding_amount'')))])"

definition decodeMilestoneSubmitted :: "js_library \<Rightarrow> jsval \<Rightarrow> members" where
  "decodeMilestoneSubmitted js n =
    (let obj = asObject n in
        [(''projectId'', JNum (num (nn (field obj ''project_id'') (field obj ''id'')))),
         (''milestoneId'', JNum (num (field obj ''milestone_id''))),
         (''submitter'', JStr (str js (field obj ''submitter'')))])"

definition decodeMilestoneApproved :: "js_library \<Rightarrow> jsval \<Rightarrow> members" where
  "decodeMilestoneApproved js n =
    (let obj = asObject n in
        [(''projectId'', JNum (num (nn (field obj ''project_id'') (field obj ''id'')))),
         (''milestoneId'', JNum (num (field obj ''milestone_id''))),
         (''approvalCount'', JNum (num (field obj ''approval_count'')))])"

definition decodeMilestoneRejected :: "js_library \<Rightarrow> jsval \<Rightarrow> members" where
  "decodeMilestoneRejected js n =
    (let obj = asObject n in
        [(''projectId'', JNum (num (nn (field obj ''project_id'') (field obj ''id'')))),
         (''milestoneId'', JNum (num (field obj ''milestone_id''))),
         (''rejectionCount'', JNum (num (field obj ''rejection_count'')))])"

definition decodeMilestoneCompleted :: "js_library \<Rightarrow> jsval \<Rightarrow> members" where
  "decodeMilestoneCompleted js n =
    (let obj = asObject n in
        [(''projectId'', JNum (num (nn (field obj ''project_id'') (field obj ''id'')))),
         (''milestoneId'', JNum (num (field obj ''milestone_id'')))])"

definition decodeValidatorsUpdated :: "js_library \<Rightarrow> jsval \<Rightarrow> members" where
  "decodeValidatorsUpdated js n =
    (let obj = asObject n; validators = field obj ''validators'' in
        [(''projectId'', JNum (num (nn (field obj ''project_id'') (field obj ''id'')))),
         (''validatorCount'', JNum (case validators of JArr vs \<Rightarrow> of_nat (length vs) | _ \<Rightarrow> num validators))])"

definition decodeProfitDistributed :: "js_library \<Rightarrow> jsval \<Rightarrow> members" where
  "decodeProfitDistributed js n =
    (let obj = asObject n in
        [(''poolId'', JStr (str js (field obj ''pool_id''))),
         (''totalProfit'', JStr (bigStr (field obj ''total_profit''))),
         (''perShare'', JStr (bigStr (field obj ''per_share'')))])"

definition decodeDividendClaimed :: "js_library \<Rightarrow> jsval \<Rightarrow> members" where
  "decodeDividendClaimed js n =
    (let obj = asObject n in
        [(''poolId'', JStr (str js (field obj ''pool_id''))),
         (''claimer'', JStr (str js (field obj ''claimer''))),
         (''amount'', JStr (bigStr (field obj ''amount'')))])"

definition decodeProposalCreated :: "js_library \<Rightarrow> jsval \<Rightarrow> members" where
  "decodeProposalCreated js n =
    (let obj = asObject n in
        [(''proposalId'', JNum (num (field obj ''proposal_id''))),
         (''proposer'', JStr (str js (field obj ''proposer''))),
         (''title'', JStr (str js (field obj ''title'')))])"

definition decodeVoteCast :: "js_library \<Rightarrow> jsval \<Rightarrow> members" where
  "decodeVoteCast js n =
    (let obj = asObject n in
        [(''proposalId'', JNum (num (field obj ''proposal_id''))),
         (''voter'', JStr (str js (field obj ''voter''))),
         (''support'', JStr (str js (field obj ''support'')))])"

definition decodeProposalExecuted :: "js_library \<Rightarrow> jsval \<Rightarrow> members" where
  "decodeProposalExecuted js n =
    (let obj = asObject n in
        [(''proposalId'', JNum (num (field obj ''proposal_id''))),
         (''success'', JBool (str js (field obj ''success'') = ''true'' \<or> field obj ''success'' = JBool True))])"

definition decodeUserRegistered :: "js_library \<Rightarrow> jsval \<Rightarrow> members" where
  "decodeUserRegistered js n =
    (let obj = asObject n in
        [(''user'', JStr (str js (nn (field obj ''user'') (field obj ''address''))))])"

definition decodeReputationUpdated :: "js_library \<Rightarrow> jsval \<Rightarrow> members" where
  "decodeReputationUpdated js n =
    (let obj = asObject n in
        [(''user'', JStr (str js (nn (field obj ''user'') (field obj ''address'')))),
         (''score'', JNum (num (field obj ''score''))),
         (''delta'', JNum (num (field obj ''delta'')))])"

definition decodeBadgeEarned :: "js_library \<Rightarrow> jsval \<Rightarrow> members" where
  "decodeBadgeEarned js n =
    (let obj = asObject n in
        [(''user'', JStr (str js (nn (field obj ''user'') (field obj ''address'')))),
         (''badge'', JStr (str js (field obj ''badge'')))])"

definition decodePaymentSetup :: "js_library \<Rightarrow> jsval \<Rightarrow> members" where
  "decodePaymentSetup js n =
    (let obj = asObject n in
        [(''paymentId'', JStr (str js (field obj ''payment_id''))),
         (''payer'', JStr (str js (field obj ''payer''))),
         (''payee'', JStr (str js (field obj ''payee'')))])"

definition decodePaymentReceived :: "js_library \<Rightarrow> jsval \<Rightarrow> members" where
  "decodePaymentReceived js n =
    (let obj = asObject n in
        [(''paymentId'', JStr (str js (field obj ''payment_id''))),
         (''amount'', JStr (bigStr (field obj ''amount'')))])"

definition decodePaymentWithdrawn :: "js_library \<Rightarrow> jsval \<Rightarrow> members" where
  "decodePaymentWithdrawn js n =
    (let obj = asObject n in
        [(''paymentId'', JStr (str js (field obj ''payment_id''))),
         (''recipient'', JStr (str js (field obj ''recipient''))),
         (''amount'', JStr (bigStr (field obj ''amount'')))])"

definition decodeSubscriptionCreated :: "js_library \<Rightarrow> jsval \<Rightarrow> members" where
  "decodeSubscriptionCreated js n =
    (let obj = asObject n in
        [(''subscriptionId'', JStr (str js (field obj ''subscription_id''))),
         (''subscriber'', JStr (str js (field obj ''subscriber''))),
         (''plan'', JStr (str js (field obj ''plan''))),
         (''amount'', JStr (bigStr (field obj ''amount'')))])"

definition decodeSubscriptionStatus :: "js_library \<Rightarrow> jsval \<Rightarrow> members" where
  "decodeSubscriptionStatus js n =
    (let obj = asObject n in
        [(''subscriptionId'', JStr (str js (field obj ''subscription_id''))),
         (''status'', JStr (str js (field obj ''status'')))])"

definition decodeSubscriptionModified :: "js_library \<Rightarrow> jsval \<Rightarrow> members" where
  "decodeSubscriptionModified js n =
    (let obj = asObject n in
        [(''subscriptionId'', JStr (str js (field obj ''subscription_id''))),
         (''plan'', JStr (str js (field obj ''plan''))),
         (''amount'', JStr (bigStr (field obj ''amount'')))])"

definition decodePaymentFailed :: "js_library \<Rightarrow> jsval \<Rightarrow> members" where
  "decodePaymentFailed js n =
    (let obj = asObject n in
        [(''subscriptionId'', JStr (str js (field obj ''subscription_id''))),
         (''reason'', JStr (str js (field obj ''reason'')))])"

definition decodeSubscriptionPayment :: "js_library \<Rightarrow> jsval \<Rightarrow> members" where
  "decodeSubscriptionPayment js n =
    (let obj = asObject n in
        [(''subscriptionId'', JStr (str js (field obj ''subscription_id''))),
         (''amount'', JStr (bigStr (field obj ''amount'')))])"

definition decodeBridgeInitialized :: "js_library \<Rightarrow> jsval \<Rightarrow> members" where
  "decodeBridgeInitialized js n =
    (let obj = asObject n in
        [(''bridgeId'', JStr (str js (field obj ''bridge_id''))),
         (''admin'', JStr (str js (field obj ''admin'')))])"

definition decodeChainAdded :: "js_library \<Rightarrow> jsval \<Rightarrow> members" where
  "decodeChainAdded js n =
    (let obj = asObject n in
        [(''chainId'', JNum (num (field obj ''chain_id''))),
         (''chainName'', JStr (str js (field obj ''chain_name'')))])"

definition decodeChainRemoved :: "js_library \<Rightarrow> jsval \<Rightarrow> members" where
  "decodeChainRemoved js n =
    (let obj = asObject n in
        [(''chainId'', JNum (num (field obj ''chain_id'')))])"

definition decodeAssetWrapped :: "js_library \<Rightarrow> jsval \<Rightarrow> members" where
  "decodeAssetWrapped js n =
    (let obj = asObject n in
        [(''asset'', JStr (str js (field obj ''asset''))),
         (''wrappedAsset'', JStr (str js (field obj ''wrapped_asset''))),
         (''amount'', JStr (bigStr (field obj ''amount'')))])"

definition decodeAssetUnwrapped :: "js_library \<Rightarrow> jsval \<Rightarrow> members" where
  "decodeAssetUnwrapped js n =
    (let obj = asObject n in
        [(''asset'', JStr (str js (field obj ''asset''))),
         (''amount'', JStr (bigStr (field obj ''amount'')))])"

definition decodeBridgeDeposit :: "js_library \<Rightarrow> jsval \<Rightarrow> members" where
  "decodeBridgeDeposit js n =
    (let obj = asObject n in
        [(''chainId'', JNum (num (field obj ''chain_id''))),
         (''depositor'', JStr (str js (field obj ''depositor''))),
         (''amount'', JStr (bigStr (field obj ''amount'')))])"

definition decodeBridgeWithdraw :: "js_library \<Rightarrow> jsval \<Rightarrow> members" where
  "decodeBridgeWithdraw js n =
    (let obj = asObject n in
        [(''chainId'', JNum (num (field obj ''chain_id''))),
         (''recipient'', JStr (str js (field obj ''recipient''))),
         (''amount'', JStr (bigStr (field obj ''amount'')))])"

definition decodeBridgeLifecycle :: "js_library \<Rightarrow> jsval \<Rightarrow> members" where
  "decodeBridgeLifecycle js n =
    (let obj = asObject n in
        [(''bridgeId'', JStr (str js (field obj ''bridge_id'')))])"

definition decodeRelayer :: "js_library \<Rightarrow> jsval \<Rightarrow> members" where
  "decodeRelayer js n =
    (let obj = asObject n in
        [(''relayer'', JStr (str js (field obj ''relayer'')))])"

definition decodeBridgeTx :: "js_library \<Rightarrow> jsval \<Rightarrow> members" where
  "decodeBridgeTx js n =
    (let obj = asObject n in
        [(''txHash'', JStr (str js (nn (field obj ''tx_hash'') (field obj ''hash'')))),
         (''status'', JStr (str js (field obj ''status'')))])"

definition decodeContractLifecycle :: "js_library \<Rightarrow> jsval \<Rightarrow> members" where
  "decodeContractLifecycle js n =
    (let obj = asObject n in
        [(''contractId'', JStr (str js (nn (field obj ''contract_id'') (field obj ''contract''))))])"

definition decodeUpgrade :: "js_library \<Rightarrow> jsval \<Rightarrow> members" where
  "decodeUpgrade js n =
    (let obj = asObject n in
        [(''contractId'', JStr (str js (nn (field obj ''contract_id'') (field obj ''contract'')))),
         (''newWasmHash'', JStr (str js (nn (field obj ''new_wasm_hash'') (field obj ''wasm_hash''))))])"

definition decoders :: "(ContractEventType \<times> (js_library \<Rightarrow> jsval \<Rightarrow> members)) list" where
  "decoders =
    [(PROJECT_CREATED, decodeProjectCreated),
     (PROJECT_FUNDED, decodeProjectFunded),
     (PROJECT_COMPLETED, decodeProjectStatus),
     (PROJECT_FAILED, decodeProjectStatus),
     (CONTRIBUTION_MADE, decodeContributionMade),
     (REFUND_ISSUED, decodeRefundIssued),
     (ESCROW_INITIALIZED, decodeEscrowInitialized),
     (FUNDS_LOCKED, decodeFundsLocked),
     (FUNDS_RELEASED, decodeFundsReleased),
     (MILESTONE_CREATED, decodeMilestoneCreated),
     (MILESTONE_SUBMITTED, decodeMilestoneSubmitted),
     (MILESTONE_APPROVED, decodeMilestoneApproved),
     (MILESTONE_REJECTED, decodeMilestoneRejected),
     (MILESTONE_COMPLETED, decodeMilestoneCompleted),
     (VALIDATORS_UPDATED, decodeValidatorsUpdated),
     (PROFIT_DISTRIBUTED, decodeProfitDistributed),
     (DIVIDEND_CLAIMED, decodeDividendClaimed),
     (PROPOSAL_CREATED, decodeProposalCreated),
     (VOTE_CAST, decodeVoteCast),
     (PROPOSAL_EXECUTED, decodeProposalExecuted),
     (USER_REGISTERED, decodeUserRegistered),
     (REPUTATION_UPDATED, decodeReputationUpdated),
     (BADGE_EARNED, decodeBadgeEarned),
     (PAYMENT_SETUP, decodePaymentSetup),
     (PAYMENT_RECEIVED, decodePaymentReceived),
     (PAYMENT_WITHDRAWN, decodePaymentWithdrawn),
     (SUBSCRIPTION_CREATED, decodeSubscriptionCreated),
     (SUBSCRIPTION_CANCELLED, decodeSubscriptionStatus),
     (SUBSCRIPTION_MODIFIED, decodeSubscriptionModified),
     (SUBSCRIPTION_PAUSED, decodeSubscriptionStatus),
     (SUBSCRIPTION_RESUMED, decodeSubscriptionStatus),
     (PAYMENT_FAILED, decodePaymentFailed),
     (SUBSCRIPTION_PAYMENT, decodeSubscriptionPayment),
     (BRIDGE_INITIALIZED, decodeBridgeInitialized),
     (SUPPORTED_CHAIN_ADDED, decodeChainAdded),
     (SUPPORTED_CHAIN_REMOVED, decodeChainRemoved),
     (ASSET_WRAPPED, decodeAssetWrapped),
     (ASSET_UNWRAPPED, decodeAssetUnwrapped),
     (BRIDGE_DEPOSIT, decodeBridgeDeposit),
     (BRIDGE_WITHDRAW, decodeBridgeWithdraw),
     (BRIDGE_PAUSED, decodeBridgeLifecycle),
     (BRIDGE_UNPAUSED, decodeBridgeLifecycle),
     (RELAYER_ADDED, decodeRelayer),
     (RELAYER_REMOVED, decodeRelayer),
     (BRIDGE_TX_CONFIRMED, decodeBridgeTx),
     (BRIDGE_TX_FAILED, decodeBridgeTx),
     (CONTRACT_PAUSED, decodeContractLifecycle),
     (CONTRACT_RESUMED, decodeContractLifecycle),
     (UPGRADE_SCHEDULED, decodeUpgrade),
     (UPGRADE_EXECUTED, decodeUpgrade),
     (UPGRADE_CANCELLED, decodeUpgrade)]"

section \<open>decode\<close>

record DecodedEvent =
  de_data :: members
  de_rawXdr :: string

record 'x stellar_sdk =
  fromXDR :: "string \<Rightarrow> string + 'x"
  scValToNative :: "'x \<Rightarrow> string + jsval"

definition quarantine :: "string \<Rightarrow> string \<Rightarrow> DecodedEvent" where
  "quarantine valueXdr reason =
    \<lparr>de_data = [(''_quarantined'', JBool True), (''_quarantineReason'', JStr reason), (''rawXdr'', JStr valueXdr)],
     de_rawXdr = valueXdr\<rparr>"

text \<open>No decoder throws on these values, so the \<open>shape_mismatch\<close> handler has nothing to catch.\<close>

definition decode :: "js_library \<Rightarrow> 'x stellar_sdk \<Rightarrow> string \<Rightarrow> ContractEventType \<Rightarrow> DecodedEvent" where
  "decode js sdk valueXdr eventType =
    (case fromXDR sdk valueXdr of
       Inl message \<Rightarrow> quarantine valueXdr (''invalid_xdr: '' @ message)
     | Inr scVal \<Rightarrow>
        (case scValToNative sdk scVal of
           Inl message \<Rightarrow> quarantine valueXdr (''undecodable_scval: '' @ message)
         | Inr native \<Rightarrow>
            (case map_of decoders eventType of
               None \<Rightarrow> \<lparr>de_data = normalizeNative js native, de_rawXdr = valueXdr\<rparr>
             | Some decoder \<Rightarrow> \<lparr>de_data = decoder js native, de_rawXdr = valueXdr\<rparr>)))"

section \<open>parseEventType (IndexerService)\<close>

definition parseEventType :: "string \<Rightarrow> ContractEventType option" where
  "parseEventType symbol = find (\<lambda>type. eventTypeText type = symbol) eventTypes"

section \<open>Every event type has a decoder that meets its interface\<close>

lemmas interface_defs = ProjectCreatedEvent_def ProjectFundedEvent_def ContributionMadeEvent_def RefundIssuedEvent_def
  EscrowInitializedEvent_def FundsLockedEvent_def FundsReleasedEvent_def MilestoneCreatedEvent_def
  MilestoneSubmittedEvent_def MilestoneApprovedEvent_def MilestoneRejectedEvent_def
  MilestoneCompletedEvent_def ValidatorsUpdatedEvent_def ProfitDistributedEvent_def
  DividendClaimedEvent_def ProposalCreatedEvent_def VoteCastEvent_def ProposalExecutedEvent_def
  UserRegisteredEvent_def ReputationUpdatedEvent_def BadgeEarnedEvent_def PaymentSetupEvent_def
  PaymentReceivedEvent_def PaymentWithdrawnEvent_def SubscriptionCreatedEvent_def
  SubscriptionStatusEvent_def SubscriptionModifiedEvent_def PaymentFailedEvent_def
  SubscriptionPaymentEvent_def BridgeInitializedEvent_def SupportedChainAddedEvent_def
  SupportedChainRemovedEvent_def AssetWrappedEvent_def AssetUnwrappedEvent_def BridgeDepositEvent_def
  BridgeWithdrawEvent_def BridgeLifecycleEvent_def RelayerEvent_def BridgeTxEvent_def
  ContractLifecycleEvent_def UpgradeEvent_def ProjectStatusEvent_def

lemmas decoder_defs = decodeProjectCreated_def decodeProjectFunded_def decodeProjectStatus_def decodeContributionMade_def
  decodeRefundIssued_def decodeEscrowInitialized_def decodeFundsLocked_def decodeFundsReleased_def
  decodeMilestoneCreated_def decodeMilestoneSubmitted_def decodeMilestoneApproved_def
  decodeMilestoneRejected_def decodeMilestoneCompleted_def decodeValidatorsUpdated_def
  decodeProfitDistributed_def decodeDividendClaimed_def decodeProposalCreated_def decodeVoteCast_def
  decodeProposalExecuted_def decodeUserRegistered_def decodeReputationUpdated_def
  decodeBadgeEarned_def decodePaymentSetup_def decodePaymentReceived_def decodePaymentWithdrawn_def
  decodeSubscriptionCreated_def decodeSubscriptionStatus_def decodeSubscriptionModified_def
  decodePaymentFailed_def decodeSubscriptionPayment_def decodeBridgeInitialized_def
  decodeChainAdded_def decodeChainRemoved_def decodeAssetWrapped_def decodeAssetUnwrapped_def
  decodeBridgeDeposit_def decodeBridgeWithdraw_def decodeBridgeLifecycle_def decodeRelayer_def
  decodeBridgeTx_def decodeContractLifecycle_def decodeUpgrade_def

lemma eventTypes_all: "t \<in> set eventTypes"
  by (cases t) (simp_all add: eventTypes_def)

lemma eventTypes_distinct: "distinct (map eventTypeText eventTypes)"
  by (simp add: eventTypes_def)

lemma parseEventType_text [simp]: "parseEventType (eventTypeText t) = Some t"
proof -
  have "distinct (map eventTypeText eventTypes)" by (rule eventTypes_distinct)
  moreover have "t \<in> set eventTypes" by (rule eventTypes_all)
  ultimately show ?thesis unfolding parseEventType_def by (rule find_unique_key) simp_all
qed

lemma parseEventType_Some_iff: "parseEventType symbol = Some t \<longleftrightarrow> symbol = eventTypeText t"
  using find_Some_mem [of _ eventTypes t] parseEventType_text by (auto simp: parseEventType_def)

lemma decoders_conform: "list_all (\<lambda>(t, d). conforms (eventInterface t) (d js n)) decoders"
  by (simp add: decoders_def conforms_def interface_defs decoder_defs Let_def)

lemma decoders_total: "\<exists>d. map_of decoders t = Some d"
  by (cases t) (simp_all add: decoders_def)

lemma decoder_conforms: "map_of decoders t = Some d \<Longrightarrow> conforms (eventInterface t) (d js n)"
  using decoders_conform map_of_SomeD by (fastforce simp: list_all_iff)

lemma interface_unmarked: "''_quarantined'' \<notin> fst ` set (eventInterface t)"
  by (cases t) (simp_all add: interface_defs)

lemma conforms_dom: "conforms sh ms \<Longrightarrow> fst ` set ms = fst ` set sh"
  unfolding conforms_def by (metis list.set_map)

lemma conforms_unmarked: "conforms (eventInterface t) ms \<Longrightarrow> map_of ms ''_quarantined'' = None"
  using interface_unmarked [of t] by (simp only: map_of_eq_None_iff conforms_dom not_False_eq_True)

text \<open>The three outcomes of \<open>decode\<close>: two kinds of quarantine, or a payload of the declared shape.\<close>

lemma decode_invalid: "fromXDR sdk v = Inl m \<Longrightarrow> decode js sdk v t = quarantine v (''invalid_xdr: '' @ m)"
  by (simp add: decode_def)

lemma decode_undecodable:
  "fromXDR sdk v = Inr x \<Longrightarrow> scValToNative sdk x = Inl m \<Longrightarrow>
   decode js sdk v t = quarantine v (''undecodable_scval: '' @ m)"
  by (simp add: decode_def)

lemma decode_conforms:
  assumes "fromXDR sdk v = Inr x" "scValToNative sdk x = Inr n"
  shows "conforms (eventInterface t) (de_data (decode js sdk v t)) \<and> de_rawXdr (decode js sdk v t) = v"
proof -
  obtain d where "map_of decoders t = Some d" using decoders_total by blast
  with assms decoder_conforms [OF this, of js n] show ?thesis by (simp add: decode_def)
qed

lemma quarantine_conforms: "conforms QuarantineMarker (de_data (quarantine v r))"
  by (simp add: quarantine_def QuarantineMarker_def conforms_def)

section \<open>Amounts and identifiers\<close>

text \<open>
  Amounts survive, identifiers need not. Whatever integer the chain emits, the text the
  decoder stores for an amount reads back (with the \<open>BigInt\<close> constructor the handlers use) as
  exactly that integer; a project identifier goes through a double and is exact for every
  integer up to 53 bits.
\<close>

theorem decoded_amounts_exact:
  "bigIntOfString (bigStr (JBigInt amount)) = Inr amount \<and>
   (\<bar>projectId\<bar> < 2 ^ 53 \<longrightarrow> num (JBigInt projectId) = of_int projectId)"
  by (auto simp: numberOfBigInt_def roundSignificand_exact nat_less_iff abs_less_iff)

theorem decoded_amounts_exact_witness:
  "bigIntOfString (bigStr (JBigInt (2 ^ 200))) = Inr (2 ^ 200) \<and> num (JBigInt 42) = 42"
  using decoded_amounts_exact [of "2 ^ 200" 42] by (simp only: ) simp

text \<open>
  Identifiers beyond 53 bits collide: two different on-chain projects with the 64-bit
  identifiers \<open>2^53\<close> and \<open>2^53 + 1\<close> decode to the same payload, so their events update the
  same project row.
\<close>

theorem project_ids_collide:
  "decodeProjectStatus js (JObj [(''project_id'', JBigInt (2 ^ 53))]) =
   decodeProjectStatus js (JObj [(''project_id'', JBigInt (2 ^ 53 + 1))])"
proof -
  have "numberOfBigInt (2 ^ 53) = numberOfBigInt (2 ^ 53 + 1)"
    by (simp add: numberOfBigInt_def roundSignificand_def bitLength.simps Let_def)
  then show ?thesis by (simp add: decodeProjectStatus_def Let_def field_def nn_def toLowerCase_def toLowerChar_def)
qed

end
