(* ===== verification/EventHandlers.thy ===== *)
theory EventHandlers
  imports XdrDecoder Notification
begin

text \<open>
  \<open>indexer/services/event-handler.service.ts\<close>, the handler interface and the project,
  contribution and milestone repositories: what a decoded contract event does to the
  domain tables. A handler is a record of its event type, its \<open>validate\<close> and its
  \<open>handle\<close>; the registry is the association list that \<open>register\<close> builds. Tracing-context
  updates only change log lines and are left out.
\<close>

section \<open>ProjectRepository, ContributionRepository, MilestoneRepository\<close>

definition projectsOp :: "env \<Rightarrow> (project engine \<Rightarrow> int \<Rightarrow> (project list, 'a) sm) \<Rightarrow> (db, 'a) sm" where
  "projectsOp env f = zoom projects projects_update (f (projectE (prisma env)) (now env))"

definition contributionsOp :: "env \<Rightarrow> (contribution engine \<Rightarrow> int \<Rightarrow> (contribution list, 'a) sm) \<Rightarrow> (db, 'a) sm" where
  "contributionsOp env f = zoom contributions contributions_update (f (contributionE (prisma env)) (now env))"

definition milestonesOp :: "env \<Rightarrow> (milestone engine \<Rightarrow> int \<Rightarrow> (milestone list, 'a) sm) \<Rightarrow> (db, 'a) sm" where
  "milestonesOp env f = zoom milestones milestones_update (f (milestoneE (prisma env)) (now env))"

definition findByContractId :: "env \<Rightarrow> string \<Rightarrow> (db, project option) sm" where
  "findByContractId env c = projectsOp env (\<lambda>e t. d_findUnique e t (whereOf (\<lambda>r. pr_contractId r = c)))"

definition upsertByContractId :: "env \<Rightarrow> string \<Rightarrow> project \<Rightarrow> (project \<Rightarrow> project) \<Rightarrow> (db, project) sm" where
  "upsertByContractId env c new f =
     projectsOp env (\<lambda>e t. d_upsert e t (whereOf (\<lambda>r. pr_contractId r = c)) (rowOf new) (setOf f))"

definition updateManyByContractId :: "env \<Rightarrow> string \<Rightarrow> (project \<Rightarrow> project) \<Rightarrow> (db, nat) sm" where
  "updateManyByContractId env c f =
     projectsOp env (\<lambda>e t. d_updateMany e t (whereOf (\<lambda>r. pr_contractId r = c)) (setOf f))"

definition project_updateById :: "env \<Rightarrow> string \<Rightarrow> (project \<Rightarrow> project) \<Rightarrow> (db, project) sm" where
  "project_updateById env i f =
     projectsOp env (\<lambda>e t. d_update e t (whereOf (\<lambda>r. rowId r = i)) (setOf f))"

definition upsertByTxHash :: "env \<Rightarrow> string \<Rightarrow> contribution \<Rightarrow> (db, contribution) sm" where
  "upsertByTxHash env h new =
     contributionsOp env (\<lambda>e t. d_upsert e t (whereOf (\<lambda>r. co_transactionHash r = h)) (rowOf new) (setOf (\<lambda>r. r)))"

definition findDistinctInvestors :: "env \<Rightarrow> string \<Rightarrow> (db, string list) sm" where
  "findDistinctInvestors env projectId =
     bindM (contributionsOp env (\<lambda>e t. d_findMany e t
        (noArgs\<lparr>a_where := Some (whereOf (\<lambda>r. co_projectId r = projectId)), a_distinct := Some co_investorId\<rparr>)))
       (\<lambda>rows. returnM (map co_investorId rows))"

definition updateManyByProject :: "env \<Rightarrow> string \<Rightarrow> (milestone \<Rightarrow> milestone) \<Rightarrow> (db, nat) sm" where
  "updateManyByProject env projectId f =
     milestonesOp env (\<lambda>e t. d_updateMany e t (whereOf (\<lambda>r. ms_projectId r = projectId)) (setOf f))"

section \<open>Events and handlers\<close>

text \<open>\<open>ledgerClosedAt\<close> is \<open>None\<close> when \<open>new Date(text)\<close> is an invalid date.\<close>

record ParsedContractEvent =
  ev_eventId :: string
  ev_ledgerSeq :: int
  ev_ledgerClosedAt :: "int option"
  ev_contractId :: string
  ev_eventType :: ContractEventType
  ev_transactionHash :: string
  ev_data :: members
  ev_quarantined :: bool
  ev_inSuccessfulContractCall :: bool

record IEventHandler =
  h_eventType :: string
  h_validate :: "ParsedContractEvent \<Rightarrow> bool"
  h_handle :: "ParsedContractEvent \<Rightarrow> (world, unit) sm"

definition datum :: "ParsedContractEvent \<Rightarrow> string \<Rightarrow> jsval" where
  "datum event key = (case map_of (ev_data event) key of None \<Rightarrow> JUndef | Some v \<Rightarrow> v)"

text \<open>The constructor \<open>BigInt\<close>.\<close>

fun bigIntOf :: "jsval \<Rightarrow> error + int" where
  "bigIntOf (JStr s) = bigIntOfString s"
| "bigIntOf (JBigInt i) = Inr i"
| "bigIntOf (JBool b) = Inr (if b then 1 else 0)"
| "bigIntOf (JNum q) = (if of_int \<lfloor>q\<rfloor> = q then Inr \<lfloor>q\<rfloor> else Inl (PlainError ''not an integer''))"
| "bigIntOf _ = Inl (PlainError ''Cannot convert value to a BigInt'')"

text \<open>\<open>new Date(seconds * 1000)\<close> as a column value: Prisma rejects an invalid date.\<close>

fun numberOf :: "jsval \<Rightarrow> rat" where
  "numberOf (JNum q) = q"
| "numberOf _ = 0"

definition dateOfSeconds :: "jsval \<Rightarrow> error + int" where
  "dateOfSeconds v =
    (let ms = numberOf v * 1000 in
     if \<bar>ms\<bar> \<le> 8640000000000000 then Inr (if ms < 0 then \<lceil>ms\<rceil> else \<lfloor>ms\<rfloor>)
     else Inl (PrismaException PrismaClientValidationError))"

definition validDate :: "int option \<Rightarrow> error + int" where
  "validDate d = (case d of None \<Rightarrow> Inl (PrismaException PrismaClientValidationError) | Some t \<Rightarrow> Inr t)"

text \<open>The row \<open>{ walletAddress, reputationScore: 0 }\<close> of a user first seen on the chain.\<close>

definition chainUser :: "string \<Rightarrow> user" where
  "chainUser w = \<lparr>rowId = '''', deletedAt = None, walletAddress = w, profileData = None,
     reputationScore = 0, trustScore = 500, email = None, pushSubscription = None\<rparr>"

definition ensureUser :: "env \<Rightarrow> string \<Rightarrow> (world, user) sm" where
  "ensureUser env w = inStore (upsertByWallet env w (chainUser w) (\<lambda>u. u))"

text \<open>\<open>try { await m } catch { log }\<close>\<close>

definition bestEffort :: "('s, 'a) sm \<Rightarrow> ('s, unit) sm" where
  "bestEffort m = catchM (bindM m (\<lambda>_. returnM ())) (\<lambda>_. returnM ())"

subsection \<open>ProjectCreatedHandler\<close>

definition ProjectCreated_validate :: "ParsedContractEvent \<Rightarrow> bool" where
  "ProjectCreated_validate event \<longleftrightarrow>
     datum event ''projectId'' \<noteq> JUndef \<and> truthy (datum event ''creator'') \<and> truthy (datum event ''fundingGoal'') \<and>
     truthy (datum event ''deadline'') \<and> truthy (datum event ''token'')"

definition ProjectCreated_handle :: "env \<Rightarrow> js_library \<Rightarrow> ParsedContractEvent \<Rightarrow> (world, unit) sm" where
  "ProjectCreated_handle env js event =
    (let contractId = jsString js (datum event ''projectId''); title = ''Project '' @ contractId in
     bindM (ensureUser env (jsString js (datum event ''creator''))) (\<lambda>user.
     bindM (liftE (bigIntOf (datum event ''fundingGoal''))) (\<lambda>goal.
     bindM (liftE (dateOfSeconds (datum event ''deadline''))) (\<lambda>deadline.
     bindM (inStore (upsertByContractId env contractId
       \<lparr>rowId = '''', deletedAt = None, pr_contractId = contractId, pr_creatorId = rowId user, pr_title = title,
        pr_category = ''uncategorized'', pr_goal = goal, pr_currentFunds = 0, pr_deadline = deadline,
        pr_status = Project_ACTIVE\<rparr>
       (\<lambda>r. r\<lparr>pr_title := title, pr_category := ''uncategorized'', pr_goal := goal, pr_deadline := deadline,
              pr_status := Project_ACTIVE\<rparr>))) (\<lambda>_.
     returnM ())))))"

subsection \<open>ContributionMadeHandler\<close>

definition ContributionMade_validate :: "ParsedContractEvent \<Rightarrow> bool" where
  "ContributionMade_validate event \<longleftrightarrow>
     datum event ''projectId'' \<noteq> JUndef \<and> truthy (datum event ''contributor'') \<and> truthy (datum event ''amount'')"

definition ContributionMade_handle :: "env \<Rightarrow> js_library \<Rightarrow> ParsedContractEvent \<Rightarrow> (world, unit) sm" where
  "ContributionMade_handle env js event =
    (let contractId = jsString js (datum event ''projectId''); amountText = jsString js (datum event ''amount'') in
     bindM (ensureUser env (jsString js (datum event ''contributor''))) (\<lambda>user.
     bindM (inStore (findByContractId env contractId)) (\<lambda>found.
     case found of
       None \<Rightarrow> returnM ()
     | Some project \<Rightarrow>
        bindM (liftE (bigIntOf (datum event ''amount''))) (\<lambda>amount.
        bindM (liftE (validDate (ev_ledgerClosedAt event))) (\<lambda>timestamp.
        bindM (inStore (upsertByTxHash env (ev_transactionHash event)
          \<lparr>rowId = '''', deletedAt = None, co_transactionHash = ev_transactionHash event, co_investorId = rowId user,
           co_projectId = rowId project, co_amount = amount, co_timestamp = timestamp\<rparr>)) (\<lambda>_.
        bindM (liftE (bigIntOf (datum event ''totalRaised''))) (\<lambda>totalRaised.
        bindM (inStore (project_updateById env (rowId project) (\<lambda>r. r\<lparr>pr_currentFunds := totalRaised\<rparr>))) (\<lambda>_.
        bindM (bestEffort (notify env (rowId user) Notif_CONTRIBUTION ''Contribution Successful!''
          (''Your contribution of '' @ amountText @ '' to project '' @ pr_title project @ '' was successful.'')
          (JObj [(''projectId'', JStr (rowId project)), (''amount'', datum event ''amount'')]))) (\<lambda>_.
        bestEffort (inStore (adjustReputation env (rowId user) CONTRIBUTION_SUCCESS_DELTA
          (''Contribution of '' @ amountText @ '' to project '' @ contractId @ '' recorded on-chain'') False)))))))))))"

subsection \<open>MilestoneApprovedHandler and MilestoneRejectedHandler\<close>

definition MilestoneApproved_validate :: "ParsedContractEvent \<Rightarrow> bool" where
  "MilestoneApproved_validate event \<longleftrightarrow>
     datum event ''projectId'' \<noteq> JUndef \<and> datum event ''milestoneId'' \<noteq> JUndef"

definition MilestoneRejected_validate :: "ParsedContractEvent \<Rightarrow> bool" where
  "MilestoneRejected_validate event \<longleftrightarrow>
     datum event ''projectId'' \<noteq> JUndef \<and> datum event ''milestoneId'' \<noteq> JUndef"

definition MilestoneApproved_handle :: "env \<Rightarrow> js_library \<Rightarrow> ParsedContractEvent \<Rightarrow> (world, unit) sm" where
  "MilestoneApproved_handle env js event =
    (let contractId = jsString js (datum event ''projectId''); milestoneId = jsString js (datum event ''milestoneId'') in
     bindM (inStore (findByContractId env contractId)) (\<lambda>found.
     case found of
       None \<Rightarrow> returnM ()
     | Some project \<Rightarrow>
        bindM (inStore (updateManyByProject env (rowId project) (\<lambda>r. r\<lparr>ms_status := Milestone_APPROVED\<rparr>))) (\<lambda>_.
        bindM (inStore (findDistinctInvestors env (rowId project))) (\<lambda>contributors.
        bindM (forEachM (\<lambda>investorId. bestEffort (notify env investorId Notif_MILESTONE ''Project Milestone Reached!''
          (''A project you back ('' @ pr_title project @ '') has reached a new milestone!'')
          (JObj [(''projectId'', JStr (rowId project)), (''milestoneId'', datum event ''milestoneId'')]))) contributors) (\<lambda>_.
        if pr_creatorId project = [] then returnM ()
        else bindM (inStore (updateTrustScore env (pr_creatorId project))) (\<lambda>_.
          bestEffort (inStore (adjustReputation env (pr_creatorId project) MILESTONE_APPROVED_DELTA
            (''Milestone '' @ milestoneId @ '' approved for project '' @ contractId) False))))))))"

definition MilestoneRejected_handle :: "env \<Rightarrow> js_library \<Rightarrow> ParsedContractEvent \<Rightarrow> (world, unit) sm" where
  "MilestoneRejected_handle env js event =
    (let contractId = jsString js (datum event ''projectId''); milestoneId = jsString js (datum event ''milestoneId'') in
     bindM (inStore (findByContractId env contractId)) (\<lambda>found.
     case found of
       None \<Rightarrow> returnM ()
     | Some project \<Rightarrow>
        bindM (inStore (updateManyByProject env (rowId project) (\<lambda>r. r\<lparr>ms_status := Milestone_REJECTED\<rparr>))) (\<lambda>_.
        bindM (inStore (findDistinctInvestors env (rowId project))) (\<lambda>contributors.
        bindM (forEachM (\<lambda>investorId. bestEffort (notify env investorId Notif_MILESTONE ''Project Milestone Failed''
          (''A project you back ('' @ pr_title project @ '') has a failed milestone!'')
          (JObj [(''projectId'', JStr (rowId project)), (''milestoneId'', datum event ''milestoneId'')]))) contributors) (\<lambda>_.
        if pr_creatorId project = [] then returnM ()
        else bindM (inStore (updateTrustScore env (pr_creatorId project))) (\<lambda>_.
          bestEffort (inStore (adjustReputation env (pr_creatorId project) MILESTONE_REJECTED_DELTA
            (''Milestone '' @ milestoneId @ '' rejected for project '' @ contractId) False))))))))"

subsection \<open>FundsReleasedHandler\<close>

definition FundsReleased_validate :: "ParsedContractEvent \<Rightarrow> bool" where
  "FundsReleased_validate event \<longleftrightarrow> datum event ''projectId'' \<noteq> JUndef \<and> truthy (datum event ''amount'')"

definition FundsReleased_handle :: "env \<Rightarrow> js_library \<Rightarrow> ParsedContractEvent \<Rightarrow> (world, unit) sm" where
  "FundsReleased_handle env js event =
     bindM (inStore (findByContractId env (jsString js (datum event ''projectId'')))) (\<lambda>found.
     case found of
       None \<Rightarrow> returnM ()
     | Some project \<Rightarrow>
        bindM (liftE (validDate (ev_ledgerClosedAt event))) (\<lambda>closed.
        bindM (inStore (updateManyByProject env (rowId project)
          (\<lambda>r. r\<lparr>ms_status := Milestone_FUNDED, ms_completionDate := Some closed\<rparr>))) (\<lambda>_.
        returnM ())))"

subsection \<open>ProjectCompletedHandler and ProjectFailedHandler\<close>

definition ProjectCompleted_validate :: "ParsedContractEvent \<Rightarrow> bool" where
  "ProjectCompleted_validate event \<longleftrightarrow> datum event ''projectId'' \<noteq> JUndef"

definition ProjectCompleted_handle :: "env \<Rightarrow> js_library \<Rightarrow> ParsedContractEvent \<Rightarrow> (world, unit) sm" where
  "ProjectCompleted_handle env js event =
     bindM (inStore (updateManyByContractId env (jsString js (datum event ''projectId''))
       (\<lambda>r. r\<lparr>pr_status := Project_COMPLETED\<rparr>))) (\<lambda>_. returnM ())"

definition ProjectFailed_validate :: "ParsedContractEvent \<Rightarrow> bool" where
  "ProjectFailed_validate event \<longleftrightarrow> datum event ''projectId'' \<noteq> JUndef"

definition ProjectFailed_handle :: "env \<Rightarrow> js_library \<Rightarrow> ParsedContractEvent \<Rightarrow> (world, unit) sm" where
  "ProjectFailed_handle env js event =
     bindM (inStore (updateManyByContractId env (jsString js (datum event ''projectId''))
       (\<lambda>r. r\<lparr>pr_status := Project_CANCELLED\<rparr>))) (\<lambda>_. returnM ())"

subsection \<open>DividendClaimedHandler\<close>

definition DividendClaimed_validate :: "ParsedContractEvent \<Rightarrow> bool" where
  "DividendClaimed_validate event \<longleftrightarrow>
     truthy (datum event ''poolId'') \<and> truthy (datum event ''claimer'') \<and> truthy (datum event ''amount'')"

definition DividendClaimed_handle :: "env \<Rightarrow> js_library \<Rightarrow> ParsedContractEvent \<Rightarrow> (world, unit) sm" where
  "DividendClaimed_handle env js event =
     bindM (ensureUser env (jsString js (datum event ''claimer''))) (\<lambda>user.
     bindM (inStore (updateTrustScore env (rowId user))) (\<lambda>_. returnM ()))"

section \<open>EventHandlerService\<close>

type_synonym registry = "(string \<times> IEventHandler) list"

text \<open>\<open>Map.set\<close>: a later handler of the same type replaces the earlier one.\<close>

definition register :: "IEventHandler \<Rightarrow> registry \<Rightarrow> registry" where
  "register handler handlers =
    (if h_eventType handler \<in> fst ` set handlers
     then map (\<lambda>(k, h). (k, if k = h_eventType handler then handler else h)) handlers
     else handlers @ [(h_eventType handler, handler)])"

definition allHandlers :: "env \<Rightarrow> js_library \<Rightarrow> IEventHandler list" where
  "allHandlers env js =
    [\<lparr>h_eventType = eventTypeText PROJECT_CREATED, h_validate = ProjectCreated_validate, h_handle = ProjectCreated_handle env js\<rparr>,
     \<lparr>h_eventType = eventTypeText CONTRIBUTION_MADE, h_validate = ContributionMade_validate, h_handle = ContributionMade_handle env js\<rparr>,
     \<lparr>h_eventType = eventTypeText MILESTONE_APPROVED, h_validate = MilestoneApproved_validate, h_handle = MilestoneApproved_handle env js\<rparr>,
     \<lparr>h_eventType = eventTypeText MILESTONE_REJECTED, h_validate = MilestoneRejected_validate, h_handle = MilestoneRejected_handle env js\<rparr>,
     \<lparr>h_eventType = eventTypeText FUNDS_RELEASED, h_validate = FundsReleased_validate, h_handle = FundsReleased_handle env js\<rparr>,
     \<lparr>h_eventType = eventTypeText PROJECT_COMPLETED, h_validate = ProjectCompleted_validate, h_handle = ProjectCompleted_handle env js\<rparr>,
     \<lparr>h_eventType = eventTypeText PROJECT_FAILED, h_validate = ProjectFailed_validate, h_handle = ProjectFailed_handle env js\<rparr>,
     \<lparr>h_eventType = eventTypeText DIVIDEND_CLAIMED, h_validate = DividendClaimed_validate, h_handle = DividendClaimed_handle env js\<rparr>]"

definition registerHandlers :: "env \<Rightarrow> js_library \<Rightarrow> registry" where
  "registerHandlers env js = fold register (allHandlers env js) []"

definition getHandler :: "registry \<Rightarrow> string \<Rightarrow> IEventHandler option" where
  "getHandler handlers eventType = map_of handlers eventType"

definition isSupported :: "registry \<Rightarrow> string \<Rightarrow> bool" where
  "isSupported handlers eventType \<longleftrightarrow> map_of handlers eventType \<noteq> None"

definition getAllHandlers :: "registry \<Rightarrow> IEventHandler list" where
  "getAllHandlers handlers = map snd handlers"

definition handler_processEvent :: "env \<Rightarrow> js_library \<Rightarrow> ParsedContractEvent \<Rightarrow> (world, bool) sm" where
  "handler_processEvent env js event =
    (case getHandler (registerHandlers env js) (eventTypeText (ev_eventType event)) of
       None \<Rightarrow> returnM False
     | Some handler \<Rightarrow>
        (if \<not> h_validate handler event then returnM False
         else bindM (h_handle handler event) (\<lambda>_. returnM True)))"

section \<open>What the handlers leave alone\<close>

text \<open>
  \<open>sideFrame f\<close>: the view \<open>f\<close> of the database reads no table that a notification, a score
  change or the registration of a user writes. \<open>handlerFrame f\<close>: nor any table of projects,
  contributions or milestones.
\<close>

definition sideFrame :: "(db \<Rightarrow> 'x) \<Rightarrow> bool" where
  "sideFrame f \<longleftrightarrow> (\<forall>s t. f (users_update (\<lambda>_. t) s) = f s) \<and> (\<forall>s t. f (reputationHistories_update (\<lambda>_. t) s) = f s) \<and>
     (\<forall>s t. f (notifications_update (\<lambda>_. t) s) = f s) \<and> (\<forall>s t. f (notificationSettings_update (\<lambda>_. t) s) = f s) \<and>
     (\<forall>s t. f (emailOutboxes_update (\<lambda>_. t) s) = f s)"

definition handlerFrame :: "(db \<Rightarrow> 'x) \<Rightarrow> bool" where
  "handlerFrame f \<longleftrightarrow> sideFrame f \<and> (\<forall>s t. f (projects_update (\<lambda>_. t) s) = f s) \<and>
     (\<forall>s t. f (contributions_update (\<lambda>_. t) s) = f s) \<and> (\<forall>s t. f (milestones_update (\<lambda>_. t) s) = f s)"

lemma keeps_bestEffort: "keeps I m \<Longrightarrow> keeps I (bestEffort m)"
  unfolding bestEffort_def by (intro keeps_rules)

lemma keeps_liftE: "keeps I (liftE r)"
  by (cases r) (simp_all add: liftE_def)

lemma calculateTrustScore_pure [simp]: "runtime env \<Longrightarrow> snd (calculateTrustScore env i s) = s"
  by (simp add: calculateTrustScore_def bindM_def zoom_def Let_def)

lemma keeps_pure: "(\<And>s. snd (m s) = s) \<Longrightarrow> keeps I m"
  by (simp add: keeps_def)

context runtime
begin

lemma side_prepare:
  assumes "sideFrame f"
  shows "keeps (\<lambda>s. f s = x) (prepareNotification env c0 u ty ti m d)"
proof -
  have up: "keeps (\<lambda>s. f s = x) (upsertForUser env i)" for i
    unfolding upsertForUser_def using assms by (intro keeps_zoom_frame) (simp add: sideFrame_def)
  have new: "keeps (\<lambda>s. f s = x) (createNotification env r)" for r
    unfolding createNotification_def using assms by (intro keeps_zoom_frame) (simp add: sideFrame_def)
  have out: "keeps (\<lambda>s. f s = x) (createOutbox env r)" for r
    unfolding createOutbox_def using assms by (intro keeps_zoom_frame) (simp add: sideFrame_def)
  show ?thesis unfolding prepareNotification_def prepareEmail_def by (intro keeps_rules up new out)
qed

lemma side_notify: "sideFrame f \<Longrightarrow> keeps (\<lambda>w. f (store w) = x) (notify env u ty ti m d)"
  unfolding notify_def
  by (rule keeps_bind, rule keeps_reader [where m = "\<lambda>w. inStore (prepareNotification env (store w) u ty ti m d)"],
      rule keeps_inStore [where I = "\<lambda>s. f s = x"], erule side_prepare, rule keeps_dispatch [where I = "\<lambda>s. f s = x"])

lemma side_user: "sideFrame f \<Longrightarrow> keeps (\<lambda>w. f (store w) = x) (ensureUser env u)"
  unfolding ensureUser_def upsertByWallet_def usersOp_def
  by (intro keeps_inStore [where I = "\<lambda>s. f s = x"] keeps_zoom_frame) (simp add: sideFrame_def)

lemma side_trust:
  assumes "sideFrame f"
  shows "keeps (\<lambda>w. f (store w) = x) (inStore (updateTrustScore env i))"
proof -
  have calc: "keeps (\<lambda>s. f s = x) (calculateTrustScore env i)" by (rule keeps_pure) simp
  have upd: "keeps (\<lambda>s. f s = x) (repo_updateTrustScore env i n)" for n
    unfolding repo_updateTrustScore_def using assms by (intro keeps_zoom_frame) (simp add: sideFrame_def)
  show ?thesis
    unfolding updateTrustScore_def by (intro keeps_inStore [where I = "\<lambda>s. f s = x"] keeps_rules calc upd)
qed

lemma side_adjust:
  assumes "sideFrame f"
  shows "keeps (\<lambda>w. f (store w) = x) (inStore (adjustReputation env i d r tx))"
proof -
  have a: "keeps (\<lambda>s. f s = x) (findUserScore env i)"
    unfolding findUserScore_def using assms by (intro keeps_bind keeps_return keeps_zoom_frame) (simp add: sideFrame_def)
  have b: "keeps (\<lambda>s. f s = x) (updateUserScore env i n)" for n
    unfolding updateUserScore_def using assms by (intro keeps_zoom_frame) (simp add: sideFrame_def)
  have c: "keeps (\<lambda>s. f s = x) (createHistory env h)" for h
    unfolding createHistory_def using assms by (intro keeps_zoom_frame) (simp add: sideFrame_def)
  show ?thesis
    unfolding adjustReputation_def withTx_def Let_def
    by (intro keeps_inStore [where I = "\<lambda>s. f s = x"] keeps_rules a b c)
qed

lemmas side_keeps = side_notify side_user side_trust side_adjust

lemma chain_keeps:
  assumes "handlerFrame f"
  shows "keeps (\<lambda>w. f (store w) = x) (inStore (projectsOp env m))"
    and "keeps (\<lambda>w. f (store w) = x) (inStore (milestonesOp env m2))"
    and "keeps (\<lambda>w. f (store w) = x) (inStore (contributionsOp env m3))"
  using assms unfolding projectsOp_def milestonesOp_def contributionsOp_def handlerFrame_def
  by (intro keeps_inStore [where I = "\<lambda>s. f s = x"] keeps_zoom_frame, simp)+

lemma chain_investors:
  assumes "handlerFrame f"
  shows "keeps (\<lambda>w. f (store w) = x) (inStore (findDistinctInvestors env p))"
  using assms unfolding findDistinctInvestors_def contributionsOp_def handlerFrame_def
  by (intro keeps_inStore [where I = "\<lambda>s. f s = x"] keeps_bind keeps_return keeps_zoom_frame) simp

lemma handlers_keep:
  assumes "handlerFrame f"
  shows "keeps (\<lambda>w. f (store w) = x) (ProjectCreated_handle env js ev)"
    and "keeps (\<lambda>w. f (store w) = x) (ContributionMade_handle env js ev)"
    and "keeps (\<lambda>w. f (store w) = x) (MilestoneApproved_handle env js ev)"
    and "keeps (\<lambda>w. f (store w) = x) (MilestoneRejected_handle env js ev)"
    and "keeps (\<lambda>w. f (store w) = x) (FundsReleased_handle env js ev)"
    and "keeps (\<lambda>w. f (store w) = x) (ProjectCompleted_handle env js ev)"
    and "keeps (\<lambda>w. f (store w) = x) (ProjectFailed_handle env js ev)"
    and "keeps (\<lambda>w. f (store w) = x) (DividendClaimed_handle env js ev)"
proof -
  have side: "sideFrame f" using assms by (simp add: handlerFrame_def)
  note ops = chain_keeps [OF assms] chain_investors [OF assms] side_keeps [OF side] keeps_bestEffort keeps_liftE keeps_rules
  note defs = findByContractId_def upsertByContractId_def updateManyByContractId_def project_updateById_def
    upsertByTxHash_def updateManyByProject_def Let_def
  show "keeps (\<lambda>w. f (store w) = x) (ProjectCreated_handle env js ev)"
    unfolding ProjectCreated_handle_def defs by (intro ops)
  show "keeps (\<lambda>w. f (store w) = x) (ContributionMade_handle env js ev)"
    unfolding ContributionMade_handle_def defs by (intro ops)
  show "keeps (\<lambda>w. f (store w) = x) (MilestoneApproved_handle env js ev)"
    unfolding MilestoneApproved_handle_def defs by (intro ops)
  show "keeps (\<lambda>w. f (store w) = x) (MilestoneRejected_handle env js ev)"
    unfolding MilestoneRejected_handle_def defs by (intro ops)
  show "keeps (\<lambda>w. f (store w) = x) (FundsReleased_handle env js ev)"
    unfolding FundsReleased_handle_def defs by (intro ops)
  show "keeps (\<lambda>w. f (store w) = x) (ProjectCompleted_handle env js ev)"
    unfolding ProjectCompleted_handle_def defs by (intro ops)
  show "keeps (\<lambda>w. f (store w) = x) (ProjectFailed_handle env js ev)"
    unfolding ProjectFailed_handle_def defs by (intro ops)
  show "keeps (\<lambda>w. f (store w) = x) (DividendClaimed_handle env js ev)"
    unfolding DividendClaimed_handle_def defs by (intro ops)
qed

end

section \<open>Dispatch\<close>

lemma registry_eq: "registerHandlers env js = map (\<lambda>h. (h_eventType h, h)) (allHandlers env js)"
  by (simp add: registerHandlers_def allHandlers_def register_def)

text \<open>Eight event types have a handler; the other forty-three are ignored by the registry.\<close>

definition handledTypes :: "ContractEventType list" where
  "handledTypes = [PROJECT_CREATED, CONTRIBUTION_MADE, MILESTONE_APPROVED, MILESTONE_REJECTED,
     FUNDS_RELEASED, PROJECT_COMPLETED, PROJECT_FAILED, DIVIDEND_CLAIMED]"

lemma getHandler_None_iff:
  "getHandler (registerHandlers env js) (eventTypeText t) = None \<longleftrightarrow> t \<notin> set handledTypes"
  by (cases t) (simp_all add: getHandler_def registry_eq allHandlers_def handledTypes_def)

lemma getHandler_mem: "getHandler (registerHandlers env js) x = Some h \<Longrightarrow> h \<in> set (allHandlers env js)"
  by (auto simp: getHandler_def registry_eq dest!: map_of_SomeD)

lemma unhandled_event:
  "ev_eventType event \<notin> set handledTypes \<Longrightarrow> handler_processEvent env js event w = (Inr False, w)"
  by (simp add: handler_processEvent_def getHandler_None_iff [THEN iffD2])

context runtime
begin

lemma processEvent_keeps:
  assumes "handlerFrame f"
  shows "keeps (\<lambda>w. f (store w) = x) (handler_processEvent env js event)"
proof -
  have all: "list_all (\<lambda>h. keeps (\<lambda>w. f (store w) = x) (h_handle h event)) (allHandlers env js)"
    by (simp add: allHandlers_def handlers_keep [OF assms])
  show ?thesis
  proof (cases "getHandler (registerHandlers env js) (eventTypeText (ev_eventType event))")
    case None
    then show ?thesis by (simp add: handler_processEvent_def)
  next
    case (Some h)
    with all have "keeps (\<lambda>w. f (store w) = x) (h_handle h event)"
      using getHandler_mem by (fastforce simp: list_all_iff)
    then show ?thesis unfolding handler_processEvent_def Some option.case by (intro keeps_rules)
  qed
qed

end

section \<open>What the milestone and contribution handlers record\<close>

definition projectOf :: "db \<Rightarrow> string \<Rightarrow> project option" where
  "projectOf s c = find (live (\<lambda>r. pr_contractId r = c)) (projects s)"

lemma findByContractId_run [simp]:
  "runtime env \<Longrightarrow> inStore (findByContractId env c) w = (Inr (projectOf (store w) c), w)"
  by (simp add: inStore_def findByContractId_def projectsOp_def zoom_def projectOf_def)

lemma updateManyByProject_run [simp]:
  assumes "runtime env"
  shows "inStore (updateManyByProject env p f) w =
    (Inr (length (filter (live (\<lambda>m. ms_projectId m = p)) (milestones (store w)))),
     w\<lparr>store := (store w)\<lparr>milestones := map (\<lambda>m. if live (\<lambda>m. ms_projectId m = p) m then f m else m) (milestones (store w))\<rparr>\<rparr>)"
  using assms by (simp add: inStore_def updateManyByProject_def milestonesOp_def zoom_def)

lemma sideFrames [simp]: "sideFrame milestones" "sideFrame projects" "sideFrame contributions"
  by (simp_all add: sideFrame_def)

lemma investors_keep_milestones:
  "keeps (\<lambda>w. milestones (store w) = x) (inStore (findDistinctInvestors env p))"
  unfolding findDistinctInvestors_def contributionsOp_def
  by (intro keeps_inStore [where I = "\<lambda>s. milestones s = x"] keeps_bind keeps_return keeps_zoom_frame) simp

lemma after_milestones:
  assumes "m1 w = (Inr a, w1)" "\<And>x. keeps (\<lambda>w. milestones (store w) = x) (m2 a)"
  shows "milestones (store (snd (bindM m1 m2 w))) = milestones (store w1)"
  using assms(1) keepsD [OF assms(2), of w1] by (simp add: bindM_def)

lemma milestone_rest:
  assumes "runtime env"
  shows "keeps (\<lambda>w. milestones (store w) = x) (bindM (inStore (findDistinctInvestors env p)) (\<lambda>contributors.
      bindM (forEachM (\<lambda>i. bestEffort (notify env i ty ti m d)) contributors) (\<lambda>_.
      if c = [] then returnM () else bindM (inStore (updateTrustScore env c)) (\<lambda>_.
        bestEffort (inStore (adjustReputation env c dl r tx))))))"
  by (intro keeps_rules keeps_bestEffort investors_keep_milestones
      runtime.side_keeps [OF assms, of milestones] sideFrames)

lemma milestone_effects:
  assumes "runtime env" "projectOf (store w) (jsString js (datum ev ''projectId'')) = Some p"
    and "ev_ledgerClosedAt ev = Some closedAt"
  shows "milestones (store (snd (MilestoneApproved_handle env js ev w))) =
      map (\<lambda>m. if ms_projectId m = rowId p \<and> deletedAt m = None then m\<lparr>ms_status := Milestone_APPROVED\<rparr> else m)
        (milestones (store w))"
    and "milestones (store (snd (MilestoneRejected_handle env js ev w))) =
      map (\<lambda>m. if ms_projectId m = rowId p \<and> deletedAt m = None then m\<lparr>ms_status := Milestone_REJECTED\<rparr> else m)
        (milestones (store w))"
    and "milestones (store (snd (FundsReleased_handle env js ev w))) =
      map (\<lambda>m. if ms_projectId m = rowId p \<and> deletedAt m = None
               then m\<lparr>ms_status := Milestone_FUNDED, ms_completionDate := Some closedAt\<rparr> else m) (milestones (store w))"
proof -
  note found = bindM_Inr [OF findByContractId_run [OF assms(1)]]
  note upd = updateManyByProject_run [OF assms(1)]
  show "milestones (store (snd (MilestoneApproved_handle env js ev w))) =
      map (\<lambda>m. if ms_projectId m = rowId p \<and> deletedAt m = None then m\<lparr>ms_status := Milestone_APPROVED\<rparr> else m)
        (milestones (store w))"
    unfolding MilestoneApproved_handle_def Let_def found assms(2) option.case
    by (subst after_milestones [OF upd]) (rule milestone_rest [OF assms(1)], simp add: live_def)
  show "milestones (store (snd (MilestoneRejected_handle env js ev w))) =
      map (\<lambda>m. if ms_projectId m = rowId p \<and> deletedAt m = None then m\<lparr>ms_status := Milestone_REJECTED\<rparr> else m)
        (milestones (store w))"
    unfolding MilestoneRejected_handle_def Let_def found assms(2) option.case
    by (subst after_milestones [OF upd]) (rule milestone_rest [OF assms(1)], simp add: live_def)
  show "milestones (store (snd (FundsReleased_handle env js ev w))) =
      map (\<lambda>m. if ms_projectId m = rowId p \<and> deletedAt m = None
               then m\<lparr>ms_status := Milestone_FUNDED, ms_completionDate := Some closedAt\<rparr> else m) (milestones (store w))"
    unfolding FundsReleased_handle_def found assms(2) option.case
    by (simp add: assms validDate_def liftE_def bindM_def live_def)
qed

text \<open>
  Milestone events are per project, not per milestone. Whichever milestone identifier an
  approval, rejection or release event carries, its handler changes the status of every live
  milestone of the project, and of no milestone of another project or of a deleted one,
  whatever the notifications and score updates after it do.
\<close>

theorem milestone_event_touches_all:
  assumes "runtime env" "projectOf (store w) (jsString js (datum ev ''projectId'')) = Some p"
    and "ev_ledgerClosedAt ev = Some closedAt"
  shows "milestones (store (snd (MilestoneApproved_handle env js ev w))) =
      map (\<lambda>m. if ms_projectId m = rowId p \<and> deletedAt m = None then m\<lparr>ms_status := Milestone_APPROVED\<rparr> else m)
        (milestones (store w)) \<and>
    milestones (store (snd (MilestoneRejected_handle env js ev w))) =
      map (\<lambda>m. if ms_projectId m = rowId p \<and> deletedAt m = None then m\<lparr>ms_status := Milestone_REJECTED\<rparr> else m)
        (milestones (store w)) \<and>
    milestones (store (snd (FundsReleased_handle env js ev w))) =
      map (\<lambda>m. if ms_projectId m = rowId p \<and> deletedAt m = None
               then m\<lparr>ms_status := Milestone_FUNDED, ms_completionDate := Some closedAt\<rparr> else m) (milestones (store w))"
  using milestone_effects [OF assms] by blast

text \<open>A project with two milestones and an approval of the first.\<close>

definition plainJs :: js_library where
  "plainJs = \<lparr>textOf = (\<lambda>v. ''?''), ownEntries = (\<lambda>v. [])\<rparr>"

definition sampleProject :: project where
  "sampleProject = \<lparr>rowId = ''p-1'', deletedAt = None, pr_contractId = ''7'', pr_creatorId = ''u-1'', pr_title = ''Project 7'',
     pr_category = ''uncategorized'', pr_goal = 100, pr_currentFunds = 0, pr_deadline = 0, pr_status = Project_ACTIVE\<rparr>"

definition sampleMilestone :: "string \<Rightarrow> milestone" where
  "sampleMilestone i = \<lparr>rowId = i, deletedAt = None, ms_projectId = ''p-1'', ms_status = Milestone_PENDING,
     ms_completionDate = None, ms_createdAt = 0\<rparr>"

definition projectWorld :: world where
  "projectWorld = \<lparr>store = emptyDb\<lparr>projects := [sampleProject], milestones := [sampleMilestone ''m-1'', sampleMilestone ''m-2'']\<rparr>,
     emailJobs = [], pushJobs = []\<rparr>"

definition sampleEvent :: "ContractEventType \<Rightarrow> members \<Rightarrow> ParsedContractEvent" where
  "sampleEvent t ms = \<lparr>ev_eventId = ''e-1'', ev_ledgerSeq = 10, ev_ledgerClosedAt = Some 5, ev_contractId = ''C'',
     ev_eventType = t, ev_transactionHash = ''tx-1'', ev_data = ms, ev_quarantined = False,
     ev_inSuccessfulContractCall = True\<rparr>"

lemma showInt_small [simp]: "0 \<le> i \<Longrightarrow> i < 10 \<Longrightarrow> showInt i = [char_of (48 + nat i)]"
  by (simp add: showInt_def showNat.simps [of "nat i"] nat_less_iff)

lemma sampleProject_found: "projectOf (store projectWorld) ''7'' = Some sampleProject"
  by (simp add: projectOf_def projectWorld_def sampleProject_def live_def)

theorem milestone_event_touches_all_witness:
  "map ms_status (milestones (store (snd (MilestoneApproved_handle memoryEnv plainJs
     (sampleEvent MILESTONE_APPROVED [(''projectId'', JNum 7), (''milestoneId'', JNum 1)]) projectWorld)))) =
   [Milestone_APPROVED, Milestone_APPROVED]"
proof -
  let ?e = "sampleEvent MILESTONE_APPROVED [(''projectId'', JNum 7), (''milestoneId'', JNum 1)]"
  have id: "jsString plainJs (datum ?e ''projectId'') = ''7''"
    by (simp add: sampleEvent_def datum_def numText_def) code_simp
  have "projectOf (store projectWorld) (jsString plainJs (datum ?e ''projectId'')) = Some sampleProject"
    unfolding id by (rule sampleProject_found)
  moreover have "ev_ledgerClosedAt ?e = Some 5" by (simp add: sampleEvent_def)
  ultimately have "milestones (store (snd (MilestoneApproved_handle memoryEnv plainJs ?e projectWorld))) =
      map (\<lambda>m. if ms_projectId m = rowId sampleProject \<and> deletedAt m = None then m\<lparr>ms_status := Milestone_APPROVED\<rparr> else m)
        (milestones (store projectWorld))"
    using milestone_event_touches_all [OF memoryEnv_laws] by blast
  then show ?thesis by (simp add: projectWorld_def sampleMilestone_def sampleProject_def)
qed

lemma bestEffort_returns: "fst (bestEffort m w) = Inr ()"
  by (cases "m w"; cases "fst (m w)") (simp_all add: bestEffort_def catchM_def bindM_def)

lemma contribution_rest:
  assumes "runtime env"
  shows "\<exists>w'. bindM (bestEffort (notify env u ty ti m d)) (\<lambda>_. bestEffort (inStore (adjustReputation env u dl r tx))) w = (Inr (), w')
    \<and> projects (store w') = projects (store w) \<and> contributions (store w') = contributions (store w)"
proof -
  let ?m = "bindM (bestEffort (notify env u ty ti m d)) (\<lambda>_. bestEffort (inStore (adjustReputation env u dl r tx)))"
  have kp: "keeps (\<lambda>w. projects (store w) = x) ?m" for x
    by (intro keeps_rules keeps_bestEffort runtime.side_keeps [OF assms sideFrames(2)])
  have kc: "keeps (\<lambda>w. contributions (store w) = x) ?m" for x
    by (intro keeps_rules keeps_bestEffort runtime.side_keeps [OF assms sideFrames(3)])
  obtain w1 where 1: "bestEffort (notify env u ty ti m d) w = (Inr (), w1)"
    using bestEffort_returns by (metis prod.collapse)
  obtain w2 where 2: "bestEffort (inStore (adjustReputation env u dl r tx)) w1 = (Inr (), w2)"
    using bestEffort_returns by (metis prod.collapse)
  have run: "?m w = (Inr (), w2)" using 1 2 by (simp add: bindM_def)
  from keeps_run [OF kp run] keeps_run [OF kc run] run show ?thesis by blast
qed

lemma ensureUser_frame:
  assumes "runtime env" "ensureUser env a w = (r, w')"
  shows "projects (store w') = projects (store w) \<and> contributions (store w') = contributions (store w)"
  using keeps_run [OF runtime.side_user [OF assms(1) sideFrames(2)] assms(2)]
    keeps_run [OF runtime.side_user [OF assms(1) sideFrames(3)] assms(2)] by blast

lemma upsertByTxHash_run:
  assumes "runtime env"
    and accepts: "\<And>row rows. co_transactionHash row \<notin> co_transactionHash ` set rows \<Longrightarrow>
      violates (contributionE (prisma env)) row rows = None"
    and "co_transactionHash row = h"
  shows "\<exists>c. inStore (upsertByTxHash env h row) w = (Inr c, w\<lparr>store := (store w)\<lparr>contributions :=
     (if h \<in> co_transactionHash ` set (contributions (store w))
      then updateFirst (\<lambda>c. co_transactionHash c = h) (deletedAt_update (\<lambda>_. None)) (contributions (store w))
      else contributions (store w) @ [newRow (rowOf row) (genId (contributionE (prisma env)) (contributions (store w)))])\<rparr>\<rparr>)"
proof (cases "find (\<lambda>c. co_transactionHash c = h) (contributions (store w))")
  case None
  then have "h \<notin> co_transactionHash ` set (contributions (store w))" by (auto simp: find_None_iff)
  moreover have "co_transactionHash (newRow (rowOf row) i) = h" for i using assms(3) by (simp add: newRow_def rowOf_def)
  ultimately show ?thesis
    using None assms(1) by (simp add: inStore_def upsertByTxHash_def contributionsOp_def zoom_def Let_def accepts)
next
  case (Some c)
  then have "h \<in> co_transactionHash ` set (contributions (store w))" using find_Some_mem by fastforce
  with Some assms(1) show ?thesis
    by (simp add: inStore_def upsertByTxHash_def contributionsOp_def zoom_def)
qed

lemma project_updateById_run:
  assumes "runtime env" "p \<in> set (projects (store w))" "deletedAt p = None"
  shows "\<exists>q. inStore (project_updateById env (rowId p) f) w =
    (Inr q, w\<lparr>store := (store w)\<lparr>projects := updateFirst (live (\<lambda>r. rowId r = rowId p)) f (projects (store w))\<rparr>\<rparr>)"
proof -
  have "find (live (\<lambda>r. rowId r = rowId p)) (projects (store w)) \<noteq> None"
    using assms(2,3) by (auto simp: find_None_iff live_def)
  with assms(1) show ?thesis by (auto simp: inStore_def project_updateById_def projectsOp_def zoom_def)
qed


lemma memory_contribution [simp]:
  "violates (contributionE (prisma memoryEnv)) = uniqueOn co_transactionHash"
  by (simp add: memoryEnv_def memoryClient_def tableEngine_def)


end
