(* ===== verification/Repositories.thy ===== *)
theory Repositories
  imports Pool "HOL-Library.AList"
begin

text \<open>
  \<open>prisma.soft-delete.service.ts\<close> (purge, restore, queries on deleted rows, retention)
  and the repository interface of \<open>common/repositories\<close>: the locale \<open>repository\<close> is
  what \<open>IRepository\<close> promises its clients, interpreted for the Prisma-backed
  repository and for the in-memory \<open>MockRepository\<close> the unit tests use.
\<close>

section \<open>SoftDeleteService\<close>

text \<open>
  A \<open>where\<close> argument of the service: its \<open>id\<close> if it is a string, the remaining
  conditions as a predicate, and its JSON form for the audit row. A table of the
  database is given by its accessors \<open>g\<close> and \<open>u\<close>.
\<close>

record 'r where_arg =
  wa_id :: "string option"
  wa_cond :: "'r \<Rightarrow> bool"
  wa_json :: jsval

definition whereArg :: "('a row_scheme) where_arg \<Rightarrow> 'a row_scheme \<Rightarrow> bool" where
  "whereArg w r \<longleftrightarrow> (case wa_id w of None \<Rightarrow> True | Some i \<Rightarrow> rowId r = i) \<and> wa_cond w r"

definition recordPurgeAudit :: "env \<Rightarrow> string \<Rightarrow> string option \<Rightarrow> jsval \<Rightarrow> string option \<Rightarrow> nat option \<Rightarrow> (db, unit) sm" where
  "recordPurgeAudit env model wid wjson reason count = catchM
     (case jsonClone (toJSON env) (JObj ((''where'', wjson) #
              (case count of None \<Rightarrow> [] | Some n \<Rightarrow> [(''count'', JNum (of_nat n))]))) of
        Inl e \<Rightarrow> throwM e
      | Inr b \<Rightarrow> bindM (createLog env \<lparr>rowId = '''', deletedAt = None, au_userId = None, au_action = Audit_DELETE,
            au_entityType = model, au_entityId = (case wid of None \<Rightarrow> ''bulk'' | Some i \<Rightarrow> i),
            au_beforeState = Some b, au_afterState = None, au_ipAddress = None, au_userAgent = None,
            au_transactionHash = None,
            au_reason = Some (case reason of None \<Rightarrow> ''Hard delete (no reason provided)'' | Some r \<Rightarrow> r),
            au_correlationId = None, au_timestamp = now env\<rparr>) (\<lambda>_. returnM ()))
     (\<lambda>_. returnM ())"

definition hardDelete where
  "hardDelete env g u e w reason =
     bindM (zoom g u (d_delete e (now env) (noArgs\<lparr>a_where := Some (whereOf (whereArg w)), a_hardDelete := Some True\<rparr>)))
       (\<lambda>result. bindM (recordPurgeAudit env (delegateKey e) (wa_id w) (wa_json w) reason None) (\<lambda>_. returnM result))"

definition hardDeleteMany where
  "hardDeleteMany env g u e w reason =
     bindM (zoom g u (d_deleteMany e (now env) (noArgs\<lparr>a_where := Some (whereOf (whereArg w)), a_hardDelete := Some True\<rparr>)))
       (\<lambda>count. bindM (recordPurgeAudit env (delegateKey e) (wa_id w) (wa_json w) reason (Some count)) (\<lambda>_. returnM count))"

definition service_restore :: "('a row_scheme) engine \<Rightarrow> int \<Rightarrow> ('a row_scheme \<Rightarrow> bool) \<Rightarrow> (('a row_scheme) list, 'a row_scheme) sm" where
  "service_restore e t P = d_update e t (whereOf P) \<lparr>d_set = (\<lambda>r. r), d_deletedAt = Some None\<rparr>"

definition restoreMany :: "('a row_scheme) engine \<Rightarrow> int \<Rightarrow> ('a row_scheme \<Rightarrow> bool) \<Rightarrow> (('a row_scheme) list, nat) sm" where
  "restoreMany e t P = d_updateMany e t (whereOf P) \<lparr>d_set = (\<lambda>r. r), d_deletedAt = Some None\<rparr>"

definition findIncludingDeleted :: "('a row_scheme) engine \<Rightarrow> int \<Rightarrow> ('a row_scheme \<Rightarrow> bool) \<Rightarrow> (('a row_scheme) list, ('a row_scheme) option) sm" where
  "findIncludingDeleted e t P = d_findUnique e t ((whereOf P)\<lparr>w_includeDeleted := Some True\<rparr>)"

definition findManyIncludingDeleted :: "('a row_scheme) engine \<Rightarrow> int \<Rightarrow> ('a row_scheme \<Rightarrow> bool) \<Rightarrow> (('a row_scheme) list, ('a row_scheme) list) sm" where
  "findManyIncludingDeleted e t P = d_findMany e t (noArgs\<lparr>a_where := Some ((whereOf P)\<lparr>w_includeDeleted := Some True\<rparr>)\<rparr>)"

definition findManyDeleted :: "('a row_scheme) engine \<Rightarrow> int \<Rightarrow> ('a row_scheme \<Rightarrow> bool) \<Rightarrow> (('a row_scheme) list, ('a row_scheme) list) sm" where
  "findManyDeleted e t P = d_findMany e t (noArgs\<lparr>a_where := Some ((whereOf P)\<lparr>w_deletedAt := Some NotNull\<rparr>)\<rparr>)"

definition countDeleted :: "('a row_scheme) engine \<Rightarrow> int \<Rightarrow> ('a row_scheme \<Rightarrow> bool) \<Rightarrow> (('a row_scheme) list, nat) sm" where
  "countDeleted e t P = d_count e t ((whereOf P)\<lparr>w_deletedAt := Some NotNull\<rparr>)"

text \<open>The reason string contains a dash outside ASCII, here in its UTF-8 encoding.\<close>

definition retentionReason :: "int \<Rightarrow> string" where
  "retentionReason deletedBefore = ''Retention cleanup '' @ [CHR 0xE2, CHR 0x80, CHR 0x94] @
     '' soft-deleted before '' @ toISOString deletedBefore"

definition permanentlyDeleteExpired where
  "permanentlyDeleteExpired env g u e deletedBefore =
     bindM (zoom g u (d_deleteMany e (now env)
         (noArgs\<lparr>a_where := Some ((whereOf (\<lambda>r. True))\<lparr>w_deletedAt := Some (NotNullLt deletedBefore)\<rparr>), a_hardDelete := Some True\<rparr>)))
       (\<lambda>count. bindM (recordPurgeAudit env (delegateKey e) None
            (JObj [(''deletedAt'', JObj [(''not'', JNull), (''lt'', JDate deletedBefore)])])
            (Some (retentionReason deletedBefore)) (Some count)) (\<lambda>_. returnM count))"

definition isDeleted :: "('a row_scheme) engine \<Rightarrow> int \<Rightarrow> ('a row_scheme \<Rightarrow> bool) \<Rightarrow> (('a row_scheme) list, bool) sm" where
  "isDeleted e t P =
     bindM (d_findUnique e t ((whereOf P)\<lparr>w_includeDeleted := Some True\<rparr>)) (\<lambda>record.
     returnM (case record of None \<Rightarrow> False | Some r \<Rightarrow> deletedAt r \<noteq> None))"

section \<open>MockRepository\<close>

type_synonym 'r mock = "(string \<times> 'r) list"

definition mock_seed :: "('a row_scheme) list \<Rightarrow> ('a row_scheme) mock \<Rightarrow> ('a row_scheme) mock" where
  "mock_seed rs st = fold (\<lambda>r. AList.update (rowId r) r) rs st"

definition mock_findById :: "string \<Rightarrow> ('r mock, 'r option) sm" where
  "mock_findById i st = (Inr (map_of st i), st)"

definition mock_findByIdOrFail :: "string \<Rightarrow> ('r mock, 'r) sm" where
  "mock_findByIdOrFail i = bindM (mock_findById i) (\<lambda>record.
     case record of None \<Rightarrow> throwM (NotFoundException (''Record with id '' @ i @ '' not found'')) | Some r \<Rightarrow> returnM r)"

definition mock_findMany :: "('r \<Rightarrow> bool) \<Rightarrow> nat \<Rightarrow> nat option \<Rightarrow> ('r mock, 'r list) sm" where
  "mock_findMany P skip tk st =
    (let records = drop skip (filter P (map snd st))
     in (Inr (case tk of None \<Rightarrow> records | Some n \<Rightarrow> take n records), st))"

definition mock_create :: "'a row_scheme \<Rightarrow> (('a row_scheme) mock, 'a row_scheme) sm" where
  "mock_create r st = (Inr r, AList.update (rowId r) r st)"

definition mock_update :: "string \<Rightarrow> ('r \<Rightarrow> 'r) \<Rightarrow> ('r mock, 'r) sm" where
  "mock_update i f st = (case map_of st i of
      None \<Rightarrow> (Inl (NotFoundException (''Record with id '' @ i @ '' not found'')), st)
    | Some existing \<Rightarrow> (Inr (f existing), AList.update i (f existing) st))"

definition mock_delete :: "string \<Rightarrow> ('r mock, 'r) sm" where
  "mock_delete i st = (case map_of st i of
      None \<Rightarrow> (Inl (NotFoundException (''Record with id '' @ i @ '' not found'')), st)
    | Some existing \<Rightarrow> (Inr existing, AList.delete i st))"

definition mock_softDelete :: "int \<Rightarrow> string \<Rightarrow> (('a row_scheme) mock, 'a row_scheme) sm" where
  "mock_softDelete t i = mock_update i (\<lambda>r. r\<lparr>deletedAt := Some t\<rparr>)"

definition mock_restore :: "string \<Rightarrow> (('a row_scheme) mock, 'a row_scheme) sm" where
  "mock_restore i = mock_update i (\<lambda>r. r\<lparr>deletedAt := None\<rparr>)"

definition mock_softDeleteMany :: "int \<Rightarrow> ('a row_scheme \<Rightarrow> bool) \<Rightarrow> (('a row_scheme) mock, nat) sm" where
  "mock_softDeleteMany t P st =
    (Inr (length (filter (\<lambda>(k, r). P r) st)), map (\<lambda>(k, r). (k, if P r then r\<lparr>deletedAt := Some t\<rparr> else r)) st)"

definition mock_count :: "('r \<Rightarrow> bool) \<Rightarrow> ('r mock, nat) sm" where
  "mock_count P st = (Inr (length (filter P (map snd st))), st)"

section \<open>The repository contract\<close>

text \<open>
  What clients of \<open>IRepository\<close> rely on, stated over a read-only view of the store:
  \<open>findById\<close> reads it, \<open>update\<close> and \<open>delete\<close> change exactly the named record, and both
  reject when there is none.
\<close>

locale repository =
  fixes view :: "'st \<Rightarrow> string \<Rightarrow> 'r option"
    and find :: "string \<Rightarrow> ('st, 'r option) sm"
    and upd :: "string \<Rightarrow> ('r \<Rightarrow> 'r) \<Rightarrow> ('st, 'r) sm"
    and del :: "string \<Rightarrow> ('st, 'r) sm"
    and inv :: "'st \<Rightarrow> bool"
    and ok :: "('r \<Rightarrow> 'r) \<Rightarrow> bool"
  assumes find_view: "find i st = (Inr (view st i), st)"
    and upd_missing: "view st i = None \<Longrightarrow> \<exists>e. upd i f st = (Inl e, st)"
    and upd_found: "ok f \<Longrightarrow> inv st \<Longrightarrow> view st i = Some r \<Longrightarrow>
      \<exists>st'. upd i f st = (Inr (f r), st') \<and> inv st' \<and> view st' = (view st)(i \<mapsto> f r)"
    and del_missing: "view st i = None \<Longrightarrow> \<exists>e. del i st = (Inl e, st)"
    and del_found: "inv st \<Longrightarrow> view st i = Some r \<Longrightarrow>
      \<exists>r' st'. del i st = (Inr r', st') \<and> inv st' \<and> view st' = (view st)(i := None)"
begin

text \<open>Read your writes, no lost updates elsewhere, and a second delete rejects.\<close>

lemma update_then_find:
  assumes "ok f" "inv st" "upd i f st = (Inr r, st')"
  shows "find j st' = (Inr (if j = i then Some r else view st j), st')"
proof (cases "view st i")
  case None
  then show ?thesis using upd_missing [OF None, of f] assms(3) by auto
next
  case (Some x)
  then show ?thesis using upd_found [OF assms(1,2) Some] assms(3) by (auto simp: find_view)
qed

lemma delete_twice:
  assumes "inv st" "del i st = (Inr r, st')"
  shows "find i st' = (Inr None, st') \<and> (\<exists>e. del i st' = (Inl e, st'))"
proof (cases "view st i")
  case None
  then show ?thesis using del_missing [OF None] assms(2) by auto
next
  case (Some x)
  then obtain r' st2 where "del i st = (Inr r', st2)" "view st2 = (view st)(i := None)"
    using del_found [OF assms(1) Some] by blast
  then have "view st' i = None" using assms(2) by simp
  then show ?thesis using del_missing find_view by simp
qed

end

text \<open>Records keep their identifier and their deletion state under an ordinary update.\<close>

definition plainUpdate :: "('a row_scheme \<Rightarrow> 'a row_scheme) \<Rightarrow> bool" where
  "plainUpdate f \<longleftrightarrow> (\<forall>r. rowId (f r) = rowId r \<and> deletedAt (f r) = deletedAt r)"

definition distinctIds :: "('a row_scheme) list \<Rightarrow> bool" where
  "distinctIds t \<longleftrightarrow> distinct (map rowId t)"

definition liveView :: "('a row_scheme) list \<Rightarrow> string \<Rightarrow> ('a row_scheme) option" where
  "liveView t i = List.find (live (\<lambda>r. rowId r = i)) t"

lemma find_live_stamped:
  assumes "distinctIds t"
  shows "List.find (live (\<lambda>r. rowId r = j)) (updateFirst (live (\<lambda>r. rowId r = i)) (stamp d) t) =
    (if j = i then None else List.find (live (\<lambda>r. rowId r = j)) t)"
  using assms
proof (induction t)
  case Nil
  then show ?case by simp
next
  case (Cons r t)
  have none: "List.find (live (\<lambda>x. rowId x = rowId r)) t = None"
    using Cons.prems by (fastforce simp: distinctIds_def find_None_iff live_def image_iff)
  with Cons show ?case by (auto simp: distinctIds_def live_def [abs_def])
qed

lemma map_rowId_updateFirst:
  "(\<And>r. rowId (f r) = rowId r) \<Longrightarrow> map rowId (updateFirst P f t) = map rowId t"
  by (rule map_updateFirst)

lemma prisma_repository:
  fixes e :: "('a row_scheme) engine"
  assumes "soft_delete_delegate e"
  shows "repository liveView (findById e t) (base_update e t) (base_delete e t) distinctIds plainUpdate"
proof
  fix i and st :: "('a row_scheme) list"
  show "findById e t i st = (Inr (liveView st i), st)"
    using assms by (simp add: findById_def liveView_def)
next
  fix st :: "('a row_scheme) list" and i f
  assume "liveView st i = None"
  then show "\<exists>x. base_update e t i f st = (Inl x, st)"
    using assms by (simp add: base_update_def liveView_def)
next
  fix f :: "'a row_scheme \<Rightarrow> 'a row_scheme" and st :: "('a row_scheme) list" and i r
  assume f: "plainUpdate f" and st: "distinctIds st" and r: "liveView st i = Some r"
  let ?st = "updateFirst (live (\<lambda>r. rowId r = i)) f st"
  have "base_update e t i f st = (Inr (f r), ?st)"
    using assms r by (simp add: base_update_def liveView_def)
  moreover have "distinctIds ?st"
    using st f by (simp add: distinctIds_def plainUpdate_def map_rowId_updateFirst)
  moreover have "liveView ?st = (liveView st)(i \<mapsto> f r)"
    using r f by (auto simp: fun_eq_iff liveView_def find_live_updateFirst plainUpdate_def)
  ultimately show "\<exists>st'. base_update e t i f st = (Inr (f r), st') \<and> distinctIds st' \<and> liveView st' = (liveView st)(i \<mapsto> f r)"
    by blast
next
  fix st :: "('a row_scheme) list" and i
  assume "liveView st i = None"
  then show "\<exists>x. base_delete e t i st = (Inl x, st)"
    using assms by (simp add: base_delete_def liveView_def)
next
  fix st i and r :: "'a row_scheme"
  assume st: "distinctIds st" and r: "liveView st i = Some r"
  let ?st = "updateFirst (live (\<lambda>r. rowId r = i)) (stamp t) st"
  have "base_delete e t i st = (Inr (stamp t r), ?st)"
    using assms r by (simp add: base_delete_def liveView_def)
  moreover have "distinctIds ?st"
    using st by (simp add: distinctIds_def map_rowId_updateFirst)
  moreover have "liveView ?st = (liveView st)(i := None)"
    using st by (auto simp: fun_eq_iff liveView_def find_live_stamped)
  ultimately show "\<exists>r' st'. base_delete e t i st = (Inr r', st') \<and> distinctIds st' \<and> liveView st' = (liveView st)(i := None)"
    by blast
qed

interpretation mock: repository map_of mock_findById mock_update mock_delete "\<lambda>st. distinct (map fst st)" "\<lambda>f. True"
proof
  fix st :: "'r mock" and i f r
  assume "distinct (map fst st)" "map_of st i = Some r"
  then show "\<exists>st'. mock_update i f st = (Inr (f r), st') \<and> distinct (map fst st') \<and> map_of st' = (map_of st)(i \<mapsto> f r)"
    by (simp add: mock_update_def distinct_update update_conv')
next
  fix st :: "'r mock" and i r
  assume "distinct (map fst st)" "map_of st i = Some r"
  then show "\<exists>r' st'. mock_delete i st = (Inr r', st') \<and> distinct (map fst st') \<and> map_of st' = (map_of st)(i := None)"
    by (simp add: mock_delete_def distinct_delete delete_conv')
qed (simp_all add: mock_findById_def mock_update_def mock_delete_def)

interpretation memory_pools: repository liveView "findById (insurancePoolE memoryClient) t"
  "base_update (insurancePoolE memoryClient) t" "base_delete (insurancePoolE memoryClient) t" distinctIds plainUpdate for t
  by (rule prisma_repository) simp

section \<open>Properties\<close>

lemma row_undelete: "deletedAt r = None \<Longrightarrow> r\<lparr>deletedAt := None\<rparr> = r"
  by (cases r) simp

abbreviation poolsE :: "insurance_pool engine" where
  "poolsE \<equiv> insurancePoolE memoryClient"

lemma samplePool_deleted:
  "base_delete poolsE 5 ''pool-1'' [samplePool] = (Inr (stamp 5 samplePool), [stamp 5 samplePool])"
  by (simp add: base_delete_def live_def samplePool_def)

lemma samplePool_updated:
  "base_update poolsE 5 ''pool-1'' (capital_update (\<lambda>_. 7)) [samplePool] =
     (Inr (samplePool\<lparr>capital := 7\<rparr>), [samplePool\<lparr>capital := 7\<rparr>])"
  by (simp add: base_update_def live_def samplePool_def)



text \<open>
  \<open>BaseRepository.delete\<close> is a soft delete. On a table with distinct identifiers a
  successful delete keeps every row and every identifier, returns the live row with its
  timestamp set, hides it from \<open>findById\<close>, and a second delete of the same identifier
  rejects with P2025 and changes nothing.
\<close>

theorem delete_is_soft:
  assumes "soft_delete_delegate e" "distinctIds tab" "base_delete e t i tab = (Inr r, tab')"
  shows "map rowId tab' = map rowId tab \<and> (\<exists>x\<in>set tab. rowId x = i \<and> deletedAt x = None \<and> r = x\<lparr>deletedAt := Some t\<rparr>)
    \<and> findById e t' i tab' = (Inr None, tab')
    \<and> base_delete e t' i tab' = (Inl (PrismaException (PrismaClientKnownRequestError ''P2025'')), tab')"
proof -
  obtain x where x: "liveView tab i = Some x" and r: "r = stamp t x"
    and tab': "tab' = updateFirst (live (\<lambda>r. rowId r = i)) (stamp t) tab"
    using assms by (auto simp: base_delete_def liveView_def split: option.splits)
  have mem: "x \<in> set tab \<and> rowId x = i \<and> deletedAt x = None"
    using find_live_id [OF x [unfolded liveView_def]] by simp
  have gone: "List.find (live (\<lambda>r. rowId r = i)) tab' = None"
    using find_live_stamped [OF assms(2)] tab' by simp
  have ids: "map rowId tab' = map rowId tab" by (simp add: tab' map_rowId_updateFirst)
  have row: "\<exists>x\<in>set tab. rowId x = i \<and> deletedAt x = None \<and> r = x\<lparr>deletedAt := Some t\<rparr>"
    using mem by (intro bexI [of _ x]) (simp_all add: r stamp_def)
  have "findById e t' i tab' = (Inr None, tab')"
    using assms(1) gone by (simp add: findById_def)
  moreover have "base_delete e t' i tab' = (Inl (PrismaException (PrismaClientKnownRequestError ''P2025'')), tab')"
    using assms(1) gone by (simp add: base_delete_def)
  ultimately show ?thesis using ids row by (intro conjI)
qed

theorem delete_is_soft_witness:
  "findById poolsE 9 ''pool-1'' [stamp 5 samplePool] = (Inr None, [stamp 5 samplePool])"
proof -
  have law: "soft_delete_delegate poolsE" by simp
  have ids: "distinctIds [samplePool]" by (simp add: distinctIds_def)
  from delete_is_soft [OF law ids samplePool_deleted] show ?thesis by blast
qed

text \<open>
  C10. Round trip: restoring a record that was just soft-deleted returns the table to exactly
  the state before the deletion.
\<close>

theorem delete_restore_roundtrip:
  assumes "soft_delete_delegate e" "distinctIds tab" "base_delete e t i tab = (Inr r, tab')"
  shows "\<exists>x. restore e t' i tab' = (Inr (Some x), tab) \<and> x \<in> set tab \<and> rowId x = i"
proof -
  obtain x where x: "List.find (live (\<lambda>r. rowId r = i)) tab = Some x"
    and tab': "tab' = updateFirst (live (\<lambda>r. rowId r = i)) (stamp t) tab"
    using assms by (auto simp: base_delete_def split: option.splits)
  have mem: "x \<in> set tab" "rowId x = i" "deletedAt x = None"
    using find_live_id [OF x] by simp_all
  have as_map: "tab' = map (\<lambda>r. if live (\<lambda>r. rowId r = i) r then stamp t r else r) tab"
    unfolding tab' using assms(2) by (intro updateFirst_as_map [where k = rowId]) (auto simp: distinctIds_def live_def)
  have only: "y = x" if "y \<in> set tab" "rowId y = i" for y
    using assms(2) mem that by (auto simp: distinctIds_def distinct_map inj_on_def)
  have "map (\<lambda>r. if rowId r = i \<and> deletedAt r \<noteq> None then r\<lparr>deletedAt := None\<rparr> else r) tab' = tab"
    unfolding as_map map_map
  proof (rule map_idI)
    fix y assume y: "y \<in> set tab"
    show "((\<lambda>r. if rowId r = i \<and> deletedAt r \<noteq> None then r\<lparr>deletedAt := None\<rparr> else r) \<circ>
        (\<lambda>r. if live (\<lambda>r. rowId r = i) r then stamp t r else r)) y = y"
    proof (cases "rowId y = i")
      case True
      then have "deletedAt y = None" using only [OF y] mem by simp
      then show ?thesis using True by (simp add: live_def stamp_def row_undelete)
    qed (simp add: live_def)
  qed
  with assms(1) x mem show ?thesis by (simp add: restore_def bindM_def)
qed

theorem delete_restore_roundtrip_witness:
  "\<exists>x. restore poolsE 9 ''pool-1'' [stamp 5 samplePool] = (Inr (Some x), [samplePool]) \<and>
     x \<in> set [samplePool] \<and> rowId x = ''pool-1''"
  by (rule delete_restore_roundtrip [OF _ _ samplePool_deleted]) (simp_all add: distinctIds_def)

lemma recordPurgeAudit_ok:
  assumes "runtime env"
  shows "\<exists>l. recordPurgeAudit env m wid wj reason n s = (Inr (), s\<lparr>auditLogs := l\<rparr>)"
proof -
  have same: "s = s\<lparr>auditLogs := auditLogs s\<rparr>" by simp
  show ?thesis
    using assms same
    by (auto simp: recordPurgeAudit_def catchM_def bindM_def createLog_def zoom_def Let_def
        split: sum.split option.split intro: exI [of _ "auditLogs s"])
qed

text \<open>
  Retention cleanup removes exactly the rows of the model that were soft-deleted before
  the cutoff, keeps all other rows in place, reports their number and never fails, even
  when the audit row cannot be written; nothing but that table and the audit log changes.
\<close>

theorem retention_purge_exact:
  assumes "runtime env"
  shows "\<exists>l. permanentlyDeleteExpired env refreshTokenRows refreshTokenRows_update (refreshTokenE (prisma env)) cutoff s =
    (Inr (length (filter (\<lambda>r. dmatch (NotNullLt cutoff) (deletedAt r)) (refreshTokenRows s))),
     s\<lparr>refreshTokenRows := filter (\<lambda>r. \<not> dmatch (NotNullLt cutoff) (deletedAt r)) (refreshTokenRows s), auditLogs := l\<rparr>)"
proof -
  let ?s1 = "s\<lparr>refreshTokenRows := filter (\<lambda>r. \<not> dmatch (NotNullLt cutoff) (deletedAt r)) (refreshTokenRows s)\<rparr>"
  let ?n = "length (filter (\<lambda>r. dmatch (NotNullLt cutoff) (deletedAt r)) (refreshTokenRows s))"
  obtain l where "recordPurgeAudit env (delegateKey (refreshTokenE (prisma env))) None
      (JObj [(''deletedAt'', JObj [(''not'', JNull), (''lt'', JDate cutoff)])])
      (Some (retentionReason cutoff)) (Some ?n) ?s1 = (Inr (), ?s1\<lparr>auditLogs := l\<rparr>)"
    using recordPurgeAudit_ok [OF assms] by blast
  then show ?thesis
    using assms
    by (intro exI [of _ l]) (simp add: permanentlyDeleteExpired_def bindM_def zoom_def del: dmatch.simps)
qed

theorem retention_purge_exact_witness:
  "\<exists>l. permanentlyDeleteExpired memoryEnv refreshTokenRows refreshTokenRows_update (refreshTokenE (prisma memoryEnv)) 7 emptyDb =
    (Inr (length (filter (\<lambda>r. dmatch (NotNullLt 7) (deletedAt r)) (refreshTokenRows emptyDb))),
     emptyDb\<lparr>refreshTokenRows := filter (\<lambda>r. \<not> dmatch (NotNullLt 7) (deletedAt r)) (refreshTokenRows emptyDb), auditLogs := l\<rparr>)"
  by (rule retention_purge_exact) simp

text \<open>
  \<open>findManyDeleted\<close> does not find deleted rows: the middleware replaces the condition
  \<open>deletedAt: {not: null}\<close> by \<open>deletedAt: null\<close>, so the call returns exactly the live rows
  that match, and \<open>countDeleted\<close> counts those.
\<close>

theorem findManyDeleted_returns_live:
  assumes "soft_delete_delegate e"
  shows "findManyDeleted e t P tab = (Inr (filter (live P) tab), tab)
    \<and> countDeleted e t P tab = (Inr (length (filter (live P) tab)), tab)"
proof
  let ?w = "(whereOf P)\<lparr>w_deletedAt := Some NotNull\<rparr>"
  show "findManyDeleted e t P tab = (Inr (filter (live P) tab), tab)"
    unfolding findManyDeleted_def
    by (subst soft_delete_delegate.d_findMany_any [OF assms, where w = ?w]) (simp_all add: query_defs window_def)
  show "countDeleted e t P tab = (Inr (length (filter (live P) tab)), tab)"
    unfolding countDeleted_def
    by (subst soft_delete_delegate.d_count_any [OF assms]) (simp_all add: query_defs)
qed

theorem findManyDeleted_returns_live_witness:
  "findManyDeleted poolsE 9 (\<lambda>r. True) [stamp 3 samplePool, samplePool] =
     (Inr (filter (live (\<lambda>r. True)) [stamp 3 samplePool, samplePool]), [stamp 3 samplePool, samplePool])
   \<and> countDeleted poolsE 9 (\<lambda>r. True) [stamp 3 samplePool, samplePool] =
     (Inr (length (filter (live (\<lambda>r. True)) [stamp 3 samplePool, samplePool])), [stamp 3 samplePool, samplePool])"
  by (rule findManyDeleted_returns_live) simp

text \<open>
  An upsert through the middleware finds a soft-deleted row and revives it: the row it
  returns and stores has its timestamp cleared.
\<close>

theorem upsert_revives_deleted:
  assumes "soft_delete_delegate e" "List.find P tab = Some r" "deletedAt r = Some d"
  shows "d_upsert e t (whereOf P) (rowOf new) (setOf f) tab =
    (Inr ((f r)\<lparr>deletedAt := None\<rparr>), updateFirst P (\<lambda>r. (f r)\<lparr>deletedAt := None\<rparr>) tab)"
  using assms by simp

theorem upsert_revives_deleted_witness:
  "d_upsert poolsE 9 (whereOf (\<lambda>r. True)) (rowOf samplePool) (setOf (\<lambda>r. r)) [stamp 3 samplePool] =
    (Inr ((stamp 3 samplePool)\<lparr>deletedAt := None\<rparr>),
     updateFirst (\<lambda>r. True) (\<lambda>r. r\<lparr>deletedAt := None\<rparr>) [stamp 3 samplePool])"
  by (rule upsert_revives_deleted [where d = 3 and f = "\<lambda>r. r"]) simp_all

text \<open>
  The repository contract holds for the Prisma-backed repository: after a successful
  update \<open>findById\<close> returns the updated record for that identifier and what it returned
  before for every other one.
\<close>

theorem prisma_reads_its_writes:
  assumes "soft_delete_delegate e" "plainUpdate f" "distinctIds tab" "base_update e t i f tab = (Inr r, tab')"
  shows "findById e t j tab' = (Inr (if j = i then Some r else liveView tab j), tab')"
  using assms repository.update_then_find [OF prisma_repository [OF assms(1)], of f tab t i r tab' j] by simp

theorem prisma_reads_its_writes_witness:
  "findById poolsE 5 ''pool-1'' [samplePool\<lparr>capital := 7\<rparr>] =
     (Inr (Some (samplePool\<lparr>capital := 7\<rparr>)), [samplePool\<lparr>capital := 7\<rparr>])"
proof -
  have law: "soft_delete_delegate poolsE" by simp
  have ids: "distinctIds [samplePool]" by (simp add: distinctIds_def)
  have plain: "plainUpdate (capital_update (\<lambda>_. 7))" by (simp add: plainUpdate_def)
  from prisma_reads_its_writes [OF law plain ids samplePool_updated, of "''pool-1''"] show ?thesis
    by (simp only: if_True simp_thms)
qed

end
