(* ===== verification/LedgerTracker.thy ===== *)
theory LedgerTracker
  imports EventHandlers Repositories
begin

text \<open>
  \<open>indexer/services/ledger-tracker.service.ts\<close> and \<open>common/repositories/indexer.repository.ts\<close>:
  the cursor that records how far the chain has been indexed, the set of processed events,
  the quarantine table, the indexer log, and the detection and roll-back of chain
  reorganisations.
\<close>

section \<open>Configuration and types\<close>

text \<open>What the indexer reads from the configuration service.\<close>

record indexer_config =
  network :: string
  reorgDepthThreshold :: int
  INDEXER_START_LEDGER :: "int option"
  maxEventsPerFetch :: nat
  contractConfig :: "string \<Rightarrow> string option"

record LedgerCursor =
  cur_id :: string
  cur_network :: string
  cur_lastLedgerSeq :: int
  cur_lastLedgerHash :: "string option"

record LedgerInfo =
  li_sequence :: int
  li_hash :: string

record ReorgDetectionResult =
  hasReorg :: bool
  reorgDepth :: int
  lastValidLedger :: int
  newLatestLedger :: int

section \<open>Repositories\<close>

definition cursorsOp :: "env \<Rightarrow> (ledger_cursor engine \<Rightarrow> int \<Rightarrow> (ledger_cursor list, 'a) sm) \<Rightarrow> (db, 'a) sm" where
  "cursorsOp env f = zoom ledgerCursors ledgerCursors_update (f (ledgerCursorE (prisma env)) (now env))"

definition processedOp :: "env \<Rightarrow> (processed_event engine \<Rightarrow> int \<Rightarrow> (processed_event list, 'a) sm) \<Rightarrow> (db, 'a) sm" where
  "processedOp env f = zoom processedEvents processedEvents_update (f (processedEventE (prisma env)) (now env))"

definition findByNetwork :: "env \<Rightarrow> string \<Rightarrow> (db, ledger_cursor option) sm" where
  "findByNetwork env n = cursorsOp env (\<lambda>e t. d_findUnique e t (whereOf (\<lambda>r. lc_network r = n)))"

definition upsertCursor :: "env \<Rightarrow> string \<Rightarrow> int \<Rightarrow> string option \<Rightarrow> (db, ledger_cursor) sm" where
  "upsertCursor env n seq hash = cursorsOp env (\<lambda>e t. d_upsert e t (whereOf (\<lambda>r. lc_network r = n))
     (rowOf \<lparr>rowId = '''', deletedAt = None, lc_network = n, lc_lastLedgerSeq = seq, lc_lastLedgerHash = hash\<rparr>)
     (setOf (\<lambda>r. r\<lparr>lc_lastLedgerSeq := seq, lc_lastLedgerHash := hash\<rparr>)))"

definition repo_updateCursor :: "env \<Rightarrow> string \<Rightarrow> int \<Rightarrow> string option \<Rightarrow> (db, ledger_cursor) sm" where
  "repo_updateCursor env n seq hash = cursorsOp env (\<lambda>e t. d_update e t (whereOf (\<lambda>r. lc_network r = n))
     (setOf (\<lambda>r. r\<lparr>lc_lastLedgerSeq := seq, lc_lastLedgerHash := hash\<rparr>)))"

definition countByEventAndNetwork :: "env \<Rightarrow> string \<Rightarrow> string \<Rightarrow> (db, nat) sm" where
  "countByEventAndNetwork env i n = processedOp env (\<lambda>e t. d_count e t
     (whereOf (\<lambda>r. pe_eventId r = i \<and> pe_network r = n)))"

definition processed_upsertEvent :: "env \<Rightarrow> processed_event \<Rightarrow> (db, processed_event) sm" where
  "processed_upsertEvent env data = processedOp env (\<lambda>e t. d_upsert e t
     (whereOf (\<lambda>r. pe_eventId r = pe_eventId data)) (rowOf data) (setOf (\<lambda>r. r)))"

definition quarantined_upsertEvent :: "env \<Rightarrow> quarantined_event \<Rightarrow> (db, quarantined_event) sm" where
  "quarantined_upsertEvent env data = zoom quarantinedEvents quarantinedEvents_update
     (d_upsert (quarantinedEventE (prisma env)) (now env)
        (whereOf (\<lambda>r. qe_eventId r = qe_eventId data)) (rowOf data) (setOf (\<lambda>r. r)))"

definition indexerLog_createLog :: "env \<Rightarrow> string \<Rightarrow> string \<Rightarrow> jsval \<Rightarrow> (db, indexer_log) sm" where
  "indexerLog_createLog env level message metadata = zoom indexerLogs indexerLogs_update
     (d_create (indexerLogE (prisma env)) (now env)
        (rowOf \<lparr>rowId = '''', deletedAt = None, il_level = level, il_message = message, il_metadata = metadata\<rparr>))"

section \<open>LedgerTrackerService\<close>

definition toCursor :: "ledger_cursor \<Rightarrow> LedgerCursor" where
  "toCursor r = \<lparr>cur_id = rowId r, cur_network = lc_network r, cur_lastLedgerSeq = lc_lastLedgerSeq r,
     cur_lastLedgerHash = (case lc_lastLedgerHash r of None \<Rightarrow> None | Some h \<Rightarrow> if h = [] then None else Some h)\<rparr>"

definition getLastCursor :: "env \<Rightarrow> indexer_config \<Rightarrow> (db, LedgerCursor option) sm" where
  "getLastCursor env cfg = bindM (findByNetwork env (network cfg)) (\<lambda>cursor. returnM (map_option toCursor cursor))"

definition initializeCursor :: "env \<Rightarrow> indexer_config \<Rightarrow> int \<Rightarrow> (db, LedgerCursor) sm" where
  "initializeCursor env cfg startLedger =
     bindM (upsertCursor env (network cfg) startLedger None) (\<lambda>cursor. returnM (toCursor cursor))"

definition updateCursor :: "env \<Rightarrow> indexer_config \<Rightarrow> int \<Rightarrow> string option \<Rightarrow> (db, unit) sm" where
  "updateCursor env cfg ledgerSeq ledgerHash =
     bindM (repo_updateCursor env (network cfg) ledgerSeq ledgerHash) (\<lambda>_. returnM ())"

definition reorgOf :: "LedgerCursor option \<Rightarrow> LedgerInfo \<Rightarrow> ReorgDetectionResult" where
  "reorgOf cursor currentLedger =
    (let noReorg = \<lparr>hasReorg = False, reorgDepth = 0, lastValidLedger = li_sequence currentLedger - 1,
                    newLatestLedger = li_sequence currentLedger\<rparr>
     in case cursor of
       None \<Rightarrow> noReorg
     | Some c \<Rightarrow>
        (case cur_lastLedgerHash c of
           None \<Rightarrow> noReorg
         | Some lastHash \<Rightarrow>
            (if li_sequence currentLedger = cur_lastLedgerSeq c then
               (let reorg = (li_hash currentLedger \<noteq> lastHash)
                in \<lparr>hasReorg = reorg, reorgDepth = (if reorg then 1 else 0),
                    lastValidLedger = (if reorg then li_sequence currentLedger - 1 else li_sequence currentLedger),
                    newLatestLedger = li_sequence currentLedger\<rparr>)
             else if li_sequence currentLedger > cur_lastLedgerSeq c then
               \<lparr>hasReorg = False, reorgDepth = 0, lastValidLedger = cur_lastLedgerSeq c,
                newLatestLedger = li_sequence currentLedger\<rparr>
             else
               \<lparr>hasReorg = True, reorgDepth = cur_lastLedgerSeq c - li_sequence currentLedger,
                lastValidLedger = li_sequence currentLedger, newLatestLedger = li_sequence currentLedger\<rparr>)))"

definition detectReorg :: "env \<Rightarrow> indexer_config \<Rightarrow> LedgerInfo \<Rightarrow> (db, ReorgDetectionResult) sm" where
  "detectReorg env cfg currentLedger =
     bindM (getLastCursor env cfg) (\<lambda>cursor. returnM (reorgOf cursor currentLedger))"

definition handleReorg :: "env \<Rightarrow> indexer_config \<Rightarrow> ReorgDetectionResult \<Rightarrow> (db, int) sm" where
  "handleReorg env cfg reorgResult =
    (if \<not> hasReorg reorgResult then returnM (newLatestLedger reorgResult)
     else
       let rollbackDepth = min (reorgDepth reorgResult + 2) (reorgDepthThreshold cfg);
           safeLedgerSeq = max 0 (lastValidLedger reorgResult - rollbackDepth)
       in
       bindM (hardDeleteMany env processedEvents processedEvents_update (processedEventE (prisma env))
         \<lparr>wa_id = None, wa_cond = (\<lambda>r. pe_network r = network cfg \<and> pe_ledgerSeq r > safeLedgerSeq),
          wa_json = JObj [(''network'', JStr (network cfg)), (''ledgerSeq'', JObj [(''gt'', JNum (of_int safeLedgerSeq))])]\<rparr>
         (Some (''Blockchain re-org rollback to ledger '' @ showInt safeLedgerSeq))) (\<lambda>_.
       bindM (updateCursor env cfg safeLedgerSeq None) (\<lambda>_.
       returnM safeLedgerSeq)))"

definition isEventProcessed :: "env \<Rightarrow> indexer_config \<Rightarrow> string \<Rightarrow> (db, bool) sm" where
  "isEventProcessed env cfg eventId =
     bindM (countByEventAndNetwork env eventId (network cfg)) (\<lambda>count. returnM (count > 0))"

definition markEventProcessed ::
  "env \<Rightarrow> indexer_config \<Rightarrow> string \<Rightarrow> int \<Rightarrow> string \<Rightarrow> string \<Rightarrow> string \<Rightarrow> (db, unit) sm" where
  "markEventProcessed env cfg eventId ledgerSeq contractId eventType transactionHash =
     bindM (processed_upsertEvent env \<lparr>rowId = '''', deletedAt = None, pe_eventId = eventId, pe_network = network cfg,
       pe_ledgerSeq = ledgerSeq, pe_contractId = contractId, pe_eventType = eventType,
       pe_transactionHash = transactionHash\<rparr>) (\<lambda>_. returnM ())"

definition getStartLedger :: "env \<Rightarrow> indexer_config \<Rightarrow> int \<Rightarrow> (db, int) sm" where
  "getStartLedger env cfg latestLedger =
     bindM (getLastCursor env cfg) (\<lambda>cursor.
     case cursor of
       Some c \<Rightarrow> returnM (cur_lastLedgerSeq c + 1)
     | None \<Rightarrow>
        (case INDEXER_START_LEDGER cfg of
           Some configuredStart \<Rightarrow>
             (if configuredStart \<noteq> 0
              then bindM (initializeCursor env cfg (configuredStart - 1)) (\<lambda>_. returnM configuredStart)
              else bindM (initializeCursor env cfg (latestLedger - 1)) (\<lambda>_. returnM latestLedger))
         | None \<Rightarrow> bindM (initializeCursor env cfg (latestLedger - 1)) (\<lambda>_. returnM latestLedger)))"

text \<open>\<open>parseFloat(q.toFixed(2))\<close> over exact fractions.\<close>

definition toFixed2 :: "rat \<Rightarrow> rat" where
  "toFixed2 q = of_int \<lfloor>q * 100 + 1 / 2\<rfloor> / 100"

definition logProgress :: "env \<Rightarrow> indexer_config \<Rightarrow> int \<Rightarrow> int \<Rightarrow> nat \<Rightarrow> (db, unit) sm" where
  "logProgress env cfg currentLedger targetLedger eventsProcessed =
     bindM (indexerLog_createLog env ''info'' (''Processed ledger '' @ showInt currentLedger)
       (JObj [(''currentLedger'', JNum (of_int currentLedger)), (''targetLedger'', JNum (of_int targetLedger)),
              (''eventsProcessed'', JNum (of_nat eventsProcessed)),
              (''progress'', JNum (toFixed2 (of_int currentLedger / of_int targetLedger * 100))),
              (''network'', JStr (network cfg))])) (\<lambda>_. returnM ())"

definition logError :: "env \<Rightarrow> string \<Rightarrow> jsval \<Rightarrow> (db, unit) sm" where
  "logError env message metadata = bindM (indexerLog_createLog env ''error'' message metadata) (\<lambda>_. returnM ())"

section \<open>What the operations do\<close>

definition cursorOf :: "db \<Rightarrow> string \<Rightarrow> ledger_cursor option" where
  "cursorOf s n = find (live (\<lambda>r. lc_network r = n)) (ledgerCursors s)"

definition setCursor :: "string \<Rightarrow> int \<Rightarrow> string option \<Rightarrow> db \<Rightarrow> db" where
  "setCursor n seq hash s = s\<lparr>ledgerCursors := updateFirst (live (\<lambda>r. lc_network r = n))
     (\<lambda>r. r\<lparr>lc_lastLedgerSeq := seq, lc_lastLedgerHash := hash\<rparr>) (ledgerCursors s)\<rparr>"

definition seenEvent :: "db \<Rightarrow> string \<Rightarrow> string \<Rightarrow> bool" where
  "seenEvent s n i \<longleftrightarrow> list_ex (live (\<lambda>r. pe_eventId r = i \<and> pe_network r = n)) (processedEvents s)"

lemma getLastCursor_run [simp]:
  "runtime env \<Longrightarrow> getLastCursor env cfg s = (Inr (map_option toCursor (cursorOf s (network cfg))), s)"
  by (simp add: getLastCursor_def findByNetwork_def cursorsOp_def zoom_def cursorOf_def bindM_def)

lemma updateCursor_run [simp]:
  "runtime env \<Longrightarrow> updateCursor env cfg seq hash s =
    (case cursorOf s (network cfg) of
       None \<Rightarrow> (Inl (PrismaException (PrismaClientKnownRequestError ''P2025'')), s)
     | Some c \<Rightarrow> (Inr (), setCursor (network cfg) seq hash s))"
  by (simp add: updateCursor_def repo_updateCursor_def cursorsOp_def zoom_def cursorOf_def setCursor_def bindM_def
      split: option.split)

lemma find_network_updateFirst:
  fixes t :: "ledger_cursor list"
  assumes "\<And>r. lc_network (f r) = lc_network r" "\<And>r. deletedAt (f r) = deletedAt r"
  shows "find (live (\<lambda>r. lc_network r = m)) (updateFirst (live (\<lambda>r. lc_network r = n)) f t) =
    (if m = n then map_option f (find (live (\<lambda>r. lc_network r = n)) t) else find (live (\<lambda>r. lc_network r = m)) t)"
  using assms by (induction t) (auto simp: live_def)

lemma cursorOf_setCursor [simp]:
  "cursorOf (setCursor n seq hash s) m =
    (if m = n then map_option (\<lambda>r. r\<lparr>lc_lastLedgerSeq := seq, lc_lastLedgerHash := hash\<rparr>) (cursorOf s n) else cursorOf s m)"
  by (simp add: cursorOf_def setCursor_def find_network_updateFirst)

lemma isEventProcessed_run [simp]:
  "runtime env \<Longrightarrow> isEventProcessed env cfg i s = (Inr (seenEvent s (network cfg) i), s)"
  by (simp add: isEventProcessed_def countByEventAndNetwork_def processedOp_def zoom_def bindM_def seenEvent_def
      list_ex_iff filter_empty_conv)

text \<open>
  Marking is an upsert on the event identifier alone; it makes the event count as processed
  on this network provided no other network has used the identifier.
\<close>

definition oneNetwork :: "string \<Rightarrow> db \<Rightarrow> bool" where
  "oneNetwork n s \<longleftrightarrow> list_all (\<lambda>r. pe_network r = n) (processedEvents s)"

lemma markEventProcessed_cases:
  assumes "runtime env"
  shows "(\<exists>e. markEventProcessed env cfg i l c ty h s = (Inl e, s)) \<or>
    (\<exists>t. markEventProcessed env cfg i l c ty h s = (Inr (), s\<lparr>processedEvents := t\<rparr>) \<and>
       ((\<exists>r. t = processedEvents s @ [r] \<and> pe_eventId r = i \<and> pe_network r = network cfg \<and> deletedAt r = None) \<or>
        (i \<in> pe_eventId ` set (processedEvents s) \<and>
         t = updateFirst (\<lambda>r. pe_eventId r = i) (deletedAt_update (\<lambda>_. None)) (processedEvents s))))"
proof (cases "find (\<lambda>r. pe_eventId r = i) (processedEvents s)")
  case None
  let ?r = "newRow (rowOf \<lparr>rowId = '''', deletedAt = None, pe_eventId = i, pe_network = network cfg,
       pe_ledgerSeq = l, pe_contractId = c, pe_eventType = ty, pe_transactionHash = h\<rparr>)
     (genId (processedEventE (prisma env)) (processedEvents s))"
  have r: "pe_eventId ?r = i" "pe_network ?r = network cfg" "deletedAt ?r = None"
    by (simp_all add: newRow_def rowOf_def)
  have run: "markEventProcessed env cfg i l c ty h s =
    (case violates (processedEventE (prisma env)) ?r (processedEvents s) of
       Some code \<Rightarrow> (Inl (PrismaException (PrismaClientKnownRequestError code)), s)
     | None \<Rightarrow> (Inr (), s\<lparr>processedEvents := processedEvents s @ [?r]\<rparr>))"
    using None assms
    by (simp add: markEventProcessed_def processed_upsertEvent_def processedOp_def zoom_def bindM_def Let_def
        split: option.split)
  show ?thesis
    unfolding run using r by (cases "violates (processedEventE (prisma env)) ?r (processedEvents s)") auto
next
  case (Some r)
  then have "i \<in> pe_eventId ` set (processedEvents s)" using find_Some_mem by fastforce
  with Some assms show ?thesis
    by (intro disjI2 exI [of _ "updateFirst (\<lambda>r. pe_eventId r = i) (deletedAt_update (\<lambda>_. None)) (processedEvents s)"])
      (simp add: markEventProcessed_def processed_upsertEvent_def processedOp_def zoom_def bindM_def)
qed

definition revived :: "string \<Rightarrow> processed_event list \<Rightarrow> processed_event list" where
  "revived i t = updateFirst (\<lambda>r. pe_eventId r = i) (deletedAt_update (\<lambda>_. None)) t"

lemma revived_seen:
  "i \<in> pe_eventId ` set t \<Longrightarrow> list_all (\<lambda>r. pe_network r = n) t \<Longrightarrow>
   list_ex (live (\<lambda>r. pe_eventId r = i \<and> pe_network r = n)) (revived i t)"
  by (induction t) (auto simp: live_def revived_def)

lemma revived_keeps_seen:
  "list_ex (live (\<lambda>r. pe_eventId r = j \<and> pe_network r = n)) t \<Longrightarrow>
   list_ex (live (\<lambda>r. pe_eventId r = j \<and> pe_network r = n)) (revived i t)"
  by (induction t) (auto simp: live_def revived_def)

lemma revived_network: "list_all (\<lambda>r. pe_network r = n) t \<Longrightarrow> list_all (\<lambda>r. pe_network r = n) (revived i t)"
  by (induction t) (auto simp: revived_def)

lemma mark_seen:
  assumes "runtime env" "oneNetwork (network cfg) s" "markEventProcessed env cfg i l c ty h s = (Inr u, s')"
  shows "seenEvent s' (network cfg) i"
  using markEventProcessed_cases [OF assms(1), of cfg i l c ty h s] assms(2,3) revived_seen [of i "processedEvents s" "network cfg"]
  by (auto simp: seenEvent_def oneNetwork_def live_def revived_def)

lemma mark_keeps_seen:
  assumes "runtime env" "seenEvent s n j"
  shows "seenEvent (snd (markEventProcessed env cfg i l c ty h s)) n j"
  using markEventProcessed_cases [OF assms(1), of cfg i l c ty h s] assms(2) revived_keeps_seen [of j n "processedEvents s" i]
  by (auto simp: seenEvent_def revived_def)

lemma mark_keeps_network:
  assumes "runtime env" "oneNetwork (network cfg) s"
  shows "oneNetwork (network cfg) (snd (markEventProcessed env cfg i l c ty h s))"
  using markEventProcessed_cases [OF assms(1), of cfg i l c ty h s] assms(2) revived_network [of "network cfg" "processedEvents s" i]
  by (auto simp: oneNetwork_def revived_def)

section \<open>Reorganisations\<close>

text \<open>
  Roll-back after a reorganisation. With a cursor on record, handling a detected
  reorganisation succeeds: it returns a ledger that is never negative and never more than the
  configured threshold below the last valid ledger, deletes for good exactly the processed
  events of this network above that ledger (so that they are processed again), moves the
  cursor there and forgets its hash. Without a reorganisation nothing changes.
\<close>

theorem reorg_rollback:
  assumes "runtime env" "cursorOf s (network cfg) = Some c"
  shows "(\<not> hasReorg r \<longrightarrow> handleReorg env cfg r s = (Inr (newLatestLedger r), s)) \<and>
    (hasReorg r \<longrightarrow> (\<exists>safe s'. handleReorg env cfg r s = (Inr safe, s') \<and> 0 \<le> safe \<and>
      lastValidLedger r - reorgDepthThreshold cfg \<le> safe \<and>
      processedEvents s' = filter (\<lambda>e. \<not> (pe_network e = network cfg \<and> pe_ledgerSeq e > safe)) (processedEvents s) \<and>
      cursorOf s' (network cfg) = Some (c\<lparr>lc_lastLedgerSeq := safe, lc_lastLedgerHash := None\<rparr>)))"
proof (cases "hasReorg r")
  case False
  then show ?thesis by (simp add: handleReorg_def)
next
  case True
  define safe where "safe = max 0 (lastValidLedger r - min (reorgDepth r + 2) (reorgDepthThreshold cfg))"
  let ?P = "\<lambda>e. pe_network e = network cfg \<and> pe_ledgerSeq e > safe"
  let ?w = "\<lparr>wa_id = None, wa_cond = ?P,
    wa_json = JObj [(''network'', JStr (network cfg)), (''ledgerSeq'', JObj [(''gt'', JNum (of_int safe))])]\<rparr>"
  let ?s1 = "s\<lparr>processedEvents := filter (\<lambda>e. \<not> ?P e) (processedEvents s)\<rparr>"
  let ?why = "Some (''Blockchain re-org rollback to ledger '' @ showInt safe)"
  obtain l where audit: "recordPurgeAudit env (delegateKey (processedEventE (prisma env))) (wa_id ?w) (wa_json ?w) ?why
      (Some (length (filter ?P (processedEvents s)))) ?s1 = (Inr (), ?s1\<lparr>auditLogs := l\<rparr>)"
    using recordPurgeAudit_ok [OF assms(1)] by blast
  have cond: "whereArg ?w = ?P" by (simp add: whereArg_def fun_eq_iff)
  have del: "hardDeleteMany env processedEvents processedEvents_update (processedEventE (prisma env)) ?w ?why s =
      (Inr (length (filter ?P (processedEvents s))), ?s1\<lparr>auditLogs := l\<rparr>)"
    using assms(1) audit unfolding hardDeleteMany_def cond by (simp add: zoom_def bindM_def)
  have cur: "cursorOf (?s1\<lparr>auditLogs := l\<rparr>) (network cfg) = Some c"
    using assms(2) by (simp add: cursorOf_def)
  let ?s2 = "setCursor (network cfg) safe None (?s1\<lparr>auditLogs := l\<rparr>)"
  have upd: "updateCursor env cfg safe None (?s1\<lparr>auditLogs := l\<rparr>) = (Inr (), ?s2)"
    using updateCursor_run [OF assms(1), of cfg safe None] cur by simp
  have run: "handleReorg env cfg r s = (Inr safe, ?s2)"
    unfolding handleReorg_def Let_def safe_def [symmetric]
    by (simp only: True not_True_eq_False if_False returnM_run bindM_Inr [of "hardDeleteMany env processedEvents processedEvents_update (processedEventE (prisma env)) ?w ?why" s, OF del]
        bindM_Inr [of "updateCursor env cfg safe None" "?s1\<lparr>auditLogs := l\<rparr>", OF upd])
  have "cursorOf ?s2 (network cfg) = Some (c\<lparr>lc_lastLedgerSeq := safe, lc_lastLedgerHash := None\<rparr>)"
    using cur by simp
  moreover have "processedEvents ?s2 = filter (\<lambda>e. \<not> ?P e) (processedEvents s)" by (simp add: setCursor_def)
  moreover have "0 \<le> safe" "lastValidLedger r - reorgDepthThreshold cfg \<le> safe" by (simp_all add: safe_def)
  ultimately show ?thesis using run True by blast
qed

text \<open>A cursor on testnet, with one processed event at ledger 95 and one at 99.\<close>

definition sampleConfig :: indexer_config where
  "sampleConfig = \<lparr>network = ''testnet'', reorgDepthThreshold = 5, INDEXER_START_LEDGER = None,
     maxEventsPerFetch = 100, contractConfig = (\<lambda>k. None)\<rparr>"

definition sampleCursor :: ledger_cursor where
  "sampleCursor = \<lparr>rowId = ''c-1'', deletedAt = None, lc_network = ''testnet'', lc_lastLedgerSeq = 100,
     lc_lastLedgerHash = None\<rparr>"

definition sampleProcessed :: "string \<Rightarrow> int \<Rightarrow> processed_event" where
  "sampleProcessed i l = \<lparr>rowId = i, deletedAt = None, pe_eventId = i, pe_network = ''testnet'', pe_ledgerSeq = l,
     pe_contractId = ''C'', pe_eventType = ''contrib'', pe_transactionHash = ''tx''\<rparr>"

definition chainDb :: db where
  "chainDb = emptyDb\<lparr>ledgerCursors := [sampleCursor], processedEvents := [sampleProcessed ''e-95'' 95, sampleProcessed ''e-99'' 99]\<rparr>"

lemma sampleCursor_found: "cursorOf chainDb (network sampleConfig) = Some sampleCursor"
  by (simp add: cursorOf_def chainDb_def sampleConfig_def sampleCursor_def live_def)

theorem reorg_rollback_witness:
  "\<exists>safe s'. handleReorg memoryEnv sampleConfig
      \<lparr>hasReorg = True, reorgDepth = 1, lastValidLedger = 99, newLatestLedger = 100\<rparr> chainDb = (Inr safe, s') \<and>
    94 \<le> safe \<and> (\<forall>e\<in>set (processedEvents s'). pe_ledgerSeq e \<le> safe \<or> pe_network e \<noteq> ''testnet'')"
proof -
  let ?r = "\<lparr>hasReorg = True, reorgDepth = 1, lastValidLedger = 99, newLatestLedger = 100\<rparr>"
  obtain safe s' where run: "handleReorg memoryEnv sampleConfig ?r chainDb = (Inr safe, s')"
    and safe: "lastValidLedger ?r - reorgDepthThreshold sampleConfig \<le> safe"
    and ev: "processedEvents s' = filter (\<lambda>e. \<not> (pe_network e = network sampleConfig \<and> pe_ledgerSeq e > safe)) (processedEvents chainDb)"
    using reorg_rollback [OF memoryEnv_laws sampleCursor_found, of ?r] by auto
  have "94 \<le> safe" using safe by (simp add: sampleConfig_def)
  moreover have "\<forall>e\<in>set (processedEvents s'). pe_ledgerSeq e \<le> safe \<or> pe_network e \<noteq> ''testnet''"
    unfolding ev by (auto simp: sampleConfig_def)
  ultimately show ?thesis using run by blast
qed

end
