(* ===== verification/Once.thy ===== *)
theory Once
  imports Prelude
begin

text \<open>
  The contract of an operation that must take effect at most once per key: processing a
  chain event, redeeming a login nonce. The locale fixes the attempt, the key of an item
  and the view that tells which keys are used up; its lemma counts the successes along any
  sequence of attempts, failures and repetitions included.
\<close>

text \<open>Attempts in sequence, each with its outcome; a throw counts as no success and the next attempt goes on.\<close>

fun attempts_run :: "('e \<Rightarrow> ('s, bool) sm) \<Rightarrow> 'e list \<Rightarrow> 's \<Rightarrow> ('e \<times> bool) list \<times> 's" where
  "attempts_run attempt [] s = ([], s)"
| "attempts_run attempt (e # es) s =
    (let (r, s') = attempt e s; (rs, s'') = attempts_run attempt es s' in ((e, r = Inr True) # rs, s''))"

definition successes :: "('e \<Rightarrow> 'k) \<Rightarrow> 'k \<Rightarrow> ('e \<times> bool) list \<Rightarrow> nat" where
  "successes key k rs = length (filter (\<lambda>(e, ok). ok \<and> key e = k) rs)"

locale at_most_once =
  fixes attempt :: "'e \<Rightarrow> ('s, bool) sm" and key :: "'e \<Rightarrow> 'k" and used :: "'s \<Rightarrow> 'k \<Rightarrow> bool" and inv :: "'s \<Rightarrow> bool"
  assumes claims: "inv s \<Longrightarrow> attempt e s = (Inr True, s') \<Longrightarrow> used s' (key e)"
    and refuses: "used s (key e) \<Longrightarrow> fst (attempt e s) \<noteq> Inr True"
    and stays: "inv s \<Longrightarrow> used s k \<Longrightarrow> used (snd (attempt e s)) k"
    and inv_kept: "inv s \<Longrightarrow> inv (snd (attempt e s))"
begin

lemma none_after_use: "inv s \<Longrightarrow> used s k \<Longrightarrow> successes key k (fst (attempts_run attempt es s)) = 0"
proof (induction es arbitrary: s)
  case Nil
  then show ?case by (simp add: successes_def)
next
  case (Cons e es)
  obtain r s' where run: "attempt e s = (r, s')" by (cases "attempt e s") auto
  have "inv s'" "used s' k" using inv_kept [OF Cons.prems(1)] stays [OF Cons.prems] run by (metis snd_conv)+
  then have "successes key k (fst (attempts_run attempt es s')) = 0" by (rule Cons.IH)
  moreover have "r \<noteq> Inr True \<or> key e \<noteq> k" using refuses [of s e] Cons.prems(2) run by auto
  ultimately show ?case by (auto simp: run successes_def split: prod.split)
qed

lemma at_most_one_success: "inv s \<Longrightarrow> successes key k (fst (attempts_run attempt es s)) \<le> 1"
proof (induction es arbitrary: s)
  case Nil
  then show ?case by (simp add: successes_def)
next
  case (Cons e es)
  obtain r s' where run: "attempt e s = (r, s')" by (cases "attempt e s") auto
  have inv': "inv s'" using inv_kept [OF Cons.prems] run by (metis snd_conv)
  show ?case
  proof (cases "r = Inr True \<and> key e = k")
    case True
    then have "used s' k" using claims [OF Cons.prems, of e s'] run by simp
    with inv' have "successes key k (fst (attempts_run attempt es s')) = 0" by (rule none_after_use)
    then show ?thesis by (auto simp: run successes_def split: prod.split)
  next
    case False
    with Cons.IH [OF inv'] show ?thesis by (auto simp: run successes_def split: prod.split)
  qed
qed

end

end
