(* ===== verification/Indexer.thy ===== *)
theory Indexer
  imports LedgerTracker Once
begin

text \<open>
  \<open>indexer/services/indexer.service.ts\<close>: polling the Stellar RPC endpoint, processing each
  event at most once, and advancing the cursor. The state of the service is the record
  \<open>istate\<close>: the database and queues, the state \<open>'r\<close> of the RPC endpoint behind its breaker,
  the two flags and the registered interval. The RPC client, its breaker, \<open>randomUUID\<close> and
  the parsing of date texts are parameters. The paging loop of \<open>fetchEvents\<close> takes fuel and
  returns \<open>None\<close> when the fuel is used up; \<open>fetch_terminates\<close> says how much is enough.
\<close>

section \<open>Types\<close>

record SorobanEvent =
  se_type :: string
  se_ledger :: int
  se_ledgerClosedAt :: string
  se_contractId :: string
  se_id :: string
  se_pagingToken :: string
  se_topic :: "string list"
  se_value :: string
  se_inSuccessfulContractCall :: bool
  se_txHash :: string

text \<open>
  An event of the RPC response, with the texts that \<open>toString()\<close> gives for its contract,
  topics and value; \<open>contractId\<close>, \<open>txHash\<close> and \<open>transactionHash\<close> may be absent.
\<close>

record RpcEvent =
  re_type :: string
  re_ledger :: int
  re_ledgerClosedAt :: string
  re_contractId :: "string option"
  re_id :: string
  re_pagingToken :: string
  re_topic :: "string list"
  re_value :: string
  re_inSuccessfulContractCall :: bool
  re_txHash :: "string option"
  re_transactionHash :: "string option"

record EventFilter =
  ef_type :: string
  ef_contractIds :: "string list option"

record EventsRequest =
  rq_startLedger :: int
  rq_filters :: "EventFilter list"
  rq_limit :: nat
  rq_cursor :: "string option"

record EventsResponse =
  er_events :: "RpcEvent list option"
  er_cursor :: "string option"

record ('x, 'r) indexer_env =
  ie_env :: env
  ie_cfg :: indexer_config
  ie_js :: js_library
  ie_sdk :: "'x stellar_sdk"
  ie_parseDate :: "string \<Rightarrow> int option"
  ie_randomUUID :: "string \<Rightarrow> string"
  ie_prismaMessage :: "prisma_error \<Rightarrow> string"
  rpcGetEvents :: "EventsRequest \<Rightarrow> ('r, EventsResponse) sm"
  rpcGetLatestLedger :: "('r, int) sm"
  rpcGetHealth :: "('r, string) sm"
  fireEvents :: "('r, EventsResponse) sm \<Rightarrow> ('r, EventsResponse) sm"
  fireLedger :: "('r, int) sm \<Rightarrow> ('r, int) sm"
  fireHealth :: "('r, string) sm \<Rightarrow> ('r, string) sm"

record 'r istate =
  iworld :: world
  rpcState :: 'r
  isRunning :: bool
  isShuttingDown :: bool
  pollIntervalMs :: int
  scheduledInterval :: "int option"

definition onWorld :: "(world, 'a) sm \<Rightarrow> ('r istate, 'a) sm" where
  "onWorld m = zoom iworld iworld_update m"

definition onRpc :: "('r, 'a) sm \<Rightarrow> ('r istate, 'a) sm" where
  "onRpc m = zoom rpcState rpcState_update m"

section \<open>Configuration\<close>

text \<open>\<open>if (x) contracts.push(x)\<close> for the six contracts; an empty text is falsy.\<close>

definition getContractIds :: "indexer_config \<Rightarrow> string list" where
  "getContractIds cfg = concat (map (\<lambda>key. case contractConfig cfg key of
       None \<Rightarrow> [] | Some c \<Rightarrow> if c = [] then [] else [c])
     [''PROJECT_LAUNCH_CONTRACT_ID'', ''ESCROW_CONTRACT_ID'', ''PROFIT_DISTRIBUTION_CONTRACT_ID'',
      ''SUBSCRIPTION_POOL_CONTRACT_ID'', ''GOVERNANCE_CONTRACT_ID'', ''REPUTATION_CONTRACT_ID''])"

definition eventFilters :: "string list \<Rightarrow> EventFilter list" where
  "eventFilters contractIds =
    (if contractIds \<noteq> [] then map (\<lambda>c. \<lparr>ef_type = ''contract'', ef_contractIds = Some [c]\<rparr>) contractIds
     else [\<lparr>ef_type = ''contract'', ef_contractIds = None\<rparr>])"

text \<open>\<open>onRetry\<close> only logs.\<close>

definition rpcRetryPolicy :: RetryOptions where
  "rpcRetryPolicy = STELLAR_RPC_POLICY"

section \<open>RPC\<close>

definition getLatestLedger :: "('x, 'r) indexer_env \<Rightarrow> ('r istate, int) sm" where
  "getLatestLedger ie = onRpc (withResilience (\<lambda>_. returnM ()) (random (ie_env ie)) (fireLedger ie)
     (rpcGetLatestLedger ie) (Some rpcRetryPolicy) None)"

fun orText :: "string option \<Rightarrow> string \<Rightarrow> string" where
  "orText None d = d"
| "orText (Some s) d = (if s = [] then d else s)"

definition transformRpcEvent :: "RpcEvent \<Rightarrow> error + SorobanEvent" where
  "transformRpcEvent event =
    (case re_contractId event of
       None \<Rightarrow> Inl (PlainError ''Cannot read properties of undefined (reading 'toString')'')
     | Some c \<Rightarrow> Inr \<lparr>se_type = re_type event, se_ledger = re_ledger event,
         se_ledgerClosedAt = re_ledgerClosedAt event, se_contractId = c, se_id = re_id event,
         se_pagingToken = re_pagingToken event, se_topic = re_topic event, se_value = re_value event,
         se_inSuccessfulContractCall = re_inSuccessfulContractCall event,
         se_txHash = orText (re_txHash event) (orText (re_transactionHash event) [])\<rparr>)"

fun transformAll :: "RpcEvent list \<Rightarrow> error + SorobanEvent list" where
  "transformAll [] = Inr []"
| "transformAll (e # es) =
    (case transformRpcEvent e of Inl x \<Rightarrow> Inl x
     | Inr e' \<Rightarrow> (case transformAll es of Inl x \<Rightarrow> Inl x | Inr es' \<Rightarrow> Inr (e' # es')))"

definition fetchPage :: "('x, 'r) indexer_env \<Rightarrow> int \<Rightarrow> string option \<Rightarrow> ('r istate, EventsResponse) sm" where
  "fetchPage ie startLedger cursor = onRpc (withResilience (\<lambda>_. returnM ()) (random (ie_env ie)) (fireEvents ie)
     (rpcGetEvents ie \<lparr>rq_startLedger = startLedger, rq_filters = eventFilters (getContractIds (ie_cfg ie)),
        rq_limit = maxEventsPerFetch (ie_cfg ie), rq_cursor = cursor\<rparr>) (Some rpcRetryPolicy) None)"

text \<open>The \<open>do\<close> loop; the first argument is fuel.\<close>

fun fetchLoop ::
  "nat \<Rightarrow> ('x, 'r) indexer_env \<Rightarrow> int \<Rightarrow> string option \<Rightarrow> SorobanEvent list \<Rightarrow> 'r istate \<Rightarrow>
   ((error + SorobanEvent list) \<times> 'r istate) option" where
  "fetchLoop 0 ie startLedger cursor events s = None"
| "fetchLoop (Suc fuel) ie startLedger cursor events s =
    (case fetchPage ie startLedger cursor s of
       (Inl e, s') \<Rightarrow> Some (Inl e, s')
     | (Inr response, s') \<Rightarrow>
        (case transformAll (case er_events response of None \<Rightarrow> [] | Some es \<Rightarrow> es) of
           Inl e \<Rightarrow> Some (Inl e, s')
         | Inr new \<Rightarrow>
            (if length (events @ new) \<ge> maxEventsPerFetch (ie_cfg ie) * 5 then Some (Inr (events @ new), s')
             else if orText (er_cursor response) [] \<noteq> []
             then fetchLoop fuel ie startLedger (er_cursor response) (events @ new) s'
             else Some (Inr (events @ new), s'))))"

definition fetchEvents ::
  "nat \<Rightarrow> ('x, 'r) indexer_env \<Rightarrow> int \<Rightarrow> 'r istate \<Rightarrow> ((error + SorobanEvent list) \<times> 'r istate) option" where
  "fetchEvents fuel ie startLedger s = fetchLoop fuel ie startLedger None [] s"

section \<open>One event\<close>

definition isMarked :: "members \<Rightarrow> bool" where
  "isMarked data \<longleftrightarrow> (case map_of data ''_quarantined'' of None \<Rightarrow> False | Some v \<Rightarrow> truthy v)"

definition parseEvent :: "('x, 'r) indexer_env \<Rightarrow> SorobanEvent \<Rightarrow> ParsedContractEvent option" where
  "parseEvent ie event =
    (case se_topic event of
       [] \<Rightarrow> None
     | eventTypeSymbol # _ \<Rightarrow>
        (if eventTypeSymbol = [] then None
         else case parseEventType eventTypeSymbol of
           None \<Rightarrow> None
         | Some eventType \<Rightarrow>
            (let decoded = decode (ie_js ie) (ie_sdk ie) (se_value event) eventType in
             Some \<lparr>ev_eventId = se_id event, ev_ledgerSeq = se_ledger event,
               ev_ledgerClosedAt = ie_parseDate ie (se_ledgerClosedAt event), ev_contractId = se_contractId event,
               ev_eventType = eventType, ev_transactionHash = se_txHash event, ev_data = de_data decoded,
               ev_quarantined = isMarked (de_data decoded),
               ev_inSuccessfulContractCall = se_inSuccessfulContractCall event\<rparr>)))"

fun textMember :: "members \<Rightarrow> string \<Rightarrow> string \<Rightarrow> string" where
  "textMember data key d = (case map_of data key of Some (JStr s) \<Rightarrow> (if s = [] then d else s) | _ \<Rightarrow> d)"

definition quarantineEvent :: "('x, 'r) indexer_env \<Rightarrow> ParsedContractEvent \<Rightarrow> SorobanEvent \<Rightarrow> (world, unit) sm" where
  "quarantineEvent ie parsedEvent event =
     catchM (bindM (inStore (quarantined_upsertEvent (ie_env ie)
         \<lparr>rowId = '''', deletedAt = None, qe_eventId = se_id event, qe_network = network (ie_cfg ie),
          qe_contractId = se_contractId event, qe_eventType = eventTypeText (ev_eventType parsedEvent),
          qe_ledgerSeq = se_ledger event, qe_transactionHash = se_txHash event,
          qe_rawXdr = textMember (ev_data parsedEvent) ''rawXdr'' (se_value event),
          qe_reason = textMember (ev_data parsedEvent) ''_quarantineReason'' ''unknown''\<rparr>)) (\<lambda>_. returnM ()))
       (\<lambda>_. returnM ())"

definition markEvent :: "('x, 'r) indexer_env \<Rightarrow> ParsedContractEvent \<Rightarrow> SorobanEvent \<Rightarrow> (world, unit) sm" where
  "markEvent ie parsedEvent event = inStore (markEventProcessed (ie_env ie) (ie_cfg ie) (se_id event) (se_ledger event)
     (se_contractId event) (eventTypeText (ev_eventType parsedEvent)) (se_txHash event))"

definition processEventInternal :: "('x, 'r) indexer_env \<Rightarrow> SorobanEvent \<Rightarrow> (world, bool) sm" where
  "processEventInternal ie event =
     bindM (inStore (isEventProcessed (ie_env ie) (ie_cfg ie) (se_id event))) (\<lambda>isProcessed.
     if isProcessed then returnM False
     else case parseEvent ie event of
       None \<Rightarrow> returnM False
     | Some parsedEvent \<Rightarrow>
        (if ev_quarantined parsedEvent then
           bindM (quarantineEvent ie parsedEvent event) (\<lambda>_.
           bindM (markEvent ie parsedEvent event) (\<lambda>_. returnM False))
         else
           bindM (handler_processEvent (ie_env ie) (ie_js ie) parsedEvent) (\<lambda>success.
           if success then bindM (markEvent ie parsedEvent event) (\<lambda>_. returnM True) else returnM False)))"

text \<open>Each event runs in a tracing context of its own.\<close>

definition indexer_processEvent :: "('x, 'r) indexer_env \<Rightarrow> SorobanEvent \<Rightarrow> (world, bool) sm" where
  "indexer_processEvent ie event =
     processEventInternal
       (ie\<lparr>ie_env := (ie_env ie)\<lparr>correlationId := Some (ie_randomUUID ie (se_id event))\<rparr>\<rparr>) event"

section \<open>Polling\<close>

definition errorText :: "('x, 'r) indexer_env \<Rightarrow> error \<Rightarrow> string" where
  "errorText ie e = errorMessage (ie_prismaMessage ie) e"

text \<open>The loop over the fetched events: processed count, error count, last successful ledger.\<close>

fun processLoop ::
  "('x, 'r) indexer_env \<Rightarrow> SorobanEvent list \<Rightarrow> nat \<Rightarrow> nat \<Rightarrow> int \<Rightarrow> (world, nat \<times> nat \<times> int) sm" where
  "processLoop ie [] processedCount errorCount lastLedger = returnM (processedCount, errorCount, lastLedger)"
| "processLoop ie (event # events) processedCount errorCount lastLedger = (\<lambda>w.
    case indexer_processEvent ie event w of
      (Inr True, w') \<Rightarrow>
        processLoop ie events (processedCount + 1) errorCount
          (if se_ledger event > lastLedger then se_ledger event else lastLedger) w'
    | (Inr False, w') \<Rightarrow> processLoop ie events processedCount errorCount lastLedger w'
    | (Inl e, w') \<Rightarrow>
        bindM (inStore (logError (ie_env ie) (''Event processing failed: '' @ se_id event)
            (JObj [(''eventId'', JStr (se_id event)), (''error'', JStr (errorText ie e))])))
          (\<lambda>_. processLoop ie events processedCount (errorCount + 1) lastLedger) w')"

definition processBatch :: "('x, 'r) indexer_env \<Rightarrow> int \<Rightarrow> int \<Rightarrow> SorobanEvent list \<Rightarrow> (world, unit) sm" where
  "processBatch ie startLedger latestLedger events =
    (let env = ie_env ie; cfg = ie_cfg ie in
     if events = [] then inStore (updateCursor env cfg latestLedger None)
     else
       bindM (processLoop ie events 0 0 (startLedger - 1)) (\<lambda>(processedCount, errorCount, lastSuccessfulLedger).
       bindM (inStore (getLastCursor env cfg)) (\<lambda>cursor.
       bindM (if lastSuccessfulLedger > (case cursor of None \<Rightarrow> 0 | Some c \<Rightarrow> cur_lastLedgerSeq c)
              then inStore (updateCursor env cfg lastSuccessfulLedger None) else returnM ()) (\<lambda>_.
       inStore (logProgress env cfg lastSuccessfulLedger latestLedger processedCount)))))"

definition pollStart :: "('x, 'r) indexer_env \<Rightarrow> ('r istate, int \<times> int) sm" where
  "pollStart ie =
     bindM (onWorld (inStore (getLastCursor (ie_env ie) (ie_cfg ie)))) (\<lambda>cursor.
     bindM (getLatestLedger ie) (\<lambda>latestLedger.
     returnM (case cursor of None \<Rightarrow> 1 | Some c \<Rightarrow> cur_lastLedgerSeq c + 1, latestLedger)))"

definition pollCycle :: "nat \<Rightarrow> ('x, 'r) indexer_env \<Rightarrow> 'r istate \<Rightarrow> ((error + unit) \<times> 'r istate) option" where
  "pollCycle fuel ie s =
    (case pollStart ie s of
       (Inl e, s1) \<Rightarrow> Some (Inl e, s1)
     | (Inr (startLedger, latestLedger), s1) \<Rightarrow>
        (if startLedger > latestLedger then Some (Inr (), s1)
         else case fetchEvents fuel ie startLedger s1 of
           None \<Rightarrow> None
         | Some (Inl e, s2) \<Rightarrow> Some (Inl e, s2)
         | Some (Inr events, s2) \<Rightarrow> Some (onWorld (processBatch ie startLedger latestLedger events) s2)))"

text \<open>\<open>try \<dots> catch { log } finally { isRunning = false }\<close>\<close>

definition pollEvents :: "nat \<Rightarrow> ('x, 'r) indexer_env \<Rightarrow> 'r istate \<Rightarrow> ((error + unit) \<times> 'r istate) option" where
  "pollEvents fuel ie s =
    (if isRunning s then Some (Inr (), s)
     else case pollCycle fuel ie (s\<lparr>isRunning := True\<rparr>) of
       None \<Rightarrow> None
     | Some (Inr u, s1) \<Rightarrow> Some (Inr u, s1\<lparr>isRunning := False\<rparr>)
     | Some (Inl e, s1) \<Rightarrow>
        (let (r, s2) = onWorld (inStore (logError (ie_env ie) ''Poll cycle failed''
               (JObj [(''error'', JStr (errorText ie e))]))) s1
         in Some (r, s2\<lparr>isRunning := False\<rparr>)))"

definition scheduledPoll :: "nat \<Rightarrow> ('x, 'r) indexer_env \<Rightarrow> 'r istate \<Rightarrow> ((error + unit) \<times> 'r istate) option" where
  "scheduledPoll fuel ie s = (if isShuttingDown s then Some (Inr (), s) else pollEvents fuel ie s)"

section \<open>Life cycle\<close>

text \<open>The scheduler registry: a name can be registered once; deleting an unknown name throws.\<close>

definition addInterval :: "int \<Rightarrow> ('r istate, unit) sm" where
  "addInterval ms s =
    (case scheduledInterval s of
       Some _ \<Rightarrow> (Inl (PlainError ''Interval with the given name (indexer-poll) already exists.''), s)
     | None \<Rightarrow> (Inr (), s\<lparr>scheduledInterval := Some ms\<rparr>))"

definition deleteInterval :: "('r istate, unit) sm" where
  "deleteInterval s =
    (case scheduledInterval s of
       None \<Rightarrow> (Inl (PlainError ''No Interval was found with the given name (indexer-poll).''), s)
     | Some _ \<Rightarrow> (Inr (), s\<lparr>scheduledInterval := None\<rparr>))"

definition initializeIndexer :: "('x, 'r) indexer_env \<Rightarrow> ('r istate, unit) sm" where
  "initializeIndexer ie =
     bindM (onRpc (withResilience (\<lambda>_. returnM ()) (random (ie_env ie)) (fireHealth ie)
       (rpcGetHealth ie) (Some rpcRetryPolicy) None)) (\<lambda>_.
     bindM (getLatestLedger ie) (\<lambda>latestLedger.
     bindM (onWorld (inStore (getStartLedger (ie_env ie) (ie_cfg ie) latestLedger))) (\<lambda>_ s.
     addInterval (pollIntervalMs s) s)))"

definition indexer_onModuleInit :: "('x, 'r) indexer_env \<Rightarrow> ('r istate, unit) sm" where
  "indexer_onModuleInit ie = initializeIndexer ie"

definition updatePollInterval :: "int \<Rightarrow> ('r istate, unit) sm" where
  "updatePollInterval intervalMs =
     bindM (catchM deleteInterval (\<lambda>_. returnM ())) (\<lambda>_.
     bindM (addInterval intervalMs) (\<lambda>_ s. (Inr (), s\<lparr>pollIntervalMs := intervalMs\<rparr>)))"

definition getPollInterval :: "'r istate \<Rightarrow> int" where
  "getPollInterval s = pollIntervalMs s"

text \<open>\<open>None\<close>: the wait for a running poll has not ended.\<close>

definition indexer_onModuleDestroy :: "'r istate \<Rightarrow> 'r istate option" where
  "indexer_onModuleDestroy s =
    (let s' = snd (catchM deleteInterval (\<lambda>_. returnM ()) (s\<lparr>isShuttingDown := True\<rparr>))
     in if isRunning s' then None else Some s')"

text \<open>A stub in the source: no hash is read from the network.\<close>

definition getLedgerInfo :: "int \<Rightarrow> LedgerInfo" where
  "getLedgerInfo seq = \<lparr>li_sequence = seq, li_hash = ''''\<rparr>"

section \<open>Parsing\<close>

lemma quarantine_marked [simp]: "isMarked (de_data (quarantine v r))"
  by (simp add: isMarked_def quarantine_def)

lemma conforms_not_marked: "conforms (eventInterface t) ms \<Longrightarrow> \<not> isMarked ms"
  by (simp only: isMarked_def conforms_unmarked option.case not_False_eq_True)

lemma parseEvent_Some:
  assumes "parseEvent ie event = Some p"
  shows "\<exists>ts. se_topic event = eventTypeText (ev_eventType p) # ts"
    and "ev_data p = de_data (decode (ie_js ie) (ie_sdk ie) (se_value event) (ev_eventType p))"
    and "ev_quarantined p = isMarked (ev_data p)"
  using assms by (auto simp: parseEvent_def Let_def parseEventType_Some_iff split: list.splits if_splits option.splits)

text \<open>
  C25. Payload types. Every event the indexer parses names one of the contract event types in
  its first topic; it is quarantined exactly when stellar-sdk cannot read its value, and
  otherwise its payload has exactly the fields and field types that the TypeScript interface
  of its event type declares, so that no handler ever sees a missing or mistyped field.
\<close>

theorem parsed_events_typed:
  assumes "parseEvent ie event = Some p"
  shows "parseEventType (hd (se_topic event)) = Some (ev_eventType p) \<and>
    (ev_quarantined p \<longleftrightarrow> (case fromXDR (ie_sdk ie) (se_value event) of
        Inl m \<Rightarrow> True | Inr x \<Rightarrow> (case scValToNative (ie_sdk ie) x of Inl m \<Rightarrow> True | Inr n \<Rightarrow> False))) \<and>
    (if ev_quarantined p then conforms QuarantineMarker (ev_data p)
     else conforms (eventInterface (ev_eventType p)) (ev_data p))"
proof -
  let ?d = "decode (ie_js ie) (ie_sdk ie) (se_value event) (ev_eventType p)"
  note facts = parseEvent_Some [OF assms]
  have topic: "parseEventType (hd (se_topic event)) = Some (ev_eventType p)" using facts(1) by auto
  consider (invalid) m where "fromXDR (ie_sdk ie) (se_value event) = Inl m"
    | (undecodable) x m where "fromXDR (ie_sdk ie) (se_value event) = Inr x" "scValToNative (ie_sdk ie) x = Inl m"
    | (ok) x n where "fromXDR (ie_sdk ie) (se_value event) = Inr x" "scValToNative (ie_sdk ie) x = Inr n"
    by (cases "fromXDR (ie_sdk ie) (se_value event)"; cases "scValToNative (ie_sdk ie) (projr (fromXDR (ie_sdk ie) (se_value event)))") auto
  then show ?thesis
  proof cases
    case invalid
    then have "?d = quarantine (se_value event) (''invalid_xdr: '' @ m)" by (rule decode_invalid)
    then have "isMarked (ev_data p)" "conforms QuarantineMarker (ev_data p)"
      by (simp_all only: facts(2) quarantine_marked quarantine_conforms)
    with facts(3) topic invalid show ?thesis by simp
  next
    case undecodable
    then have "?d = quarantine (se_value event) (''undecodable_scval: '' @ m)" by (rule decode_undecodable)
    then have "isMarked (ev_data p)" "conforms QuarantineMarker (ev_data p)"
      by (simp_all only: facts(2) quarantine_marked quarantine_conforms)
    with facts(3) topic undecodable show ?thesis by simp
  next
    case ok
    have "conforms (eventInterface (ev_eventType p)) (ev_data p)" unfolding facts(2) using decode_conforms [OF ok] by blast
    with facts(3) topic ok conforms_not_marked [OF this] show ?thesis by simp
  qed
qed

section \<open>Each event at most once\<close>

lemma runtime_correlation [simp]: "runtime env \<Longrightarrow> runtime (env\<lparr>correlationId := c\<rparr>)"
  by (simp add: runtime_def)

lemma keeps_view: "(\<And>x. keeps (\<lambda>s. f s = x) m) \<Longrightarrow> keeps (\<lambda>s. Q (f s)) m"
  by (auto simp: keeps_def)

lemma handlerFrame_tables [simp]:
  "handlerFrame processedEvents" "handlerFrame quarantinedEvents" "handlerFrame indexerLogs" "handlerFrame ledgerCursors"
  by (simp_all add: handlerFrame_def sideFrame_def)

lemma seen_event_skipped:
  assumes "runtime (ie_env ie)" "seenEvent (store w) (network (ie_cfg ie)) (se_id event)"
  shows "indexer_processEvent ie event w = (Inr False, w)"
  using assms by (simp add: indexer_processEvent_def processEventInternal_def inStore_def zoom_def bindM_def)

lemma quarantine_keeps_processed:
  "keeps (\<lambda>w. processedEvents (store w) = x) (quarantineEvent ie p event)"
  unfolding quarantineEvent_def quarantined_upsertEvent_def
  by (intro keeps_rules keeps_inStore [where I = "\<lambda>s. processedEvents s = x"] keeps_zoom_frame) simp

lemma mark_keeps:
  assumes "runtime (ie_env ie)"
  shows "keeps (\<lambda>w. oneNetwork (network (ie_cfg ie)) (store w)) (markEvent ie p event)"
    and "keeps (\<lambda>w. seenEvent (store w) n j) (markEvent ie p event)"
  unfolding markEvent_def
  by (rule keeps_inStore [where I = "oneNetwork (network (ie_cfg ie))"], rule keepsI, erule mark_keeps_network [OF assms])
    (rule keeps_inStore [where I = "\<lambda>s. seenEvent s n j"], rule keepsI, erule mark_keeps_seen [OF assms])

lemma processEvent_keeps_marks:
  assumes "runtime (ie_env ie)"
  shows "keeps (\<lambda>w. oneNetwork (network (ie_cfg ie)) (store w)) (processEventInternal ie event)"
    and "keeps (\<lambda>w. seenEvent (store w) n j) (processEventInternal ie event)"
proof -
  have check: "keeps I (inStore (isEventProcessed (ie_env ie) (ie_cfg ie) i))" for I i
    using assms by (intro keeps_pure) (simp add: inStore_def zoom_def)
  have h: "keeps (\<lambda>w. Q (processedEvents (store w))) (handler_processEvent (ie_env ie) (ie_js ie) p)" for Q p
    by (rule keeps_view) (rule runtime.processEvent_keeps [OF assms handlerFrame_tables(1)])
  have q: "keeps (\<lambda>w. Q (processedEvents (store w))) (quarantineEvent ie p event)" for Q p
    by (rule keeps_view) (rule quarantine_keeps_processed)
  show "keeps (\<lambda>w. oneNetwork (network (ie_cfg ie)) (store w)) (processEventInternal ie event)"
    unfolding processEventInternal_def
    by (intro keeps_rules check mark_keeps [OF assms]
        h [where Q = "list_all (\<lambda>r. pe_network r = network (ie_cfg ie))", folded oneNetwork_def]
        q [where Q = "list_all (\<lambda>r. pe_network r = network (ie_cfg ie))", folded oneNetwork_def])
  show "keeps (\<lambda>w. seenEvent (store w) n j) (processEventInternal ie event)"
    unfolding processEventInternal_def
    by (intro keeps_rules check mark_keeps [OF assms]
        h [where Q = "list_ex (live (\<lambda>r. pe_eventId r = j \<and> pe_network r = n))", folded seenEvent_def]
        q [where Q = "list_ex (live (\<lambda>r. pe_eventId r = j \<and> pe_network r = n))", folded seenEvent_def])
qed

lemma processEventInternal_True:
  assumes "processEventInternal ie event w = (Inr True, w')"
  shows "\<exists>v w0 p w1. inStore (isEventProcessed (ie_env ie) (ie_cfg ie) (se_id event)) w = (Inr v, w0) \<and>
    handler_processEvent (ie_env ie) (ie_js ie) p w0 = (Inr True, w1) \<and> markEvent ie p event w1 = (Inr (), w')"
  using assms unfolding processEventInternal_def
  by (fastforce elim!: bindM_InrE split: if_splits option.splits)

lemma success_marks:
  assumes "runtime (ie_env ie)" "oneNetwork (network (ie_cfg ie)) (store w)"
    and "processEventInternal ie event w = (Inr True, w')"
  shows "seenEvent (store w') (network (ie_cfg ie)) (se_id event)"
proof -
  have same: "inStore (isEventProcessed (ie_env ie) (ie_cfg ie) (se_id event)) w = (Inr v, w0) \<Longrightarrow> w0 = w" for v w0
    using assms(1) by (simp add: inStore_def zoom_def)
  obtain p w1 where h: "handler_processEvent (ie_env ie) (ie_js ie) p w = (Inr True, w1)"
    and m: "markEvent ie p event w1 = (Inr (), w')"
    using processEventInternal_True [OF assms(3)] same by metis
  have "processedEvents (store w1) = processedEvents (store w)"
    by (rule keeps_run [OF runtime.processEvent_keeps [OF assms(1) handlerFrame_tables(1)] h])
  then have "oneNetwork (network (ie_cfg ie)) (store w1)" using assms(2) by (simp add: oneNetwork_def)
  moreover obtain s' where "markEventProcessed (ie_env ie) (ie_cfg ie) (se_id event) (se_ledger event)
      (se_contractId event) (eventTypeText (ev_eventType p)) (se_txHash event) (store w1) = (Inr (), s')" "store w' = s'"
    using m by (auto simp: markEvent_def inStore_def zoom_def split: prod.splits)
  ultimately show ?thesis using mark_seen [OF assms(1)] by blast
qed

lemma indexer_at_most_once:
  assumes "runtime (ie_env ie)"
  shows "at_most_once (indexer_processEvent ie) se_id (\<lambda>w. seenEvent (store w) (network (ie_cfg ie)))
    (\<lambda>w. oneNetwork (network (ie_cfg ie)) (store w))"
proof
  fix s s' and event :: SorobanEvent and k
  let ?ie = "ie\<lparr>ie_env := (ie_env ie)\<lparr>correlationId := Some (ie_randomUUID ie (se_id event))\<rparr>\<rparr>"
  have rt: "runtime (ie_env ?ie)" using assms by simp
  have cfg: "ie_cfg ?ie = ie_cfg ie" by simp
  show "seenEvent (store s') (network (ie_cfg ie)) (se_id event)"
    if "oneNetwork (network (ie_cfg ie)) (store s)" "indexer_processEvent ie event s = (Inr True, s')"
    using success_marks [OF rt, unfolded cfg, OF that(1)] that(2) by (simp add: indexer_processEvent_def)
  show "fst (indexer_processEvent ie event s) \<noteq> Inr True" if "seenEvent (store s) (network (ie_cfg ie)) (se_id event)"
    using seen_event_skipped [OF assms that] by simp
  show "seenEvent (store (snd (indexer_processEvent ie event s))) (network (ie_cfg ie)) k"
    if "seenEvent (store s) (network (ie_cfg ie)) k"
    using keepsD [OF processEvent_keeps_marks(2) [OF rt]] that by (simp add: indexer_processEvent_def)
  show "oneNetwork (network (ie_cfg ie)) (store (snd (indexer_processEvent ie event s)))"
    if "oneNetwork (network (ie_cfg ie)) (store s)"
    using keepsD [OF processEvent_keeps_marks(1) [OF rt, unfolded cfg]] that by (simp add: indexer_processEvent_def)
qed

text \<open>
  C22. At most once. Along any sequence of processing attempts (the same event fetched again and
  again, events that fail or are quarantined in between, any order), each event identifier is
  handled successfully at most once, as long as the table of processed events holds events of
  one network.
\<close>

theorem events_handled_at_most_once:
  assumes "runtime (ie_env ie)" "oneNetwork (network (ie_cfg ie)) (store w)"
  shows "successes se_id i (fst (attempts_run (indexer_processEvent ie) events w)) \<le> 1"
  using at_most_once.at_most_one_success [OF indexer_at_most_once [OF assms(1)], of w i events] assms(2) by simp

section \<open>What a poll leaves alone\<close>

definition indexerFrame :: "(db \<Rightarrow> 'x) \<Rightarrow> bool" where
  "indexerFrame f \<longleftrightarrow> handlerFrame f \<and> (\<forall>s t. f (processedEvents_update (\<lambda>_. t) s) = f s) \<and>
     (\<forall>s t. f (quarantinedEvents_update (\<lambda>_. t) s) = f s) \<and> (\<forall>s t. f (indexerLogs_update (\<lambda>_. t) s) = f s)"

lemma frame_log:
  "(\<forall>s t. f (indexerLogs_update (\<lambda>_. t) s) = f s) \<Longrightarrow> keeps (\<lambda>w. f (store w) = x) (inStore (logError env m d))"
  "(\<forall>s t. f (indexerLogs_update (\<lambda>_. t) s) = f s) \<Longrightarrow> keeps (\<lambda>w. f (store w) = x) (inStore (logProgress env cfg a b k))"
  unfolding logError_def logProgress_def indexerLog_createLog_def
  by (intro keeps_inStore [where I = "\<lambda>s. f s = x"] keeps_bind keeps_return keeps_zoom_frame, simp)+

lemma frame_event:
  assumes "runtime (ie_env ie)" "indexerFrame f"
  shows "keeps (\<lambda>w. f (store w) = x) (processEventInternal ie event)"
proof -
  have check: "keeps I (inStore (isEventProcessed (ie_env ie) (ie_cfg ie) i))" for I i
    using assms(1) by (intro keeps_pure) (simp add: inStore_def zoom_def)
  have h: "keeps (\<lambda>w. f (store w) = x) (handler_processEvent (ie_env ie) (ie_js ie) p)" for p
    using assms(2) by (intro runtime.processEvent_keeps [OF assms(1)]) (simp add: indexerFrame_def)
  have q: "keeps (\<lambda>w. f (store w) = x) (quarantineEvent ie p event)" for p
    unfolding quarantineEvent_def quarantined_upsertEvent_def using assms(2)
    by (intro keeps_rules keeps_inStore [where I = "\<lambda>s. f s = x"] keeps_zoom_frame) (simp add: indexerFrame_def)
  have m: "keeps (\<lambda>w. f (store w) = x) (markEvent ie p event)" for p
    unfolding markEvent_def markEventProcessed_def processed_upsertEvent_def processedOp_def using assms(2)
    by (intro keeps_rules keeps_inStore [where I = "\<lambda>s. f s = x"] keeps_zoom_frame) (simp add: indexerFrame_def)
  show ?thesis unfolding processEventInternal_def by (intro keeps_rules check h q m)
qed

lemma frame_loop:
  assumes "runtime (ie_env ie)" "indexerFrame f"
  shows "keeps (\<lambda>w. f (store w) = x) (processLoop ie events a b l)"
proof (induction events arbitrary: a b l)
  case Nil
  then show ?case by (intro keepsI) simp
next
  case (Cons e es)
  have ev: "keeps (\<lambda>w. f (store w) = x) (indexer_processEvent ie e)"
    unfolding indexer_processEvent_def using assms by (intro frame_event) simp_all
  have log: "keeps (\<lambda>w. f (store w) = x) (bindM (inStore (logError (ie_env ie) m d)) (\<lambda>_. processLoop ie es a b' l))" for m d b'
    using assms(2) by (intro keeps_bind Cons.IH frame_log) (simp add: indexerFrame_def)
  show ?case
  proof (rule keepsI)
    fix w :: world assume w: "f (store w) = x"
    obtain r w1 where run: "indexer_processEvent ie e w = (r, w1)" by (cases "indexer_processEvent ie e w") auto
    then have "f (store w1) = x" using keepsD [OF ev w] by simp
    then show "f (store (snd (processLoop ie (e # es) a b l w))) = x"
      using Cons.IH [THEN keepsD] log [THEN keepsD] run by (auto split: sum.split bool.split)
  qed
qed

definition startLedgerOf :: "db \<Rightarrow> string \<Rightarrow> int" where
  "startLedgerOf s n = (case cursorOf s n of None \<Rightarrow> 1 | Some c \<Rightarrow> lc_lastLedgerSeq c + 1)"

lemma onRpc_frame: "onRpc m s = (r, s') \<Longrightarrow> iworld s' = iworld s \<and> isRunning s' = isRunning s"
  by (auto simp: onRpc_def zoom_def split: prod.splits)

lemma pollStart_frame:
  assumes "runtime (ie_env ie)" "pollStart ie s = (r, s')"
  shows "iworld s' = iworld s \<and> isRunning s' = isRunning s \<and>
    (\<forall>a b. r = Inr (a, b) \<longrightarrow> a = startLedgerOf (store (iworld s)) (network (ie_cfg ie)))"
proof -
  obtain r2 s2 where rpc: "getLatestLedger ie s = (r2, s2)" by (cases "getLatestLedger ie s") auto
  have "iworld s2 = iworld s \<and> isRunning s2 = isRunning s"
    using rpc unfolding getLatestLedger_def by (rule onRpc_frame)
  with rpc assms show ?thesis
    by (cases r2) (auto simp: pollStart_def bindM_def onWorld_def inStore_def zoom_def startLedgerOf_def toCursor_def
        split: option.splits)
qed

lemma fetchLoop_frame:
  "fetchLoop fuel ie l c events s = Some (r, s') \<Longrightarrow> iworld s' = iworld s \<and> isRunning s' = isRunning s"
proof (induction fuel arbitrary: c events s)
  case 0
  then show ?case by simp
next
  case (Suc fuel)
  obtain r1 s1 where page: "fetchPage ie l c s = (r1, s1)" by (cases "fetchPage ie l c s") auto
  have s1: "iworld s1 = iworld s \<and> isRunning s1 = isRunning s" using page unfolding fetchPage_def by (rule onRpc_frame)
  show ?case
    using Suc.prems Suc.IH [of _ _ s1] s1 by (auto simp: page split: sum.splits if_splits)
qed

text \<open>A poll does nothing to the world, or processes a batch from the cursor on, and may log a failure.\<close>

lemma pollEvents_keeps:
  assumes "runtime (ie_env ie)" "pollEvents fuel ie s = Some (r, s')" "I (iworld s)"
    and batch: "\<And>latest events. startLedgerOf (store (iworld s)) (network (ie_cfg ie)) \<le> latest \<Longrightarrow>
      I (snd (processBatch ie (startLedgerOf (store (iworld s)) (network (ie_cfg ie))) latest events (iworld s)))"
    and log: "\<And>m d. keeps I (inStore (logError (ie_env ie) m d))"
  shows "I (iworld s') \<and> isRunning s' = isRunning s"
proof (cases "isRunning s")
  case True
  then show ?thesis using assms(2,3) by (simp add: pollEvents_def)
next
  case False
  let ?s = "s\<lparr>isRunning := True\<rparr>"
  obtain r1 s1 where cycle: "pollCycle fuel ie ?s = Some (r1, s1)"
    using assms(2) False by (auto simp: pollEvents_def split: option.splits)
  have I1: "I (iworld s1)"
  proof -
    obtain r0 s0 where start: "pollStart ie ?s = (r0, s0)" by (cases "pollStart ie ?s") auto
    note f0 = pollStart_frame [OF assms(1) start]
    show ?thesis
    proof (cases r0)
      case (Inl e)
      then show ?thesis using cycle start f0 assms(3) by (simp add: pollCycle_def)
    next
      case (Inr ab)
      obtain a b where ab: "ab = (a, b)" by (cases ab)
      have a: "a = startLedgerOf (store (iworld s)) (network (ie_cfg ie))" using f0 Inr ab by simp
      have run: "(if a > b then Some (Inr (), s0)
         else case fetchEvents fuel ie a s0 of
           None \<Rightarrow> None
         | Some (Inl e, s2) \<Rightarrow> Some (Inl e, s2)
         | Some (Inr events, s2) \<Rightarrow> Some (onWorld (processBatch ie a b events) s2)) = Some (r1, s1)"
        using cycle start Inr ab by (simp add: pollCycle_def)
      show ?thesis
      proof (cases "a > b")
        case True
        then show ?thesis using run f0 assms(3) by simp
      next
        case ge: False
        obtain rf s2 where fetch: "fetchEvents fuel ie a s0 = Some (rf, s2)" using run ge by (auto split: option.splits)
        have s2: "iworld s2 = iworld s" using fetchLoop_frame [OF fetch [unfolded fetchEvents_def]] f0 by simp
        show ?thesis
        proof (cases rf)
          case (Inl e)
          then show ?thesis using run ge fetch s2 assms(3) by simp
        next
          case (Inr events)
          then have "onWorld (processBatch ie a b events) s2 = (r1, s1)" using run ge fetch by simp
          then have "iworld s1 = snd (processBatch ie a b events (iworld s))"
            by (auto simp: onWorld_def zoom_def s2 split: prod.splits)
          then show ?thesis using batch [of b events] ge a by simp
        qed
      qed
    qed
  qed
  show ?thesis
  proof (cases r1)
    case (Inr u)
    then show ?thesis using assms(2) False cycle I1 by (auto simp: pollEvents_def)
  next
    case (Inl e)
    have "iworld s' = snd (inStore (logError (ie_env ie) ''Poll cycle failed'' (JObj [(''error'', JStr (errorText ie e))])) (iworld s1))
        \<and> \<not> isRunning s'"
      using assms(2) False cycle Inl by (auto simp: pollEvents_def onWorld_def zoom_def split: prod.splits)
    then show ?thesis using keepsD [OF log I1] False by simp
  qed
qed

section \<open>The cursor\<close>

lemma frame_cursors [simp]: "indexerFrame ledgerCursors"
  by (simp add: indexerFrame_def handlerFrame_def sideFrame_def)

lemma loop_keeps_cursor:
  assumes "runtime (ie_env ie)" "processLoop ie events a b l w = (r, w')"
  shows "cursorOf (store w') n = cursorOf (store w) n"
  using keeps_run [OF frame_loop [OF assms(1) frame_cursors] assms(2)] by (simp add: cursorOf_def)

lemma log_keeps_cursor:
  "keeps (\<lambda>w. Q (cursorOf (store w) n)) (inStore (logError env m d))"
  "keeps (\<lambda>w. Q (cursorOf (store w) n)) (inStore (logProgress env cfg a b k))"
  unfolding cursorOf_def
  by (rule keeps_view [where f = "\<lambda>w. ledgerCursors (store w)" and Q = "\<lambda>t. Q (find (live (\<lambda>r. lc_network r = n)) t)"],
      rule frame_log, simp)+

lemma inStore_getLastCursor:
  "runtime env \<Longrightarrow> inStore (getLastCursor env cfg) w = (Inr (map_option toCursor (cursorOf (store w) (network cfg))), w)"
  by (simp add: inStore_def zoom_def)

lemma cur_toCursor: "cur_lastLedgerSeq (toCursor c) = lc_lastLedgerSeq c"
  by (simp add: toCursor_def)

text \<open>What the end of a batch does to the cursor.\<close>

lemma batch_cursor:
  assumes "runtime (ie_env ie)" "cursorOf (store w) (network (ie_cfg ie)) = Some c" "events \<noteq> []"
    and loop: "processLoop ie events 0 0 (start - 1) w = (Inr (p, e, lastL), w1)"
  shows "cursorOf (store (snd (processBatch ie start latest events w))) (network (ie_cfg ie)) =
    Some (if lastL > lc_lastLedgerSeq c then c\<lparr>lc_lastLedgerSeq := lastL, lc_lastLedgerHash := None\<rparr> else c)"
proof -
  let ?n = "network (ie_cfg ie)"
  let ?c = "if lastL > lc_lastLedgerSeq c then c\<lparr>lc_lastLedgerSeq := lastL, lc_lastLedgerHash := None\<rparr> else c"
  have c1: "cursorOf (store w1) ?n = Some c" using loop_keeps_cursor [OF assms(1) loop] assms(2) by simp
  define w2 where "w2 = (if lastL > lc_lastLedgerSeq c then w1\<lparr>store := setCursor ?n lastL None (store w1)\<rparr> else w1)"
  have w2: "(if lastL > lc_lastLedgerSeq c then inStore (updateCursor (ie_env ie) (ie_cfg ie) lastL None) else returnM ()) w1 = (Inr (), w2)"
    and c2: "cursorOf (store w2) ?n = Some ?c"
    using c1 assms(1) by (simp_all add: inStore_def zoom_def w2_def)
  have "snd (processBatch ie start latest events w) = snd (inStore (logProgress (ie_env ie) (ie_cfg ie) lastL latest p) w2)"
    using assms(3) w2 unfolding processBatch_def Let_def
    by (simp only: if_False prod.case option.case cur_toCursor
        bindM_Inr [of "processLoop ie events 0 0 (start - 1)" w, OF loop]
        bindM_Inr [of "inStore (getLastCursor (ie_env ie) (ie_cfg ie))" w1,
          OF inStore_getLastCursor [OF assms(1), of "ie_cfg ie" w1, unfolded c1 option.map]])
      (simp only: bindM_Inr [of "if lastL > lc_lastLedgerSeq c then inStore (updateCursor (ie_env ie) (ie_cfg ie) lastL None) else returnM ()" w1, OF w2])
  then show ?thesis using keepsD [OF log_keeps_cursor(2) [where Q = "\<lambda>x. x = Some ?c"]] c2 by simp
qed

lemma frame_batch:
  assumes "runtime (ie_env ie)" "indexerFrame f" "\<forall>s t. f (ledgerCursors_update (\<lambda>_. t) s) = f s"
  shows "keeps (\<lambda>w. f (store w) = x) (processBatch ie start latest events)"
proof -
  have upd: "keeps (\<lambda>w. f (store w) = x) (inStore (updateCursor (ie_env ie) (ie_cfg ie) l None))" for l
    unfolding updateCursor_def repo_updateCursor_def cursorsOp_def using assms(3)
    by (intro keeps_inStore [where I = "\<lambda>s. f s = x"] keeps_bind keeps_return keeps_zoom_frame) simp
  have cur: "keeps I (inStore (getLastCursor (ie_env ie) (ie_cfg ie)))" for I
    using assms(1) by (intro keeps_pure) (simp add: inStore_def zoom_def)
  have prog: "keeps (\<lambda>w. f (store w) = x) (inStore (logProgress (ie_env ie) (ie_cfg ie) a b k))" for a b k
    using assms(2) by (intro frame_log) (simp add: indexerFrame_def)
  show ?thesis
    unfolding processBatch_def Let_def by (intro keeps_rules upd cur prog frame_loop [OF assms(1,2)])
qed

definition insuranceTables :: "db \<Rightarrow> insurance_pool list \<times> insurance_policy list \<times> claim list \<times>
    reinsurance_contract list \<times> audit_log list \<times> refresh_token list \<times> idempotency_key list" where
  "insuranceTables d = (insurancePools d, insurancePolicies d, claims d, reinsuranceContracts d, auditLogs d,
     refreshTokenRows d, idempotencyKeys d)"

text \<open>
  C26. Isolation. Whatever the network sends and however the handlers fail, a poll that comes to
  an end never touches a pool, policy, claim, reinsurance contract, audit entry, refresh token
  or idempotency key, and it releases the running flag it took.
\<close>

theorem poll_isolated:
  assumes "runtime (ie_env ie)" "pollEvents fuel ie s = Some (r, s')"
  shows "insuranceTables (store (iworld s')) = insuranceTables (store (iworld s)) \<and> isRunning s' = isRunning s"
proof (rule pollEvents_keeps [OF assms, where I = "\<lambda>w. insuranceTables (store w) = insuranceTables (store (iworld s))"])
  have fr: "indexerFrame insuranceTables" "\<forall>s t. insuranceTables (ledgerCursors_update (\<lambda>_. t) s) = insuranceTables s"
    by (simp_all add: indexerFrame_def handlerFrame_def sideFrame_def insuranceTables_def)
  show "insuranceTables (store (snd (processBatch ie a latest events (iworld s)))) = insuranceTables (store (iworld s))"
    for a latest events
    using keepsD [OF frame_batch [OF assms(1) fr, of "insuranceTables (store (iworld s))"]] by simp
  show "keeps (\<lambda>w. insuranceTables (store w) = insuranceTables (store (iworld s))) (inStore (logError (ie_env ie) m d))" for m d
    using fr(1) by (intro frame_log) (simp add: indexerFrame_def)
qed simp

lemma loop_last_ge: "processLoop ie events a b l w = (Inr (p, e, l'), w') \<Longrightarrow> l \<le> l'"
proof (induction events arbitrary: a b l w)
  case Nil
  then show ?case by simp
next
  case (Cons ev es)
  obtain r w1 where run: "indexer_processEvent ie ev w = (r, w1)" by (cases "indexer_processEvent ie ev w") auto
  show ?case
  proof (cases r)
    case (Inl x)
    with Cons.prems run obtain w2 where "processLoop ie es a (b + 1) l w2 = (Inr (p, e, l'), w')"
      by (auto elim!: bindM_InrE)
    then show ?thesis by (rule Cons.IH)
  next
    case (Inr ok)
    show ?thesis
    proof (cases ok)
      case True
      then have "processLoop ie es (a + 1) b (if se_ledger ev > l then se_ledger ev else l) w1 = (Inr (p, e, l'), w')"
        using Cons.prems run Inr by simp
      from Cons.IH [OF this] show ?thesis by (simp split: if_splits)
    next
      case False
      then have "processLoop ie es a b l w1 = (Inr (p, e, l'), w')" using Cons.prems run Inr by simp
      then show ?thesis by (rule Cons.IH)
    qed
  qed
qed

lemma batch_loop_fails:
  assumes "runtime (ie_env ie)" "events \<noteq> []" "processLoop ie events 0 0 (start - 1) w = (Inl e, w1)"
  shows "cursorOf (store (snd (processBatch ie start latest events w))) n = cursorOf (store w) n"
  using assms loop_keeps_cursor [OF assms(1,3)]
  by (simp add: processBatch_def Let_def bindM_Inl [of "processLoop ie events 0 0 (start - 1)" w, OF assms(3)])

lemma batch_empty:
  "runtime (ie_env ie) \<Longrightarrow> cursorOf (store w) (network (ie_cfg ie)) = Some c \<Longrightarrow>
   cursorOf (store (snd (processBatch ie start latest [] w))) (network (ie_cfg ie)) =
     Some (c\<lparr>lc_lastLedgerSeq := latest, lc_lastLedgerHash := None\<rparr>)"
  by (simp add: processBatch_def inStore_def zoom_def)

definition advances :: "ledger_cursor \<Rightarrow> ledger_cursor \<Rightarrow> bool" where
  "advances c c' \<longleftrightarrow> lc_lastLedgerSeq c \<le> lc_lastLedgerSeq c' \<and> (lc_lastLedgerHash c' = lc_lastLedgerHash c \<or> lc_lastLedgerHash c' = None)"

lemma poll_advances:
  assumes "runtime (ie_env ie)" "pollEvents fuel ie s = Some (r, s')"
    and c: "cursorOf (store (iworld s)) (network (ie_cfg ie)) = Some c"
  shows "\<exists>c'. cursorOf (store (iworld s')) (network (ie_cfg ie)) = Some c' \<and> advances c c'"
proof -
  let ?n = "network (ie_cfg ie)"
  let ?Q = "\<lambda>x. \<exists>c'. x = Some c' \<and> advances c c'"
  have self: "advances c c" by (simp add: advances_def)
  have start: "startLedgerOf (store (iworld s)) ?n = lc_lastLedgerSeq c + 1" using c by (simp add: startLedgerOf_def)
  have "?Q (cursorOf (store (iworld s')) ?n) \<and> isRunning s' = isRunning s"
  proof (rule pollEvents_keeps [OF assms(1,2), where I = "\<lambda>w. ?Q (cursorOf (store w) ?n)"])
    show "?Q (cursorOf (store (iworld s)) ?n)" using c self by blast
    show "keeps (\<lambda>w. ?Q (cursorOf (store w) ?n)) (inStore (logError (ie_env ie) m d))" for m d
      by (rule log_keeps_cursor)
    fix latest and events
    assume le: "startLedgerOf (store (iworld s)) ?n \<le> latest"
    let ?w = "snd (processBatch ie (startLedgerOf (store (iworld s)) ?n) latest events (iworld s))"
    show "?Q (cursorOf (store ?w) ?n)"
    proof (cases "events = []")
      case True
      then show ?thesis using batch_empty [OF assms(1) c] le start by (auto simp: advances_def)
    next
      case ne: False
      obtain lr w1 where loop: "processLoop ie events 0 0 (startLedgerOf (store (iworld s)) ?n - 1) (iworld s) = (lr, w1)"
        by (cases "processLoop ie events 0 0 (startLedgerOf (store (iworld s)) ?n - 1) (iworld s)") auto
      show ?thesis
      proof (cases lr)
        case (Inl e)
        then show ?thesis using batch_loop_fails [OF assms(1) ne, of _ "iworld s"] loop c self by simp
      next
        case (Inr pel)
        obtain p e l where pel: "pel = (p, e, l)" by (cases pel) auto
        show ?thesis using batch_cursor [OF assms(1) c ne, of _ p e l w1] loop Inr pel self by (auto simp: advances_def)
      qed
    qed
  qed
  then show ?thesis by blast
qed

text \<open>
  C23. The cursor never moves back. A poll that comes to an end, however it ends, leaves the
  cursor at or beyond where it was, and never records a ledger hash: if the cursor had none
  before, it has none after the poll, and reorganisation detection then reports no
  reorganisation, whatever ledger it is given.
\<close>

theorem cursor_never_moves_back:
  assumes "runtime (ie_env ie)" "pollEvents fuel ie s = Some (r, s')"
    and "cursorOf (store (iworld s)) (network (ie_cfg ie)) = Some c"
  shows "\<exists>c'. cursorOf (store (iworld s')) (network (ie_cfg ie)) = Some c' \<and> lc_lastLedgerSeq c \<le> lc_lastLedgerSeq c' \<and>
    (lc_lastLedgerHash c = None \<longrightarrow> lc_lastLedgerHash c' = None \<and>
      (\<forall>ledger res d. detectReorg (ie_env ie) (ie_cfg ie) ledger (store (iworld s')) = (Inr res, d) \<longrightarrow> \<not> hasReorg res))"
proof -
  obtain c' where c': "cursorOf (store (iworld s')) (network (ie_cfg ie)) = Some c'" "advances c c'"
    using poll_advances [OF assms] by blast
  have "\<not> hasReorg res" if "lc_lastLedgerHash c' = None"
    "detectReorg (ie_env ie) (ie_cfg ie) ledger (store (iworld s')) = (Inr res, d)" for ledger res d
    using that c'(1) assms(1) by (auto simp: detectReorg_def bindM_def reorgOf_def toCursor_def Let_def)
  with c' show ?thesis by (auto simp: advances_def)
qed

section \<open>Failed and unhandled events\<close>

lemma parseEvent_env [simp]: "parseEvent (ie\<lparr>ie_env := env\<rparr>) event = parseEvent ie event"
  by (simp add: parseEvent_def Let_def split: list.split option.split)

lemma frame_processed_tail:
  assumes "runtime (ie_env ie)" "events \<noteq> []" "cursorOf (store w) (network (ie_cfg ie)) = Some c"
    and loop: "processLoop ie events 0 0 (start - 1) w = (Inr (p, e, l), w1)"
  shows "processedEvents (store (snd (processBatch ie start latest events w))) = processedEvents (store w1)"
proof -
  let ?rest = "bindM (inStore (getLastCursor (ie_env ie) (ie_cfg ie))) (\<lambda>cursor.
       bindM (if l > (case cursor of None \<Rightarrow> 0 | Some c \<Rightarrow> cur_lastLedgerSeq c)
              then inStore (updateCursor (ie_env ie) (ie_cfg ie) l None) else returnM ()) (\<lambda>_.
       inStore (logProgress (ie_env ie) (ie_cfg ie) l latest p)))"
  have upd: "keeps (\<lambda>w. processedEvents (store w) = x) (inStore (updateCursor (ie_env ie) (ie_cfg ie) l None))" for x
    unfolding updateCursor_def repo_updateCursor_def cursorsOp_def
    by (intro keeps_inStore [where I = "\<lambda>s. processedEvents s = x"] keeps_bind keeps_return keeps_zoom_frame) simp
  have cur: "keeps I (inStore (getLastCursor (ie_env ie) (ie_cfg ie)))" for I
    using assms(1) by (intro keeps_pure) (simp add: inStore_def zoom_def)
  have prog: "keeps (\<lambda>w. processedEvents (store w) = x) (inStore (logProgress (ie_env ie) (ie_cfg ie) a b k))" for x a b k
    by (rule frame_log) simp
  have k: "keeps (\<lambda>w. processedEvents (store w) = processedEvents (store w1)) ?rest" by (intro keeps_rules cur upd prog)
  have e: "snd (processBatch ie start latest events w) = snd (?rest w1)"
    using assms(2) unfolding processBatch_def Let_def
    by (simp only: if_False bindM_Inr [of "processLoop ie events 0 0 (start - 1)" w, OF loop] prod.case)
  show ?thesis unfolding e by (rule keepsD [OF k]) (rule refl)
qed

text \<open>
  A failed event can be passed over. When an event fails and a later event of the same batch
  in a later ledger succeeds, the cursor moves to the later ledger: the next poll starts behind
  the failed event, which is not marked as processed and is not fetched again.
\<close>

theorem failed_event_skipped:
  assumes "runtime (ie_env ie)" "cursorOf (store w) (network (ie_cfg ie)) = Some c"
    and "indexer_processEvent ie e1 w = (Inl err, w1)"
    and "inStore (logError (ie_env ie) (''Event processing failed: '' @ se_id e1)
           (JObj [(''eventId'', JStr (se_id e1)), (''error'', JStr (errorText ie err))])) w1 = (Inr u, w2)"
    and "indexer_processEvent ie e2 w2 = (Inr True, w3)"
    and "lc_lastLedgerSeq c < se_ledger e1" "se_ledger e1 < se_ledger e2"
  shows "let w' = snd (processBatch ie (lc_lastLedgerSeq c + 1) latest [e1, e2] w) in
    startLedgerOf (store w') (network (ie_cfg ie)) = se_ledger e2 + 1 \<and>
    se_ledger e1 < startLedgerOf (store w') (network (ie_cfg ie)) \<and>
    processedEvents (store w') = processedEvents (store w3)"
proof -
  have loop: "processLoop ie [e1, e2] 0 0 (lc_lastLedgerSeq c + 1 - 1) w = (Inr (1, 1, se_ledger e2), w3)"
    using assms(3,5,6,7)
    by (simp add: bindM_Inr [of "inStore (logError (ie_env ie) (''Event processing failed: '' @ se_id e1)
           (JObj [(''eventId'', JStr (se_id e1)), (''error'', JStr (errorText ie err))]))" w1, OF assms(4)] del: append.simps)
  show ?thesis
    unfolding Let_def
    using batch_cursor [OF assms(1,2) _ loop, of latest] frame_processed_tail [OF assms(1) _ assms(2) loop, of latest] assms(6,7)
    by (simp add: startLedgerOf_def)
qed

definition ignored :: "('x, 'r) indexer_env \<Rightarrow> SorobanEvent \<Rightarrow> bool" where
  "ignored ie e \<longleftrightarrow> (case parseEvent ie e of None \<Rightarrow> True
     | Some p \<Rightarrow> \<not> ev_quarantined p \<and> ev_eventType p \<notin> set handledTypes)"

lemma ignored_event:
  assumes "runtime (ie_env ie)" "ignored ie e"
  shows "indexer_processEvent ie e w = (Inr False, w)"
proof (cases "seenEvent (store w) (network (ie_cfg ie)) (se_id e)")
  case True
  then show ?thesis by (rule seen_event_skipped [OF assms(1)])
next
  case False
  then show ?thesis
    using assms unhandled_event
    by (auto simp: indexer_processEvent_def processEventInternal_def inStore_def zoom_def bindM_def ignored_def split: option.splits)
qed

lemma ignored_loop:
  assumes "runtime (ie_env ie)" "list_all (ignored ie) events"
  shows "processLoop ie events a b l w = (Inr (a, b, l), w)"
  using assms(2) by (induction events) (simp_all add: ignored_event [OF assms(1)])

text \<open>
  Unhandled events hold the cursor. A batch in which every event has an unknown topic or an
  event type without a handler leaves the cursor where it was, although nothing failed: the next
  poll fetches the same range again, and with a full page of such events the indexer never gets
  past it.
\<close>

theorem unhandled_batch_stuck:
  assumes "runtime (ie_env ie)" "cursorOf (store w) (network (ie_cfg ie)) = Some c"
    and "events \<noteq> []" "list_all (ignored ie) events"
  shows "let start = startLedgerOf (store w) (network (ie_cfg ie));
      w' = snd (processBatch ie start latest events w) in
    startLedgerOf (store w') (network (ie_cfg ie)) = start \<and> processedEvents (store w') = processedEvents (store w)"
proof -
  have start: "startLedgerOf (store w) (network (ie_cfg ie)) = lc_lastLedgerSeq c + 1"
    using assms(2) by (simp add: startLedgerOf_def)
  note loop = ignored_loop [OF assms(1,4), of 0 0 "startLedgerOf (store w) (network (ie_cfg ie)) - 1" w]
  show ?thesis
    unfolding Let_def
    using batch_cursor [OF assms(1,2,3) loop, of latest] frame_processed_tail [OF assms(1,3,2) loop, of latest] start
    by (simp add: startLedgerOf_def)
qed

section \<open>Paging\<close>

text \<open>Every page that announces a next page carries an event; or no page ever carries one.\<close>

definition productive :: "('x, 'r) indexer_env \<Rightarrow> bool" where
  "productive ie \<longleftrightarrow> (\<forall>l c s resp s'. fetchPage ie l c s = (Inr resp, s') \<longrightarrow> orText (er_cursor resp) [] \<noteq> [] \<longrightarrow>
     er_events resp \<noteq> None \<and> er_events resp \<noteq> Some [])"

definition emptyPages :: "('x, 'r) indexer_env \<Rightarrow> bool" where
  "emptyPages ie \<longleftrightarrow> (\<forall>l c s. \<exists>resp s'. fetchPage ie l c s = (Inr resp, s') \<and> orText (er_cursor resp) [] \<noteq> [] \<and>
     (er_events resp = None \<or> er_events resp = Some []))"

lemma transformAll_length: "transformAll es = Inr es' \<Longrightarrow> length es' = length es"
  by (induction es arbitrary: es') (auto split: sum.splits)

lemma fetchLoop_enough:
  assumes "productive ie"
  shows "maxEventsPerFetch (ie_cfg ie) * 5 - length events < fuel \<Longrightarrow> fetchLoop fuel ie l c events s \<noteq> None"
proof (induction fuel arbitrary: c events s)
  case 0
  then show ?case by simp
next
  case (Suc fuel)
  obtain r s' where page: "fetchPage ie l c s = (r, s')" by (cases "fetchPage ie l c s") auto
  show ?case
  proof (cases r)
    case (Inr resp)
    let ?raw = "case er_events resp of None \<Rightarrow> [] | Some es \<Rightarrow> es"
    have raw: "orText (er_cursor resp) [] \<noteq> [] \<Longrightarrow> ?raw \<noteq> []"
      using assms [unfolded productive_def, rule_format, OF page [unfolded Inr]] by (auto split: option.splits)
    show ?thesis
    proof (cases "transformAll ?raw")
      case new: (Inr new)
      have "fetchLoop fuel ie l (er_cursor resp) (events @ new) s' \<noteq> None"
        if "orText (er_cursor resp) [] \<noteq> []" "length (events @ new) < maxEventsPerFetch (ie_cfg ie) * 5"
      proof (rule Suc.IH)
        have "new \<noteq> []" using raw [OF that(1)] transformAll_length [OF new] by auto
        then show "maxEventsPerFetch (ie_cfg ie) * 5 - length (events @ new) < fuel"
          using Suc.prems that(2) by (cases new) auto
      qed
      with page Inr new show ?thesis by simp
    qed (simp add: page Inr)
  qed (simp add: page)
qed

lemma fetchLoop_diverges:
  assumes "emptyPages ie" "length events < maxEventsPerFetch (ie_cfg ie) * 5"
  shows "fetchLoop fuel ie l c events s = None"
proof (induction fuel arbitrary: c s)
  case (Suc fuel)
  obtain resp s' where "fetchPage ie l c s = (Inr resp, s')" "orText (er_cursor resp) [] \<noteq> []"
    "er_events resp = None \<or> er_events resp = Some []"
    using assms(1) unfolding emptyPages_def by blast
  with Suc.IH assms(2) show ?case by auto
qed simp

text \<open>
  C24. Paging ends, or does not. If every page that names a next page carries at least one event,
  fetching ends within five times the page limit plus one requests. If the endpoint keeps
  answering with empty pages that name a next page, the loop never ends, since only the number
  of collected events bounds it.
\<close>

theorem fetch_terminates:
  "(productive ie \<longrightarrow> (\<exists>x. fetchEvents (maxEventsPerFetch (ie_cfg ie) * 5 + 1) ie l s = Some x)) \<and>
   (emptyPages ie \<longrightarrow> 0 < maxEventsPerFetch (ie_cfg ie) \<longrightarrow> (\<forall>fuel. fetchEvents fuel ie l s = None))"
proof (intro conjI impI allI)
  assume "productive ie"
  then have "fetchLoop (maxEventsPerFetch (ie_cfg ie) * 5 + 1) ie l None [] s \<noteq> None" by (rule fetchLoop_enough) simp
  then show "\<exists>x. fetchEvents (maxEventsPerFetch (ie_cfg ie) * 5 + 1) ie l s = Some x" by (simp only: fetchEvents_def not_None_eq)
next
  fix fuel assume "emptyPages ie" "0 < maxEventsPerFetch (ie_cfg ie)"
  then show "fetchEvents fuel ie l s = None" unfolding fetchEvents_def by (intro fetchLoop_diverges) simp_all
qed

section \<open>A concrete indexer\<close>

text \<open>
  An endpoint that serves a list of pages and then reports no events; every value decodes to
  the same payload, except the value \<open>bad\<close>; dates cannot be parsed.
\<close>

definition pagesEnv :: "(string, EventsResponse list) indexer_env" where
  "pagesEnv = \<lparr>ie_env = memoryEnv, ie_cfg = sampleConfig, ie_js = plainJs,
     ie_sdk = \<lparr>fromXDR = (\<lambda>v. if v = ''bad'' then Inl ''bad'' else Inr v), scValToNative = (\<lambda>v. Inr (JObj [(''project_id'', JNum 7)]))\<rparr>,
     ie_parseDate = (\<lambda>t. None), ie_randomUUID = (\<lambda>i. i), ie_prismaMessage = (\<lambda>p. ''prisma''),
     rpcGetEvents = (\<lambda>req ps. case ps of [] \<Rightarrow> (Inr \<lparr>er_events = None, er_cursor = None\<rparr>, []) | p # rest \<Rightarrow> (Inr p, rest)),
     rpcGetLatestLedger = (\<lambda>ps. (Inr 105, ps)), rpcGetHealth = (\<lambda>ps. (Inr ''healthy'', ps)),
     fireEvents = (\<lambda>task. task), fireLedger = (\<lambda>task. task), fireHealth = (\<lambda>task. task)\<rparr>"

definition rawEvent :: "string \<Rightarrow> string \<Rightarrow> int \<Rightarrow> SorobanEvent" where
  "rawEvent i topic l = \<lparr>se_type = ''contract'', se_ledger = l, se_ledgerClosedAt = ''?'', se_contractId = ''C'',
     se_id = i, se_pagingToken = ''t'', se_topic = [topic], se_value = ''v'', se_inSuccessfulContractCall = True,
     se_txHash = ''tx''\<rparr>"

definition chainWorld :: world where
  "chainWorld = projectWorld\<lparr>store := (store projectWorld)\<lparr>ledgerCursors := [sampleCursor]\<rparr>\<rparr>"

definition chainState :: "EventsResponse list istate" where
  "chainState = \<lparr>iworld = chainWorld, rpcState = [], isRunning = False, isShuttingDown = False,
     pollIntervalMs = 5000, scheduledInterval = None\<rparr>"

lemma pagesEnv_runtime [simp]: "runtime (ie_env pagesEnv)" "ie_cfg pagesEnv = sampleConfig"
  by (simp_all add: pagesEnv_def)

interpretation sample_indexer: at_most_once "indexer_processEvent pagesEnv" se_id
  "\<lambda>w. seenEvent (store w) (network (ie_cfg pagesEnv))" "\<lambda>w. oneNetwork (network (ie_cfg pagesEnv)) (store w)"
  by (rule indexer_at_most_once) simp

lemma chain_cursor: "cursorOf (store chainWorld) (network (ie_cfg pagesEnv)) = Some sampleCursor"
  by (simp add: cursorOf_def chainWorld_def sampleConfig_def sampleCursor_def live_def)

lemma chain_unseen: "\<not> seenEvent (store chainWorld) n i"
  by (simp add: seenEvent_def chainWorld_def projectWorld_def emptyDb_def)

lemma sample_parse:
  assumes "parseEventType topic = Some t" "topic \<noteq> []"
  shows "\<exists>p d. parseEvent pagesEnv (rawEvent i topic l) = Some p \<and> ev_eventType p = t \<and> \<not> ev_quarantined p \<and>
    map_of decoders t = Some d \<and> ev_data p = d plainJs (JObj [(''project_id'', JNum 7)]) \<and> ev_ledgerClosedAt p = None"
proof -
  obtain d where d: "map_of decoders t = Some d" using decoders_total by blast
  have dec: "decode plainJs (ie_sdk pagesEnv) ''v'' t = \<lparr>de_data = d plainJs (JObj [(''project_id'', JNum 7)]), de_rawXdr = ''v''\<rparr>"
    by (simp add: decode_def d pagesEnv_def)
  have "\<not> isMarked (d plainJs (JObj [(''project_id'', JNum 7)]))"
    by (rule conforms_not_marked) (rule decoder_conforms [OF d])
  with assms d dec show ?thesis by (simp add: parseEvent_def rawEvent_def) (simp add: pagesEnv_def)
qed

theorem parsed_events_typed_witness:
  "\<exists>p. parseEvent pagesEnv (rawEvent ''e'' ''proj_done'' 101) = Some p \<and> conforms ProjectStatusEvent (ev_data p)"
proof -
  obtain p where p: "parseEvent pagesEnv (rawEvent ''e'' ''proj_done'' 101) = Some p" "ev_eventType p = PROJECT_COMPLETED"
      "\<not> ev_quarantined p"
    using sample_parse [of "''proj_done''" PROJECT_COMPLETED] parseEventType_text [of PROJECT_COMPLETED] by auto
  from parsed_events_typed [OF p(1)] p show ?thesis by auto
qed

theorem events_handled_at_most_once_witness:
  "successes se_id ''e'' (fst (attempts_run (indexer_processEvent pagesEnv)
     [rawEvent ''e'' ''proj_done'' 101, rawEvent ''e'' ''proj_done'' 101] chainWorld)) \<le> 1"
  by (rule events_handled_at_most_once) (simp_all add: oneNetwork_def chainWorld_def projectWorld_def emptyDb_def)



lemma sample_poll: "\<exists>s'. pollEvents 1 pagesEnv chainState = Some (Inr (), s')"
proof -
  have latest: "getLatestLedger pagesEnv s = (Inr 105, s)" for s :: "EventsResponse list istate"
    unfolding getLatestLedger_def onRpc_def zoom_def
    by (simp add: pagesEnv_def resilience_ok)
  have page: "fetchPage pagesEnv l c s = (Inr \<lparr>er_events = None, er_cursor = None\<rparr>, s)" if "rpcState s = []" for l c and s :: "EventsResponse list istate"
    using that unfolding fetchPage_def onRpc_def zoom_def
    by (simp add: pagesEnv_def resilience_ok)
  have start: "pollStart pagesEnv (chainState\<lparr>isRunning := True\<rparr>) = (Inr (101, 105), chainState\<lparr>isRunning := True\<rparr>)"
    by (simp add: pollStart_def bindM_def onWorld_def zoom_def inStore_getLastCursor latest chain_cursor [simplified]
        chainState_def cur_toCursor) (simp add: sampleCursor_def)
  have "rpcState (chainState\<lparr>isRunning := True\<rparr>) = []" "\<not> isRunning chainState" by (simp_all add: chainState_def)
  note run = page [OF this(1), of 101 None] this(2)
  have "fst (updateCursor (ie_env pagesEnv) (ie_cfg pagesEnv) 105 None (store chainWorld)) = Inr ()"
    using chain_cursor by simp
  then obtain w where w: "onWorld (processBatch pagesEnv 101 105 []) (chainState\<lparr>isRunning := True\<rparr>) = (Inr (), w)"
    by (cases "updateCursor (ie_env pagesEnv) (ie_cfg pagesEnv) 105 None (store chainWorld)")
      (simp add: onWorld_def zoom_def processBatch_def inStore_def chainState_def)
  have "fetchEvents 1 pagesEnv 101 (chainState\<lparr>isRunning := True\<rparr>) = Some (Inr [], chainState\<lparr>isRunning := True\<rparr>)"
    by (simp add: fetchEvents_def run(1))
  with start w run(2) show ?thesis by (simp add: pollEvents_def pollCycle_def)
qed

theorem poll_isolated_witness:
  "\<exists>s'. pollEvents 1 pagesEnv chainState = Some (Inr (), s') \<and>
    insuranceTables (store (iworld s')) = insuranceTables (store (iworld chainState))"
  using sample_poll poll_isolated [OF pagesEnv_runtime(1)] by blast

theorem cursor_never_moves_back_witness:
  "\<exists>s' c'. pollEvents 1 pagesEnv chainState = Some (Inr (), s') \<and>
    cursorOf (store (iworld s')) (network (ie_cfg pagesEnv)) = Some c' \<and> 100 \<le> lc_lastLedgerSeq c'"
proof -
  obtain s' where s': "pollEvents 1 pagesEnv chainState = Some (Inr (), s')" using sample_poll by blast
  have "cursorOf (store (iworld chainState)) (network (ie_cfg pagesEnv)) = Some sampleCursor"
    using chain_cursor by (simp add: chainState_def)
  from cursor_never_moves_back [OF pagesEnv_runtime(1) s' this] s' show ?thesis by (auto simp: sampleCursor_def)
qed

text \<open>An endpoint whose pages are always empty and always name a next page, and one that serves two pages.\<close>

definition emptyEnv :: "(string, EventsResponse list) indexer_env" where
  "emptyEnv = pagesEnv\<lparr>rpcGetEvents := (\<lambda>req ps. (Inr \<lparr>er_events = Some [], er_cursor = Some ''next''\<rparr>, ps))\<rparr>"

definition rpcEvent :: RpcEvent where
  "rpcEvent = \<lparr>re_type = ''contract'', re_ledger = 101, re_ledgerClosedAt = ''?'', re_contractId = Some ''C'', re_id = ''e'',
     re_pagingToken = ''t'', re_topic = [''proj_done''], re_value = ''v'', re_inSuccessfulContractCall = True,
     re_txHash = Some ''tx'', re_transactionHash = None\<rparr>"

definition twoPagesEnv :: "(string, EventsResponse list) indexer_env" where
  "twoPagesEnv = pagesEnv\<lparr>rpcGetEvents := (\<lambda>req ps.
     (Inr \<lparr>er_events = Some [rpcEvent], er_cursor = (if rq_cursor req = None then Some ''next'' else None)\<rparr>, ps))\<rparr>"

lemma sample_pages:
  "fetchPage emptyEnv l c s = (Inr \<lparr>er_events = Some [], er_cursor = Some ''next''\<rparr>, s)"
  "fetchPage twoPagesEnv l c s = (Inr \<lparr>er_events = Some [rpcEvent], er_cursor = (if c = None then Some ''next'' else None)\<rparr>, s)"
  unfolding fetchPage_def onRpc_def zoom_def
  by (simp_all add: emptyEnv_def twoPagesEnv_def) (simp_all add: pagesEnv_def resilience_ok)

theorem fetch_terminates_witness:
  "(\<exists>x. fetchEvents 501 twoPagesEnv 101 chainState = Some x) \<and> fetchEvents 1000000 emptyEnv 101 chainState = None"
proof -
  have "productive twoPagesEnv" "emptyPages emptyEnv" by (simp_all add: productive_def emptyPages_def sample_pages)
  moreover have "maxEventsPerFetch (ie_cfg twoPagesEnv) = 100" "maxEventsPerFetch (ie_cfg emptyEnv) = 100"
    by (simp_all add: twoPagesEnv_def emptyEnv_def sampleConfig_def)
  ultimately show ?thesis
    using fetch_terminates [of twoPagesEnv 101 chainState] fetch_terminates [of emptyEnv 101 chainState] by simp
qed

end
