(* ===== verification/Idempotency.thy ===== *)
theory Idempotency
  imports Notification JsConvert
begin

text \<open>
  \<open>interceptors/idempotency.service.ts\<close>, \<open>interceptors/idempotency.interceptor.ts\<close> and
  \<open>interceptors/tasks/idempotency-cleanup.task.ts\<close>: replaying the response of a request that was
  sent before with the same key. The handler behind the interceptor is a parameter, a
  computation on the whole world. \<open>jsonb\<close> is what a Json column (\<open>jsonb\<close> in
  \<open>prisma/migrations\<close>) returns for a value stored in it.
\<close>

section \<open>JSON texts\<close>

definition hexDigit :: "nat \<Rightarrow> char" where
  "hexDigit n = (if n < 10 then char_of (48 + n) else char_of (87 + n))"

definition jsonEscape :: "char \<Rightarrow> string" where
  "jsonEscape ch =
    (let n = codePoint ch in
     if n = 34 then [char_of (92 :: nat), ch] else if n = 92 then [ch, ch]
     else if n = 8 then [char_of (92 :: nat), CHR ''b''] else if n = 9 then [char_of (92 :: nat), CHR ''t'']
     else if n = 10 then [char_of (92 :: nat), CHR ''n''] else if n = 12 then [char_of (92 :: nat), CHR ''f'']
     else if n = 13 then [char_of (92 :: nat), CHR ''r'']
     else if n < 32 then char_of (92 :: nat) # ''u00'' @ [hexDigit (n div 16), hexDigit (n mod 16)]
     else [ch])"

definition jsonQuote :: "string \<Rightarrow> string" where
  "jsonQuote s = char_of (34 :: nat) # concat (map jsonEscape s) @ [char_of (34 :: nat)]"

text \<open>The text of a JSON value, members in their order; other values do not occur after \<open>jclone\<close>.\<close>

fun jsonText :: "js_library \<Rightarrow> jsval \<Rightarrow> string"
  and jsonItems :: "js_library \<Rightarrow> jsval list \<Rightarrow> string list"
  and jsonMembers :: "js_library \<Rightarrow> (string \<times> jsval) list \<Rightarrow> string list" where
  "jsonText js (JBool b) = (if b then ''true'' else ''false'')"
| "jsonText js (JNum q) = numText js q"
| "jsonText js (JStr s) = jsonQuote s"
| "jsonText js (JArr xs) = ''['' @ joinWith '','' (jsonItems js xs) @ '']''"
| "jsonText js (JObj ms) = ''{'' @ joinWith '','' (jsonMembers js ms) @ ''}''"
| "jsonText js _ = ''null''"
| "jsonItems js [] = []"
| "jsonItems js (x # xs) = jsonText js x # jsonItems js xs"
| "jsonMembers js [] = []"
| "jsonMembers js ((k, x) # ms) = (jsonQuote k @ '':'' @ jsonText js x) # jsonMembers js ms"

section \<open>Types\<close>

record idem_env =
  id_env :: env
  id_js :: js_library
  jsonb :: "jsval \<Rightarrow> jsval"
  fireUpdate :: "(world, idempotency_key) sm \<Rightarrow> (world, idempotency_key) sm"
  routeStatus :: nat
  id_prismaMessage :: "prisma_error \<Rightarrow> string"

record request =
  req_method :: string
  req_url :: string
  req_body :: jsval
  req_key_lower :: jsval
  req_key_upper :: jsval

record reply =
  rp_data :: jsval
  rp_status :: jsval
  rp_headers :: "(string \<times> string) list"

definition stringify :: "idem_env \<Rightarrow> jsval \<Rightarrow> error + string" where
  "stringify ie v = (case jclone (toJSON (id_env ie)) v of Inl e \<Rightarrow> Inl e | Inr w \<Rightarrow> Inr (jsonText (id_js ie) w))"

section \<open>IdempotencyService\<close>

definition keysOp :: "idem_env \<Rightarrow> (idempotency_key engine \<Rightarrow> int \<Rightarrow> (idempotency_key list, 'a) sm) \<Rightarrow> (world, 'a) sm" where
  "keysOp ie f = inStore (zoom idempotencyKeys idempotencyKeys_update
     (f (idempotencyKeyE (prisma (id_env ie))) (now (id_env ie))))"

definition findExisting :: "idem_env \<Rightarrow> string \<Rightarrow> (world, idempotency_key option) sm" where
  "findExisting ie key = keysOp ie (\<lambda>e t. d_findUnique e t (whereOf (\<lambda>r. ik_key r = key)))"

fun isUniqueViolation :: "error \<Rightarrow> bool" where
  "isUniqueViolation (PrismaException (PrismaClientKnownRequestError code)) = (code = ''P2002'')"
| "isUniqueViolation (CodedError name code m) = (code = ''P2002'')"
| "isUniqueViolation _ = False"

datatype claim_result = Created | Conflict

record IdempotencyClaim =
  ic_method :: string
  ic_endpoint :: string
  ic_requestBody :: jsval
  ic_expiresAt :: int

definition orObject :: "jsval \<Rightarrow> jsval" where
  "orObject v = nn v (JObj [])"

definition key_claim :: "idem_env \<Rightarrow> string \<Rightarrow> IdempotencyClaim \<Rightarrow> (world, claim_result) sm" where
  "key_claim ie key c =
     catchM (bindM (keysOp ie (\<lambda>e t. d_create e t (rowOf
         \<lparr>rowId = '''', deletedAt = None, ik_key = key, ik_method = ic_method c, ik_endpoint = ic_endpoint c,
          ik_requestBody = jsonb ie (orObject (ic_requestBody c)), ik_response = None, ik_status = ''PENDING'',
          ik_expiresAt = ic_expiresAt c, ik_createdAt = now (id_env ie)\<rparr>))) (\<lambda>_. returnM Created))
       (\<lambda>error. if isUniqueViolation error then returnM Conflict else throwM error)"

definition resetToPending :: "idem_env \<Rightarrow> string \<Rightarrow> IdempotencyClaim \<Rightarrow> (world, unit) sm" where
  "resetToPending ie key c =
     bindM (keysOp ie (\<lambda>e t. d_update e t (whereOf (\<lambda>r. ik_key r = key))
       \<lparr>d_set = (\<lambda>r. r\<lparr>ik_method := ic_method c, ik_endpoint := ic_endpoint c,
          ik_requestBody := jsonb ie (orObject (ic_requestBody c)), ik_response := None, ik_status := ''PENDING'',
          ik_expiresAt := ic_expiresAt c\<rparr>), d_deletedAt = Some None\<rparr>)) (\<lambda>_. returnM ())"

definition markCompleted :: "idem_env \<Rightarrow> string \<Rightarrow> jsval \<Rightarrow> nat \<Rightarrow> (world, unit) sm" where
  "markCompleted ie key response statusCode =
     bindM (withResilience (\<lambda>_. returnM ()) (random (id_env ie)) (fireUpdate ie)
       (keysOp ie (\<lambda>e t. d_update e t (whereOf (\<lambda>r. ik_key r = key)) (setOf (\<lambda>r. r\<lparr>ik_status := ''COMPLETED'',
          ik_response := Some (jsonb ie (JObj [(''data'', response), (''statusCode'', JNum (of_nat statusCode))]))\<rparr>))))
       None None) (\<lambda>_. returnM ())"

definition key_markFailed :: "idem_env \<Rightarrow> string \<Rightarrow> error \<Rightarrow> nat \<Rightarrow> (world, unit) sm" where
  "key_markFailed ie key error statusCode =
     bindM (keysOp ie (\<lambda>e t. d_update e t (whereOf (\<lambda>r. ik_key r = key)) (setOf (\<lambda>r. r\<lparr>ik_status := ''FAILED'',
       ik_response := Some (jsonb ie (JObj [(''error'', JStr (errorMessage (id_prismaMessage ie) error)),
         (''statusCode'', JNum (of_nat statusCode))]))\<rparr>)))) (\<lambda>_. returnM ())"

section \<open>IdempotencyInterceptor\<close>

fun isHttpException :: "error \<Rightarrow> bool" where
  "isHttpException (PrismaException p) = False"
| "isHttpException (PlainError m) = False"
| "isHttpException (CodedError n k m) = False"
| "isHttpException _ = True"

fun getStatus :: "error \<Rightarrow> nat" where
  "getStatus (BadRequestException m) = 400"
| "getStatus (UnauthorizedException m) = 401"
| "getStatus (NotFoundException m) = 404"
| "getStatus (ConflictException m) = 409"
| "getStatus (HttpException m n) = n"
| "getStatus _ = 500"

fun normalizeIdempotencyKey :: "jsval \<Rightarrow> string option" where
  "normalizeIdempotencyKey (JStr s) = (if length (trim s) > 0 then Some (trim s) else None)"
| "normalizeIdempotencyKey _ = None"

fun jsonMember :: "jsval \<Rightarrow> string \<Rightarrow> jsval" where
  "jsonMember (JObj ms) k = (case map_of ms k of None \<Rightarrow> JUndef | Some v \<Rightarrow> v)"
| "jsonMember _ k = JUndef"

definition replayOf :: "string \<Rightarrow> jsval \<Rightarrow> reply" where
  "replayOf key stored = \<lparr>rp_data = jsonMember stored ''data'', rp_status = jsonMember stored ''statusCode'',
     rp_headers = [(''X-Idempotency-Key'', key), (''X-Idempotency-Replayed'', ''true'')]\<rparr>"

definition completed :: "idempotency_key \<Rightarrow> bool" where
  "completed row \<longleftrightarrow> ik_status row = ''COMPLETED'' \<and> (case ik_response row of None \<Rightarrow> False | Some v \<Rightarrow> truthy v)"

definition stillProcessing :: error where
  "stillProcessing = HttpException ''Request is still being processed. Please wait and retry.'' 409"

definition differentBody :: error where
  "differentBody = HttpException ''Idempotency key already used with a different request body'' 400"

definition requestBody :: "request \<Rightarrow> jsval" where
  "requestBody req = (if truthy (req_body req) then req_body req else JObj [])"

text \<open>\<open>setHours(getHours() + 24)\<close>, with the fixed time zone offset of the environment.\<close>

definition keyClaim :: "idem_env \<Rightarrow> request \<Rightarrow> IdempotencyClaim" where
  "keyClaim ie req = \<lparr>ic_method = req_method req, ic_endpoint = req_url req, ic_requestBody = requestBody req,
     ic_expiresAt = now (id_env ie) + 24 * msPerHour\<rparr>"

text \<open>The part before the handler: \<open>Some\<close> reply to replay, or \<open>None\<close> to go on.\<close>

definition prepareKey :: "idem_env \<Rightarrow> request \<Rightarrow> string \<Rightarrow> (world, reply option) sm" where
  "prepareKey ie req key =
     bindM (findExisting ie key) (\<lambda>existing.
     case existing of
       Some row \<Rightarrow>
        (if \<not> now (id_env ie) > ik_expiresAt row then
           bindM (liftE (stringify ie (requestBody req))) (\<lambda>currentRequestBody.
           bindM (liftE (stringify ie (if truthy (ik_requestBody row) then ik_requestBody row else JObj []))) (\<lambda>storedRequestBody.
           if currentRequestBody \<noteq> storedRequestBody then throwM differentBody
           else if completed row then returnM (Some (replayOf key (the (ik_response row))))
           else if ik_status row = ''PENDING'' then throwM stillProcessing
           else bindM (resetToPending ie key (keyClaim ie req)) (\<lambda>_. returnM None)))
         else bindM (resetToPending ie key (keyClaim ie req)) (\<lambda>_. returnM None))
     | None \<Rightarrow>
        bindM (key_claim ie key (keyClaim ie req)) (\<lambda>claimed.
        if claimed = Conflict then
          bindM (findExisting ie key) (\<lambda>winner.
          case winner of
            None \<Rightarrow> throwM stillProcessing
          | Some row \<Rightarrow>
             (if completed row \<and> now (id_env ie) \<le> ik_expiresAt row
              then returnM (Some (replayOf key (the (ik_response row)))) else throwM stillProcessing))
        else returnM None))"

definition ignoreErrors :: "(world, unit) sm \<Rightarrow> (world, unit) sm" where
  "ignoreErrors m = catchM m (\<lambda>_. returnM ())"

definition runHandler :: "idem_env \<Rightarrow> string \<Rightarrow> (world, jsval) sm \<Rightarrow> (world, reply) sm" where
  "runHandler ie key handler =
     bindM (catchM handler (\<lambda>error.
       bindM (ignoreErrors (key_markFailed ie key error (if isHttpException error then getStatus error else 500))) (\<lambda>_.
       throwM error))) (\<lambda>result.
     bindM (ignoreErrors (markCompleted ie key result (routeStatus ie))) (\<lambda>_.
     returnM \<lparr>rp_data = result, rp_status = JNum (of_nat (routeStatus ie)), rp_headers = [(''X-Idempotency-Key'', key)]\<rparr>))"

definition intercept :: "idem_env \<Rightarrow> request \<Rightarrow> (world, jsval) sm \<Rightarrow> (world, reply) sm" where
  "intercept ie req handler =
    (case normalizeIdempotencyKey (if truthy (req_key_lower req) then req_key_lower req else req_key_upper req) of
       None \<Rightarrow> bindM handler (\<lambda>result.
         returnM \<lparr>rp_data = result, rp_status = JNum (of_nat (routeStatus ie)), rp_headers = []\<rparr>)
     | Some key \<Rightarrow>
        bindM (catchM (prepareKey ie req key) (\<lambda>error.
          if isHttpException error then throwM error
          else bindM (ignoreErrors (key_markFailed ie key error 500)) (\<lambda>_. throwM error))) (\<lambda>prepared.
        case prepared of
          Some reply \<Rightarrow> returnM reply
        | None \<Rightarrow> runHandler ie key handler))"

section \<open>IdempotencyCleanupTask\<close>

definition STALE_THRESHOLD_HOURS :: int where
  "STALE_THRESHOLD_HOURS = 48"

definition idempotency_handleCron :: "idem_env \<Rightarrow> (world, unit) sm" where
  "idempotency_handleCron ie =
    (let staleDate = now (id_env ie) - STALE_THRESHOLD_HOURS * msPerHour in
     ignoreErrors (bindM (keysOp ie (\<lambda>e t. d_deleteMany e t
       (noArgs\<lparr>a_where := Some (whereOf (\<lambda>r. ik_createdAt r < staleDate))\<rparr>))) (\<lambda>_. returnM ())))"

section \<open>What the calls do\<close>

definition keyOf :: "world \<Rightarrow> string \<Rightarrow> idempotency_key option" where
  "keyOf w key = find (live (\<lambda>r. ik_key r = key)) (idempotencyKeys (store w))"

definition setKeys :: "idempotency_key list \<Rightarrow> world \<Rightarrow> world" where
  "setKeys t w = w\<lparr>store := (store w)\<lparr>idempotencyKeys := t\<rparr>\<rparr>"

lemma setKeys_simps [simp]: "idempotencyKeys (store (setKeys t w)) = t" "setKeys t (setKeys t' w) = setKeys t w"
  "setKeys (idempotencyKeys (store w)) w = w"
  by (simp_all add: setKeys_def)

lemma keysOp_run: "keysOp ie f w = (let (r, t) = f (idempotencyKeyE (prisma (id_env ie))) (now (id_env ie)) (idempotencyKeys (store w))
    in (r, setKeys t w))"
  by (simp add: keysOp_def inStore_def zoom_def setKeys_def split: prod.split)

lemma findExisting_run [simp]: "runtime (id_env ie) \<Longrightarrow> findExisting ie key w = (Inr (keyOf w key), w)"
  by (simp add: findExisting_def keysOp_run keyOf_def)

definition pendingRow :: "idem_env \<Rightarrow> string \<Rightarrow> request \<Rightarrow> world \<Rightarrow> idempotency_key" where
  "pendingRow ie key req w = \<lparr>rowId = genId (idempotencyKeyE (prisma (id_env ie))) (idempotencyKeys (store w)), deletedAt = None,
     ik_key = key, ik_method = req_method req, ik_endpoint = req_url req,
     ik_requestBody = jsonb ie (orObject (requestBody req)), ik_response = None, ik_status = ''PENDING'',
     ik_expiresAt = now (id_env ie) + 24 * msPerHour, ik_createdAt = now (id_env ie)\<rparr>"

lemma key_claim_run:
  assumes "runtime (id_env ie)"
  shows "key_claim ie key (keyClaim ie req) w =
    (case violates (idempotencyKeyE (prisma (id_env ie))) (pendingRow ie key req w) (idempotencyKeys (store w)) of
       None \<Rightarrow> (Inr Created, setKeys (idempotencyKeys (store w) @ [pendingRow ie key req w]) w)
     | Some code \<Rightarrow> (if code = ''P2002'' then (Inr Conflict, w)
                    else (Inl (PrismaException (PrismaClientKnownRequestError code)), w)))"
  using assms
  by (simp add: key_claim_def catchM_def bindM_def keysOp_run keyClaim_def newRow_def rowOf_def pendingRow_def Let_def split: option.split)

definition completion :: "idem_env \<Rightarrow> jsval \<Rightarrow> jsval" where
  "completion ie d = jsonb ie (JObj [(''data'', d), (''statusCode'', JNum (of_nat (routeStatus ie)))])"

definition completeRow :: "idem_env \<Rightarrow> jsval \<Rightarrow> idempotency_key \<Rightarrow> idempotency_key" where
  "completeRow ie d r = r\<lparr>ik_status := ''COMPLETED'', ik_response := Some (completion ie d)\<rparr>"

lemma markCompleted_run:
  assumes "runtime (id_env ie)" "fireUpdate ie = (\<lambda>task. task)" "keyOf w key = Some r"
  shows "markCompleted ie key d (routeStatus ie) w =
    (Inr (), setKeys (updateFirst (live (\<lambda>r. ik_key r = key)) (completeRow ie d) (idempotencyKeys (store w))) w)"
proof -
  let ?task = "keysOp ie (\<lambda>e t. d_update e t (whereOf (\<lambda>r. ik_key r = key)) (setOf (\<lambda>r. r\<lparr>ik_status := ''COMPLETED'',
          ik_response := Some (jsonb ie (JObj [(''data'', d), (''statusCode'', JNum (of_nat (routeStatus ie)))]))\<rparr>)))"
  have "?task w = (Inr (completeRow ie d r), setKeys (updateFirst (live (\<lambda>r. ik_key r = key)) (completeRow ie d) (idempotencyKeys (store w))) w)"
    using assms(1,3) by (simp add: keysOp_run keyOf_def completeRow_def [abs_def] completion_def)
  then have "withResilience (\<lambda>_. returnM ()) (random (id_env ie)) (fireUpdate ie) ?task None None w =
      (Inr (completeRow ie d r), setKeys (updateFirst (live (\<lambda>r. ik_key r = key)) (completeRow ie d) (idempotencyKeys (store w))) w)"
    unfolding assms(2) by (rule resilience_ok)
  then show ?thesis unfolding markCompleted_def by (subst bindM_Inr) (assumption, simp only: returnM_run)
qed

definition keyIn :: "request \<Rightarrow> string option" where
  "keyIn req = normalizeIdempotencyKey (if truthy (req_key_lower req) then req_key_lower req else req_key_upper req)"

lemma intercept_key:
  assumes "keyIn req = Some key"
  shows "intercept ie req handler w =
    (case prepareKey ie req key w of
       (Inr (Some reply), w') \<Rightarrow> (Inr reply, w')
     | (Inr None, w') \<Rightarrow> runHandler ie key handler w'
     | (Inl error, w') \<Rightarrow> (if isHttpException error then (Inl error, w')
         else bindM (ignoreErrors (key_markFailed ie key error 500)) (\<lambda>_. throwM error) w'))"
  using assms by (cases "prepareKey ie req key w")
    (auto simp: intercept_def keyIn_def bindM_def catchM_def split: sum.split option.split prod.split)

text \<open>A live key that has not expired is decided without the handler.\<close>

definition storedBody :: "idempotency_key \<Rightarrow> jsval" where
  "storedBody row = (if truthy (ik_requestBody row) then ik_requestBody row else JObj [])"

lemma prepare_known:
  assumes "runtime (id_env ie)" "keyOf w key = Some row" "now (id_env ie) \<le> ik_expiresAt row"
    and "stringify ie (requestBody req) = Inr b" "stringify ie (storedBody row) = Inr b'"
    and "completed row \<or> ik_status row = ''PENDING''"
  shows "prepareKey ie req key w =
    (if b \<noteq> b' then (Inl differentBody, w)
     else if completed row then (Inr (Some (replayOf key (the (ik_response row)))), w) else (Inl stillProcessing, w))"
  using assms(6)
  by (elim disjE) (use assms(1-5) in \<open>simp_all add: prepareKey_def bindM_def liftE_def storedBody_def\<close>)

lemma prepare_new:
  assumes "runtime (id_env ie)" "keyOf w key = None"
  shows "prepareKey ie req key w =
    (case violates (idempotencyKeyE (prisma (id_env ie))) (pendingRow ie key req w) (idempotencyKeys (store w)) of
       None \<Rightarrow> (Inr None, setKeys (idempotencyKeys (store w) @ [pendingRow ie key req w]) w)
     | Some code \<Rightarrow> (if code = ''P2002'' then (Inl stillProcessing, w)
                    else (Inl (PrismaException (PrismaClientKnownRequestError code)), w)))"
  using assms by (simp add: prepareKey_def bindM_def key_claim_run split: option.split)

section \<open>Replay\<close>

lemma pendingRow_fields [simp]:
  "ik_key (pendingRow ie key req w) = key" "deletedAt (pendingRow ie key req w) = None"
  "ik_expiresAt (pendingRow ie key req w) = now (id_env ie) + 24 * msPerHour" "ik_status (pendingRow ie key req w) = ''PENDING''"
  "ik_requestBody (pendingRow ie key req w) = jsonb ie (orObject (requestBody req))"
  by (simp_all add: pendingRow_def)

lemma completeRow_fields [simp]:
  "ik_key (completeRow ie d r) = ik_key r" "deletedAt (completeRow ie d r) = deletedAt r"
  "ik_expiresAt (completeRow ie d r) = ik_expiresAt r" "ik_status (completeRow ie d r) = ''COMPLETED''"
  "ik_requestBody (completeRow ie d r) = ik_requestBody r" "ik_response (completeRow ie d r) = Some (completion ie d)"
  by (simp_all add: completeRow_def)

text \<open>The first request with a key that is free, whose handler succeeds and leaves the key table alone.\<close>

definition firstRequest :: "idem_env \<Rightarrow> request \<Rightarrow> string \<Rightarrow> (world, jsval) sm \<Rightarrow> jsval \<Rightarrow> world \<Rightarrow> world \<Rightarrow> bool" where
  "firstRequest ie req key handler d w w1 \<longleftrightarrow>
    (let row = pendingRow ie key req w; t = idempotencyKeys (store w) @ [row] in
     keyIn req = Some key \<and> keyOf w key = None \<and>
     violates (idempotencyKeyE (prisma (id_env ie))) row (idempotencyKeys (store w)) = None \<and>
     handler (setKeys t w) = (Inr d, w1) \<and> idempotencyKeys (store w1) = t)"

lemma first_request:
  assumes "runtime (id_env ie)" "firstRequest ie req key handler d w w1"
  shows "intercept ie req handler w =
      bindM (ignoreErrors (markCompleted ie key d (routeStatus ie))) (\<lambda>_.
        returnM \<lparr>rp_data = d, rp_status = JNum (of_nat (routeStatus ie)), rp_headers = [(''X-Idempotency-Key'', key)]\<rparr>) w1"
    and "keyOf w1 key = Some (pendingRow ie key req w)"
proof -
  note first = assms(2) [unfolded firstRequest_def Let_def]
  have prep: "prepareKey ie req key w = (Inr None, setKeys (idempotencyKeys (store w) @ [pendingRow ie key req w]) w)"
    using prepare_new [OF assms(1), of w key req] first by simp
  have handled: "catchM handler h (setKeys (idempotencyKeys (store w) @ [pendingRow ie key req w]) w) = (Inr d, w1)" for h
    using first by (simp add: catchM_def)
  show "intercept ie req handler w =
      bindM (ignoreErrors (markCompleted ie key d (routeStatus ie))) (\<lambda>_.
        returnM \<lparr>rp_data = d, rp_status = JNum (of_nat (routeStatus ie)), rp_headers = [(''X-Idempotency-Key'', key)]\<rparr>) w1"
    unfolding intercept_key [OF conjunct1 [OF first]] prep runHandler_def prod.case sum.case option.case
    by (subst bindM_Inr, rule handled) (rule refl)
  show "keyOf w1 key = Some (pendingRow ie key req w)"
    using first by (simp add: keyOf_def find_append live_def)
qed


text \<open>
  A lost completion wedges the key. When the breaker refuses to write the completion, the client
  of the first request still gets its response, but the key stays pending: every retry up to
  24 hours later is turned away with 409, although the operation has been carried out.
\<close>

theorem completion_lost:
  assumes "runtime (id_env ie)" "fireUpdate ie = (\<lambda>task s. (Inl e, s))" "firstRequest ie req key handler d w w1"
    and "runtime (id_env ie2)" "now (id_env ie2) \<le> now (id_env ie) + 24 * msPerHour"
    and "stringify ie2 (requestBody req) = Inr b" "stringify ie2 (storedBody (pendingRow ie key req w)) = Inr b"
  shows "(\<exists>rep. intercept ie req handler w = (Inr rep, w1) \<and> rp_data rep = d) \<and>
    intercept ie2 req handler2 w1 = (Inl stillProcessing, w1)"
proof -
  let ?row = "pendingRow ie key req w"
  have row: "keyOf w1 key = Some ?row" by (rule first_request(2) [OF assms(1,3)])
  have mark: "ignoreErrors (markCompleted ie key d (routeStatus ie)) w1 = (Inr (), w1)"
    by (simp add: ignoreErrors_def markCompleted_def withResilience_def assms(2) catchM_def bindM_def)
  have "\<not> completed ?row" by (simp add: completed_def)
  then have "prepareKey ie2 req key w1 = (Inl stillProcessing, w1)"
    using prepare_known [OF assms(4) row _ assms(6), of b] assms(5,7) by simp
  moreover have "keyIn req = Some key" using assms(3) by (simp add: firstRequest_def Let_def)
  ultimately have "intercept ie2 req handler2 w1 = (Inl stillProcessing, w1)"
    by (simp add: intercept_key stillProcessing_def)
  then show ?thesis
    unfolding first_request(1) [OF assms(1,3)] bindM_Inr [where m = "ignoreErrors (markCompleted ie key d (routeStatus ie))", OF mark] by simp
qed

text \<open>
  A retry can be taken for a different request. The body is compared as text, and the column
  returns it with its members reordered: when the texts differ, the retry of the very same request
  is refused with 400, and the stored response is never replayed.
\<close>

theorem reordered_body_refused:
  assumes "runtime (id_env ie)" "keyIn req = Some key" "keyOf w key = Some row"
    and "completed row \<or> ik_status row = ''PENDING''" "now (id_env ie) \<le> ik_expiresAt row"
    and "stringify ie (requestBody req) = Inr b" "stringify ie (storedBody row) = Inr b'" "b \<noteq> b'"
  shows "intercept ie req handler w = (Inl differentBody, w)"
  using prepare_known [OF assms(1,3,5-7,4)] assms(8) by (simp add: intercept_key [OF assms(2)] differentBody_def)

section \<open>Clean-up\<close>

definition uniqueKeys :: "idem_env \<Rightarrow> bool" where
  "uniqueKeys ie \<longleftrightarrow> (\<forall>r t. ik_key r \<in> ik_key ` set t \<longrightarrow> violates (idempotencyKeyE (prisma (id_env ie))) r t = Some ''P2002'')"

lemma cleanup_run:
  assumes "runtime (id_env ie)"
  shows "idempotency_handleCron ie w = (Inr (), setKeys (map (\<lambda>r. if live (\<lambda>r. ik_createdAt r <
      now (id_env ie) - STALE_THRESHOLD_HOURS * msPerHour) r then stamp (now (id_env ie)) r else r) (idempotencyKeys (store w))) w)"
  using assms by (simp add: idempotency_handleCron_def ignoreErrors_def catchM_def bindM_def keysOp_run Let_def)

text \<open>
  A cleaned-up key is lost. The nightly clean-up only hides the rows, while the key column stays
  unique: once a key has been cleaned up, every request with it, at any later time and whatever
  its body, is turned away with 409, and none ever reaches its handler.
\<close>

theorem cleaned_key_wedged:
  assumes "runtime (id_env ie)" "distinct (map ik_key (idempotencyKeys (store w)))"
    and "keyOf w key = Some row" "ik_createdAt row < now (id_env ie) - STALE_THRESHOLD_HOURS * msPerHour"
    and "runtime (id_env ie2)" "uniqueKeys ie2" "keyIn req = Some key"
  shows "\<exists>w'. idempotency_handleCron ie w = (Inr (), w') \<and> intercept ie2 req handler w' = (Inl stillProcessing, w')"
proof -
  let ?f = "\<lambda>r. if live (\<lambda>r. ik_createdAt r < now (id_env ie) - STALE_THRESHOLD_HOURS * msPerHour) r then stamp (now (id_env ie)) r else r"
  let ?w = "setKeys (map ?f (idempotencyKeys (store w))) w"
  have run: "idempotency_handleCron ie w = (Inr (), ?w)" by (rule cleanup_run [OF assms(1)])
  have row: "row \<in> set (idempotencyKeys (store w))" "ik_key row = key" "deletedAt row = None"
    using find_Some_mem [OF assms(3) [unfolded keyOf_def]] by (simp_all add: live_def)
  have keys: "ik_key (?f r) = ik_key r" for r by (simp add: stamp_def)
  have "r = row" if "r \<in> set (idempotencyKeys (store w))" "ik_key r = key" for r
    using that row assms(2) by (auto simp: distinct_map inj_on_def)
  then have gone: "keyOf ?w key = None"
    using assms(4) row(3) by (auto simp: keyOf_def find_None_iff live_def stamp_def split: if_splits)
  have "key \<in> ik_key ` set (map ?f (idempotencyKeys (store w)))"
    unfolding list.set_map using imageI [OF imageI [OF row(1), of ?f], of ik_key] unfolding keys row(2) .
  then have "violates (idempotencyKeyE (prisma (id_env ie2))) (pendingRow ie2 key req ?w) (idempotencyKeys (store ?w)) = Some ''P2002''"
    using assms(6) unfolding uniqueKeys_def by simp
  then have "prepareKey ie2 req key ?w = (Inl stillProcessing, ?w)"
    using prepare_new [OF assms(5) gone, of req] by simp
  then have "intercept ie2 req handler ?w = (Inl stillProcessing, ?w)"
    by (simp add: intercept_key [OF assms(7)] stillProcessing_def)
  with run show ?thesis by blast
qed

section \<open>A concrete interceptor\<close>

text \<open>A column that keeps shorter member names in front, as \<open>jsonb\<close> does.\<close>

fun shortKeysFirst :: "jsval \<Rightarrow> jsval" where
  "shortKeysFirst (JObj ms) = JObj (sort_key (\<lambda>m. length (fst m)) ms)"
| "shortKeysFirst v = v"

definition sampleIdem :: "int \<Rightarrow> idem_env" where
  "sampleIdem t = \<lparr>id_env = memoryEnv\<lparr>now := t\<rparr>, id_js = \<lparr>textOf = (\<lambda>v. ''?''), ownEntries = (\<lambda>v. [])\<rparr>, jsonb = shortKeysFirst,
     fireUpdate = (\<lambda>task. task), routeStatus = 201, id_prismaMessage = (\<lambda>p. ''prisma'')\<rparr>"

definition brokenIdem :: "int \<Rightarrow> idem_env" where
  "brokenIdem t = (sampleIdem t)\<lparr>fireUpdate := (\<lambda>task s. (Inl (CodedError ''CircuitBreakerOpenError'' ''EOPENBREAKER'' ''open''), s))\<rparr>"

definition sampleRequest :: "(string \<times> jsval) list \<Rightarrow> request" where
  "sampleRequest body = \<lparr>req_method = ''POST'', req_url = ''/claims'', req_body = JObj body, req_key_lower = JStr ''k-1'',
     req_key_upper = JUndef\<rparr>"

definition emptyWorld :: world where
  "emptyWorld = \<lparr>store = emptyDb, emailJobs = [], pushJobs = []\<rparr>"

definition created :: "(world, jsval) sm" where
  "created = returnM (JObj [(''id'', JStr ''c-1'')])"

definition afterFirst :: world where
  "afterFirst = setKeys [pendingRow (sampleIdem 1000) ''k-1'' (sampleRequest [(''a'', JNum 1)]) emptyWorld] emptyWorld"

lemma runtime_now [simp]: "runtime env \<Longrightarrow> runtime (env\<lparr>now := t\<rparr>)"
  by (simp add: runtime_def)

lemma sampleIdem_laws [simp]: "runtime (id_env (sampleIdem t))" "runtime (id_env (brokenIdem t))"
  by (simp_all add: sampleIdem_def brokenIdem_def)

lemma sample_first:
  "firstRequest (sampleIdem 1000) (sampleRequest [(''a'', JNum 1)]) ''k-1'' created (JObj [(''id'', JStr ''c-1'')]) emptyWorld afterFirst"
  "firstRequest (brokenIdem 1000) (sampleRequest [(''a'', JNum 1)]) ''k-1'' created (JObj [(''id'', JStr ''c-1'')]) emptyWorld afterFirst"
  by code_simp+

lemma sample_texts:
  "stringify (sampleIdem t) (requestBody (sampleRequest [(''a'', JNum 1)])) =
   stringify (sampleIdem t) (storedBody (pendingRow (sampleIdem 1000) ''k-1'' (sampleRequest [(''a'', JNum 1)]) emptyWorld))"
  "stringify (sampleIdem t) (requestBody (sampleRequest [(''a'', JNum 1)])) =
   stringify (sampleIdem t) (storedBody (pendingRow (brokenIdem 1000) ''k-1'' (sampleRequest [(''a'', JNum 1)]) emptyWorld))"
  "\<exists>b. stringify (sampleIdem t) (requestBody (sampleRequest [(''a'', JNum 1)])) = Inr b"
  by (simp_all add: stringify_def storedBody_def pendingRow_def sampleRequest_def requestBody_def orObject_def nn_def
      brokenIdem_def) (simp_all add: sampleIdem_def)


theorem completion_lost_witness:
  "\<exists>rep. intercept (brokenIdem 1000) (sampleRequest [(''a'', JNum 1)]) created emptyWorld = (Inr rep, afterFirst) \<and>
     intercept (sampleIdem 5000) (sampleRequest [(''a'', JNum 1)]) created afterFirst = (Inl stillProcessing, afterFirst)"
proof -
  have "fireUpdate (brokenIdem 1000) = (\<lambda>task s. (Inl (CodedError ''CircuitBreakerOpenError'' ''EOPENBREAKER'' ''open''), s))"
    by (simp add: brokenIdem_def)
  moreover have "now (id_env (sampleIdem 5000)) \<le> now (id_env (brokenIdem 1000)) + 24 * msPerHour" by code_simp
  moreover obtain b where "stringify (sampleIdem 5000) (requestBody (sampleRequest [(''a'', JNum 1)])) = Inr b" using sample_texts(3) by blast
  moreover from this have "stringify (sampleIdem 5000) (storedBody (pendingRow (brokenIdem 1000) ''k-1'' (sampleRequest [(''a'', JNum 1)]) emptyWorld)) = Inr b"
    by (simp only: sample_texts(2))
  ultimately show ?thesis
    using completion_lost [OF sampleIdem_laws(2) _ sample_first(2) sampleIdem_laws(1), of _ 5000 b created] by metis
qed

theorem reordered_body_refused_witness:
  "let req = sampleRequest [(''bb'', JNum 1), (''a'', JNum 2)] in
   intercept (sampleIdem 2000) req created (setKeys [pendingRow (sampleIdem 1000) ''k-1'' req emptyWorld] emptyWorld) =
     (Inl differentBody, setKeys [pendingRow (sampleIdem 1000) ''k-1'' req emptyWorld] emptyWorld)"
proof -
  define req where "req = sampleRequest [(''bb'', JNum 1), (''a'', JNum 2)]"
  let ?row = "pendingRow (sampleIdem 1000) ''k-1'' req emptyWorld"
  have key: "keyIn req = Some ''k-1''" unfolding req_def by code_simp
  have row: "keyOf (setKeys [?row] emptyWorld) ''k-1'' = Some ?row" by (simp add: keyOf_def live_def)
  have time: "now (id_env (sampleIdem 2000)) \<le> ik_expiresAt ?row" by (simp add: sampleIdem_def msPerHour_def)
  have "\<exists>b b'. stringify (sampleIdem 2000) (requestBody req) = Inr b \<and> stringify (sampleIdem 2000) (storedBody ?row) = Inr b' \<and> b \<noteq> b'"
    by (simp add: stringify_def storedBody_def pendingRow_def sampleRequest_def requestBody_def orObject_def nn_def req_def)
      (simp add: sampleIdem_def jsonQuote_def jsonEscape_def codePoint_def)
  then show ?thesis
    using reordered_body_refused [OF sampleIdem_laws(1) key row _ time, of _ _ created] unfolding req_def [symmetric] Let_def by auto
qed

theorem cleaned_key_wedged_witness:
  "\<exists>w'. idempotency_handleCron (sampleIdem 200000000) afterFirst = (Inr (), w') \<and>
     intercept (sampleIdem 900000000) (sampleRequest []) created w' = (Inl stillProcessing, w')"
proof -
  let ?row = "pendingRow (sampleIdem 1000) ''k-1'' (sampleRequest [(''a'', JNum 1)]) emptyWorld"
  have row: "keyOf afterFirst ''k-1'' = Some ?row" by (simp add: keyOf_def live_def afterFirst_def)
  have "distinct (map ik_key (idempotencyKeys (store afterFirst)))" by (simp add: afterFirst_def)
  moreover have "ik_createdAt ?row < now (id_env (sampleIdem 200000000)) - STALE_THRESHOLD_HOURS * msPerHour" by code_simp
  moreover have "uniqueKeys (sampleIdem 900000000)"
    by (simp add: uniqueKeys_def sampleIdem_def memoryEnv_def memoryClient_def tableEngine_def uniqueOn_def)
  moreover have "keyIn (sampleRequest []) = Some ''k-1''" by code_simp
  ultimately show ?thesis using cleaned_key_wedged [OF sampleIdem_laws(1) _ row _ sampleIdem_laws(1)] by metis
qed

end
