(* ===== verification/Nonce.thy ===== *)
theory Nonce
  imports Runtime Once
begin

text \<open>
  \<open>nonce/nonce.service.ts\<close>: one-time login nonces in the Redis-backed cache. The cache is a
  parameter (\<open>lawfulCache\<close> states what its documentation promises) behind the circuit breaker
  of \<open>common/resilience\<close>. Creating, checking and consuming a nonce run on the state \<open>'c\<close> of the
  cache alone.
\<close>

section \<open>The cache\<close>

record 'c cache =
  cacheGet :: "int \<Rightarrow> string \<Rightarrow> ('c, string option) sm"
  cacheSet :: "int \<Rightarrow> string \<Rightarrow> string \<Rightarrow> int \<Rightarrow> ('c, unit) sm"
  cacheDel :: "string \<Rightarrow> ('c, unit) sm"
  peek :: "'c \<Rightarrow> int \<Rightarrow> string \<Rightarrow> string option"

text \<open>
  \<open>peek s t k\<close> is what the cache holds for \<open>k\<close> at time \<open>t\<close>. A value set at \<open>now\<close> is there
  until \<open>now + ttl\<close>; \<open>del\<close> removes the key; each call may also fail, and a failed \<open>set\<close> or
  \<open>del\<close> may or may not have taken effect. No call touches another key.
\<close>

definition setTo :: "int \<Rightarrow> string \<Rightarrow> string \<Rightarrow> int \<Rightarrow> (int \<Rightarrow> string \<Rightarrow> string option) \<Rightarrow> int \<Rightarrow> string \<Rightarrow> string option" where
  "setTo n k v ttl p t k' = (if k' = k then if t < n + ttl then Some v else None else p t k')"

definition lawfulCache :: "'c cache \<Rightarrow> bool" where
  "lawfulCache c \<longleftrightarrow>
     (\<forall>n k s. cacheGet c n k s = (Inr (peek c s n k), s) \<or> (\<exists>e. cacheGet c n k s = (Inl e, s))) \<and>
     (\<forall>n k v ttl s. case cacheSet c n k v ttl s of
         (Inr _, s') \<Rightarrow> peek c s' = setTo n k v ttl (peek c s)
       | (Inl _, s') \<Rightarrow> peek c s' = peek c s \<or> peek c s' = setTo n k v ttl (peek c s)) \<and>
     (\<forall>k s. case cacheDel c k s of
         (Inr _, s') \<Rightarrow> peek c s' = (\<lambda>t. (peek c s t)(k := None))
       | (Inl _, s') \<Rightarrow> peek c s' = peek c s \<or> peek c s' = (\<lambda>t. (peek c s t)(k := None)))"

record 'c nonce_env =
  ne_cache :: "'c cache"
  ne_now :: int
  ne_random :: "nat \<Rightarrow> rat"
  randomNonce :: string
  fireCacheUnit :: "('c, unit) sm \<Rightarrow> ('c, unit) sm"
  fireCacheGet :: "('c, string option) sm \<Rightarrow> ('c, string option) sm"

section \<open>NonceService\<close>

definition NONCE_TTL_MS :: int where
  "NONCE_TTL_MS = 5 * 60 * 1000"

definition buildKey :: "string \<Rightarrow> string" where
  "buildKey nonce = ''nonce:'' @ nonce"

definition buildUserKey :: "string \<Rightarrow> string" where
  "buildUserKey nonce = ''nonce:user:'' @ nonce"

definition guardedUnit :: "'c nonce_env \<Rightarrow> ('c, unit) sm \<Rightarrow> ('c, unit) sm" where
  "guardedUnit ne task = withResilience (\<lambda>_. returnM ()) (ne_random ne) (fireCacheUnit ne) task (Some REDIS_NONCE_POLICY) None"

definition guardedGet :: "'c nonce_env \<Rightarrow> string \<Rightarrow> ('c, string option) sm" where
  "guardedGet ne key = withResilience (\<lambda>_. returnM ()) (ne_random ne) (fireCacheGet ne)
     (cacheGet (ne_cache ne) (ne_now ne) key) (Some REDIS_NONCE_POLICY) None"

text \<open>An absent and an empty user identifier are both falsy.\<close>

fun truthyText :: "string option \<Rightarrow> bool" where
  "truthyText None = False"
| "truthyText (Some s) = (s \<noteq> [])"

definition createNonce :: "'c nonce_env \<Rightarrow> string option \<Rightarrow> ('c, string) sm" where
  "createNonce ne userId =
    (let nonce = randomNonce ne in
     bindM (guardedUnit ne
       (bindM (cacheSet (ne_cache ne) (ne_now ne) (buildKey nonce) (showInt (ne_now ne)) NONCE_TTL_MS) (\<lambda>_.
        if truthyText userId
        then cacheSet (ne_cache ne) (ne_now ne) (buildUserKey nonce) (the userId) NONCE_TTL_MS
        else returnM ()))) (\<lambda>_.
     returnM nonce))"

definition generateNonce :: "'c nonce_env \<Rightarrow> string option \<Rightarrow> ('c, string) sm" where
  "generateNonce ne userId = createNonce ne userId"

text \<open>\<open>consumeNonce\<close> up to the deletion, and the deletion.\<close>

definition checkNonce :: "'c nonce_env \<Rightarrow> string \<Rightarrow> string option \<Rightarrow> ('c, unit) sm" where
  "checkNonce ne nonce expectedUserId =
    (if nonce = [] then throwM (BadRequestException ''Invalid nonce format.'')
     else
       bindM (guardedGet ne (buildKey nonce)) (\<lambda>stored.
       if \<not> truthyText stored
       then throwM (BadRequestException ''Nonce is invalid, expired, or has already been used.'')
       else if truthyText expectedUserId then
         bindM (guardedGet ne (buildUserKey nonce)) (\<lambda>boundUserId.
         if truthyText boundUserId \<and> boundUserId \<noteq> expectedUserId
         then throwM (BadRequestException ''Nonce does not belong to the specified user.'')
         else returnM ())
       else returnM ()))"

definition deleteNonce :: "'c nonce_env \<Rightarrow> string \<Rightarrow> ('c, bool) sm" where
  "deleteNonce ne nonce =
     bindM (guardedUnit ne
       (bindM (cacheDel (ne_cache ne) (buildKey nonce)) (\<lambda>_. cacheDel (ne_cache ne) (buildUserKey nonce)))) (\<lambda>_.
     returnM True)"

definition consumeNonce :: "'c nonce_env \<Rightarrow> string \<Rightarrow> string option \<Rightarrow> ('c, bool) sm" where
  "consumeNonce ne nonce expectedUserId =
     bindM (checkNonce ne nonce expectedUserId) (\<lambda>_. deleteNonce ne nonce)"

definition consumeNonceForUser :: "'c nonce_env \<Rightarrow> string \<Rightarrow> string \<Rightarrow> ('c, bool) sm" where
  "consumeNonceForUser ne nonce expectedUserId = consumeNonce ne nonce (Some expectedUserId)"

definition isNonceValid :: "'c nonce_env \<Rightarrow> string \<Rightarrow> ('c, bool) sm" where
  "isNonceValid ne nonce =
    (if nonce = [] then returnM False
     else bindM (guardedGet ne (buildKey nonce)) (\<lambda>stored. returnM (stored \<noteq> None)))"

definition issueNonce :: "'c nonce_env \<Rightarrow> ('c, string \<times> int) sm" where
  "issueNonce ne = bindM (generateNonce ne None) (\<lambda>nonce. returnM (nonce, 5 * 60 * 1000))"

section \<open>What the calls do\<close>

definition lawfulNonce :: "'c nonce_env \<Rightarrow> bool" where
  "lawfulNonce ne \<longleftrightarrow> lawfulCache (ne_cache ne) \<and> lawfulBreaker (fireCacheUnit ne) \<and> lawfulBreaker (fireCacheGet ne)"

lemma lawfulNonce_now [simp]: "lawfulNonce (ne\<lparr>ne_now := t\<rparr>) = lawfulNonce ne"
  by (simp add: lawfulNonce_def)

lemma cacheGet_cases:
  assumes "lawfulCache c"
  obtains "cacheGet c n k s = (Inr (peek c s n k), s)" | e where "cacheGet c n k s = (Inl e, s)"
  using assms unfolding lawfulCache_def by blast

lemma cacheSet_cases:
  assumes "lawfulCache c" "cacheSet c n k v ttl s = (r, s')"
  shows "peek c s' = setTo n k v ttl (peek c s) \<or> (\<exists>e. r = Inl e) \<and> peek c s' = peek c s"
proof -
  have "\<forall>n k v ttl s. case cacheSet c n k v ttl s of
         (Inr _, s') \<Rightarrow> peek c s' = setTo n k v ttl (peek c s)
       | (Inl _, s') \<Rightarrow> peek c s' = peek c s \<or> peek c s' = setTo n k v ttl (peek c s)"
    using assms(1) unfolding lawfulCache_def by (elim conjE) assumption
  from spec [OF spec [OF spec [OF spec [OF spec [OF this, of n], of k], of v], of ttl], of s] assms(2) show ?thesis by (cases r) auto
qed

lemma cacheDel_cases:
  assumes "lawfulCache c" "cacheDel c k s = (r, s')"
  shows "peek c s' = (\<lambda>t. (peek c s t)(k := None)) \<or> (\<exists>e. r = Inl e) \<and> peek c s' = peek c s"
  using assms unfolding lawfulCache_def by (cases r) (auto dest!: spec [of _ k] spec [of _ s])

lemma guardedGet_run:
  assumes "lawfulNonce ne" "guardedGet ne k s = (r, s')"
  shows "s' = s \<and> (\<forall>x. r = Inr x \<longrightarrow> x = peek (ne_cache ne) s (ne_now ne) k)"
proof -
  have c: "lawfulCache (ne_cache ne)" using assms(1) by (simp add: lawfulNonce_def)
  have "keeps (\<lambda>x. x = s) (cacheGet (ne_cache ne) (ne_now ne) k)"
  proof (rule keepsI)
    fix x assume x: "x = s"
    show "snd (cacheGet (ne_cache ne) (ne_now ne) k x) = s"
      unfolding x using c by (rule cacheGet_cases [where n = "ne_now ne" and k = k and s = s]) auto
  qed
  from resilience_run [OF _ this refl assms(2) [unfolded guardedGet_def]] assms(1)
  have "s' = s \<and> (\<forall>x. r = Inr x \<longrightarrow> cacheGet (ne_cache ne) (ne_now ne) k s = (Inr x, s))"
    by (auto simp: lawfulNonce_def)
  with c show ?thesis
    by - (rule cacheGet_cases [where n = "ne_now ne" and k = k and s = s], auto)
qed

text \<open>A check never changes the cache, and accepts only a nonce that is there and not bound to someone else.\<close>

lemma checkNonce_run:
  assumes "lawfulNonce ne" "checkNonce ne nonce u s = (r, s')"
  shows "s' = s \<and> (\<forall>x. r = Inr x \<longrightarrow> truthyText (peek (ne_cache ne) s (ne_now ne) (buildKey nonce)))"
proof -
  obtain r1 s1 where g1: "guardedGet ne (buildKey nonce) s = (r1, s1)" by (cases "guardedGet ne (buildKey nonce) s") auto
  obtain r2 s2 where g2: "guardedGet ne (buildUserKey nonce) s = (r2, s2)"
    by (cases "guardedGet ne (buildUserKey nonce) s") auto
  from guardedGet_run [OF assms(1) g1] guardedGet_run [OF assms(1) g2] g1 g2 assms(2) show ?thesis
    by (auto simp: checkNonce_def bindM_def split: if_splits sum.splits)
qed

definition onlyRemoves :: "'c cache \<Rightarrow> 'c \<Rightarrow> 'c \<Rightarrow> bool" where
  "onlyRemoves c s s' \<longleftrightarrow> (\<forall>t k y. peek c s' t k = Some y \<longrightarrow> peek c s t k = Some y)"

lemma deleteNonce_run:
  assumes "lawfulNonce ne" "deleteNonce ne nonce s = (r, s')"
  shows "onlyRemoves (ne_cache ne) s s' \<and>
    (\<forall>x. r = Inr x \<longrightarrow> (\<forall>t. peek (ne_cache ne) s' t (buildKey nonce) = None))"
proof -
  let ?c = "ne_cache ne"
  let ?task = "bindM (cacheDel ?c (buildKey nonce)) (\<lambda>_. cacheDel ?c (buildUserKey nonce))"
  have c: "lawfulCache ?c" using assms(1) by (simp add: lawfulNonce_def)
  note del = cacheDel_cases [OF c]
  have "keeps (onlyRemoves ?c s) (cacheDel ?c k)" for k
  proof (rule keepsI)
    fix x assume "onlyRemoves ?c s x"
    then show "onlyRemoves ?c s (snd (cacheDel ?c k x))"
      using del [of k x "fst (cacheDel ?c k x)" "snd (cacheDel ?c k x)"]
      by (auto simp: onlyRemoves_def split: if_splits)
  qed
  then have k: "keeps (onlyRemoves ?c s) ?task" by (intro keeps_bind)
  obtain q where q: "guardedUnit ne ?task s = (q, s')" "r = Inl e \<longrightarrow> True" "(\<exists>x. r = Inr x) \<longleftrightarrow> q = Inr ()"
    using assms(2) unfolding deleteNonce_def bindM_def by (auto split: prod.splits sum.splits)
  have run: "onlyRemoves ?c s s' \<and> (\<forall>x. q = Inr x \<longrightarrow> (\<exists>s0. onlyRemoves ?c s s0 \<and> ?task s0 = (Inr x, s')))"
    using resilience_run [OF _ k _ q(1) [unfolded guardedUnit_def]] assms(1) by (auto simp: lawfulNonce_def onlyRemoves_def)
  have "peek ?c s' t (buildKey nonce) = None" if "?task s0 = (Inr (), s')" for s0 t
    using that
  proof (elim bindM_InrE)
    fix x s1 assume d: "cacheDel ?c (buildKey nonce) s0 = (Inr x, s1)" "cacheDel ?c (buildUserKey nonce) s1 = (Inr (), s')"
    from del [OF d(1)] del [OF d(2)] show ?thesis by auto
  qed
  with run q(3) show ?thesis by blast
qed

section \<open>One use\<close>

definition usedNonce :: "'c cache \<Rightarrow> 'c \<Rightarrow> string \<Rightarrow> bool" where
  "usedNonce c s nonce \<longleftrightarrow> (\<forall>t. peek c s t (buildKey nonce) = None)"

lemma removed_stays: "onlyRemoves c s s' \<Longrightarrow> usedNonce c s nonce \<Longrightarrow> usedNonce c s' nonce"
  unfolding onlyRemoves_def usedNonce_def by (metis not_Some_eq)

definition consumeAt :: "'c nonce_env \<Rightarrow> int \<times> string \<times> string option \<Rightarrow> ('c, bool) sm" where
  "consumeAt ne = (\<lambda>(t, nonce, user). consumeNonce (ne\<lparr>ne_now := t\<rparr>) nonce user)"

lemma nonce_at_most_once:
  assumes "lawfulNonce ne"
  shows "at_most_once (consumeAt ne) (fst \<circ> snd) (usedNonce (ne_cache ne)) (\<lambda>_. True)"
proof
  fix s s' and e :: "int \<times> string \<times> string option" and k
  obtain t n u where e: "e = (t, n, u)" by (cases e) auto
  let ?ne = "ne\<lparr>ne_now := t\<rparr>"
  have law: "lawfulNonce ?ne" using assms by simp
  note check = checkNonce_run [OF law, of n u s]
  note del = deleteNonce_run [OF law, of n s]
  obtain r1 s1 where c1: "checkNonce ?ne n u s = (r1, s1)" by (cases "checkNonce ?ne n u s") auto
  obtain r2 s2 where d2: "deleteNonce ?ne n s = (r2, s2)" by (cases "deleteNonce ?ne n s") auto
  have s1: "s1 = s" using check [OF c1] by simp
  have run: "consumeAt ne e s = (case r1 of Inl x \<Rightarrow> (Inl x, s) | Inr _ \<Rightarrow> (r2, s2))"
    by (simp add: e consumeAt_def consumeNonce_def bindM_def c1 s1 d2 split: sum.split)
  show "consumeAt ne e s = (Inr True, s') \<Longrightarrow> usedNonce (ne_cache ne) s' ((fst \<circ> snd) e)"
    using del [OF d2] run by (auto simp: e usedNonce_def split: sum.splits)
  show "usedNonce (ne_cache ne) s ((fst \<circ> snd) e) \<Longrightarrow> fst (consumeAt ne e s) \<noteq> Inr True"
    using check [OF c1] run by (auto simp: e usedNonce_def split: sum.splits)
  show "usedNonce (ne_cache ne) s k \<Longrightarrow> usedNonce (ne_cache ne) (snd (consumeAt ne e s)) k"
    using removed_stays [of "ne_cache ne" s s2 k] del [OF d2] run by (simp split: sum.splits)
qed simp

text \<open>
  C20. A nonce is good for one login. Along any sequence of requests, each at its own time, for its
  own user and with every cache call free to fail, time out or be retried, a nonce is consumed
  successfully at most once, as long as the requests run one after the other.
\<close>

theorem nonce_single_use:
  assumes "lawfulNonce ne"
  shows "successes (fst \<circ> snd) nonce (fst (attempts_run (consumeAt ne) requests s)) \<le> 1"
  by (rule at_most_once.at_most_one_success [OF nonce_at_most_once [OF assms] TrueI])

section \<open>With a cache that does not fail\<close>

definition reliable :: "'c nonce_env \<Rightarrow> bool" where
  "reliable ne \<longleftrightarrow> lawfulNonce ne \<and>
     (\<forall>n k s. cacheGet (ne_cache ne) n k s = (Inr (peek (ne_cache ne) s n k), s)) \<and>
     (\<forall>n k v ttl s. \<exists>s'. cacheSet (ne_cache ne) n k v ttl s = (Inr (), s')) \<and>
     (\<forall>k s. \<exists>s'. cacheDel (ne_cache ne) k s = (Inr (), s')) \<and>
     fireCacheUnit ne = (\<lambda>task. task) \<and> fireCacheGet ne = (\<lambda>task. task)"

lemma reliable_now [simp]: "reliable (ne\<lparr>ne_now := t\<rparr>) = reliable ne"
  by (simp add: reliable_def)

lemma reliable_fire: "reliable ne \<Longrightarrow> fireCacheUnit ne = (\<lambda>task. task)"
  by (simp add: reliable_def)

lemma reliable_get: "reliable ne \<Longrightarrow> guardedGet ne k s = (Inr (peek (ne_cache ne) s (ne_now ne) k), s)"
  by (simp add: guardedGet_def reliable_def resilience_ok)

lemma reliable_set:
  assumes "reliable ne"
  obtains s' where "cacheSet (ne_cache ne) n k v ttl s = (Inr (), s')" "peek (ne_cache ne) s' = setTo n k v ttl (peek (ne_cache ne) s)"
proof -
  obtain s' where s': "cacheSet (ne_cache ne) n k v ttl s = (Inr (), s')" using assms unfolding reliable_def by blast
  moreover have "lawfulCache (ne_cache ne)" using assms by (simp add: reliable_def lawfulNonce_def)
  ultimately show ?thesis using cacheSet_cases [of "ne_cache ne" n k v ttl s "Inr ()" s'] by (intro that) auto
qed

lemma reliable_del:
  assumes "reliable ne"
  obtains s' where "cacheDel (ne_cache ne) k s = (Inr (), s')" "peek (ne_cache ne) s' = (\<lambda>t. (peek (ne_cache ne) s t)(k := None))"
proof -
  obtain s' where s': "cacheDel (ne_cache ne) k s = (Inr (), s')" using assms unfolding reliable_def by blast
  moreover have "lawfulCache (ne_cache ne)" using assms by (simp add: reliable_def lawfulNonce_def)
  ultimately show ?thesis using cacheDel_cases [of "ne_cache ne" k s "Inr ()" s'] by (intro that) auto
qed

lemma keys_differ [simp]: "buildKey n \<noteq> buildUserKey n" "buildUserKey n \<noteq> buildKey n"
  by (simp_all add: buildKey_def buildUserKey_def)

lemma buildKey_inject [simp]: "buildKey m = buildKey n \<longleftrightarrow> m = n"
  by (simp add: buildKey_def)

lemma reliable_check:
  assumes "reliable ne"
  shows "checkNonce ne nonce u s =
    (if nonce = [] then (Inl (BadRequestException ''Invalid nonce format.''), s)
     else if \<not> truthyText (peek (ne_cache ne) s (ne_now ne) (buildKey nonce))
     then (Inl (BadRequestException ''Nonce is invalid, expired, or has already been used.''), s)
     else let b = peek (ne_cache ne) s (ne_now ne) (buildUserKey nonce) in
       if truthyText u \<and> truthyText b \<and> b \<noteq> u
       then (Inl (BadRequestException ''Nonce does not belong to the specified user.''), s)
       else (Inr (), s))"
  by (simp add: checkNonce_def bindM_def reliable_get [OF assms] Let_def)

lemma reliable_delete:
  assumes "reliable ne"
  obtains s' where "deleteNonce ne nonce s = (Inr True, s')"
    "peek (ne_cache ne) s' = (\<lambda>t. (peek (ne_cache ne) s t)(buildKey nonce := None, buildUserKey nonce := None))"
proof -
  obtain s1 where s1: "cacheDel (ne_cache ne) (buildKey nonce) s = (Inr (), s1)"
    "peek (ne_cache ne) s1 = (\<lambda>t. (peek (ne_cache ne) s t)(buildKey nonce := None))" by (rule reliable_del [OF assms])
  obtain s2 where s2: "cacheDel (ne_cache ne) (buildUserKey nonce) s1 = (Inr (), s2)"
    "peek (ne_cache ne) s2 = (\<lambda>t. (peek (ne_cache ne) s1 t)(buildUserKey nonce := None))" by (rule reliable_del [OF assms])
  have "guardedUnit ne (bindM (cacheDel (ne_cache ne) (buildKey nonce)) (\<lambda>_. cacheDel (ne_cache ne) (buildUserKey nonce))) s = (Inr (), s2)"
    using assms s1(1) s2(1) by (simp add: guardedUnit_def reliable_def resilience_ok bindM_def)
  then have "deleteNonce ne nonce s = (Inr True, s2)" by (simp add: deleteNonce_def bindM_def)
  with s1(2) s2(2) show ?thesis by (intro that) (simp_all add: Let_def)
qed

text \<open>
  Checking and deleting are two steps. Two requests that both check a valid unbound nonce before
  either deletes it are both accepted, and both deletions report success; run one after the
  other, the second request is refused.
\<close>

theorem consume_race:
  assumes "reliable ne" "nonce \<noteq> []"
    and "truthyText (peek (ne_cache ne) s (ne_now ne) (buildKey nonce))"
    and "peek (ne_cache ne) s (ne_now ne) (buildUserKey nonce) = None"
  shows "\<exists>s1 s2. checkNonce ne nonce u s = (Inr (), s) \<and> checkNonce ne nonce v s = (Inr (), s) \<and>
    deleteNonce ne nonce s = (Inr True, s1) \<and> deleteNonce ne nonce s1 = (Inr True, s2) \<and>
    consumeNonce ne nonce u s = (Inr True, s1) \<and>
    consumeNonce ne nonce v s1 = (Inl (BadRequestException ''Nonce is invalid, expired, or has already been used.''), s1)"
proof -
  obtain s1 where s1: "deleteNonce ne nonce s = (Inr True, s1)"
    "peek (ne_cache ne) s1 = (\<lambda>t. (peek (ne_cache ne) s t)(buildKey nonce := None, buildUserKey nonce := None))"
    by (rule reliable_delete [OF assms(1)])
  obtain s2 where s2: "deleteNonce ne nonce s1 = (Inr True, s2)" by (rule reliable_delete [OF assms(1)])
  have check: "checkNonce ne nonce x s = (Inr (), s)" for x
    using assms by (simp add: reliable_check Let_def)
  have again: "checkNonce ne nonce v s1 = (Inl (BadRequestException ''Nonce is invalid, expired, or has already been used.''), s1)"
    using assms(1,2) s1(2) by (simp add: reliable_check)
  show ?thesis
    using check s1(1) s2 again by (auto simp: consumeNonce_def bindM_def)
qed

text \<open>What a created nonce leaves in the cache.\<close>

lemma showInt_nonempty [simp]: "showInt n \<noteq> []"
  by (subst showInt_def) (simp, subst showNat.simps, simp)

lemma reliable_create:
  assumes "reliable ne"
  obtains s' where "createNonce ne u s = (Inr (randomNonce ne), s')"
    "peek (ne_cache ne) s' = (let p = setTo (ne_now ne) (buildKey (randomNonce ne)) (showInt (ne_now ne)) NONCE_TTL_MS (peek (ne_cache ne) s)
       in if truthyText u then setTo (ne_now ne) (buildUserKey (randomNonce ne)) (the u) NONCE_TTL_MS p else p)"
proof -
  let ?n = "randomNonce ne"
  obtain s1 where s1: "cacheSet (ne_cache ne) (ne_now ne) (buildKey ?n) (showInt (ne_now ne)) NONCE_TTL_MS s = (Inr (), s1)"
    "peek (ne_cache ne) s1 = setTo (ne_now ne) (buildKey ?n) (showInt (ne_now ne)) NONCE_TTL_MS (peek (ne_cache ne) s)"
    by (rule reliable_set [OF assms])
  obtain s2 where s2: "cacheSet (ne_cache ne) (ne_now ne) (buildUserKey ?n) (the u) NONCE_TTL_MS s1 = (Inr (), s2)"
    "peek (ne_cache ne) s2 = setTo (ne_now ne) (buildUserKey ?n) (the u) NONCE_TTL_MS (peek (ne_cache ne) s1)"
    by (rule reliable_set [OF assms])
  let ?task = "bindM (cacheSet (ne_cache ne) (ne_now ne) (buildKey ?n) (showInt (ne_now ne)) NONCE_TTL_MS) (\<lambda>_.
        if truthyText u then cacheSet (ne_cache ne) (ne_now ne) (buildUserKey ?n) (the u) NONCE_TTL_MS else returnM ())"
  define x where "x = (if truthyText u then s2 else s1)"
  have "?task s = (Inr (), x)" by (simp add: bindM_def s1(1) s2(1) x_def)
  then have "guardedUnit ne ?task s = (Inr (), x)"
    using reliable_fire [OF assms] unfolding guardedUnit_def by (simp only: resilience_ok)
  then have run: "createNonce ne u s = (Inr ?n, x)"
    unfolding createNonce_def Let_def by (simp only: bindM_Inr returnM_run)
  show ?thesis by (rule that [OF run]) (simp add: x_def Let_def s1(2) s2(2))
qed

lemma created_view:
  assumes "reliable ne" "truthyText u" "peek (ne_cache ne) s = (\<lambda>t k. None)" "createNonce ne u s = (Inr nonce, s')"
  shows "nonce = randomNonce ne \<and> (\<forall>t k. peek (ne_cache ne) s' t k = (if t < ne_now ne + NONCE_TTL_MS
      then if k = buildKey nonce then Some (showInt (ne_now ne)) else if k = buildUserKey nonce then u else None else None))"
proof -
  obtain x where x: "createNonce ne u s = (Inr (randomNonce ne), x)"
    "peek (ne_cache ne) x = (let p = setTo (ne_now ne) (buildKey (randomNonce ne)) (showInt (ne_now ne)) NONCE_TTL_MS (peek (ne_cache ne) s)
       in if truthyText u then setTo (ne_now ne) (buildUserKey (randomNonce ne)) (the u) NONCE_TTL_MS p else p)"
    by (rule reliable_create [OF assms(1)])
  have "nonce = randomNonce ne" "x = s'" using x(1) assms(4) by auto
  with x(2) assms(2,3) show ?thesis by (cases u) (auto simp: setTo_def)
qed

text \<open>
  The life of a nonce. A nonce just created for a user is accepted until its five minutes are
  over, from that user (or from a request that names none), and deleted on acceptance; a request
  for another user is refused, and so is every request after the five minutes.
\<close>

theorem nonce_lifetime:
  assumes "reliable ne" "randomNonce ne \<noteq> []" "truthyText u"
    and "peek (ne_cache ne) s = (\<lambda>t k. None)"
    and "createNonce ne u s = (Inr nonce, s')"
  shows "(t < ne_now ne + NONCE_TTL_MS \<longrightarrow>
      (\<exists>s''. consumeNonce (ne\<lparr>ne_now := t\<rparr>) nonce u s' = (Inr True, s'') \<and> peek (ne_cache ne) s'' = (\<lambda>t k. None)) \<and>
      (truthyText v \<and> v \<noteq> u \<longrightarrow> consumeNonce (ne\<lparr>ne_now := t\<rparr>) nonce v s' =
         (Inl (BadRequestException ''Nonce does not belong to the specified user.''), s'))) \<and>
    (ne_now ne + NONCE_TTL_MS \<le> t \<longrightarrow> consumeNonce (ne\<lparr>ne_now := t\<rparr>) nonce v s' =
       (Inl (BadRequestException ''Nonce is invalid, expired, or has already been used.''), s'))"
proof -
  let ?ne = "ne\<lparr>ne_now := t\<rparr>"
  have rel: "reliable ?ne" using assms(1) by simp
  have n: "nonce = randomNonce ne"
    and p: "\<And>t k. peek (ne_cache ne) s' t k = (if t < ne_now ne + NONCE_TTL_MS
      then if k = buildKey nonce then Some (showInt (ne_now ne)) else if k = buildUserKey nonce then u else None else None)"
    using created_view [OF assms(1,3,4,5)] by blast+
  have ne: "nonce \<noteq> []" using assms(2) n by simp
  obtain s'' where s'': "deleteNonce ?ne nonce s' = (Inr True, s'')"
    "peek (ne_cache ?ne) s'' = (\<lambda>t. (peek (ne_cache ?ne) s' t)(buildKey nonce := None, buildUserKey nonce := None))"
    by (rule reliable_delete [OF rel])
  have gone: "peek (ne_cache ne) s'' = (\<lambda>t k. None)" using s''(2) p by (auto simp: fun_eq_iff)
  have check: "checkNonce ?ne nonce w s' =
    (if \<not> t < ne_now ne + NONCE_TTL_MS then (Inl (BadRequestException ''Nonce is invalid, expired, or has already been used.''), s')
     else if truthyText w \<and> u \<noteq> w then (Inl (BadRequestException ''Nonce does not belong to the specified user.''), s')
     else (Inr (), s'))" for w
    by (subst reliable_check [OF rel]) (simp add: ne p Let_def assms(3))
  show ?thesis
    using s''(1) gone by (auto simp: consumeNonce_def bindM_def check)
qed

text \<open>
  The binding to a user can be removed. The key that stores the user of a nonce is itself the
  key of a nonce: a request with \<open>user:\<close> in front of a bound nonce is accepted for anybody,
  deletes the binding, and after it the nonce is accepted for anybody as well.
\<close>

theorem binding_stripped:
  assumes "reliable ne" "randomNonce ne \<noteq> []" "truthyText u"
    and "peek (ne_cache ne) s = (\<lambda>t k. None)"
    and "createNonce ne u s = (Inr nonce, s')" "t < ne_now ne + NONCE_TTL_MS"
  shows "\<exists>s1 s2. consumeNonce (ne\<lparr>ne_now := t\<rparr>) (''user:'' @ nonce) v s' = (Inr True, s1) \<and>
    consumeNonce (ne\<lparr>ne_now := t\<rparr>) nonce v s1 = (Inr True, s2)"
proof -
  let ?ne = "ne\<lparr>ne_now := t\<rparr>"
  have rel: "reliable ?ne" using assms(1) by simp
  have n: "nonce = randomNonce ne"
    and p: "\<And>k. peek (ne_cache ne) s' t k =
      (if k = buildKey nonce then Some (showInt (ne_now ne)) else if k = buildUserKey nonce then u else None)"
    using created_view [OF assms(1,3,4,5)] assms(6) by auto
  define un where "un = ''user:'' @ nonce"
  have "un \<noteq> []" "buildKey un = buildUserKey nonce" "buildUserKey un \<noteq> buildKey nonce" "buildUserKey un \<noteq> buildUserKey nonce"
    by (simp_all add: un_def buildKey_def buildUserKey_def)
  note keys = this this(3) [symmetric]
  obtain s1 where s1: "deleteNonce ?ne un s' = (Inr True, s1)"
    "peek (ne_cache ?ne) s1 = (\<lambda>t. (peek (ne_cache ?ne) s' t)(buildKey un := None, buildUserKey un := None))"
    by (rule reliable_delete [OF rel])
  obtain s2 where s2: "deleteNonce ?ne nonce s1 = (Inr True, s2)" by (rule reliable_delete [OF rel])
  have "checkNonce ?ne un v s' = (Inr (), s')"
    by (subst reliable_check [OF rel]) (simp add: keys p Let_def assms(3))
  moreover have "checkNonce ?ne nonce v s1 = (Inr (), s1)"
    using s1(2) assms(2) by (subst reliable_check [OF rel]) (simp add: keys p Let_def n [symmetric])
  ultimately show ?thesis using s1(1) s2 unfolding un_def [symmetric] by (auto simp: consumeNonce_def bindM_def)
qed

section \<open>A concrete cache\<close>

type_synonym memory_cache = "int \<Rightarrow> string \<Rightarrow> string option"

definition memoryCache :: "memory_cache cache" where
  "memoryCache = \<lparr>cacheGet = (\<lambda>n k s. (Inr (s n k), s)), cacheSet = (\<lambda>n k v ttl s. (Inr (), setTo n k v ttl s)),
     cacheDel = (\<lambda>k s. (Inr (), \<lambda>t. (s t)(k := None))), peek = (\<lambda>s. s)\<rparr>"

definition memoryNonce :: "memory_cache nonce_env" where
  "memoryNonce = \<lparr>ne_cache = memoryCache, ne_now = 1000, ne_random = (\<lambda>n. 0), randomNonce = ''abc'',
     fireCacheUnit = (\<lambda>task. task), fireCacheGet = (\<lambda>task. task)\<rparr>"

definition emptyCache :: memory_cache where
  "emptyCache = (\<lambda>t k. None)"

lemma memoryNonce_reliable [simp]: "reliable memoryNonce" "lawfulNonce memoryNonce"
  by (simp_all add: reliable_def lawfulNonce_def lawfulCache_def memoryNonce_def memoryCache_def)

interpretation memory_nonces: at_most_once "consumeAt memoryNonce" "fst \<circ> snd" "usedNonce (ne_cache memoryNonce)" "\<lambda>_. True"
  by (rule nonce_at_most_once) simp

definition issued :: memory_cache where
  "issued = snd (createNonce memoryNonce (Some ''u'') emptyCache)"

lemma issued_run: "createNonce memoryNonce (Some ''u'') emptyCache = (Inr ''abc'', issued)"
proof -
  obtain s' where s': "createNonce memoryNonce (Some ''u'') emptyCache = (Inr (randomNonce memoryNonce), s')"
    by (rule reliable_create [OF memoryNonce_reliable(1)])
  then show ?thesis by (simp add: issued_def memoryNonce_def)
qed

lemma sample_fields: "peek (ne_cache memoryNonce) emptyCache = (\<lambda>t k. None)" "ne_now memoryNonce = 1000"
  "randomNonce memoryNonce \<noteq> []" "truthyText (Some ''u'')"
  by (simp_all add: memoryNonce_def memoryCache_def emptyCache_def)

theorem nonce_single_use_witness:
  "successes (fst \<circ> snd) ''abc'' (fst (attempts_run (consumeAt memoryNonce)
     [(2000, ''abc'', None), (2001, ''abc'', Some ''u'')] issued)) \<le> 1"
  by (rule nonce_single_use) simp

theorem consume_race_witness:
  "\<exists>s1 s2. deleteNonce memoryNonce ''n'' (\<lambda>t. Map.empty(buildKey ''n'' \<mapsto> ''1'')) = (Inr True, s1) \<and>
     deleteNonce memoryNonce ''n'' s1 = (Inr True, s2) \<and>
     (\<exists>e. consumeNonce memoryNonce ''n'' None s1 = (Inl e, s1))"
proof -
  let ?s = "\<lambda>t. Map.empty(buildKey ''n'' \<mapsto> ''1'')"
  have "truthyText (peek (ne_cache memoryNonce) ?s (ne_now memoryNonce) (buildKey ''n''))"
    "peek (ne_cache memoryNonce) ?s (ne_now memoryNonce) (buildUserKey ''n'') = None"
    by (simp_all add: memoryNonce_def memoryCache_def)
  from consume_race [OF memoryNonce_reliable(1) _ this, of None None] show ?thesis by blast
qed

theorem nonce_lifetime_witness:
  "(\<exists>s. consumeNonce (memoryNonce\<lparr>ne_now := 300999\<rparr>) ''abc'' (Some ''u'') issued = (Inr True, s)) \<and>
   (\<exists>e. consumeNonce (memoryNonce\<lparr>ne_now := 301000\<rparr>) ''abc'' (Some ''u'') issued = (Inl e, issued))"
proof -
  note life = nonce_lifetime [OF memoryNonce_reliable(1) sample_fields(3,4,1) issued_run]
  have "(300999 :: int) < ne_now memoryNonce + NONCE_TTL_MS" "ne_now memoryNonce + NONCE_TTL_MS \<le> (301000 :: int)"
    by (simp_all add: sample_fields NONCE_TTL_MS_def)
  with life [of 300999 None] life [of 301000 "Some ''u''"] show ?thesis by blast
qed

theorem binding_stripped_witness:
  "\<exists>s1 s2. consumeNonce (memoryNonce\<lparr>ne_now := 2000\<rparr>) (''user:'' @ ''abc'') (Some ''v'') issued = (Inr True, s1) \<and>
     consumeNonce (memoryNonce\<lparr>ne_now := 2000\<rparr>) ''abc'' (Some ''v'') s1 = (Inr True, s2)"
  by (rule binding_stripped [OF memoryNonce_reliable(1) sample_fields(3,4,1) issued_run])
    (simp add: sample_fields NONCE_TTL_MS_def)

end
