(* ===== verification/Auth.thy ===== *)
theory Auth
  imports Nonce User JsConvert
begin

text \<open>
  \<open>auth/auth.service.ts\<close>, \<open>auth/repositories/refresh-token.repository.ts\<close> and
  \<open>auth/strategies/jwt.strategy.ts\<close>: wallet login, rotation and revocation of refresh tokens,
  and the session limit. The state is the database and the cache of the nonces. SHA-256, the
  JWT signer and the random texts of one operation are parameters.
\<close>

section \<open>RefreshTokenRepository\<close>

definition tokensOp :: "env \<Rightarrow> (refresh_token engine \<Rightarrow> int \<Rightarrow> (refresh_token list, 'a) sm) \<Rightarrow> (db, 'a) sm" where
  "tokensOp env f = zoom refreshTokenRows refreshTokenRows_update (f (refreshTokenE (prisma env)) (now env))"

definition createToken :: "env \<Rightarrow> string \<Rightarrow> string \<Rightarrow> string \<Rightarrow> int \<Rightarrow> string option \<Rightarrow> (db, refresh_token) sm" where
  "createToken env token userId familyId expiresAt fingerprint = tokensOp env (\<lambda>e t. d_create e t
     (rowOf \<lparr>rowId = '''', deletedAt = None, rt_token = token, rt_userId = userId, rt_familyId = familyId,
       rt_expiresAt = expiresAt, rt_revokedAt = None, rt_replacedByToken = None, rt_fingerprint = fingerprint,
       rt_createdAt = now env\<rparr>))"

definition findByToken :: "env \<Rightarrow> string \<Rightarrow> (db, refresh_token option) sm" where
  "findByToken env token = tokensOp env (\<lambda>e t. d_findUnique e t (whereOf (\<lambda>r. rt_token r = token)))"

text \<open>\<open>{ \<dots>, deletedAt: null }\<close>\<close>

definition whereNull :: "(refresh_token \<Rightarrow> bool) \<Rightarrow> refresh_token qwhere" where
  "whereNull P = (whereOf P)\<lparr>w_deletedAt := Some IsNull\<rparr>"

definition findByFamilyId :: "env \<Rightarrow> string \<Rightarrow> (db, refresh_token list) sm" where
  "findByFamilyId env familyId = tokensOp env (\<lambda>e t. d_findMany e t
     (noArgs\<lparr>a_where := Some (whereNull (\<lambda>r. rt_familyId r = familyId))\<rparr>))"

definition revokeToken :: "env \<Rightarrow> string \<Rightarrow> string option \<Rightarrow> (db, refresh_token) sm" where
  "revokeToken env token replacedByToken = tokensOp env (\<lambda>e t. d_update e t (whereOf (\<lambda>r. rt_token r = token))
     (setOf (\<lambda>r. r\<lparr>rt_revokedAt := Some (now env), rt_replacedByToken := replacedByToken\<rparr>)))"

definition revokeFamily :: "env \<Rightarrow> string \<Rightarrow> (db, nat) sm" where
  "revokeFamily env familyId = tokensOp env (\<lambda>e t. d_updateMany e t
     (whereNull (\<lambda>r. rt_familyId r = familyId \<and> rt_revokedAt r = None))
     (setOf (\<lambda>r. r\<lparr>rt_revokedAt := Some (now env)\<rparr>)))"

definition revokeAllForUser :: "env \<Rightarrow> string \<Rightarrow> (db, nat) sm" where
  "revokeAllForUser env userId = tokensOp env (\<lambda>e t. d_updateMany e t
     (whereNull (\<lambda>r. rt_userId r = userId \<and> rt_revokedAt r = None))
     (setOf (\<lambda>r. r\<lparr>rt_revokedAt := Some (now env)\<rparr>)))"

definition countActiveForUser :: "env \<Rightarrow> string \<Rightarrow> (db, nat) sm" where
  "countActiveForUser env userId = tokensOp env (\<lambda>e t. d_count e t
     (whereNull (\<lambda>r. rt_userId r = userId \<and> rt_revokedAt r = None \<and> rt_expiresAt r > now env)))"

text \<open>\<open>setDate(getDate() - days)\<close>, with the fixed time zone offset of the environment.\<close>

definition purgeStaleTokens :: "env \<Rightarrow> int \<Rightarrow> (db, nat) sm" where
  "purgeStaleTokens env olderThanDays =
    (let cutoff = now env - olderThanDays * msPerDay in
     tokensOp env (\<lambda>e t. d_updateMany e t
       (whereNull (\<lambda>r. rt_expiresAt r < cutoff \<or> (case rt_revokedAt r of None \<Rightarrow> False | Some d \<Rightarrow> d < cutoff)))
       \<lparr>d_set = (\<lambda>r. r), d_deletedAt = Some (Some (now env))\<rparr>))"

section \<open>AuthService\<close>

record AccessTokenPayload =
  sub :: string
  pay_walletAddress :: string
  pay_type :: string

record TokenPairResponse =
  access_token :: string
  refresh_token_text :: string
  expires_in :: rat
  token_type :: string

record auth_config =
  JWT_ACCESS_TOKEN_TTL :: "string option"
  JWT_REFRESH_TOKEN_TTL_DAYS :: "int option"
  AUTH_MAX_SESSIONS_PER_USER :: "nat option"

record 'c auth_env =
  ah_env :: env
  ah_nonce :: "'c nonce_env"
  ah_cfg :: auth_config
  sha256 :: "string \<Rightarrow> string"
  signJwt :: "AccessTokenPayload \<Rightarrow> string"
  randomToken :: string
  randomFamily :: string

record 'c auth_state =
  adb :: db
  acache :: 'c

definition onDb :: "(db, 'a) sm \<Rightarrow> ('c auth_state, 'a) sm" where
  "onDb m = zoom adb adb_update m"

definition onCache :: "('c, 'a) sm \<Rightarrow> ('c auth_state, 'a) sm" where
  "onCache m = zoom acache acache_update m"

subsection \<open>Configuration and helpers\<close>

definition accessTokenTTL :: "auth_config \<Rightarrow> string" where
  "accessTokenTTL cfg = orElse (JWT_ACCESS_TOKEN_TTL cfg) ''15m''"

definition refreshTokenTTL_MS :: "auth_config \<Rightarrow> int" where
  "refreshTokenTTL_MS cfg = orElse (JWT_REFRESH_TOKEN_TTL_DAYS cfg) 7 * 24 * 60 * 60 * 1000"

definition maxSessionsPerUser :: "auth_config \<Rightarrow> nat" where
  "maxSessionsPerUser cfg = orElse (AUTH_MAX_SESSIONS_PER_USER cfg) 5"

text \<open>\<open>/^(\d+)(s|m|h|d)$/\<close>: the last character is the unit, everything before it a digit.\<close>

definition parseTTLToSeconds :: "string \<Rightarrow> rat" where
  "parseTTLToSeconds ttl =
    (if ttl = [] \<or> butlast ttl = [] \<or> \<not> list_all isDigit (butlast ttl) then 900
     else case parseInt10 (butlast ttl) of
       None \<Rightarrow> 900
     | Some value \<Rightarrow>
        (if last ttl = CHR ''s'' then value
         else if last ttl = CHR ''m'' then value * 60
         else if last ttl = CHR ''h'' then value * 3600
         else if last ttl = CHR ''d'' then value * 86400
         else 900))"

definition signAccessToken :: "'c auth_env \<Rightarrow> string \<Rightarrow> string \<Rightarrow> string" where
  "signAccessToken ae userId wallet =
     signJwt ae \<lparr>sub = userId, pay_walletAddress = wallet, pay_type = ''access''\<rparr>"

definition generateFamilyId :: "'c auth_env \<Rightarrow> string" where
  "generateFamilyId ae = randomFamily ae"

definition hashFingerprint :: "'c auth_env \<Rightarrow> string \<Rightarrow> string" where
  "hashFingerprint ae fingerprint = sha256 ae fingerprint"

definition createRefreshToken :: "'c auth_env \<Rightarrow> string \<Rightarrow> string \<Rightarrow> string option \<Rightarrow> (db, string) sm" where
  "createRefreshToken ae userId familyId fingerprint =
    (let rawToken = randomToken ae;
         hashedToken = sha256 ae rawToken;
         expiresAt = now (ah_env ae) + refreshTokenTTL_MS (ah_cfg ae)
     in
     bindM (createToken (ah_env ae) hashedToken userId familyId expiresAt
       (if truthyText fingerprint then map_option (hashFingerprint ae) fingerprint else None)) (\<lambda>_.
     returnM rawToken))"

definition enforceSessionLimit :: "'c auth_env \<Rightarrow> string \<Rightarrow> (db, unit) sm" where
  "enforceSessionLimit ae userId =
    (let env = ah_env ae; limit = maxSessionsPerUser (ah_cfg ae) in
     bindM (countActiveForUser env userId) (\<lambda>activeCount.
     if activeCount > limit then
       let excess = activeCount - limit in
       bindM (tokensOp env (\<lambda>e t. d_findMany e t (noArgs\<lparr>
           a_where := Some (whereNull (\<lambda>r. rt_userId r = userId \<and> rt_revokedAt r = None)),
           a_orderBy := Some rt_createdAt, a_take := Some excess\<rparr>))) (\<lambda>oldestTokens.
       forEachM (\<lambda>t. bindM (revokeToken env (rt_token t) None) (\<lambda>_. returnM ())) oldestTokens)
     else returnM ()))"

subsection \<open>Login\<close>

definition tokenPair :: "'c auth_env \<Rightarrow> string \<Rightarrow> string \<Rightarrow> TokenPairResponse" where
  "tokenPair ae accessToken refreshToken =
     \<lparr>access_token = accessToken, refresh_token_text = refreshToken,
      expires_in = parseTTLToSeconds (accessTokenTTL (ah_cfg ae)), token_type = ''Bearer''\<rparr>"

definition issueTokens :: "'c auth_env \<Rightarrow> user \<Rightarrow> string \<Rightarrow> string option \<Rightarrow> (db, string \<times> string) sm" where
  "issueTokens ae user familyId fingerprint =
     transaction (
       bindM (createRefreshToken ae (rowId user) familyId fingerprint) (\<lambda>refreshToken.
       bindM (enforceSessionLimit ae (rowId user)) (\<lambda>_.
       returnM (signAccessToken ae (rowId user) (walletAddress user), refreshToken))))"

definition walletLogin ::
  "'c auth_env \<Rightarrow> string \<Rightarrow> string \<Rightarrow> string option \<Rightarrow> ('c auth_state, TokenPairResponse) sm" where
  "walletLogin ae userId nonce fingerprint =
     bindM (onCache (consumeNonceForUser (ah_nonce ae) nonce userId)) (\<lambda>_.
     onDb (
       bindM (service_findById (ah_env ae) userId) (\<lambda>user.
       let familyId = generateFamilyId ae in
       bindM (issueTokens ae user familyId fingerprint) (\<lambda>(accessToken, refreshToken).
       bindM (auditService_log (ah_env ae) Audit_LOGIN ''AuthSession'' userId JNull
         (JObj [(''type'', JStr ''wallet_login''), (''familyId'', JStr familyId)])
         None (Some ''Wallet login successful'')) (\<lambda>_.
       returnM (tokenPair ae accessToken refreshToken))))))"

subsection \<open>Refresh\<close>

definition orUndef :: "string option \<Rightarrow> jsval" where
  "orUndef s = (case s of None \<Rightarrow> JUndef | Some x \<Rightarrow> JStr x)"

definition dateOrNull :: "int option \<Rightarrow> jsval" where
  "dateOrNull d = (case d of None \<Rightarrow> JNull | Some x \<Rightarrow> JDate x)"

text \<open>An audit row, then the exception. The dash in the reason text of a detected reuse is written as a hyphen.\<close>

definition refuse ::
  "'c auth_env \<Rightarrow> AuditAction \<Rightarrow> string \<Rightarrow> jsval \<Rightarrow> jsval \<Rightarrow> string \<Rightarrow> string \<Rightarrow> (db, 'a) sm" where
  "refuse ae act entityId beforeState afterState reason message =
     bindM (auditService_log (ah_env ae) act ''RefreshToken'' entityId beforeState afterState None (Some reason)) (\<lambda>_.
     throwM (UnauthorizedException message))"

definition rotate :: "'c auth_env \<Rightarrow> refresh_token \<Rightarrow> string \<Rightarrow> string option \<Rightarrow> (db, TokenPairResponse) sm" where
  "rotate ae storedToken refreshTokenValue fingerprint =
     bindM (service_findById (ah_env ae) (rt_userId storedToken)) (\<lambda>user.
     bindM (transaction (
       bindM (createRefreshToken ae (rowId user) (rt_familyId storedToken)
         (case fingerprint of None \<Rightarrow> rt_fingerprint storedToken | Some f \<Rightarrow> Some f)) (\<lambda>newRefreshToken.
       bindM (revokeToken (ah_env ae) refreshTokenValue (Some newRefreshToken)) (\<lambda>_.
       bindM (enforceSessionLimit ae (rowId user)) (\<lambda>_.
       returnM (signAccessToken ae (rowId user) (walletAddress user), newRefreshToken)))))) (\<lambda>(accessToken, refreshToken).
     bindM (auditService_log (ah_env ae) Audit_TOKEN_REFRESH ''RefreshToken'' (rowId storedToken)
       (JObj [(''revokedAt'', JNull)])
       (JObj [(''replacedBy'', JStr ''new_token''), (''familyId'', JStr (rt_familyId storedToken))])
       None (Some ''Refresh token rotated'')) (\<lambda>_.
     returnM (tokenPair ae accessToken refreshToken))))"

definition refreshTokens ::
  "'c auth_env \<Rightarrow> string \<Rightarrow> string option \<Rightarrow> string option \<Rightarrow> (db, TokenPairResponse) sm" where
  "refreshTokens ae refreshTokenValue fingerprint ip =
     bindM (findByToken (ah_env ae) refreshTokenValue) (\<lambda>found.
     case found of
       None \<Rightarrow> refuse ae Audit_REJECT ''unknown'' JNull
         (JObj [(''reason'', JStr ''token_not_found''), (''ip'', orUndef ip)])
         ''Refresh token not found'' ''Invalid refresh token''
     | Some storedToken \<Rightarrow>
        (if rt_expiresAt storedToken < now (ah_env ae) then
           refuse ae Audit_TOKEN_REUSE_DETECTED (rowId storedToken)
             (JObj [(''revokedAt'', dateOrNull (rt_revokedAt storedToken)), (''expiresAt'', JDate (rt_expiresAt storedToken))])
             (JObj [(''reason'', JStr ''token_expired'')])
             ''Refresh token expired'' ''Refresh token has expired''
         else if rt_revokedAt storedToken \<noteq> None then
           bindM (transaction (revokeFamily (ah_env ae) (rt_familyId storedToken))) (\<lambda>_.
           refuse ae Audit_TOKEN_REUSE_DETECTED (rowId storedToken)
             (JObj [(''familyId'', JStr (rt_familyId storedToken))])
             (JObj [(''reason'', JStr ''token_reuse_detected''), (''revokedAllInFamily'', JBool True)])
             ''Refresh token reuse detected - family revoked'' ''Refresh token has been revoked due to reuse detection'')
         else if truthyText (rt_fingerprint storedToken) \<and> truthyText fingerprint \<and> rt_fingerprint storedToken \<noteq> fingerprint then
           refuse ae Audit_TOKEN_REUSE_DETECTED (rowId storedToken)
             (JObj [(''fingerprint'', orUndef (rt_fingerprint storedToken))])
             (JObj [(''reason'', JStr ''fingerprint_mismatch'')])
             ''Refresh token fingerprint mismatch'' ''Refresh token fingerprint mismatch''
         else rotate ae storedToken refreshTokenValue fingerprint))"

subsection \<open>Logout\<close>

definition revokeForLogout :: "'c auth_env \<Rightarrow> string \<Rightarrow> string option \<Rightarrow> (db, nat) sm" where
  "revokeForLogout ae userId specificToken =
     transaction (
       if truthyText specificToken then
         bindM (findByToken (ah_env ae) (the specificToken)) (\<lambda>stored.
         case stored of
           None \<Rightarrow> returnM 0
         | Some r \<Rightarrow>
            (if rt_userId r = userId \<and> rt_revokedAt r = None
             then bindM (revokeToken (ah_env ae) (the specificToken) None) (\<lambda>_. returnM 1) else returnM 0))
       else revokeAllForUser (ah_env ae) userId)"

definition logout :: "'c auth_env \<Rightarrow> string \<Rightarrow> string option \<Rightarrow> (db, nat) sm" where
  "logout ae userId specificToken =
     bindM (revokeForLogout ae userId specificToken) (\<lambda>revoked.
     bindM (auditService_log (ah_env ae) Audit_TOKEN_REVOKE ''AuthSession'' userId
       (JObj [(''activeTokens'', JNum (of_nat revoked))])
       (JObj [(''reason'', JStr (if truthyText specificToken then ''targeted_logout'' else ''full_logout''))])
       None (Some (''Logout: revoked '' @ showNat revoked @ '' token(s)''))) (\<lambda>_.
     returnM revoked))"

section \<open>JwtStrategy\<close>

definition jwt_validate :: "env \<Rightarrow> string \<Rightarrow> (db, (string \<times> string) option) sm" where
  "jwt_validate env subject =
     catchM (bindM (service_findById env subject) (\<lambda>user. returnM (Some (rowId user, walletAddress user))))
       (\<lambda>_. returnM None)"

section \<open>What the repository calls do\<close>

definition tokenOf :: "db \<Rightarrow> string \<Rightarrow> refresh_token option" where
  "tokenOf s token = find (live (\<lambda>r. rt_token r = token)) (refreshTokenRows s)"

definition revoked :: "int \<Rightarrow> string option \<Rightarrow> refresh_token \<Rightarrow> refresh_token" where
  "revoked d by r = r\<lparr>rt_revokedAt := Some d, rt_replacedByToken := by\<rparr>"

lemma revoked_fields [simp]:
  "rowId (revoked d by r) = rowId r" "deletedAt (revoked d by r) = deletedAt r" "rt_token (revoked d by r) = rt_token r"
  "rt_userId (revoked d by r) = rt_userId r" "rt_familyId (revoked d by r) = rt_familyId r"
  "rt_revokedAt (revoked d by r) = Some d" "rt_expiresAt (revoked d by r) = rt_expiresAt r"
  "rt_replacedByToken (revoked d by r) = by"
  by (simp_all add: revoked_def)

text \<open>The unrevoked tokens a condition selects, and the table after revoking them.\<close>

definition openToken :: "(refresh_token \<Rightarrow> bool) \<Rightarrow> refresh_token \<Rightarrow> bool" where
  "openToken P r \<longleftrightarrow> P r \<and> rt_revokedAt r = None \<and> deletedAt r = None"

definition revokeAll :: "int \<Rightarrow> (refresh_token \<Rightarrow> bool) \<Rightarrow> refresh_token list \<Rightarrow> refresh_token list" where
  "revokeAll d P t = map (\<lambda>r. if openToken P r then r\<lparr>rt_revokedAt := Some d\<rparr> else r) t"

definition activeTokens :: "int \<Rightarrow> string \<Rightarrow> refresh_token list \<Rightarrow> refresh_token list" where
  "activeTokens tm userId t = filter (openToken (\<lambda>r. rt_userId r = userId \<and> rt_expiresAt r > tm)) t"

lemma findByToken_run [simp]: "runtime env \<Longrightarrow> findByToken env token s = (Inr (tokenOf s token), s)"
  by (simp add: findByToken_def tokensOp_def zoom_def tokenOf_def)

lemma revokeToken_run [simp]:
  "runtime env \<Longrightarrow> revokeToken env token by s =
    (case tokenOf s token of
       None \<Rightarrow> (Inl (PrismaException (PrismaClientKnownRequestError ''P2025'')), s)
     | Some r \<Rightarrow> (Inr (revoked (now env) by r),
         s\<lparr>refreshTokenRows := updateFirst (live (\<lambda>r. rt_token r = token)) (revoked (now env) by) (refreshTokenRows s)\<rparr>))"
  by (simp add: revokeToken_def tokensOp_def zoom_def tokenOf_def revoked_def [abs_def] split: option.split)

lemma live_open: "live (\<lambda>r. P r \<and> rt_revokedAt r = None) = openToken P"
  by (auto simp: live_def openToken_def fun_eq_iff)

lemma updateMany_null:
  assumes "soft_delete_delegate e"
  shows "d_updateMany e tm (whereNull (\<lambda>r. P r \<and> rt_revokedAt r = None)) (setOf (\<lambda>r. r\<lparr>rt_revokedAt := Some d\<rparr>)) t =
    (Inr (length (filter (openToken P) t)), revokeAll d P t)"
  using soft_delete_delegate.d_updateMany_any [OF assms, of "setOf (\<lambda>r. r\<lparr>rt_revokedAt := Some d\<rparr>)"
      "whereNull (\<lambda>r. P r \<and> rt_revokedAt r = None)" tm t]
  by (simp add: whereNull_def query_defs applyData_simps live_open revokeAll_def)

lemma revokeFamily_run [simp]:
  "runtime env \<Longrightarrow> revokeFamily env f s =
    (Inr (length (filter (openToken (\<lambda>r. rt_familyId r = f)) (refreshTokenRows s))),
     s\<lparr>refreshTokenRows := revokeAll (now env) (\<lambda>r. rt_familyId r = f) (refreshTokenRows s)\<rparr>)"
  by (simp add: revokeFamily_def tokensOp_def zoom_def updateMany_null)

lemma revokeAllForUser_run [simp]:
  "runtime env \<Longrightarrow> revokeAllForUser env u s =
    (Inr (length (filter (openToken (\<lambda>r. rt_userId r = u)) (refreshTokenRows s))),
     s\<lparr>refreshTokenRows := revokeAll (now env) (\<lambda>r. rt_userId r = u) (refreshTokenRows s)\<rparr>)"
  by (simp add: revokeAllForUser_def tokensOp_def zoom_def updateMany_null)

lemma countActiveForUser_run [simp]:
  assumes "runtime env"
  shows "countActiveForUser env u s = (Inr (length (activeTokens (now env) u (refreshTokenRows s))), s)"
proof -
  let ?P = "\<lambda>r. rt_userId r = u \<and> rt_revokedAt r = None \<and> rt_expiresAt r > now env"
  have "live ?P = openToken (\<lambda>r. rt_userId r = u \<and> rt_expiresAt r > now env)"
    by (auto simp: live_def openToken_def fun_eq_iff)
  moreover have "soft_delete_delegate (refreshTokenE (prisma env))" using assms by simp
  ultimately show ?thesis
    by (simp add: countActiveForUser_def tokensOp_def zoom_def whereNull_def query_defs activeTokens_def
        soft_delete_delegate.d_count_any)
qed

text \<open>The row a login or a rotation adds.\<close>

definition tokenRow :: "'c auth_env \<Rightarrow> string \<Rightarrow> string \<Rightarrow> string option \<Rightarrow> db \<Rightarrow> refresh_token" where
  "tokenRow ae u f fp s = \<lparr>rowId = genId (refreshTokenE (prisma (ah_env ae))) (refreshTokenRows s), deletedAt = None,
     rt_token = sha256 ae (randomToken ae), rt_userId = u, rt_familyId = f,
     rt_expiresAt = now (ah_env ae) + refreshTokenTTL_MS (ah_cfg ae), rt_revokedAt = None, rt_replacedByToken = None,
     rt_fingerprint = (if truthyText fp then map_option (hashFingerprint ae) fp else None), rt_createdAt = now (ah_env ae)\<rparr>"

lemma createRefreshToken_run [simp]:
  "runtime (ah_env ae) \<Longrightarrow> createRefreshToken ae u f fp s =
    (case violates (refreshTokenE (prisma (ah_env ae))) (tokenRow ae u f fp s) (refreshTokenRows s) of
       Some code \<Rightarrow> (Inl (PrismaException (PrismaClientKnownRequestError code)), s)
     | None \<Rightarrow> (Inr (randomToken ae), s\<lparr>refreshTokenRows := refreshTokenRows s @ [tokenRow ae u f fp s]\<rparr>))"
  by (simp add: createRefreshToken_def createToken_def tokensOp_def zoom_def Let_def bindM_def newRow_def rowOf_def tokenRow_def
      split: option.split)

section \<open>The session limit\<close>

definition userTokens :: "string \<Rightarrow> refresh_token list \<Rightarrow> refresh_token list" where
  "userTokens u t = filter (openToken (\<lambda>r. rt_userId r = u)) t"

lemma oldest_run:
  assumes "soft_delete_delegate e"
  shows "d_findMany e tm (noArgs\<lparr>a_where := Some (whereNull (\<lambda>r. rt_userId r = u \<and> rt_revokedAt r = None)),
      a_orderBy := Some rt_createdAt, a_take := Some n\<rparr>) t = (Inr (take n (sort_key rt_createdAt (userTokens u t))), t)"
  by (subst soft_delete_delegate.d_findMany_any [OF assms, where w = "whereNull (\<lambda>r. rt_userId r = u \<and> rt_revokedAt r = None)"])
    (simp_all add: whereNull_def query_defs window_def live_open userTokens_def)

definition revokeKeys :: "int \<Rightarrow> string set \<Rightarrow> refresh_token list \<Rightarrow> refresh_token list" where
  "revokeKeys d ks t = map (\<lambda>r. if live (\<lambda>r. rt_token r \<in> ks) r then revoked d None r else r) t"

lemma revokeKeys_tokens [simp]: "map rt_token (revokeKeys d ks t) = map rt_token t"
  by (simp add: revokeKeys_def comp_def)

lemma revokeKeys_insert: "revokeKeys d ks (revokeKeys d {k} t) = revokeKeys d (insert k ks) t"
  by (auto simp: revokeKeys_def live_def revoked_def)

lemma revokeKeys_empty [simp]: "revokeKeys d {} t = t"
  by (simp add: revokeKeys_def live_def)

lemma tokenOf_exists: "tokenOf s k \<noteq> None \<longleftrightarrow> (\<exists>r\<in>set (refreshTokenRows s). rt_token r = k \<and> deletedAt r = None)"
  by (auto simp: tokenOf_def find_None_iff live_def simp del: not_None_eq)

lemma tokenOf_revokeKeys:
  assumes "tokenOf s k \<noteq> None"
  shows "tokenOf (s\<lparr>refreshTokenRows := revokeKeys d ks (refreshTokenRows s)\<rparr>) k \<noteq> None"
proof -
  obtain r where r: "r \<in> set (refreshTokenRows s)" "rt_token r = k" "deletedAt r = None"
    using assms by (auto simp: tokenOf_exists simp del: not_None_eq)
  let ?r = "if live (\<lambda>r. rt_token r \<in> ks) r then revoked d None r else r"
  have "?r \<in> set (revokeKeys d ks (refreshTokenRows s))" using r(1) by (simp add: revokeKeys_def)
  moreover have "rt_token ?r = k" "deletedAt ?r = None" using r by simp_all
  ultimately show ?thesis unfolding tokenOf_exists by auto
qed

lemma revoke_loop:
  assumes "runtime env"
  shows "distinct (map rt_token (refreshTokenRows s)) \<Longrightarrow> \<forall>t\<in>set toks. tokenOf s (rt_token t) \<noteq> None \<Longrightarrow>
    forEachM (\<lambda>t. bindM (revokeToken env (rt_token t) None) (\<lambda>_. returnM ())) toks s =
    (Inr (), s\<lparr>refreshTokenRows := revokeKeys (now env) (rt_token ` set toks) (refreshTokenRows s)\<rparr>)"
proof (induction toks arbitrary: s)
  case Nil
  then show ?case by simp
next
  case (Cons t ts)
  obtain r where r: "tokenOf s (rt_token t) = Some r" using Cons.prems(2) by auto
  let ?s = "s\<lparr>refreshTokenRows := revokeKeys (now env) {rt_token t} (refreshTokenRows s)\<rparr>"
  have "updateFirst (live (\<lambda>r. rt_token r = rt_token t)) (revoked (now env) None) (refreshTokenRows s) =
      revokeKeys (now env) {rt_token t} (refreshTokenRows s)"
    using updateFirst_as_map [OF Cons.prems(1), of "live (\<lambda>r. rt_token r = rt_token t)" "rt_token t" "revoked (now env) None"]
    by (simp add: live_def revokeKeys_def)
  then have step: "bindM (revokeToken env (rt_token t) None) (\<lambda>_. returnM ()) s = (Inr (), ?s)"
    using assms r by (simp add: bindM_def)
  have "\<forall>x\<in>set ts. tokenOf ?s (rt_token x) \<noteq> None" using Cons.prems(2) tokenOf_revokeKeys by (simp del: not_None_eq)
  moreover have "distinct (map rt_token (refreshTokenRows ?s))" using Cons.prems(1) by simp
  ultimately have "forEachM (\<lambda>t. bindM (revokeToken env (rt_token t) None) (\<lambda>_. returnM ())) ts ?s =
      (Inr (), ?s\<lparr>refreshTokenRows := revokeKeys (now env) (rt_token ` set ts) (refreshTokenRows ?s)\<rparr>)"
    by (intro Cons.IH)
  then show ?case
    unfolding forEachM.simps bindM_Inr [where m = "bindM (revokeToken env (rt_token t) None) (\<lambda>_. returnM ())", OF step]
    by (simp add: revokeKeys_insert)
qed



lemma enforceSessionLimit_run:
  assumes "runtime (ah_env ae)" "distinct (map rt_token (refreshTokenRows s))"
  shows "enforceSessionLimit ae u s = (Inr (), s\<lparr>refreshTokenRows := revokeKeys (now (ah_env ae))
    (rt_token ` set (take (length (activeTokens (now (ah_env ae)) u (refreshTokenRows s)) - maxSessionsPerUser (ah_cfg ae))
       (sort_key rt_createdAt (userTokens u (refreshTokenRows s))))) (refreshTokenRows s)\<rparr>)"
proof -
  let ?n = "length (activeTokens (now (ah_env ae)) u (refreshTokenRows s)) - maxSessionsPerUser (ah_cfg ae)"
  let ?T = "take ?n (sort_key rt_createdAt (userTokens u (refreshTokenRows s)))"
  have "set ?T \<subseteq> set (userTokens u (refreshTokenRows s))" using set_take_subset [of ?n] by fastforce
  then have live: "\<forall>t\<in>set ?T. tokenOf s (rt_token t) \<noteq> None"
    unfolding tokenOf_exists userTokens_def openToken_def by auto
  have run: "tokensOp (ah_env ae) (\<lambda>e t. d_findMany e t (noArgs\<lparr>
           a_where := Some (whereNull (\<lambda>r. rt_userId r = u \<and> rt_revokedAt r = None)),
           a_orderBy := Some rt_createdAt, a_take := Some ?n\<rparr>)) s = (Inr ?T, s)"
    using assms(1) by (simp add: tokensOp_def zoom_def oldest_run)
  show ?thesis
    using assms(1) by (simp add: enforceSessionLimit_def Let_def bindM_def run revoke_loop [OF assms live])
qed

lemma active_after:
  "activeTokens tm u (revokeKeys d ks t) = filter (\<lambda>r. rt_token r \<notin> ks) (activeTokens tm u t)"
  by (induction t) (auto simp: activeTokens_def revokeKeys_def openToken_def live_def)

lemma revokeKeys_others:
  "(\<And>r. r \<in> set t \<Longrightarrow> rt_token r \<in> ks \<Longrightarrow> rt_userId r = u) \<Longrightarrow>
   filter (\<lambda>r. rt_userId r \<noteq> u) (revokeKeys d ks t) = filter (\<lambda>r. rt_userId r \<noteq> u) t"
  by (induction t) (auto simp: revokeKeys_def live_def)

lemma length_filter_notin:
  assumes "distinct xs" "set ys \<subseteq> set xs" "distinct ys"
  shows "length (filter (\<lambda>x. x \<notin> set ys) xs) = length xs - length ys"
proof -
  have "length (filter (\<lambda>x. x \<notin> set ys) xs) = card (set xs - set ys)"
    using assms(1) by (simp add: distinct_length_filter Int_def set_diff_eq conj_commute)
  also have "\<dots> = length xs - length ys"
    using assms by (simp add: card_Diff_subset distinct_card)
  finally show ?thesis .
qed

text \<open>
  C21. The session limit. When no unrevoked token of the user has expired, enforcing the limit
  succeeds and leaves exactly the smaller of the number of active sessions and the limit; it
  removes no row and changes no token of another user.
\<close>

theorem session_limit:
  assumes "runtime (ah_env ae)" "distinct (map rt_token (refreshTokenRows s))"
    and "\<forall>r\<in>set (userTokens u (refreshTokenRows s)). rt_expiresAt r > now (ah_env ae)"
  shows "\<exists>s'. enforceSessionLimit ae u s = (Inr (), s') \<and>
    length (activeTokens (now (ah_env ae)) u (refreshTokenRows s')) =
      min (length (activeTokens (now (ah_env ae)) u (refreshTokenRows s))) (maxSessionsPerUser (ah_cfg ae)) \<and>
    map rt_token (refreshTokenRows s') = map rt_token (refreshTokenRows s) \<and>
    filter (\<lambda>r. rt_userId r \<noteq> u) (refreshTokenRows s') = filter (\<lambda>r. rt_userId r \<noteq> u) (refreshTokenRows s)"
proof -
  let ?tm = "now (ah_env ae)" and ?rows = "refreshTokenRows s"
  define A where "A = activeTokens ?tm u ?rows"
  define T where "T = take (length A - maxSessionsPerUser (ah_cfg ae)) (sort_key rt_createdAt A)"
  have A: "userTokens u ?rows = A"
    unfolding A_def userTokens_def activeTokens_def using assms(3)
    by (intro filter_cong) (auto simp: userTokens_def openToken_def)
  have keys: "inj_on rt_token (set ?rows)" "distinct ?rows" using assms(2) by (auto simp: distinct_map)
  have AT: "distinct A" "set A \<subseteq> set ?rows" "set T \<subseteq> set A" "distinct T"
    using keys(2) set_take_subset [of _ "sort_key rt_createdAt A"] by (auto simp: A_def activeTokens_def T_def)
  have mem: "rt_token r \<in> rt_token ` set T \<longleftrightarrow> r \<in> set T" if "r \<in> set ?rows" for r
    using that AT by (intro inj_on_image_mem_iff [OF keys(1)]) auto
  have run: "enforceSessionLimit ae u s = (Inr (), s\<lparr>refreshTokenRows := revokeKeys ?tm (rt_token ` set T) ?rows\<rparr>)"
    using enforceSessionLimit_run [OF assms(1,2), of u] unfolding A A_def [symmetric] T_def .
  have "filter (\<lambda>r. rt_token r \<notin> rt_token ` set T) A = filter (\<lambda>r. r \<notin> set T) A"
    using mem AT(2) by (intro filter_cong) auto
  then have len: "length (activeTokens ?tm u (revokeKeys ?tm (rt_token ` set T) ?rows)) = length A - length T"
    using length_filter_notin [OF AT(1,3,4)] by (simp add: active_after A_def [symmetric])
  have "\<forall>r\<in>set T. rt_userId r = u" using AT(3) by (auto simp: A_def activeTokens_def openToken_def)
  then have "rt_userId r = u" if "r \<in> set ?rows" "rt_token r \<in> rt_token ` set T" for r using that mem by blast
  then have others: "filter (\<lambda>r. rt_userId r \<noteq> u) (revokeKeys ?tm (rt_token ` set T) ?rows) = filter (\<lambda>r. rt_userId r \<noteq> u) ?rows"
    by (intro revokeKeys_others) auto
  show ?thesis
    using run len others by (auto simp: T_def A_def [symmetric])
qed

section \<open>Revocation\<close>

lemma refuse_frame:
  assumes "runtime (ah_env ae)"
  shows "\<exists>e l. refuse ae act i b a reason message s = (Inl e, s\<lparr>auditLogs := l\<rparr>)"
proof -
  obtain r s' where run: "auditService_log (ah_env ae) act ''RefreshToken'' i b a None (Some reason) s = (r, s')"
    by (cases "auditService_log (ah_env ae) act ''RefreshToken'' i b a None (Some reason) s") auto
  then obtain l where "s' = s\<lparr>auditLogs := l\<rparr>"
    using auditService_log_frame [OF assms, of act "''RefreshToken''" i b a None "Some reason" s] by auto
  with run show ?thesis by (cases r) (auto simp: refuse_def bindM_def)
qed

lemma refuse_run:
  assumes "runtime (ah_env ae)" "auditAccepts (ah_env ae)" "noBig b" "noBig a"
  shows "\<exists>l. refuse ae act i b a reason message s = (Inl (UnauthorizedException message), s\<lparr>auditLogs := l\<rparr>)"
  unfolding refuse_def
  by (subst bindM_Inr [where m = "auditService_log (ah_env ae) act ''RefreshToken'' i b a None (Some reason)",
        OF runtime.auditService_log_run [OF assms]]) (auto simp only: throwM_run)

lemma openToken_revokeAll [simp]: "filter (openToken P) (revokeAll d P t) = []"
  by (induction t) (auto simp: revokeAll_def openToken_def)

text \<open>
  Reuse of a revoked token is punished. Presenting a token that was revoked before it expired
  is refused, and afterwards no token of its family is open any more; the tokens of all other
  families are as they were.
\<close>

lemma reuse_revokes_family:
  assumes "runtime (ah_env ae)" "auditAccepts (ah_env ae)"
    and "tokenOf s token = Some r" "rt_revokedAt r \<noteq> None" "now (ah_env ae) \<le> rt_expiresAt r"
  shows "\<exists>s'. refreshTokens ae token fp ip s =
      (Inl (UnauthorizedException ''Refresh token has been revoked due to reuse detection''), s') \<and>
    filter (openToken (\<lambda>x. rt_familyId x = rt_familyId r)) (refreshTokenRows s') = [] \<and>
    filter (\<lambda>x. rt_familyId x \<noteq> rt_familyId r) (refreshTokenRows s') =
      filter (\<lambda>x. rt_familyId x \<noteq> rt_familyId r) (refreshTokenRows s)"
proof -
  let ?s = "s\<lparr>refreshTokenRows := revokeAll (now (ah_env ae)) (\<lambda>x. rt_familyId x = rt_familyId r) (refreshTokenRows s)\<rparr>"
  let ?message = "''Refresh token has been revoked due to reuse detection''"
  have nb: "noBig (JObj [(''familyId'', JStr (rt_familyId r))])"
    "noBig (JObj [(''reason'', JStr ''token_reuse_detected''), (''revokedAllInFamily'', JBool True)])" by simp_all
  have "\<exists>l. refuse ae Audit_TOKEN_REUSE_DETECTED (rowId r) (JObj [(''familyId'', JStr (rt_familyId r))])
      (JObj [(''reason'', JStr ''token_reuse_detected''), (''revokedAllInFamily'', JBool True)])
      ''Refresh token reuse detected - family revoked'' ?message ?s =
      (Inl (UnauthorizedException ?message) :: error + TokenPairResponse, ?s\<lparr>auditLogs := l\<rparr>)"
    by (rule refuse_run [OF assms(1,2) nb])
  then obtain l where l: "refuse ae Audit_TOKEN_REUSE_DETECTED (rowId r) (JObj [(''familyId'', JStr (rt_familyId r))])
      (JObj [(''reason'', JStr ''token_reuse_detected''), (''revokedAllInFamily'', JBool True)])
      ''Refresh token reuse detected - family revoked'' ?message ?s =
      (Inl (UnauthorizedException ?message) :: error + TokenPairResponse, ?s\<lparr>auditLogs := l\<rparr>)"
    by (rule exE)
  have "transaction (revokeFamily (ah_env ae) (rt_familyId r)) s =
      (Inr (length (filter (openToken (\<lambda>x. rt_familyId x = rt_familyId r)) (refreshTokenRows s))), ?s)"
    using assms(1) by (intro transaction_Inr) simp
  note step = bindM_Inr [where m = "transaction (revokeFamily (ah_env ae) (rt_familyId r))", OF this]
  have "refreshTokens ae token fp ip s = (Inl (UnauthorizedException ?message), ?s\<lparr>auditLogs := l\<rparr>)"
    unfolding refreshTokens_def
    by (subst bindM_Inr [where m = "findByToken (ah_env ae) token", OF findByToken_run [OF assms(1)]])
      (simp only: assms(3) option.case if_False if_True assms(4) step l linorder_not_less [THEN iffD2, OF assms(5)] not_False_eq_True)
  moreover have "filter (\<lambda>x. rt_familyId x \<noteq> rt_familyId r) (revokeAll d (\<lambda>x. rt_familyId x = rt_familyId r) t) =
      filter (\<lambda>x. rt_familyId x \<noteq> rt_familyId r) t" for d t
    by (induction t) (auto simp: revokeAll_def openToken_def)
  ultimately show ?thesis by (intro exI [of _ "?s\<lparr>auditLogs := l\<rparr>"]) (simp only: simp_thms, simp)
qed

text \<open>
  Full logout. It reports the number of open tokens of the user, leaves none of them open and
  every token of another user as it was.
\<close>

theorem logout_revokes_all:
  assumes "runtime (ah_env ae)" "auditAccepts (ah_env ae)"
  shows "\<exists>s'. logout ae u None s = (Inr (length (userTokens u (refreshTokenRows s))), s') \<and>
    userTokens u (refreshTokenRows s') = [] \<and>
    filter (\<lambda>r. rt_userId r \<noteq> u) (refreshTokenRows s') = filter (\<lambda>r. rt_userId r \<noteq> u) (refreshTokenRows s)"
proof -
  let ?s = "s\<lparr>refreshTokenRows := revokeAll (now (ah_env ae)) (\<lambda>r. rt_userId r = u) (refreshTokenRows s)\<rparr>"
  let ?n = "length (userTokens u (refreshTokenRows s))"
  have step: "revokeForLogout ae u None s = (Inr ?n, ?s)"
    unfolding revokeForLogout_def using assms(1) by (intro transaction_Inr) (simp add: userTokens_def)
  have nb: "noBig (JObj [(''activeTokens'', JNum (of_nat ?n))])" "noBig (JObj [(''reason'', JStr x)])" for x by simp_all
  note log = runtime.auditService_log_run [OF assms nb(1) nb(2)]
  have "\<exists>l. logout ae u None s = (Inr ?n, ?s\<lparr>auditLogs := l\<rparr>)"
    unfolding logout_def
    by (subst bindM_Inr [where m = "revokeForLogout ae u None", OF step], subst bindM_Inr, rule log)
      (auto simp only: returnM_run)
  moreover have "filter (\<lambda>r. rt_userId r \<noteq> u) (revokeAll d (\<lambda>r. rt_userId r = u) t) = filter (\<lambda>r. rt_userId r \<noteq> u) t" for d t
    by (induction t) (auto simp: revokeAll_def openToken_def)
  ultimately show ?thesis by (auto simp: userTokens_def)
qed

section \<open>Rotation\<close>

lemma updateFirst_append: "find P xs = Some x \<Longrightarrow> updateFirst P f (xs @ ys) = updateFirst P f xs @ ys"
  by (induction xs) (auto split: if_splits)

lemma filter_updateFirst_le: "(\<And>x. \<not> Q (f x)) \<Longrightarrow> length (filter Q (updateFirst P f xs)) \<le> length (filter Q xs)"
  by (induction xs) auto

lemma tokenOf_append: "tokenOf s k = Some r \<Longrightarrow> tokenOf (s\<lparr>refreshTokenRows := refreshTokenRows s @ t\<rparr>) k = Some r"
  by (simp add: tokenOf_def find_append)

lemma tokenOf_Some: "tokenOf s k = Some r \<Longrightarrow> r \<in> set (refreshTokenRows s) \<and> rt_token r = k \<and> deletedAt r = None"
  using find_Some_mem [of "live (\<lambda>r. rt_token r = k)" "refreshTokenRows s" r] by (simp add: tokenOf_def live_def)

lemma decryptUser_ids [simp]: "rowId (decryptUser env u) = rowId u" "walletAddress (decryptUser env u) = walletAddress u"
  by (auto simp: decryptUser_def Let_def split: option.split sum.split jsval.split)

lemma userOf_id: "userOf s i = Some u \<Longrightarrow> rowId u = i"
  using find_Some_mem [of "live (\<lambda>r. rowId r = i)" "users s" u] by (auto simp: userOf_def live_def)

text \<open>Within the limit nothing is evicted.\<close>

lemma enforce_within_limit:
  assumes "runtime (ah_env ae)" "length (activeTokens (now (ah_env ae)) u (refreshTokenRows s)) \<le> maxSessionsPerUser (ah_cfg ae)"
  shows "enforceSessionLimit ae u s = (Inr (), s)"
  using assms by (simp add: enforceSessionLimit_def Let_def bindM_def)

definition rotated :: "'c auth_env \<Rightarrow> string \<Rightarrow> refresh_token \<Rightarrow> refresh_token list \<Rightarrow> refresh_token list" where
  "rotated ae token new t = updateFirst (live (\<lambda>r. rt_token r = token)) (revoked (now (ah_env ae)) (Some (randomToken ae))) t @ [new]"

lemma rotate_run:
  assumes "runtime (ah_env ae)" "auditAccepts (ah_env ae)" "isValidCuid (rt_userId r)" "userOf s (rt_userId r) = Some usr"
    and "tokenOf s token = Some r"
    and new: "new = tokenRow ae (rt_userId r) (rt_familyId r) (case fp of None \<Rightarrow> rt_fingerprint r | Some f \<Rightarrow> Some f) s"
    and "violates (refreshTokenE (prisma (ah_env ae))) new (refreshTokenRows s) = None"
    and "length (activeTokens (now (ah_env ae)) (rt_userId r) (refreshTokenRows s @ [new])) \<le> maxSessionsPerUser (ah_cfg ae)"
  shows "\<exists>l. rotate ae r token fp s =
    (Inr (tokenPair ae (signAccessToken ae (rt_userId r) (walletAddress usr)) (randomToken ae)),
     s\<lparr>refreshTokenRows := rotated ae token new (refreshTokenRows s), auditLogs := l\<rparr>)"
proof -
  let ?fp = "case fp of None \<Rightarrow> rt_fingerprint r | Some f \<Rightarrow> Some f"
  let ?u = "decryptUser (ah_env ae) usr"
  let ?s1 = "s\<lparr>refreshTokenRows := refreshTokenRows s @ [new]\<rparr>"
  let ?s2 = "s\<lparr>refreshTokenRows := rotated ae token new (refreshTokenRows s)\<rparr>"
  have u: "rowId ?u = rt_userId r" "walletAddress ?u = walletAddress usr" using userOf_id [OF assms(4)] by simp_all
  have create: "createRefreshToken ae (rowId ?u) (rt_familyId r) ?fp s = (Inr (randomToken ae), ?s1)"
    unfolding u createRefreshToken_run [OF assms(1)] new [symmetric] assms(7) by simp
  have "updateFirst (live (\<lambda>r. rt_token r = token)) (revoked (now (ah_env ae)) (Some (randomToken ae))) (refreshTokenRows ?s1) =
      refreshTokenRows ?s2"
    using assms(5) updateFirst_append [of "live (\<lambda>r. rt_token r = token)" "refreshTokenRows s" r]
    by (simp add: rotated_def tokenOf_def)
  then have revoke: "revokeToken (ah_env ae) token (Some (randomToken ae)) ?s1 = (Inr (revoked (now (ah_env ae)) (Some (randomToken ae)) r), ?s2)"
    using assms(1) tokenOf_append [OF assms(5), of "[new]"] by simp
  have "length (activeTokens (now (ah_env ae)) (rt_userId r) (refreshTokenRows ?s2)) \<le>
      length (activeTokens (now (ah_env ae)) (rt_userId r) (refreshTokenRows s @ [new]))"
    unfolding rotated_def activeTokens_def by (auto simp: openToken_def intro!: filter_updateFirst_le)
  then have "enforceSessionLimit ae (rowId ?u) ?s2 = (Inr (), ?s2)"
    unfolding u using assms(1,8) by (intro enforce_within_limit) simp_all
  with create revoke have tx: "transaction (
       bindM (createRefreshToken ae (rowId ?u) (rt_familyId r) ?fp) (\<lambda>newRefreshToken.
       bindM (revokeToken (ah_env ae) token (Some newRefreshToken)) (\<lambda>_.
       bindM (enforceSessionLimit ae (rowId ?u)) (\<lambda>_.
       returnM (signAccessToken ae (rowId ?u) (walletAddress ?u), newRefreshToken))))) s =
      (Inr (signAccessToken ae (rt_userId r) (walletAddress usr), randomToken ae), ?s2)"
    unfolding u by (intro transaction_Inr) (simp only: bindM_def prod.case sum.case returnM_run)
  have find: "service_findById (ah_env ae) (rt_userId r) s = (Inr ?u, s)"
    using assms(3,4) by (simp add: service_findById_run [OF assms(1)])
  have nb: "noBig (JObj [(''revokedAt'', JNull)])"
    "noBig (JObj [(''replacedBy'', JStr ''new_token''), (''familyId'', JStr (rt_familyId r))])" by simp_all
  show ?thesis
    unfolding rotate_def
    apply (subst bindM_Inr [where m = "service_findById (ah_env ae) (rt_userId r)", OF find])
    apply (subst bindM_Inr, rule tx)
    apply (simp only: prod.case)
    apply (subst bindM_Inr, rule runtime.auditService_log_run [OF assms(1,2) nb])
    apply (auto simp only: returnM_run)
    done
qed

text \<open>A token the service accepts, in a state where the new row can be stored and fits the limit.\<close>

definition rotatable :: "'c auth_env \<Rightarrow> string \<Rightarrow> refresh_token \<Rightarrow> string option \<Rightarrow> db \<Rightarrow> bool" where
  "rotatable ae token r fp s \<longleftrightarrow>
    (let new = tokenRow ae (rt_userId r) (rt_familyId r) (case fp of None \<Rightarrow> rt_fingerprint r | Some f \<Rightarrow> Some f) s in
     tokenOf s token = Some r \<and> now (ah_env ae) \<le> rt_expiresAt r \<and> rt_revokedAt r = None \<and>
     \<not> (truthyText (rt_fingerprint r) \<and> truthyText fp \<and> rt_fingerprint r \<noteq> fp) \<and>
     isValidCuid (rt_userId r) \<and> userOf s (rt_userId r) \<noteq> None \<and>
     violates (refreshTokenE (prisma (ah_env ae))) new (refreshTokenRows s) = None \<and>
     rt_token new \<noteq> token \<and>
     length (activeTokens (now (ah_env ae)) (rt_userId r) (refreshTokenRows s @ [new])) \<le> maxSessionsPerUser (ah_cfg ae))"

lemma refresh_rotates:
  assumes "runtime (ah_env ae)" "auditAccepts (ah_env ae)" "rotatable ae token r fp s"
  shows "\<exists>wallet l. refreshTokens ae token fp ip s =
    (Inr (tokenPair ae (signAccessToken ae (rt_userId r) wallet) (randomToken ae)),
     s\<lparr>refreshTokenRows := rotated ae token
         (tokenRow ae (rt_userId r) (rt_familyId r) (case fp of None \<Rightarrow> rt_fingerprint r | Some f \<Rightarrow> Some f) s) (refreshTokenRows s),
       auditLogs := l\<rparr>)"
proof -
  let ?new = "tokenRow ae (rt_userId r) (rt_familyId r) (case fp of None \<Rightarrow> rt_fingerprint r | Some f \<Rightarrow> Some f) s"
  note ok = assms(3) [unfolded rotatable_def Let_def]
  obtain usr where usr: "userOf s (rt_userId r) = Some usr" using ok by blast
  have "\<exists>l. rotate ae r token fp s = (Inr (tokenPair ae (signAccessToken ae (rt_userId r) (walletAddress usr)) (randomToken ae)),
     s\<lparr>refreshTokenRows := rotated ae token ?new (refreshTokenRows s), auditLogs := l\<rparr>)"
    using ok by (intro rotate_run [OF assms(1,2) _ usr _ refl]) simp_all
  moreover have "refreshTokens ae token fp ip s = rotate ae r token fp s"
  proof -
    have c: "tokenOf s token = Some r" "(rt_expiresAt r < now (ah_env ae)) = False" "(rt_revokedAt r \<noteq> None) = False"
      "(truthyText (rt_fingerprint r) \<and> truthyText fp \<and> rt_fingerprint r \<noteq> fp) = False"
      using ok by auto
    show ?thesis
      unfolding refreshTokens_def bindM_Inr [where m = "findByToken (ah_env ae) token", OF findByToken_run [OF assms(1)]]
      by (simp only: c option.case if_False)
  qed
  ultimately show ?thesis by metis
qed

lemma rotated_old:
  "find (live (\<lambda>r. rt_token r = token)) t = Some r \<Longrightarrow>
   find (live (\<lambda>r. rt_token r = token)) (rotated ae token new t) = Some (revoked (now (ah_env ae)) (Some (randomToken ae)) r)"
  using find_updateFirst_same [of "live (\<lambda>r. rt_token r = token)" t r "live (\<lambda>r. rt_token r = token)"
      "revoked (now (ah_env ae)) (Some (randomToken ae))"] find_Some_mem [of "live (\<lambda>r. rt_token r = token)" t r]
  by (simp add: rotated_def find_append live_def)

text \<open>
  C17. Rotation and reuse detection. Refreshing with the stored value of a valid token returns the
  new token, revokes the old row, records its successor and adds one open row of the same
  family. Whoever presents the old value again, in any later request before it expires, is
  refused, and the new token is revoked along with its whole family.
\<close>

theorem rotation_detects_reuse:
  assumes "runtime (ah_env ae)" "auditAccepts (ah_env ae)" "rotatable ae token r fp s"
    and "runtime (ah_env ae2)" "auditAccepts (ah_env ae2)" "now (ah_env ae2) \<le> rt_expiresAt r"
  shows "\<exists>p s1 new. refreshTokens ae token fp ip s = (Inr p, s1) \<and> refresh_token_text p = randomToken ae \<and>
    rt_token new = sha256 ae (randomToken ae) \<and> rt_familyId new = rt_familyId r \<and> rt_revokedAt new = None \<and>
    refreshTokenRows s1 = updateFirst (live (\<lambda>x. rt_token x = token)) (revoked (now (ah_env ae)) (Some (randomToken ae)))
      (refreshTokenRows s) @ [new] \<and>
    (\<exists>s2. refreshTokens ae2 token fp2 ip2 s1 =
        (Inl (UnauthorizedException ''Refresh token has been revoked due to reuse detection''), s2) \<and>
      filter (openToken (\<lambda>x. rt_familyId x = rt_familyId r)) (refreshTokenRows s2) = [])"
proof -
  let ?new = "tokenRow ae (rt_userId r) (rt_familyId r) (case fp of None \<Rightarrow> rt_fingerprint r | Some f \<Rightarrow> Some f) s"
  obtain wallet l where run: "refreshTokens ae token fp ip s =
      (Inr (tokenPair ae (signAccessToken ae (rt_userId r) wallet) (randomToken ae)),
       s\<lparr>refreshTokenRows := rotated ae token ?new (refreshTokenRows s), auditLogs := l\<rparr>)"
    using refresh_rotates [OF assms(1-3), of ip] by blast
  let ?s1 = "s\<lparr>refreshTokenRows := rotated ae token ?new (refreshTokenRows s), auditLogs := l\<rparr>"
  have "tokenOf s token = Some r" using assms(3) by (simp add: rotatable_def Let_def)
  then have old: "tokenOf ?s1 token = Some (revoked (now (ah_env ae)) (Some (randomToken ae)) r)"
    using rotated_old [of token "refreshTokenRows s" r] by (simp add: tokenOf_def)
  obtain s2 where s2: "refreshTokens ae2 token fp2 ip2 ?s1 =
      (Inl (UnauthorizedException ''Refresh token has been revoked due to reuse detection''), s2)"
    "filter (openToken (\<lambda>x. rt_familyId x = rt_familyId r)) (refreshTokenRows s2) = []"
    using reuse_revokes_family [OF assms(4,5) old, of fp2 ip2] assms(6) by (simp only: revoked_fields) auto
  show ?thesis
    using s2 by (intro exI [of _ "tokenPair ae (signAccessToken ae (rt_userId r) wallet) (randomToken ae)"] exI [of _ ?s1]
        exI [of _ ?new] conjI run exI [of _ s2]) (simp_all add: tokenPair_def tokenRow_def rotated_def)
qed

section \<open>The token the client receives\<close>

text \<open>
  A SHA-256 digest in hexadecimal has 64 characters, 40 random bytes in unpadded base64url
  have 54.
\<close>

definition authentic :: "'c auth_env \<Rightarrow> bool" where
  "authentic ae \<longleftrightarrow> runtime (ah_env ae) \<and> (\<forall>x. length (sha256 ae x) = 64) \<and> length (randomToken ae) = 54"

definition hashedTokens :: "db \<Rightarrow> bool" where
  "hashedTokens s \<longleftrightarrow> list_all (\<lambda>r. length (rt_token r) = 64) (refreshTokenRows s)"

inductive auth_step :: "'c auth_state \<Rightarrow> 'c auth_state \<Rightarrow> bool" where
  login: "authentic ae \<Longrightarrow> auth_step s (snd (walletLogin ae u n fp s))"
| refresh: "authentic (ae :: 'c auth_env) \<Longrightarrow> auth_step s (snd (onDb (refreshTokens ae token fp ip) s))"
| leave: "authentic (ae :: 'c auth_env) \<Longrightarrow> auth_step s (snd (onDb (logout ae u token) s))"
| purge: "runtime env \<Longrightarrow> auth_step s (snd (onDb (purgeStaleTokens env days) s))"

inductive_cases auth_stepE: "auth_step s s'"

lemma hashed_updateFirst:
  "(\<And>r. rt_token (f r) = rt_token r) \<Longrightarrow> list_all (\<lambda>r. length (rt_token r) = 64) t \<Longrightarrow>
   list_all (\<lambda>r. length (rt_token r) = 64) (updateFirst P f t)"
  by (induction t) auto

lemma hashed_frame: "hashedTokens (s\<lparr>auditLogs := l\<rparr>) = hashedTokens s"
  by (simp add: hashedTokens_def)

lemma hashed_log: "runtime env \<Longrightarrow> keeps hashedTokens (auditService_log env act ty i b a h r)"
proof (rule keepsI)
  fix s assume "runtime env" "hashedTokens s"
  then show "hashedTokens (snd (auditService_log env act ty i b a h r s))"
    using auditService_log_frame [of env act ty i b a h r s] hashed_frame by force
qed

lemma hashed_find: "runtime env \<Longrightarrow> keeps hashedTokens (service_findById env i)"
  by (rule keepsI) (simp add: service_findById_run split: option.split)

lemma hashed_ops:
  assumes "authentic ae"
  shows "keeps hashedTokens (createRefreshToken ae u f fp)"
    and "keeps hashedTokens (revokeToken (ah_env ae) token by)"
    and "keeps hashedTokens (findByToken (ah_env ae) token)"
    and "keeps hashedTokens (revokeFamily (ah_env ae) f)"
    and "keeps hashedTokens (revokeAllForUser (ah_env ae) u)"
    and "keeps hashedTokens (countActiveForUser (ah_env ae) u)"
proof -
  have rt: "runtime (ah_env ae)" and len: "length (sha256 ae x) = 64" for x using assms by (simp_all add: authentic_def)
  show "keeps hashedTokens (createRefreshToken ae u f fp)"
    by (rule keepsI) (simp add: rt hashedTokens_def tokenRow_def len split: option.split)
  show "keeps hashedTokens (revokeToken (ah_env ae) token by)"
    by (rule keepsI) (simp add: rt hashedTokens_def hashed_updateFirst split: option.split)
  show "keeps hashedTokens (findByToken (ah_env ae) token)" "keeps hashedTokens (countActiveForUser (ah_env ae) u)"
    by (rule keepsI, simp add: rt)+
  show "keeps hashedTokens (revokeFamily (ah_env ae) f)" "keeps hashedTokens (revokeAllForUser (ah_env ae) u)"
    by (rule keepsI, auto simp add: rt hashedTokens_def revokeAll_def list_all_iff)+
qed

lemma hashed_limit:
  assumes "authentic ae"
  shows "keeps hashedTokens (enforceSessionLimit ae u)"
proof -
  have law: "soft_delete_delegate (refreshTokenE (prisma (ah_env ae)))" using assms by (simp add: authentic_def)
  have "keeps hashedTokens (tokensOp (ah_env ae) (\<lambda>e t. d_findMany e t (noArgs\<lparr>
           a_where := Some (whereNull (\<lambda>r. rt_userId r = u \<and> rt_revokedAt r = None)),
           a_orderBy := Some rt_createdAt, a_take := Some n\<rparr>)))" for n
    by (rule keepsI) (simp add: tokensOp_def zoom_def oldest_run [OF law])
  then show ?thesis
    unfolding enforceSessionLimit_def Let_def by (intro keeps_rules hashed_ops [OF assms])
qed

lemma hashed_refresh:
  assumes "authentic ae"
  shows "keeps hashedTokens (refreshTokens ae token fp ip)"
proof -
  have rt: "runtime (ah_env ae)" using assms by (simp add: authentic_def)
  note ops = hashed_ops [OF assms] hashed_limit [OF assms] hashed_log [OF rt] hashed_find [OF rt] keeps_rules
  have "keeps hashedTokens (refuse ae act i b a reason message)" for act i b a reason message
    unfolding refuse_def by (intro ops)
  moreover have "keeps hashedTokens (rotate ae r token fp)" for r unfolding rotate_def by (intro ops)
  ultimately show ?thesis unfolding refreshTokens_def by (intro ops)
qed

lemma hashed_logout:
  assumes "authentic ae"
  shows "keeps hashedTokens (logout ae u token)"
proof -
  have rt: "runtime (ah_env ae)" using assms by (simp add: authentic_def)
  show ?thesis
    unfolding logout_def revokeForLogout_def
    by (intro hashed_ops [OF assms] hashed_log [OF rt] keeps_rules)
qed

lemma hashed_purge: "runtime env \<Longrightarrow> keeps hashedTokens (purgeStaleTokens env days)"
  unfolding purgeStaleTokens_def tokensOp_def Let_def
  by (rule keepsI) (auto simp add: zoom_def whereNull_def query_defs soft_delete_delegate.d_updateMany_any applyData_simps
      hashedTokens_def list_all_iff stamp_def)

lemma keeps_onDb: "keeps I m \<Longrightarrow> keeps (\<lambda>s. I (adb s)) (onDb m)"
  by (auto simp: keeps_def onDb_def zoom_def split: prod.splits)

lemma hashed_login:
  assumes "authentic ae"
  shows "keeps (\<lambda>s. hashedTokens (adb s)) (walletLogin ae u n fp)"
proof -
  have rt: "runtime (ah_env ae)" using assms by (simp add: authentic_def)
  have "keeps (\<lambda>s. hashedTokens (adb s)) (onCache m)" for m :: "('c, 'b) sm"
    by (auto simp: keeps_def onCache_def zoom_def split: prod.splits)
  moreover have "keeps hashedTokens (issueTokens ae user f fp)" for user f fp
    unfolding issueTokens_def by (intro hashed_ops [OF assms] hashed_limit [OF assms] keeps_rules)
  ultimately show ?thesis
    unfolding walletLogin_def Let_def
    by (intro keeps_bind keeps_onDb hashed_find [OF rt] hashed_log [OF rt] keeps_case_prod keeps_return)
qed

lemma hashed_step: "auth_step s s' \<Longrightarrow> hashedTokens (adb s) \<Longrightarrow> hashedTokens (adb s')"
proof (elim auth_stepE)
qed (auto intro: keepsD [OF hashed_login] keepsD [OF keeps_onDb [OF hashed_refresh]]
    keepsD [OF keeps_onDb [OF hashed_logout]] keepsD [OF keeps_onDb [OF hashed_purge]])

lemma hashed_steps: "auth_step\<^sup>*\<^sup>* s s' \<Longrightarrow> hashedTokens (adb s) \<Longrightarrow> hashedTokens (adb s')"
  by (induction rule: rtranclp_induct) (auto intro: hashed_step)

lemma login_token:
  assumes "walletLogin ae u n fp s = (Inr p, s')"
  shows "refresh_token_text p = randomToken ae"
proof -
  have create: "createRefreshToken ae i f x t = (Inr k, t') \<Longrightarrow> k = randomToken ae" for i f x t k t'
    by (auto simp: createRefreshToken_def Let_def bindM_Inr_iff)
  have issue: "issueTokens ae user f x t = (Inr (a, k), t') \<Longrightarrow> k = randomToken ae" for user f x t a k t'
    unfolding issueTokens_def transaction_Inr_iff by (auto simp: bindM_Inr_iff dest: create)
  show ?thesis
    using assms unfolding walletLogin_def onDb_def Let_def
    by (auto simp: bindM_Inr_iff zoom_Inr_iff tokenPair_def dest!: issue)
qed

lemma unknown_token:
  assumes "hashedTokens s" "length token \<noteq> 64"
  shows "tokenOf s token = None"
  using assms tokenOf_exists [of s token] by (auto simp: hashedTokens_def list_all_iff)

text \<open>
  C16. The refresh token the client receives does not work. The database stores the digest of the
  token and the service looks up the token itself: after a successful login and any sequence of
  logins, refreshes, logouts and purges, a refresh with the token from the login fails and
  changes no token, and a logout with it revokes nothing.
\<close>

theorem issued_tokens_rejected:
  fixes s :: "'c auth_state"
  assumes "authentic ae" "hashedTokens (adb s)" "walletLogin ae u n fp s = (Inr p, s')"
    and "auth_step\<^sup>*\<^sup>* s' s''" "authentic (ae2 :: 'c auth_env)"
  shows "(\<exists>e l. refreshTokens ae2 (refresh_token_text p) fp2 ip (adb s'') = (Inl e, (adb s'')\<lparr>auditLogs := l\<rparr>)) \<and>
    revokeForLogout ae2 v (Some (refresh_token_text p)) (adb s'') = (Inr 0, adb s'')"
proof -
  have rt: "runtime (ah_env ae2)" using assms(5) by (simp add: authentic_def)
  have len: "length (refresh_token_text p) = 54" using login_token [OF assms(3)] assms(1) by (simp add: authentic_def)
  have "hashedTokens (adb s')" using keeps_after [OF hashed_login [OF assms(1)] assms(3)] assms(2) by simp
  with assms(4) have "hashedTokens (adb s'')" by (rule hashed_steps)
  then have none: "tokenOf (adb s'') (refresh_token_text p) = None" by (rule unknown_token) (simp add: len)
  have given: "truthyText (Some (refresh_token_text p))" using len by auto
  have "revokeForLogout ae2 v (Some (refresh_token_text p)) (adb s'') = (Inr 0, adb s'')"
    unfolding revokeForLogout_def using given by (intro transaction_Inr) (simp add: bindM_def rt none)
  moreover have "\<exists>e l. refreshTokens ae2 (refresh_token_text p) fp2 ip (adb s'') = (Inl e, (adb s'')\<lparr>auditLogs := l\<rparr>)"
    unfolding refreshTokens_def bindM_Inr [where m = "findByToken (ah_env ae2) (refresh_token_text p)", OF findByToken_run [OF rt]]
      none option.case by (rule refuse_frame [OF rt])
  ultimately show ?thesis by (intro conjI)
qed

section \<open>Login\<close>

lemma issueTokens_run:
  assumes "runtime (ah_env ae)" and new: "new = tokenRow ae (rowId user) f fp s"
    and "violates (refreshTokenE (prisma (ah_env ae))) new (refreshTokenRows s) = None"
    and "distinct (map rt_token (refreshTokenRows s @ [new]))"
  shows "\<exists>t. issueTokens ae user f fp s =
    (Inr (signAccessToken ae (rowId user) (walletAddress user), randomToken ae), s\<lparr>refreshTokenRows := t\<rparr>)"
proof -
  let ?s = "s\<lparr>refreshTokenRows := refreshTokenRows s @ [new]\<rparr>"
  have create: "createRefreshToken ae (rowId user) f fp s = (Inr (randomToken ae), ?s)"
    unfolding createRefreshToken_run [OF assms(1)] new [symmetric] assms(3) by simp
  have "\<exists>t. enforceSessionLimit ae (rowId user) ?s = (Inr (), s\<lparr>refreshTokenRows := t\<rparr>)"
    using enforceSessionLimit_run [OF assms(1), of ?s "rowId user"] assms(4) by auto
  with create show ?thesis
    unfolding issueTokens_def by (elim exE) (rule exI, rule transaction_Inr, simp add: bindM_def)
qed

lemma issued_nonce:
  assumes "reliable ne" "randomNonce ne \<noteq> []" "issueNonce ne c = (Inr (nonce, ttl), c')"
    and "peek (ne_cache ne) c t (buildUserKey nonce) = None" "t < ne_now ne + NONCE_TTL_MS"
  shows "\<exists>c''. consumeNonce (ne\<lparr>ne_now := t\<rparr>) nonce u c' = (Inr True, c'')"
proof -
  let ?ne = "ne\<lparr>ne_now := t\<rparr>"
  obtain x where x: "createNonce ne None c = (Inr (randomNonce ne), x)"
    "peek (ne_cache ne) x = setTo (ne_now ne) (buildKey (randomNonce ne)) (showInt (ne_now ne)) NONCE_TTL_MS (peek (ne_cache ne) c)"
    using reliable_create [OF assms(1), of None c] by (auto simp: Let_def)
  have n: "nonce = randomNonce ne" "c' = x"
    using assms(3) x(1) by (simp_all add: issueNonce_def generateNonce_def bindM_def)
  have p: "peek (ne_cache ne) c' t (buildKey nonce) = Some (showInt (ne_now ne))" "peek (ne_cache ne) c' t (buildUserKey nonce) = None"
    using assms(4,5) x(2) n by (simp_all add: setTo_def)
  have rel: "reliable ?ne" using assms(1) by simp
  obtain c'' where del: "deleteNonce ?ne nonce c' = (Inr True, c'')" by (rule reliable_delete [OF rel])
  have "checkNonce ?ne nonce u c' = (Inr (), c')"
    using assms(2) by (subst reliable_check [OF rel]) (simp add: p n(1) [symmetric] Let_def)
  with del show ?thesis by (auto simp: consumeNonce_def bindM_def)
qed

lemma public_nonce_login:
  assumes "runtime (ah_env ae)" "auditAccepts (ah_env ae)" "ah_nonce ae = ne\<lparr>ne_now := t\<rparr>"
    and "reliable ne" "randomNonce ne \<noteq> []" "issueNonce ne c = (Inr (nonce, ttl), acache s)"
    and "peek (ne_cache ne) c t (buildUserKey nonce) = None" "t < ne_now ne + NONCE_TTL_MS"
    and "isValidCuid u" "userOf (adb s) u = Some usr"
    and "new = tokenRow ae u (randomFamily ae) fp (adb s)"
    and "violates (refreshTokenE (prisma (ah_env ae))) new (refreshTokenRows (adb s)) = None"
    and "distinct (map rt_token (refreshTokenRows (adb s) @ [new]))"
  shows "\<exists>p s'. walletLogin ae u nonce fp s = (Inr p, s') \<and>
    access_token p = signJwt ae \<lparr>sub = u, pay_walletAddress = walletAddress usr, pay_type = ''access''\<rparr>"
proof -
  obtain c'' where "consumeNonceForUser (ah_nonce ae) nonce u (acache s) = (Inr True, c'')"
    using issued_nonce [OF assms(4-8)] assms(3) by (auto simp: consumeNonceForUser_def)
  then have consume: "onCache (consumeNonceForUser (ah_nonce ae) nonce u) s = (Inr True, s\<lparr>acache := c''\<rparr>)"
    by (simp add: onCache_def zoom_def)
  have same: "adb (s\<lparr>acache := c''\<rparr>) = adb s" by simp
  let ?u = "decryptUser (ah_env ae) usr"
  have u: "rowId ?u = u" "walletAddress ?u = walletAddress usr" using userOf_id [OF assms(10)] by simp_all
  have find: "service_findById (ah_env ae) u (adb s) = (Inr ?u, adb s)"
    using assms(9,10) by (simp add: service_findById_run [OF assms(1)])
  obtain rows where issue: "issueTokens ae ?u (randomFamily ae) fp (adb s) =
      (Inr (signAccessToken ae u (walletAddress usr), randomToken ae), (adb s)\<lparr>refreshTokenRows := rows\<rparr>)"
    using issueTokens_run [OF assms(1), of new ?u "randomFamily ae" fp "adb s"] assms(11-13) unfolding u by blast
  have nb: "noBig JNull" "noBig (JObj [(''type'', JStr ''wallet_login''), (''familyId'', JStr (randomFamily ae))])" by simp_all
  let ?p = "tokenPair ae (signAccessToken ae u (walletAddress usr)) (randomToken ae)"
  have "\<exists>d. walletLogin ae u nonce fp s = (Inr ?p, d)"
    unfolding walletLogin_def generateFamilyId_def Let_def
    apply (subst bindM_Inr [where m = "onCache (consumeNonceForUser (ah_nonce ae) nonce u)", OF consume])
    apply (simp only: onDb_def zoom_def same)
    apply (subst bindM_Inr [where m = "service_findById (ah_env ae) u", OF find])
    apply (subst bindM_Inr, rule issue)
    apply (simp only: prod.case)
    apply (subst bindM_Inr, rule runtime.auditService_log_run [OF assms(1,2) nb])
    apply (simp only: returnM_run prod.case)
    apply (rule exI, rule refl)
    done
  moreover have "access_token ?p = signJwt ae \<lparr>sub = u, pay_walletAddress = walletAddress usr, pay_type = ''access''\<rparr>"
    by (simp add: tokenPair_def signAccessToken_def)
  ultimately show ?thesis by (elim exE) (intro exI conjI)
qed

text \<open>
  C19. A login asks for no proof of the wallet. The public endpoint hands a nonce to anyone without
  binding it to a user; while it lasts, a login with that nonce and the identifier of any
  existing user succeeds and returns an access token signed for that user, and no step of it
  reads a signature.
\<close>

theorem login_needs_no_signature:
  assumes "runtime (ah_env ae)" "auditAccepts (ah_env ae)" "ah_nonce ae = ne\<lparr>ne_now := t\<rparr>"
    and "reliable ne" "randomNonce ne \<noteq> []" "issueNonce ne c = (Inr (nonce, ttl), acache s)"
    and "peek (ne_cache ne) c t (buildUserKey nonce) = None" "t < ne_now ne + NONCE_TTL_MS"
    and "isValidCuid u" "userOf (adb s) u = Some usr"
    and "new = tokenRow ae u (randomFamily ae) fp (adb s)"
    and "violates (refreshTokenE (prisma (ah_env ae))) new (refreshTokenRows (adb s)) = None"
    and "distinct (map rt_token (refreshTokenRows (adb s) @ [new]))"
  shows "\<exists>p s'. walletLogin ae u nonce fp s = (Inr p, s') \<and>
    access_token p = signJwt ae \<lparr>sub = u, pay_walletAddress = walletAddress usr, pay_type = ''access''\<rparr>"
  by (rule public_nonce_login [OF assms])

section \<open>A concrete service\<close>

definition sampleAuth :: "nat \<Rightarrow> memory_cache auth_env" where
  "sampleAuth limit = \<lparr>ah_env = memoryEnv, ah_nonce = memoryNonce\<lparr>ne_now := 2000\<rparr>,
     ah_cfg = \<lparr>JWT_ACCESS_TOKEN_TTL = None, JWT_REFRESH_TOKEN_TTL_DAYS = None, AUTH_MAX_SESSIONS_PER_USER = Some limit\<rparr>,
     sha256 = (\<lambda>x. replicate 64 (CHR ''h'')), signJwt = sub, randomToken = replicate 54 (CHR ''t''), randomFamily = ''fam-2''\<rparr>"

definition sampleToken :: "string \<Rightarrow> int \<Rightarrow> int \<Rightarrow> refresh_token" where
  "sampleToken k created expires = \<lparr>rowId = k, deletedAt = None, rt_token = k, rt_userId = ''user-1'', rt_familyId = ''fam-1'',
     rt_expiresAt = expires, rt_revokedAt = None, rt_replacedByToken = None, rt_fingerprint = None, rt_createdAt = created\<rparr>"

definition tokenUser :: user where
  "tokenUser = \<lparr>rowId = ''user-1'', deletedAt = None, walletAddress = ''G'', profileData = None, reputationScore = 0,
     trustScore = 0, email = None, pushSubscription = None\<rparr>"

definition tokenDb :: "refresh_token list \<Rightarrow> db" where
  "tokenDb t = emptyDb\<lparr>users := [tokenUser], refreshTokenRows := t\<rparr>"

lemma sampleAuth_laws [simp]: "runtime (ah_env (sampleAuth n))" "auditAccepts (ah_env (sampleAuth n))" "authentic (sampleAuth n)"
  by (simp_all add: sampleAuth_def authentic_def)

theorem session_limit_witness:
  "\<exists>s'. enforceSessionLimit (sampleAuth 1) ''user-1'' (tokenDb [sampleToken ''a'' 1 9000, sampleToken ''b'' 2 9000]) = (Inr (), s') \<and>
     length (activeTokens 1000 ''user-1'' (refreshTokenRows s')) = 1"
proof -
  let ?s = "tokenDb [sampleToken ''a'' 1 9000, sampleToken ''b'' 2 9000]"
  have "distinct (map rt_token (refreshTokenRows ?s))"
    "\<forall>r\<in>set (userTokens ''user-1'' (refreshTokenRows ?s)). rt_expiresAt r > now (ah_env (sampleAuth 1))"
    "min (length (activeTokens (now (ah_env (sampleAuth 1))) ''user-1'' (refreshTokenRows ?s))) (maxSessionsPerUser (ah_cfg (sampleAuth 1))) = 1"
    by code_simp+
  moreover have "now (ah_env (sampleAuth 1)) = 1000" by code_simp
  ultimately show ?thesis using session_limit [OF sampleAuth_laws(1), of ?s "''user-1''" 1] by metis
qed

text \<open>
  A token that has expired without being revoked is not counted as active but is the first to be
  evicted, and then the active sessions stay above the limit.
\<close>

theorem expired_token_shields:
  "length (activeTokens 1000 ''user-1'' (refreshTokenRows (snd (enforceSessionLimit (sampleAuth 1) ''user-1''
     (tokenDb [sampleToken ''old'' 0 500, sampleToken ''a'' 1 9000, sampleToken ''b'' 2 9000]))))) = 2"
  by code_simp

theorem logout_revokes_all_witness:
  "\<exists>s'. logout (sampleAuth 1) ''user-1'' None (tokenDb [sampleToken ''a'' 1 9000]) = (Inr 1, s') \<and>
     userTokens ''user-1'' (refreshTokenRows s') = []"
proof -
  have "length (userTokens ''user-1'' (refreshTokenRows (tokenDb [sampleToken ''a'' 1 9000]))) = 1" by code_simp
  then show ?thesis using logout_revokes_all [OF sampleAuth_laws(1,2), of 1 "''user-1''" "tokenDb [sampleToken ''a'' 1 9000]"] by metis
qed

theorem rotation_detects_reuse_witness:
  "\<exists>p s1 s2. refreshTokens (sampleAuth 5) ''a'' None None (tokenDb [sampleToken ''a'' 1 9000]) = (Inr p, s1) \<and>
     refreshTokens (sampleAuth 5) ''a'' None None s1 =
       (Inl (UnauthorizedException ''Refresh token has been revoked due to reuse detection''), s2) \<and>
     filter (openToken (\<lambda>x. rt_familyId x = ''fam-1'')) (refreshTokenRows s2) = []"
proof -
  have fam: "rt_familyId (sampleToken ''a'' 1 9000) = ''fam-1''" by (simp add: sampleToken_def)
  have "rotatable (sampleAuth 5) ''a'' (sampleToken ''a'' 1 9000) None (tokenDb [sampleToken ''a'' 1 9000])"
    "now (ah_env (sampleAuth 5)) \<le> rt_expiresAt (sampleToken ''a'' 1 9000)" by code_simp+
  from rotation_detects_reuse [OF sampleAuth_laws(1,2) this(1) sampleAuth_laws(1,2) this(2), of None None None, unfolded fam]
  show ?thesis by (elim exE conjE) (intro exI conjI)
qed

definition loginState :: "memory_cache auth_state" where
  "loginState = \<lparr>adb = tokenDb [], acache = snd (issueNonce memoryNonce emptyCache)\<rparr>"

lemma login_nonce: "issueNonce memoryNonce emptyCache = (Inr (''abc'', 300000), acache loginState)"
proof -
  obtain c where c: "createNonce memoryNonce None emptyCache = (Inr (randomNonce memoryNonce), c)"
    by (rule reliable_create [OF memoryNonce_reliable(1)])
  have "randomNonce memoryNonce = ''abc''" by (simp add: memoryNonce_def)
  with c show ?thesis by (simp add: loginState_def issueNonce_def generateNonce_def bindM_def)
qed

lemma sample_login_facts:
  "isValidCuid ''user-1''" "userOf (adb loginState) ''user-1'' = Some tokenUser"
  "violates (refreshTokenE (prisma (ah_env (sampleAuth 5)))) (tokenRow (sampleAuth 5) ''user-1'' (randomFamily (sampleAuth 5)) None (adb loginState))
     (refreshTokenRows (adb loginState)) = None"
  "distinct (map rt_token (refreshTokenRows (adb loginState) @
     [tokenRow (sampleAuth 5) ''user-1'' (randomFamily (sampleAuth 5)) None (adb loginState)]))"
proof -
  have "map rt_token (refreshTokenRows (adb loginState)) = []" by (simp add: loginState_def tokenDb_def)
  then show "distinct (map rt_token (refreshTokenRows (adb loginState) @
     [tokenRow (sampleAuth 5) ''user-1'' (randomFamily (sampleAuth 5)) None (adb loginState)]))" by simp
qed code_simp+

lemma sample_login_nonce:
  "ah_nonce (sampleAuth 5) = memoryNonce\<lparr>ne_now := 2000\<rparr>" "(2000 :: int) < ne_now memoryNonce + NONCE_TTL_MS"
  "peek (ne_cache memoryNonce) emptyCache 2000 (buildUserKey ''abc'') = None"
  "signJwt (sampleAuth 5) \<lparr>sub = ''user-1'', pay_walletAddress = w, pay_type = ''access''\<rparr> = ''user-1''"
  by (simp_all add: sampleAuth_def sample_fields NONCE_TTL_MS_def)

theorem login_needs_no_signature_witness:
  "\<exists>p s'. walletLogin (sampleAuth 5) ''user-1'' ''abc'' None loginState = (Inr p, s') \<and> access_token p = ''user-1''"
  using login_needs_no_signature [OF sampleAuth_laws(1,2) sample_login_nonce(1) memoryNonce_reliable(1) sample_fields(3) login_nonce
      sample_login_nonce(3,2) sample_login_facts(1,2) refl sample_login_facts(3,4)] unfolding sample_login_nonce(4) .

lemma sample_login: "\<exists>p s'. walletLogin (sampleAuth 5) ''user-1'' ''abc'' None loginState = (Inr p, s')"
  using public_nonce_login [OF sampleAuth_laws(1,2) sample_login_nonce(1) memoryNonce_reliable(1) sample_fields(3) login_nonce
      sample_login_nonce(3,2) sample_login_facts(1,2) refl sample_login_facts(3,4)] by (elim exE conjE) (intro exI)

theorem issued_tokens_rejected_witness:
  "\<exists>p s'. walletLogin (sampleAuth 5) ''user-1'' ''abc'' None loginState = (Inr p, s') \<and>
     (\<exists>e l. refreshTokens (sampleAuth 5) (refresh_token_text p) None None (adb s') = (Inl e, (adb s')\<lparr>auditLogs := l\<rparr>))"
proof -
  obtain p s' where run: "walletLogin (sampleAuth 5) ''user-1'' ''abc'' None loginState = (Inr p, s')"
    using sample_login by blast
  have "hashedTokens (adb loginState)" by code_simp
  from issued_tokens_rejected [OF sampleAuth_laws(3) this run rtranclp.rtrancl_refl sampleAuth_laws(3), of 5 None None] run
  show ?thesis by metis
qed

end
