(* ===== verification/Responses.thy ===== *)
theory Responses
  imports Redaction JsConvert
begin

text \<open>
  What leaves the application for a client: the type guards, the serialisation of special types
  (\<open>common/utils/type-guards.util.ts\<close>, \<open>json-replacer.util.ts\<close>, \<open>serialization.util.ts\<close>) and the
  response interceptor (\<open>common/interceptors/response.interceptor.ts\<close>).
\<close>

section \<open>Response bodies\<close>

text \<open>
  The values a handler returns. \<open>BObj\<close> is an object whose prototype is \<open>Object.prototype\<close>,
  \<open>BInst t ms\<close> an instance of a class with the own members \<open>ms\<close> whose method \<open>toString\<close> returns
  \<open>t\<close> (a \<open>Prisma.Decimal\<close> has the members \<open>d\<close>, \<open>e\<close> and \<open>s\<close>); \<open>BDate None\<close> is an invalid date.
  The own keys of an object are distinct. Cyclic objects are not values of this type.
\<close>

datatype body =
    BUndef
  | BNull
  | BBool bool
  | BNum rat
  | BBigInt int
  | BStr string
  | BDate "int option"
  | BArr "body list"
  | BObj "(string \<times> body) list"
  | BInst string "(string \<times> body) list"

text \<open>The own members of an object; \<open>None\<close> for a primitive value and for an array.\<close>

fun membersOf :: "body \<Rightarrow> (string \<times> body) list option" where
  "membersOf (BObj ms) = Some ms"
| "membersOf (BInst t ms) = Some ms"
| "membersOf (BDate d) = Some []"
| "membersOf _ = None"

definition member :: "body \<Rightarrow> string \<Rightarrow> body option" where
  "member b k = (case membersOf b of None \<Rightarrow> None | Some ms \<Rightarrow> map_of ms k)"

text \<open>\<open>!isNaN(Number(s))\<close>: the texts that are numeric literals.\<close>

definition someDigits :: regex where
  "someDigits = Rep 1 None (Chr isDigit)"

definition sign :: regex where
  "sign = opt (Chr (\<lambda>ch. ch = CHR ''+'' \<or> ch = CHR ''-''))"

definition decimalLiteral :: regex where
  "decimalLiteral = Seq sign
    (Alt (seqs (map lit ''Infinity''))
      (Seq (Alt (Seq someDigits (opt (Seq (lit (CHR ''.'')) (Rep 0 None (Chr isDigit)))))
                (Seq (lit (CHR ''.'')) someDigits))
        (opt (seqs [Chr (\<lambda>ch. ch = CHR ''e'' \<or> ch = CHR ''E''), sign, someDigits]))))"

definition radixLiteral :: regex where
  "radixLiteral = Seq (lit (CHR ''0''))
    (Alt (Seq (Chr (\<lambda>ch. ch = CHR ''x'' \<or> ch = CHR ''X'')) (Rep 1 None (Chr isHexI)))
    (Alt (Seq (Chr (\<lambda>ch. ch = CHR ''o'' \<or> ch = CHR ''O'')) (Rep 1 None (Chr (inRange (CHR ''0'') (CHR ''7'')))))
         (Seq (Chr (\<lambda>ch. ch = CHR ''b'' \<or> ch = CHR ''B'')) (Rep 1 None (Chr (inRange (CHR ''0'') (CHR ''1'')))))))"

definition numeric :: "string \<Rightarrow> bool" where
  "numeric s \<longleftrightarrow> (let t = trim s in t = [] \<or> fullMatch decimalLiteral t \<or> fullMatch radixLiteral t)"

section \<open>Type guards\<close>

fun isBigInt :: "body \<Rightarrow> bool" where
  "isBigInt (BBigInt i) = True"
| "isBigInt _ = False"

fun isDate :: "body \<Rightarrow> bool" where
  "isDate (BDate d) = True"
| "isDate _ = False"

text \<open>
  \<open>typeof obj.toString === 'function'\<close> and what it returns: an own member of that name hides the
  method, and no member of a body is a function.
\<close>

fun toStringOf :: "body \<Rightarrow> string option" where
  "toStringOf (BObj ms) = (if ''toString'' \<in> fst ` set ms then None else Some ''[object Object]'')"
| "toStringOf (BInst t ms) = (if ''toString'' \<in> fst ` set ms then None else Some t)"
| "toStringOf _ = None"

definition isPrismaDecimal :: "body \<Rightarrow> bool" where
  "isPrismaDecimal v =
    (case membersOf v of
       None \<Rightarrow> False
     | Some ms \<Rightarrow>
        (let hasDecimalStructure = list_ex (\<lambda>k. k \<in> {''d'', ''s'', ''e''}) (map fst ms)
         in hasDecimalStructure \<and> (case toStringOf v of None \<Rightarrow> False | Some str \<Rightarrow> numeric str)))"

definition needsSerialization :: "body \<Rightarrow> bool" where
  "needsSerialization v \<longleftrightarrow> isBigInt v \<or> isPrismaDecimal v \<or> isDate v"

section \<open>Serialisation\<close>

text \<open>\<open>value.toString()\<close> of a bigint or a decimal and \<open>value.toISOString()\<close> of a date.\<close>

fun specialText :: "body \<Rightarrow> error + body" where
  "specialText (BBigInt i) = Inr (BStr (showInt i))"
| "specialText (BDate (Some t)) = Inr (BStr (toISOString t))"
| "specialText (BDate None) = Inl (PlainError ''Invalid time value'')"
| "specialText v = (case toStringOf v of None \<Rightarrow> Inr v | Some s \<Rightarrow> Inr (BStr s))"

definition jsonReplacer :: "body \<Rightarrow> error + body" where
  "jsonReplacer v = (if needsSerialization v then specialText v else Inr v)"

definition transformField :: "body \<Rightarrow> error + body" where
  "transformField v = (if needsSerialization v then specialText v else Inr v)"

text \<open>\<open>result[key] = value\<close> for a key not assigned yet; \<open>__proto__\<close> makes no own member.\<close>

definition put :: "string \<Rightarrow> body \<Rightarrow> (string \<times> body) list \<Rightarrow> (string \<times> body) list" where
  "put k v ms = (if k = ''__proto__'' then ms else (k, v) # ms)"

fun transform :: "body \<Rightarrow> error + body"
  and transformArray :: "body list \<Rightarrow> error + body list"
  and transformEntries :: "(string \<times> body) list \<Rightarrow> error + (string \<times> body) list" where
  "transform v =
    (if v = BNull \<or> v = BUndef then Inr v
     else if needsSerialization v then specialText v
     else case v of
       BArr xs \<Rightarrow> (case transformArray xs of Inl e \<Rightarrow> Inl e | Inr ys \<Rightarrow> Inr (BArr ys))
     | BObj ms \<Rightarrow> (case transformEntries ms of Inl e \<Rightarrow> Inl e | Inr ns \<Rightarrow> Inr (BObj ns))
     | BInst t ms \<Rightarrow> (case transformEntries ms of Inl e \<Rightarrow> Inl e | Inr ns \<Rightarrow> Inr (BObj ns))
     | _ \<Rightarrow> Inr v)"
| "transformArray [] = Inr []"
| "transformArray (x # xs) =
    (case transform x of Inl e \<Rightarrow> Inl e
     | Inr y \<Rightarrow> (case transformArray xs of Inl e \<Rightarrow> Inl e | Inr ys \<Rightarrow> Inr (y # ys)))"
| "transformEntries [] = Inr []"
| "transformEntries ((k, x) # ms) =
    (case transform x of Inl e \<Rightarrow> Inl e
     | Inr y \<Rightarrow> (case transformEntries ms of Inl e \<Rightarrow> Inl e | Inr ns \<Rightarrow> Inr (put k y ns)))"

declare transform.simps [simp del]

fun transformPartial :: "(string \<times> body) list \<Rightarrow> string list \<Rightarrow> error + (string \<times> body) list" where
  "transformPartial obj [] = Inr []"
| "transformPartial obj (field # rest) =
    (case map_of obj field of
       None \<Rightarrow> transformPartial obj rest
     | Some x \<Rightarrow> (case transform x of Inl e \<Rightarrow> Inl e
        | Inr y \<Rightarrow> (case transformPartial obj rest of Inl e \<Rightarrow> Inl e
           | Inr ns \<Rightarrow> Inr (put field y ns))))"

section \<open>ResponseTransformInterceptor\<close>

text \<open>\<open>String(value)\<close> of an object.\<close>

definition objectText :: "body \<Rightarrow> error + body" where
  "objectText v = (case toStringOf v of
     None \<Rightarrow> Inl (PlainError ''Cannot convert object to primitive value'') | Some s \<Rightarrow> Inr (BStr s))"

fun safeSerialize :: "body \<Rightarrow> error + body"
  and safeArray :: "body list \<Rightarrow> error + body list"
  and safeEntries :: "(string \<times> body) list \<Rightarrow> error + (string \<times> body) list" where
  "safeSerialize v =
    (if v = BNull \<or> v = BUndef then Inr v
     else case jsonReplacer v of
       Inl e \<Rightarrow> Inl e
     | Inr replaced \<Rightarrow>
        (if replaced \<noteq> v then Inr replaced
         else case v of
           BArr xs \<Rightarrow> (case safeArray xs of Inl e \<Rightarrow> Inl e | Inr ys \<Rightarrow> Inr (BArr ys))
         | BObj ms \<Rightarrow> (case safeEntries ms of Inl e \<Rightarrow> objectText v | Inr ns \<Rightarrow> Inr (BObj ns))
         | BInst t ms \<Rightarrow> (case safeEntries ms of Inl e \<Rightarrow> objectText v | Inr ns \<Rightarrow> Inr (BObj ns))
         | _ \<Rightarrow> Inr v))"
| "safeArray [] = Inr []"
| "safeArray (x # xs) =
    (case safeSerialize x of Inl e \<Rightarrow> Inl e
     | Inr y \<Rightarrow> (case safeArray xs of Inl e \<Rightarrow> Inl e | Inr ys \<Rightarrow> Inr (y # ys)))"
| "safeEntries [] = Inr []"
| "safeEntries ((k, x) # ms) =
    (case safeSerialize x of Inl e \<Rightarrow> Inl e
     | Inr y \<Rightarrow> (case safeEntries ms of Inl e \<Rightarrow> Inl e | Inr ns \<Rightarrow> Inr (put k y ns)))"

declare safeSerialize.simps [simp del]

definition serializeSpecialTypes :: "body \<Rightarrow> error + body" where
  "serializeSpecialTypes v = (case transform v of Inl e \<Rightarrow> safeSerialize v | Inr w \<Rightarrow> Inr w)"

fun stripSoftDeleteMetadata :: "nat \<Rightarrow> body \<Rightarrow> body"
  and stripArray :: "nat \<Rightarrow> body list \<Rightarrow> body list"
  and stripEntries :: "nat \<Rightarrow> (string \<times> body) list \<Rightarrow> (string \<times> body) list" where
  "stripSoftDeleteMetadata depth v =
    (if depth > 10 then v
     else case v of
       BArr xs \<Rightarrow> BArr (stripArray (depth + 1) xs)
     | BObj ms \<Rightarrow> BObj (stripEntries (depth + 1) ms)
     | _ \<Rightarrow> v)"
| "stripArray depth [] = []"
| "stripArray depth (x # xs) = stripSoftDeleteMetadata depth x # stripArray depth xs"
| "stripEntries depth [] = []"
| "stripEntries depth ((k, x) # ms) =
    (if k = ''deletedAt'' then stripEntries depth ms
     else put k (stripSoftDeleteMetadata depth x) (stripEntries depth ms))"

declare stripSoftDeleteMetadata.simps [simp del]

text \<open>A body with a boolean \<open>success\<close> is taken for a finished response.\<close>

definition isEnvelope :: "body \<Rightarrow> bool" where
  "isEnvelope body \<longleftrightarrow> (case member body ''success'' of Some (BBool b) \<Rightarrow> True | _ \<Rightarrow> False)"

definition isPaged :: "body \<Rightarrow> bool" where
  "isPaged body \<longleftrightarrow> member body ''data'' \<noteq> None \<and> member body ''meta'' \<noteq> None"

definition payload :: "body \<Rightarrow> body" where
  "payload body = (if isPaged body then the (member body ''data'') else body)"

definition metaOf :: "body \<Rightarrow> (string \<times> body) list" where
  "metaOf body = (if isPaged body then [(''meta'', the (member body ''meta''))] else [])"

definition formatResponse :: "body \<Rightarrow> error + body" where
  "formatResponse body =
    (if isEnvelope body then Inr body
     else case serializeSpecialTypes (stripSoftDeleteMetadata 0 (payload body)) of
       Inr d \<Rightarrow> Inr (BObj ((''success'', BBool True) # (''data'', d) # metaOf body))
     | Inl e \<Rightarrow> (case safeSerialize body of
          Inl e \<Rightarrow> Inl e
        | Inr d \<Rightarrow> Inr (BObj [(''success'', BBool True), (''data'', d)])))"

section \<open>What a client can receive\<close>

fun datesOk :: "body \<Rightarrow> bool" where
  "datesOk (BDate d) = (d \<noteq> None)"
| "datesOk (BArr xs) = list_all datesOk xs"
| "datesOk (BObj ms) = list_all (\<lambda>(k, x). datesOk x) ms"
| "datesOk (BInst t ms) = list_all (\<lambda>(k, x). datesOk x) ms"
| "datesOk _ = True"

text \<open>Values that JSON can write: no bigint, date, decimal or other class instance at any depth.\<close>

fun plainJson :: "body \<Rightarrow> bool" where
  "plainJson (BBigInt i) = False"
| "plainJson (BDate d) = False"
| "plainJson (BInst t ms) = False"
| "plainJson (BArr xs) = list_all plainJson xs"
| "plainJson (BObj ms) = list_all (\<lambda>(k, x). k \<noteq> ''__proto__'' \<and> plainJson x) ms"
| "plainJson _ = True"

text \<open>No member called \<open>deletedAt\<close> at any depth, and the same inside class instances only.\<close>

fun unmarked :: "body \<Rightarrow> bool" where
  "unmarked (BArr xs) = list_all unmarked xs"
| "unmarked (BObj ms) = list_all (\<lambda>(k, x). k \<noteq> ''deletedAt'' \<and> unmarked x) ms"
| "unmarked (BInst t ms) = list_all (\<lambda>(k, x). k \<noteq> ''deletedAt'' \<and> unmarked x) ms"
| "unmarked _ = True"

fun instancesUnmarked :: "body \<Rightarrow> bool" where
  "instancesUnmarked (BArr xs) = list_all instancesUnmarked xs"
| "instancesUnmarked (BObj ms) = list_all (\<lambda>(k, x). instancesUnmarked x) ms"
| "instancesUnmarked (BInst t ms) = unmarked (BInst t ms)"
| "instancesUnmarked _ = True"

text \<open>Objects and arrays nested in each other.\<close>

fun bdepth :: "body \<Rightarrow> nat" where
  "bdepth (BArr xs) = Suc (fold max (map bdepth xs) 0)"
| "bdepth (BObj ms) = Suc (fold max (map (bdepth \<circ> snd) ms) 0)"
| "bdepth _ = 0"

text \<open>The reference for the stripping of markers: plain objects and arrays to any depth.\<close>

fun prune :: "body \<Rightarrow> body"
  and pruneEntries :: "(string \<times> body) list \<Rightarrow> (string \<times> body) list" where
  "prune (BArr xs) = BArr (map prune xs)"
| "prune (BObj ms) = BObj (pruneEntries ms)"
| "prune v = v"
| "pruneEntries [] = []"
| "pruneEntries ((k, x) # ms) =
    (if k = ''deletedAt'' then pruneEntries ms else put k (prune x) (pruneEntries ms))"

lemma fold_max_ge: "x \<in> set xs \<Longrightarrow> x \<le> fold max xs (a :: nat)"
proof (induction xs arbitrary: a)
  case (Cons y ys)
  have "b \<le> fold max zs b" for b and zs :: "nat list"
    by (induction zs arbitrary: b) (auto intro: order_trans [OF max.cobounded2])
  with Cons show ?case by (auto intro: order_trans [OF max.cobounded1])
qed simp

lemma specialText_ok:
  "needsSerialization v \<Longrightarrow> datesOk v \<Longrightarrow> \<exists>s. specialText v = Inr (BStr s)"
  by (cases v rule: specialText.cases)
    (auto simp: needsSerialization_def isPrismaDecimal_def Let_def split: option.splits if_splits)

lemma transform_ok:
  "datesOk v \<Longrightarrow> \<exists>w. transform v = Inr w \<and> plainJson w"
  "list_all datesOk xs \<Longrightarrow> \<exists>ys. transformArray xs = Inr ys \<and> list_all plainJson ys"
  "list_all (\<lambda>(k, x). datesOk x) ms \<Longrightarrow>
     \<exists>ns. transformEntries ms = Inr ns \<and> list_all (\<lambda>(k, x). k \<noteq> ''__proto__'' \<and> plainJson x) ns"
proof (induction v and xs and ms rule: transform_transformArray_transformEntries.induct)
  case (1 v)
  show ?case
  proof (cases "v = BNull \<or> v = BUndef \<or> needsSerialization v")
    case True
    with specialText_ok [of v] 1(4) show ?thesis by (subst (1) transform.simps) auto
  next
    case False
    then have v: "v \<noteq> BNull \<and> v \<noteq> BUndef" "\<not> needsSerialization v" by auto
    then have "\<not> (v = BNull \<or> v = BUndef)" by simp
    note IH = "1.IH" [OF this v(2)]
    show ?thesis
      using v IH 1(4) by (cases v) (subst transform.simps; fastforce simp: needsSerialization_def)+
  qed
next
  case (5 k x ms)
  then show ?case by (auto simp: put_def)
qed auto

lemma strip_deep [simp]: "depth > 10 \<Longrightarrow> stripSoftDeleteMetadata depth v = v"
  by (simp add: stripSoftDeleteMetadata.simps)

lemma strip_datesOk:
  "datesOk v \<Longrightarrow> datesOk (stripSoftDeleteMetadata depth v)"
  "list_all datesOk xs \<Longrightarrow> list_all datesOk (stripArray depth xs)"
  "list_all (\<lambda>(k, x). datesOk x) ms \<Longrightarrow> list_all (\<lambda>(k, x). datesOk x) (stripEntries depth ms)"
proof (induction depth v and depth xs and depth ms rule: stripSoftDeleteMetadata_stripArray_stripEntries.induct)
  case (1 depth v)
  show ?case
    using 1 by (cases "depth > 10"; cases v) (subst stripSoftDeleteMetadata.simps; simp)+
next
  case (5 depth k x ms)
  then show ?case by (auto simp: put_def)
qed auto

text \<open>Down to the depth limit, the interceptor strips exactly what the reference strips.\<close>

lemma strip_prune:
  "depth + bdepth v \<le> 11 \<Longrightarrow> stripSoftDeleteMetadata depth v = prune v"
  "(\<And>x. x \<in> set xs \<Longrightarrow> depth + bdepth x \<le> 11) \<Longrightarrow> stripArray depth xs = map prune xs"
  "(\<And>k x. (k, x) \<in> set ms \<Longrightarrow> depth + bdepth x \<le> 11) \<Longrightarrow> stripEntries depth ms = pruneEntries ms"
proof (induction depth v and depth xs and depth ms rule: stripSoftDeleteMetadata_stripArray_stripEntries.induct)
  case (1 depth v)
  show ?case
  proof (cases v)
    case (BArr xs)
    have "depth + 1 + bdepth x \<le> 11" if "x \<in> set xs" for x
      using "1.prems" BArr fold_max_ge [of "bdepth x" "map bdepth xs" 0] that by force
    with "1.IH"(1) [OF _ BArr] "1.prems" BArr show ?thesis by (subst stripSoftDeleteMetadata.simps) auto
  next
    case (BObj ms)
    have "depth + 1 + bdepth x \<le> 11" if "(k, x) \<in> set ms" for k x
      using "1.prems" BObj fold_max_ge [of "bdepth x" "map (bdepth \<circ> snd) ms" 0] that by force
    with "1.IH"(2) [OF _ BObj] "1.prems" BObj show ?thesis by (subst stripSoftDeleteMetadata.simps) auto
  qed (subst stripSoftDeleteMetadata.simps; simp)+
next
  case (5 depth k x ms)
  have "depth + bdepth x \<le> 11" using "5.prems" [of k x] by simp
  moreover have "stripEntries depth ms = pruneEntries ms"
    using "5.IH"(1,3) "5.prems" by (cases "k = ''deletedAt''") (metis list.set_intros(2))+
  ultimately show ?case using "5.IH"(2) by simp
qed auto

lemma prune_unmarked:
  "instancesUnmarked v \<Longrightarrow> unmarked (prune v)"
  "list_all (\<lambda>(k, x). instancesUnmarked x) ms \<Longrightarrow>
     list_all (\<lambda>(k, x). k \<noteq> ''deletedAt'' \<and> unmarked x) (pruneEntries ms)"
  by (induction v and ms rule: prune_pruneEntries.induct) (auto simp: list_all_iff put_def)

lemma transform_unmarked:
  "unmarked v \<Longrightarrow> transform v = Inr w \<Longrightarrow> unmarked w"
  "list_all unmarked xs \<Longrightarrow> transformArray xs = Inr ys \<Longrightarrow> list_all unmarked ys"
  "list_all (\<lambda>(k, x). k \<noteq> ''deletedAt'' \<and> unmarked x) ms \<Longrightarrow> transformEntries ms = Inr ns \<Longrightarrow>
     list_all (\<lambda>(k, x). k \<noteq> ''deletedAt'' \<and> unmarked x) ns"
proof (induction v and xs and ms arbitrary: w and ys and ns rule: transform_transformArray_transformEntries.induct)
  case (1 v)
  show ?case
  proof (cases "v = BNull \<or> v = BUndef \<or> needsSerialization v")
    case True
    have "unmarked u" if "specialText v = Inr u" for u
      using that 1(4) by (cases v rule: specialText.cases) (auto split: if_splits)
    moreover have "w = v \<or> specialText v = Inr w"
      using True "1.prems"(2) by (subst (asm) transform.simps) (auto split: if_splits)
    ultimately show ?thesis using "1.prems"(1) by auto
  next
    case False
    then have v: "\<not> (v = BNull \<or> v = BUndef)" "\<not> needsSerialization v" by auto
    note IH = "1.IH" [OF v]
    from "1.prems"(2) v have w: "(case v of
         BArr xs \<Rightarrow> (case transformArray xs of Inl e \<Rightarrow> Inl e | Inr ys \<Rightarrow> Inr (BArr ys))
       | BObj ms \<Rightarrow> (case transformEntries ms of Inl e \<Rightarrow> Inl e | Inr ns \<Rightarrow> Inr (BObj ns))
       | BInst t ms \<Rightarrow> (case transformEntries ms of Inl e \<Rightarrow> Inl e | Inr ns \<Rightarrow> Inr (BObj ns))
       | _ \<Rightarrow> Inr v) = Inr w" by (subst (asm) transform.simps) simp
    show ?thesis
      using w IH 1(4) by (cases v) (auto split: sum.splits)
  qed
next
  case (5 k x ms)
  then show ?case by (auto simp: put_def split: sum.splits)
qed (auto split: sum.splits)

lemma member_datesOk: "datesOk b \<Longrightarrow> member b k = Some x \<Longrightarrow> datesOk x"
  by (cases b) (auto simp: member_def list_all_iff dest!: map_of_SomeD)

lemma payload_datesOk: "datesOk b \<Longrightarrow> datesOk (payload b)"
  by (auto simp: payload_def isPaged_def intro: member_datesOk)

lemma failing_entry:
  "(k, x) \<in> set ms \<Longrightarrow> transform x = Inl e \<Longrightarrow> \<exists>e'. transformEntries ms = Inl e'"
  "(k, x) \<in> set ms \<Longrightarrow> safeSerialize x = Inl e \<Longrightarrow> \<exists>e'. safeEntries ms = Inl e'"
  by (induction ms) (auto split: sum.splits)

lemma strip_keeps_entry:
  "(k, x) \<in> set ms \<Longrightarrow> k \<noteq> ''deletedAt'' \<Longrightarrow> k \<noteq> ''__proto__'' \<Longrightarrow>
     (k, stripSoftDeleteMetadata depth x) \<in> set (stripEntries depth ms)"
  by (induction ms) (auto simp: put_def)

lemma strip_keys: "k \<in> fst ` set (stripEntries depth ms) \<Longrightarrow> k \<in> fst ` set ms"
proof (induction ms)
  case (Cons m ms)
  then show ?case by (cases m) (auto simp: put_def split: if_splits)
qed simp

lemma objectText_not_numeric: "\<not> numeric ''[object Object]''"
  by code_simp

lemma plain_object_special: "\<not> needsSerialization (BObj ms)"
  using objectText_not_numeric by (simp add: needsSerialization_def isPrismaDecimal_def Let_def)

section \<open>Properties\<close>

text \<open>
  C33. What the interceptor sends. Unless the handler returned a finished response, a body without
  invalid dates is wrapped as \<open>success\<close> with data that JSON can write (no bigint, date, decimal or
  class instance at any depth); when objects and arrays are nested at most eleven deep and no class
  instance carries the soft-delete marker, the marker is gone from the data at every depth.
\<close>

theorem response_data_safe:
  assumes "datesOk body" "\<not> isEnvelope body"
  shows "\<exists>d. formatResponse body = Inr (BObj ((''success'', BBool True) # (''data'', d) # metaOf body)) \<and>
    plainJson d \<and> (bdepth (payload body) \<le> 11 \<and> instancesUnmarked (payload body) \<longrightarrow> unmarked d)"
proof -
  let ?v = "stripSoftDeleteMetadata 0 (payload body)"
  from transform_ok(1) [OF strip_datesOk(1) [OF payload_datesOk [OF assms(1)]]]
  obtain d where d: "transform ?v = Inr d" "plainJson d" by blast
  have "unmarked d" if "bdepth (payload body) \<le> 11" "instancesUnmarked (payload body)"
    using that strip_prune(1) [of 0 "payload body"] prune_unmarked(1) transform_unmarked(1) [OF _ d(1)] by simp
  with d assms(2) show ?thesis by (auto simp: formatResponse_def serializeSpecialTypes_def)
qed

definition sampleBody :: body where
  "sampleBody = BObj [(''id'', BStr ''p1''), (''amount'', BInst ''12.5'' [(''d'', BArr [BNum 12, BNum 5000000]), (''e'', BNum 1), (''s'', BNum 1)]),
     (''goal'', BBigInt 1000), (''at'', BDate (Some 0)), (''deletedAt'', BNull)]"

theorem response_data_safe_witness:
  "\<exists>d. formatResponse sampleBody = Inr (BObj [(''success'', BBool True), (''data'', d)]) \<and> plainJson d \<and> unmarked d"
proof -
  have "datesOk sampleBody" "\<not> isEnvelope sampleBody" "bdepth (payload sampleBody) \<le> 11"
    "instancesUnmarked (payload sampleBody)" "metaOf sampleBody = []"
    by code_simp+
  with response_data_safe [of sampleBody] show ?thesis by simp
qed

text \<open>
  The depth limit of the stripping. Up to eleven nested levels the interceptor's routine equals
  the unbounded reference; at twelve levels it leaves a marker in place.
\<close>

theorem strip_within_depth:
  "(bdepth v \<le> 11 \<longrightarrow> stripSoftDeleteMetadata 0 v = prune v) \<and>
   (\<exists>u. bdepth u = 12 \<and> instancesUnmarked u \<and> \<not> unmarked (stripSoftDeleteMetadata 0 u))"
proof
  let ?u = "((\<lambda>b. BArr [b]) ^^ 11) (BObj [(''deletedAt'', BNull)])"
  show "bdepth v \<le> 11 \<longrightarrow> stripSoftDeleteMetadata 0 v = prune v"
    using strip_prune(1) [of 0 v] by simp
  have "bdepth ?u = 12 \<and> instancesUnmarked ?u \<and> \<not> unmarked (stripSoftDeleteMetadata 0 ?u)" by code_simp
  then show "\<exists>u. bdepth u = 12 \<and> instancesUnmarked u \<and> \<not> unmarked (stripSoftDeleteMetadata 0 u)" by blast
qed

theorem strip_within_depth_witness:
  "stripSoftDeleteMetadata 0 sampleBody = prune sampleBody"
proof -
  have "bdepth sampleBody \<le> 11" by code_simp
  with strip_within_depth [of sampleBody] show ?thesis by simp
qed

text \<open>
  A date that cannot be written loses the whole object. When a member of the returned object is
  an invalid date, the serialisation fails, the fallback fails too, and the client is told of a
  success whose data is the text \<open>[object Object]\<close>.
\<close>

theorem invalid_date_masked:
  assumes "(k, BDate None) \<in> set ms" "k \<noteq> ''deletedAt''" "k \<noteq> ''__proto__''" "''toString'' \<notin> fst ` set ms"
    and "\<not> isEnvelope (BObj ms)" "\<not> isPaged (BObj ms)"
  shows "formatResponse (BObj ms) = Inr (BObj [(''success'', BBool True), (''data'', BStr ''[object Object]'')])"
proof -
  let ?ns = "stripEntries 1 ms"
  have strip: "stripSoftDeleteMetadata 0 (BObj ms) = BObj ?ns" by (simp add: stripSoftDeleteMetadata.simps)
  have date: "transform (BDate None) = Inl (PlainError ''Invalid time value'')"
    "safeSerialize (BDate None) = Inl (PlainError ''Invalid time value'')"
    by (simp_all add: transform.simps safeSerialize.simps jsonReplacer_def needsSerialization_def)
  have "stripSoftDeleteMetadata 1 (BDate None) = BDate None" by (simp add: stripSoftDeleteMetadata.simps)
  then have ns: "(k, BDate None) \<in> set ?ns"
    using strip_keeps_entry [OF assms(1-3), of 1] by simp
  from failing_entry(1) [OF ns date(1)] failing_entry(2) [OF ns date(2)]
  obtain e f where fail: "transformEntries ?ns = Inl e" "safeEntries ?ns = Inl f" by blast
  have "''toString'' \<notin> fst ` set ?ns" using assms(4) strip_keys by blast
  then have object: "objectText (BObj ?ns) = Inr (BStr ''[object Object]'')" by (simp add: objectText_def)
  have "serializeSpecialTypes (BObj ?ns) = Inr (BStr ''[object Object]'')"
    using fail object plain_object_special [of ?ns]
    by (simp add: serializeSpecialTypes_def transform.simps safeSerialize.simps jsonReplacer_def)
  with assms(5,6) strip show ?thesis by (simp add: formatResponse_def payload_def metaOf_def)
qed

theorem invalid_date_masked_witness:
  "formatResponse (BObj [(''id'', BStr ''p1''), (''closedAt'', BDate None)]) =
     Inr (BObj [(''success'', BBool True), (''data'', BStr ''[object Object]'')])"
proof (rule invalid_date_masked [where k = "''closedAt''"])
qed (code_simp | simp)+

end
