(* ===== verification/Tracing.thy ===== *)
theory Tracing
  imports Sanitization JsConvert
begin

text \<open>
  Request tracing: the tracing scope of \<open>common/tracing/tracing-context.ts\<close>, the correlation
  identifier middleware (\<open>middleware/correlation-id.middleware.ts\<close>), the part of the response
  interceptor that fills the scope, and the log pipeline of \<open>config/winston.config.ts\<close> and
  \<open>common/utils/log-redaction.util.ts\<close> that stamps and redacts every entry.
\<close>

section \<open>The tracing scope\<close>

record TracingContext =
  tc_correlationId :: string
  tc_userId :: "string option"
  tc_entityId :: "string option"
  tc_eventId :: "string option"

record trace_patch =
  pa_userId :: "string option"
  pa_entityId :: "string option"
  pa_eventId :: "string option"

text \<open>\<open>AsyncLocalStorage\<close> holds the context of the running scope, \<open>None\<close> outside of any scope.\<close>

definition updateTracingContext :: "trace_patch \<Rightarrow> TracingContext option \<Rightarrow> TracingContext option" where
  "updateTracingContext patch scope =
    (case scope of
       None \<Rightarrow> None
     | Some ctx \<Rightarrow>
        (let ctx1 = (if pa_userId patch \<noteq> None then ctx\<lparr>tc_userId := pa_userId patch\<rparr> else ctx);
             ctx2 = (if pa_entityId patch \<noteq> None then ctx1\<lparr>tc_entityId := pa_entityId patch\<rparr> else ctx1)
         in Some (if pa_eventId patch \<noteq> None then ctx2\<lparr>tc_eventId := pa_eventId patch\<rparr> else ctx2)))"

definition ENTITY_ID_PARAM_KEYS :: "string list" where
  "ENTITY_ID_PARAM_KEYS =
    [''entityId'', ''claimId'', ''policyId'', ''poolId'', ''projectId'', ''contractId'', ''id'']"

text \<open>A value that is neither absent nor the empty text.\<close>

definition given :: "string option \<Rightarrow> bool" where
  "given v \<longleftrightarrow> v \<noteq> None \<and> v \<noteq> Some []"

definition extractEntityIdFromParams :: "(string \<Rightarrow> string option) option \<Rightarrow> string option" where
  "extractEntityIdFromParams params =
    (case params of
       None \<Rightarrow> None
     | Some p \<Rightarrow> (case find (\<lambda>key. given (p key)) ENTITY_ID_PARAM_KEYS of None \<Rightarrow> None | Some key \<Rightarrow> p key))"

section \<open>The correlation identifier of a request\<close>

datatype header = OneValue string | ManyValues "string list"

record http_request =
  rq_method :: string
  rq_url :: string
  rq_ip :: "string option"
  rq_userAgent :: "string option"
  rq_headers :: "string \<Rightarrow> header option"
  rq_user :: "string option"
  rq_params :: "(string \<Rightarrow> string option) option"
  rq_redactedMeta :: jsval

definition isUuid :: "string \<Rightarrow> bool" where
  "isUuid s \<longleftrightarrow> fullMatch UUID_RE s"

definition optText :: "string option \<Rightarrow> jsval" where
  "optText v = (case v of None \<Rightarrow> JUndef | Some s \<Rightarrow> JStr s)"

text \<open>
  The handler with the value \<open>randomUUID()\<close> returns: the request it passes on, the headers it sets
  on the response, and the context of the scope the rest of the request runs in.
\<close>

definition correlationIdHandler ::
  "(jsval \<Rightarrow> (string \<times> jsval) list) \<Rightarrow> string \<Rightarrow> http_request \<Rightarrow>
   http_request \<times> (string \<times> string) list \<times> TracingContext" where
  "correlationIdHandler entriesOf randomUUID req =
    (let correlationId = (case rq_headers req ''x-correlation-id'' of
           Some (OneValue headerId) \<Rightarrow> if isUuid (trim headerId) then trim headerId else randomUUID
         | _ \<Rightarrow> randomUUID)
     in (req\<lparr>rq_headers := (rq_headers req)(''x-correlation-id'' \<mapsto> OneValue correlationId),
            rq_redactedMeta := redactValue entriesOf 0 (JObj
              [(''correlationId'', JStr correlationId), (''method'', JStr (rq_method req)),
               (''url'', JStr (rq_url req)), (''ip'', optText (rq_ip req)),
               (''userAgent'', optText (rq_userAgent req))])\<rparr>,
         [(''x-correlation-id'', correlationId)],
         \<lparr>tc_correlationId = correlationId, tc_userId = None, tc_entityId = None, tc_eventId = None\<rparr>))"

text \<open>\<open>captureTraceContext\<close> of the response interceptor, for an HTTP request.\<close>

definition captureTraceContext ::
  "http_request \<Rightarrow> TracingContext option \<Rightarrow> TracingContext option \<times> (string \<times> string) list" where
  "captureTraceContext request scope =
    (let scope1 = (if given (rq_user request)
           then updateTracingContext \<lparr>pa_userId = rq_user request, pa_entityId = None, pa_eventId = None\<rparr> scope
           else scope);
         entityId = extractEntityIdFromParams (rq_params request);
         scope2 = (if given entityId
           then updateTracingContext \<lparr>pa_userId = None, pa_entityId = entityId, pa_eventId = None\<rparr> scope1
           else scope1)
     in (scope2,
         (case scope2 of
            None \<Rightarrow> []
          | Some ctx \<Rightarrow> (''x-correlation-id'', tc_correlationId ctx) #
              (case tc_entityId ctx of
                 None \<Rightarrow> [] | Some e \<Rightarrow> if e = [] then [] else [(''x-entity-id'', e)]))))"

section \<open>The log pipeline\<close>

text \<open>A log entry: its members and what winston keeps under symbol keys.\<close>

record log_info =
  li_fields :: "(string \<times> jsval) list"
  li_symbols :: "(string \<times> jsval) list"

definition stampTrace :: "string \<Rightarrow> string option \<Rightarrow> (string \<times> jsval) list \<Rightarrow> (string \<times> jsval) list" where
  "stampTrace key v info =
    (case v of
       None \<Rightarrow> info
     | Some s \<Rightarrow> (if s \<noteq> [] \<and> (map_of info key = None \<or> map_of info key = Some JUndef)
                 then setMember key (JStr s) info else info))"

definition tracingFormat :: "TracingContext option \<Rightarrow> log_info \<Rightarrow> log_info" where
  "tracingFormat scope info =
    (case scope of
       None \<Rightarrow> info
     | Some ctx \<Rightarrow> info\<lparr>li_fields :=
         stampTrace ''eventId'' (tc_eventId ctx)
           (stampTrace ''entityId'' (tc_entityId ctx)
             (stampTrace ''userId'' (tc_userId ctx)
               (stampTrace ''correlationId'' (Some (tc_correlationId ctx)) (li_fields info))))\<rparr>)"

definition redactLogInfo :: "(jsval \<Rightarrow> (string \<times> jsval) list) \<Rightarrow> log_info \<Rightarrow> log_info" where
  "redactLogInfo entriesOf info =
    \<lparr>li_fields = objectEntries entriesOf (redactValue entriesOf 0 (JObj (li_fields info))),
     li_symbols = li_symbols info\<rparr>"

text \<open>\<open>tracingFormat\<close> and then \<open>redactFormat\<close>, the order of \<open>winstonConfig\<close>.\<close>

definition logFormat :: "(jsval \<Rightarrow> (string \<times> jsval) list) \<Rightarrow> TracingContext option \<Rightarrow> log_info \<Rightarrow> log_info" where
  "logFormat entriesOf scope info = redactLogInfo entriesOf (tracingFormat scope info)"

text \<open>
  \<open>NestWinstonLogger\<close>: the last text among the parameters is the context, and for errors the text
  before it the stack.
\<close>

fun popText :: "string \<Rightarrow> (string \<times> jsval) list \<times> jsval list \<Rightarrow> (string \<times> jsval) list \<times> jsval list" where
  "popText key (meta, params) =
    (if params \<noteq> [] \<and> isJStr (List.last params) then (meta @ [(key, List.last params)], butlast params)
     else (meta, params))"

definition buildMeta :: "jsval list \<Rightarrow> bool \<Rightarrow> (string \<times> jsval) list" where
  "buildMeta optionalParams withStack =
    (let first = popText ''context'' ([], optionalParams)
     in fst (if withStack then popText ''trace'' first else first))"

datatype level = Info | Error | Warn | Debug | Verbose

datatype nest_call =
    NestLog jsval "jsval list"
  | NestError jsval "jsval list"
  | NestWarn jsval "jsval list"
  | NestDebug jsval "jsval list"
  | NestVerbose jsval "jsval list"
  | NestFatal jsval "jsval list"

fun nestWinston :: "js_library \<Rightarrow> nest_call \<Rightarrow> level \<times> string \<times> (string \<times> jsval) list" where
  "nestWinston js (NestLog m ps) = (Info, jsString js m, buildMeta ps False)"
| "nestWinston js (NestError m ps) = (Error, jsString js m, buildMeta ps True)"
| "nestWinston js (NestWarn m ps) = (Warn, jsString js m, buildMeta ps False)"
| "nestWinston js (NestDebug m ps) = (Debug, jsString js m, buildMeta ps False)"
| "nestWinston js (NestVerbose m ps) = (Verbose, jsString js m, buildMeta ps False)"
| "nestWinston js (NestFatal m ps) = (Error, jsString js m, buildMeta ps True @ [(''fatal'', JBool True)])"

section \<open>Identifiers have no white space\<close>

text \<open>The characters a match consumes.\<close>

primrec drawsFrom :: "(char \<Rightarrow> bool) \<Rightarrow> regex \<Rightarrow> bool" where
  "drawsFrom P Eps = True"
| "drawsFrom P (Chr Q) = (\<forall>ch. Q ch \<longrightarrow> P ch)"
| "drawsFrom P (Seq r q) = (drawsFrom P r \<and> drawsFrom P q)"
| "drawsFrom P (Alt r q) = (drawsFrom P r \<and> drawsFrom P q)"
| "drawsFrom P (Rep lo hi r) = drawsFrom P r"
| "drawsFrom P WordBoundary = True"

definition consumes :: "(char \<Rightarrow> bool) \<Rightarrow> rpos \<Rightarrow> rpos \<Rightarrow> bool" where
  "consumes P p q \<longleftrightarrow> (\<exists>u. snd p = u @ snd q \<and> list_all P u)"

lemma consumes_refl [simp]: "consumes P p p"
  by (simp add: consumes_def)

lemma consumes_trans: "consumes P p q \<Longrightarrow> consumes P q r \<Longrightarrow> consumes P p r"
  unfolding consumes_def by (metis append.assoc list_all_append)

lemma reps_consumes:
  assumes "\<And>p q. q \<in> set (f p) \<Longrightarrow> consumes P p q" "q \<in> set (reps k f lo hi p)"
  shows "consumes P p q"
  using assms(2)
proof (induction k arbitrary: lo hi p)
  case 0
  then show ?case by (auto split: if_splits)
next
  case (Suc k)
  show ?case
  proof (cases "q = p")
    case False
    then obtain q1 where q1: "q1 \<in> set (f p)"
      and q: "q \<in> set (reps k f (lo - 1) (map_option (\<lambda>n. n - 1) hi) q1)"
      using Suc.prems by (auto split: if_splits)
    from assms(1) [OF q1] Suc.IH [OF q] show ?thesis by (rule consumes_trans)
  qed simp
qed

lemma rmatch_consumes: "drawsFrom P r \<Longrightarrow> q \<in> set (rmatch r p) \<Longrightarrow> consumes P p q"
proof (induction r arbitrary: p q)
  case (Chr Q)
  then obtain ch cs where "snd p = [ch] @ cs" "Q ch" "q = (Some ch, cs)"
    by (cases "snd p") (auto split: if_splits)
  with Chr show ?case unfolding consumes_def by fastforce
next
  case (Seq r1 r2)
  then obtain q1 where "q1 \<in> set (rmatch r1 p)" "q \<in> set (rmatch r2 q1)" by auto
  with Seq show ?case by (meson consumes_trans drawsFrom.simps(3))
next
  case (Rep lo hi r)
  have "q \<in> set (reps (Suc (length (snd p))) (rmatch r) lo hi p)"
    using Rep.prems by (simp only: rmatch.simps)
  moreover have "consumes P p' q'" if "q' \<in> set (rmatch r p')" for p' q'
    using Rep.IH [OF _ that] Rep.prems(1) by simp
  ultimately show ?case using reps_consumes [of "rmatch r" P] by blast
next
  case (Alt r1 r2)
  then show ?case by (metis Un_iff rmatch.simps(4) set_append drawsFrom.simps(4))
qed (auto split: if_splits)

lemma fullMatch_drawsFrom: "drawsFrom P r \<Longrightarrow> fullMatch r s \<Longrightarrow> list_all P s"
  using rmatch_consumes [of P r _ "(None, s)"] by (fastforce simp: fullMatch_def list_ex_iff consumes_def)

lemma uuid_no_space: "isUuid s \<Longrightarrow> list_all (\<lambda>ch. \<not> isSpace ch) s"
  unfolding isUuid_def
proof (rule fullMatch_drawsFrom)
  have "\<not> isSpace ch" if "isHexI ch" for ch
  proof
    assume "isSpace ch"
    then have "toLowerChar ch = ch"
      by (auto simp: isSpace_def toLowerChar_def codePoint_def)
    with that \<open>isSpace ch\<close> show False
      by (auto simp: isHexI_def isDigit_def inRange_def isSpace_def codePoint_def)
  qed
  then show "drawsFrom (\<lambda>ch. \<not> isSpace ch) UUID_RE"
    by (simp add: UUID_RE_def times_def lit_def isSpace_def codePoint_def)
qed

lemma uuid_trim: "isUuid s \<Longrightarrow> trim s = s"
  by (rule trim_no_space) (rule uuid_no_space)

lemma correlation_id_uuid:
  assumes "correlationIdHandler entriesOf fresh req = (req1, headers, ctx)" "isUuid fresh"
  shows "isUuid (tc_correlationId ctx)"
  using assms by (auto simp: correlationIdHandler_def Let_def split: option.splits header.splits)

section \<open>What a log entry carries\<close>

lemma map_of_setMember: "map_of (setMember k v ms) = (map_of ms)(k \<mapsto> v)"
  by (induction k v ms rule: setMember.induct) auto

lemma stampTrace_other: "k \<noteq> key \<Longrightarrow> map_of (stampTrace key v info) k = map_of info k"
  by (auto simp: stampTrace_def map_of_setMember split: option.split)

lemma stampTrace_new: "s \<noteq> [] \<Longrightarrow> map_of info key = None \<Longrightarrow> map_of (stampTrace key (Some s) info) key = Some (JStr s)"
  by (simp add: stampTrace_def map_of_setMember)

lemma map_of_keyed: "map_of (map (\<lambda>(k, v). (k, g k v)) ms) k = map_option (g k) (map_of ms k)"
  by (induction ms) auto

lemma redacted_trace:
  assumes "toLowerCase key \<in> set TRACE_CONTEXT_KEYS" "toLowerCase key \<notin> set SENSITIVE_KEYS"
    and "map_of ms key = Some (JStr s)"
  shows "map_of (objectEntries entriesOf (redactValue entriesOf 0 (JObj ms))) key = Some (JStr s)"
  using assms by (simp add: redactValue.simps map_of_keyed)

lemma correlation_trace_key:
  "toLowerCase ''correlationId'' \<in> set TRACE_CONTEXT_KEYS" "toLowerCase ''correlationId'' \<notin> set SENSITIVE_KEYS"
  by code_simp+

section \<open>Properties\<close>

text \<open>
  C39. One correlation identifier per request. The identifier is the client's header when that is a
  UUID and a fresh UUID otherwise; request, response and scope carry the same one, and running the
  handler a second time, as the application does, changes nothing.
\<close>

theorem correlation_id_stable:
  assumes "isUuid fresh" "isUuid fresh'"
    and "correlationIdHandler entriesOf fresh req = (req1, headers1, ctx1)"
    and "correlationIdHandler entriesOf fresh' req1 = (req2, headers2, ctx2)"
  shows "isUuid (tc_correlationId ctx1) \<and> ctx2 = ctx1 \<and> req2 = req1 \<and>
    headers1 = [(''x-correlation-id'', tc_correlationId ctx1)] \<and> headers2 = headers1 \<and>
    rq_headers req2 ''x-correlation-id'' = Some (OneValue (tc_correlationId ctx1)) \<and>
    (\<forall>h. rq_headers req ''x-correlation-id'' = Some (OneValue h) \<and> isUuid (trim h) \<longrightarrow>
       tc_correlationId ctx1 = trim h)"
proof -
  define i where "i = tc_correlationId ctx1"
  have i: "i = (case rq_headers req ''x-correlation-id'' of
      Some (OneValue headerId) \<Rightarrow> if isUuid (trim headerId) then trim headerId else fresh | _ \<Rightarrow> fresh)"
    using assms(3) by (auto simp: correlationIdHandler_def Let_def i_def)
  have uuid: "isUuid i"
    using assms(1) by (auto simp: i split: option.splits header.splits)
  have h1: "rq_headers req1 ''x-correlation-id'' = Some (OneValue i)"
    using assms(3) by (auto simp: correlationIdHandler_def Let_def i)
  have "ctx2 = ctx1" "headers2 = headers1" "headers1 = [(''x-correlation-id'', i)]" "req2 = req1"
    using assms(3,4) h1 uuid uuid_trim [OF uuid] i
    by (auto simp: correlationIdHandler_def Let_def fun_upd_idem)
  with uuid h1 show ?thesis by (auto simp: i_def [symmetric]) (auto simp: i)
qed

definition sampleUuid :: string where
  "sampleUuid = ''0b6c2f64-3f5e-4b51-9f0a-0123456789ab''"

definition sampleGet :: http_request where
  "sampleGet = \<lparr>rq_method = ''GET'', rq_url = ''/api/v1/user'', rq_ip = None, rq_userAgent = None,
     rq_headers = [''x-correlation-id'' \<mapsto> OneValue ''not-a-uuid''], rq_user = None, rq_params = None,
     rq_redactedMeta = JUndef\<rparr>"

theorem correlation_id_stable_witness:
  "let (req1, headers1, ctx1) = correlationIdHandler (\<lambda>v. []) sampleUuid sampleGet in
   snd (snd (correlationIdHandler (\<lambda>v. []) sampleUuid req1)) = ctx1 \<and> isUuid (tc_correlationId ctx1)"
proof -
  have u: "isUuid sampleUuid" by code_simp
  obtain req1 headers1 ctx1 where one: "correlationIdHandler (\<lambda>v. []) sampleUuid sampleGet = (req1, headers1, ctx1)"
    by (metis prod_cases3)
  obtain req2 headers2 ctx2 where two: "correlationIdHandler (\<lambda>v. []) sampleUuid req1 = (req2, headers2, ctx2)"
    by (metis prod_cases3)
  from correlation_id_stable [OF u u one two] one two show ?thesis by simp
qed

text \<open>
  C40. Every log entry written inside a scope carries the scope's correlation identifier in clear,
  although it has the form of the UUIDs that redaction removes elsewhere; no sensitive member keeps
  its value, and what winston keeps under symbol keys is left alone.
\<close>

theorem log_entry_traced:
  assumes "tc_correlationId ctx \<noteq> []" "map_of (li_fields info) ''correlationId'' = None"
  shows "map_of (li_fields (logFormat entriesOf (Some ctx) info)) ''correlationId'' = Some (JStr (tc_correlationId ctx)) \<and>
    clean (JObj (li_fields (logFormat entriesOf (Some ctx) info))) \<and>
    li_symbols (logFormat entriesOf (Some ctx) info) = li_symbols info"
proof -
  let ?fields = "li_fields (tracingFormat (Some ctx) info)"
  have "map_of ?fields ''correlationId'' = Some (JStr (tc_correlationId ctx))"
    using assms by (simp add: tracingFormat_def stampTrace_other stampTrace_new)
  then have id: "map_of (li_fields (logFormat entriesOf (Some ctx) info)) ''correlationId'' = Some (JStr (tc_correlationId ctx))"
    unfolding logFormat_def redactLogInfo_def log_info.simps
    by (rule redacted_trace [OF correlation_trace_key])
  have "redactValue entriesOf 0 (JObj ?fields) = JObj (li_fields (logFormat entriesOf (Some ctx) info))"
    by (simp add: logFormat_def redactLogInfo_def redactValue.simps)
  then have "clean (JObj (li_fields (logFormat entriesOf (Some ctx) info)))"
    using redactValue_clean [of entriesOf 0 "JObj ?fields"] by simp
  with id show ?thesis by (simp add: logFormat_def redactLogInfo_def tracingFormat_def)
qed

theorem log_entry_traced_witness:
  "map_of (li_fields (logFormat (\<lambda>v. [])
     (Some \<lparr>tc_correlationId = sampleUuid, tc_userId = None, tc_entityId = None, tc_eventId = None\<rparr>)
     \<lparr>li_fields = [(''password'', JStr ''pw'')], li_symbols = []\<rparr>)) ''correlationId'' = Some (JStr sampleUuid)"
  using log_entry_traced [of "\<lparr>tc_correlationId = sampleUuid, tc_userId = None, tc_entityId = None, tc_eventId = None\<rparr>"
      "\<lparr>li_fields = [(''password'', JStr ''pw'')], li_symbols = []\<rparr>" "\<lambda>v. []"]
  by (simp add: sampleUuid_def)

end
