(* ===== verification/ErrorFilter.thy ===== *)
theory ErrorFilter
  imports Tracing Idempotency
begin

text \<open>
  \<open>common/filters/http-exception.filter.ts\<close>: the global exception filter, with the error codes of
  \<open>common/enums/error-codes.enum.ts\<close> and the response shape of \<open>common/dto/error-response.dto.ts\<close>.
\<close>

section \<open>Error codes and responses\<close>

datatype (plugins only: size code) ErrorCode =
    INTERNAL_SERVER_ERROR
  | BAD_REQUEST
  | UNAUTHORIZED
  | FORBIDDEN
  | NOT_FOUND
  | CONFLICT
  | UNPROCESSABLE_ENTITY
  | TOO_MANY_REQUESTS
  | SERVICE_UNAVAILABLE
  | VALIDATION_ERROR
  | INVALID_INPUT
  | MISSING_REQUIRED_FIELD
  | AUTH_INVALID_CREDENTIALS
  | AUTH_TOKEN_EXPIRED
  | AUTH_TOKEN_INVALID
  | AUTH_TOKEN_MISSING
  | AUTH_REFRESH_TOKEN_INVALID
  | AUTH_NONCE_INVALID
  | AUTH_NONCE_EXPIRED
  | AUTH_INSUFFICIENT_PERMISSIONS
  | USER_NOT_FOUND
  | USER_ALREADY_EXISTS
  | USER_WALLET_ALREADY_LINKED
  | USER_ACCOUNT_DISABLED
  | POLICY_NOT_FOUND
  | POLICY_ALREADY_EXISTS
  | POLICY_EXPIRED
  | POLICY_INACTIVE
  | POLICY_LIMIT_EXCEEDED
  | CLAIM_NOT_FOUND
  | CLAIM_ALREADY_SUBMITTED
  | CLAIM_INVALID_STATUS_TRANSITION
  | CLAIM_LIMIT_EXCEEDED
  | STELLAR_TRANSACTION_FAILED
  | STELLAR_INVALID_WALLET_ADDRESS
  | STELLAR_INSUFFICIENT_FUNDS
  | STELLAR_CONTRACT_ERROR
  | STORAGE_UPLOAD_FAILED
  | STORAGE_FILE_NOT_FOUND
  | STORAGE_FILE_TOO_LARGE
  | STORAGE_UNSUPPORTED_FILE_TYPE
  | RATE_LIMIT_EXCEEDED
  | RATE_LIMIT_CIRCUIT_OPEN

primrec errorCodeText :: "ErrorCode \<Rightarrow> string" where
  "errorCodeText INTERNAL_SERVER_ERROR = ''INTERNAL_SERVER_ERROR''"
| "errorCodeText BAD_REQUEST = ''BAD_REQUEST''"
| "errorCodeText UNAUTHORIZED = ''UNAUTHORIZED''"
| "errorCodeText FORBIDDEN = ''FORBIDDEN''"
| "errorCodeText NOT_FOUND = ''NOT_FOUND''"
| "errorCodeText CONFLICT = ''CONFLICT''"
| "errorCodeText UNPROCESSABLE_ENTITY = ''UNPROCESSABLE_ENTITY''"
| "errorCodeText TOO_MANY_REQUESTS = ''TOO_MANY_REQUESTS''"
| "errorCodeText SERVICE_UNAVAILABLE = ''SERVICE_UNAVAILABLE''"
| "errorCodeText VALIDATION_ERROR = ''VALIDATION_ERROR''"
| "errorCodeText INVALID_INPUT = ''INVALID_INPUT''"
| "errorCodeText MISSING_REQUIRED_FIELD = ''MISSING_REQUIRED_FIELD''"
| "errorCodeText AUTH_INVALID_CREDENTIALS = ''AUTH_INVALID_CREDENTIALS''"
| "errorCodeText AUTH_TOKEN_EXPIRED = ''AUTH_TOKEN_EXPIRED''"
| "errorCodeText AUTH_TOKEN_INVALID = ''AUTH_TOKEN_INVALID''"
| "errorCodeText AUTH_TOKEN_MISSING = ''AUTH_TOKEN_MISSING''"
| "errorCodeText AUTH_REFRESH_TOKEN_INVALID = ''AUTH_REFRESH_TOKEN_INVALID''"
| "errorCodeText AUTH_NONCE_INVALID = ''AUTH_NONCE_INVALID''"
| "errorCodeText AUTH_NONCE_EXPIRED = ''AUTH_NONCE_EXPIRED''"
| "errorCodeText AUTH_INSUFFICIENT_PERMISSIONS = ''AUTH_INSUFFICIENT_PERMISSIONS''"
| "errorCodeText USER_NOT_FOUND = ''USER_NOT_FOUND''"
| "errorCodeText USER_ALREADY_EXISTS = ''USER_ALREADY_EXISTS''"
| "errorCodeText USER_WALLET_ALREADY_LINKED = ''USER_WALLET_ALREADY_LINKED''"
| "errorCodeText USER_ACCOUNT_DISABLED = ''USER_ACCOUNT_DISABLED''"
| "errorCodeText POLICY_NOT_FOUND = ''POLICY_NOT_FOUND''"
| "errorCodeText POLICY_ALREADY_EXISTS = ''POLICY_ALREADY_EXISTS''"
| "errorCodeText POLICY_EXPIRED = ''POLICY_EXPIRED''"
| "errorCodeText POLICY_INACTIVE = ''POLICY_INACTIVE''"
| "errorCodeText POLICY_LIMIT_EXCEEDED = ''POLICY_LIMIT_EXCEEDED''"
| "errorCodeText CLAIM_NOT_FOUND = ''CLAIM_NOT_FOUND''"
| "errorCodeText CLAIM_ALREADY_SUBMITTED = ''CLAIM_ALREADY_SUBMITTED''"
| "errorCodeText CLAIM_INVALID_STATUS_TRANSITION = ''CLAIM_INVALID_STATUS_TRANSITION''"
| "errorCodeText CLAIM_LIMIT_EXCEEDED = ''CLAIM_LIMIT_EXCEEDED''"
| "errorCodeText STELLAR_TRANSACTION_FAILED = ''STELLAR_TRANSACTION_FAILED''"
| "errorCodeText STELLAR_INVALID_WALLET_ADDRESS = ''STELLAR_INVALID_WALLET_ADDRESS''"
| "errorCodeText STELLAR_INSUFFICIENT_FUNDS = ''STELLAR_INSUFFICIENT_FUNDS''"
| "errorCodeText STELLAR_CONTRACT_ERROR = ''STELLAR_CONTRACT_ERROR''"
| "errorCodeText STORAGE_UPLOAD_FAILED = ''STORAGE_UPLOAD_FAILED''"
| "errorCodeText STORAGE_FILE_NOT_FOUND = ''STORAGE_FILE_NOT_FOUND''"
| "errorCodeText STORAGE_FILE_TOO_LARGE = ''STORAGE_FILE_TOO_LARGE''"
| "errorCodeText STORAGE_UNSUPPORTED_FILE_TYPE = ''STORAGE_UNSUPPORTED_FILE_TYPE''"
| "errorCodeText RATE_LIMIT_EXCEEDED = ''RATE_LIMIT_EXCEEDED''"
| "errorCodeText RATE_LIMIT_CIRCUIT_OPEN = ''RATE_LIMIT_CIRCUIT_OPEN''"

record ValidationFieldError =
  ve_field :: string
  ve_constraints :: "string list"

record ExtractedErrorInfo =
  ei_status :: nat
  ei_code :: ErrorCode
  ei_message :: string
  ei_details :: "ValidationFieldError list option"

record ErrorResponse =
  er_success :: bool
  er_code :: string
  er_message :: string
  er_details :: "ValidationFieldError list option"
  er_timestamp :: string
  er_path :: string
  er_requestId :: "header option"

section \<open>Exceptions\<close>

text \<open>
  What the filter can tell of an exception: the \<open>message\<close> member of the response object of an
  \<open>HttpException\<close> is a text, an array of texts, something else or absent; other errors have a message,
  and anything else that is thrown has a text.
\<close>

datatype message_value = MText string | MList "string list" | MOther

datatype exception_response = ResponseText string | ResponseBody "message_value option"

datatype exception =
    ThrottlerExc
  | HttpExc nat exception_response string
  | PrismaKnownExc string string
  | ErrorExc string
  | ThrownValue string

definition fieldOf :: "string \<Rightarrow> string" where
  "fieldOf msg = (if CHR '' '' \<in> set msg then takeWhile (\<lambda>ch. ch \<noteq> CHR '' '') msg else ''unknown'')"

text \<open>\<open>fieldMap.get(field).push(constraint)\<close>, after \<open>fieldMap.set(field, [])\<close> for a new field.\<close>

fun pushField :: "string \<Rightarrow> string \<Rightarrow> (string \<times> string list) list \<Rightarrow> (string \<times> string list) list" where
  "pushField field msg [] = [(field, [msg])]"
| "pushField field msg ((f, cs) # m) =
    (if f = field then (f, cs @ [msg]) # m else (f, cs) # pushField field msg m)"

definition parseClassValidatorErrors :: "string list \<Rightarrow> ValidationFieldError list" where
  "parseClassValidatorErrors messages =
    map (\<lambda>(field, constraints). \<lparr>ve_field = field, ve_constraints = constraints\<rparr>)
      (fold (\<lambda>msg. pushField (fieldOf msg) msg) messages [])"

definition httpStatusToErrorCode :: "nat \<Rightarrow> ErrorCode" where
  "httpStatusToErrorCode status =
    (case map_of [(400, BAD_REQUEST), (401, UNAUTHORIZED), (403, FORBIDDEN), (404, NOT_FOUND),
       (409, CONFLICT), (422, UNPROCESSABLE_ENTITY), (429, TOO_MANY_REQUESTS), (503, SERVICE_UNAVAILABLE)] status of
       None \<Rightarrow> INTERNAL_SERVER_ERROR | Some code \<Rightarrow> code)"

definition errorInfo :: "nat \<Rightarrow> ErrorCode \<Rightarrow> string \<Rightarrow> ExtractedErrorInfo" where
  "errorInfo status code message =
    \<lparr>ei_status = status, ei_code = code, ei_message = message, ei_details = None\<rparr>"

definition prismaErrorToErrorInfo :: "string \<Rightarrow> ExtractedErrorInfo" where
  "prismaErrorToErrorInfo code =
    (case map_of
       [(''P2000'', errorInfo 400 BAD_REQUEST ''The provided value is too long for a database field.''),
        (''P2002'', errorInfo 409 CONFLICT ''A record with the provided data already exists.''),
        (''P2003'', errorInfo 422 UNPROCESSABLE_ENTITY ''The referenced resource does not exist.''),
        (''P2011'', errorInfo 400 BAD_REQUEST ''A required value cannot be null.''),
        (''P2025'', errorInfo 404 NOT_FOUND ''The requested database record was not found.'')] code of
       None \<Rightarrow> errorInfo 500 INTERNAL_SERVER_ERROR ''A database error occurred.''
     | Some info \<Rightarrow> info)"

fun extractErrorInfo :: "exception \<Rightarrow> ExtractedErrorInfo" where
  "extractErrorInfo ThrottlerExc =
     errorInfo 429 RATE_LIMIT_EXCEEDED ''Too many requests. Please slow down and try again later.''"
| "extractErrorInfo (HttpExc status response message) =
    (case response of
       ResponseBody (Some (MList messages)) \<Rightarrow>
         \<lparr>ei_status = status, ei_code = VALIDATION_ERROR, ei_message = ''One or more input fields are invalid.'',
          ei_details = Some (parseClassValidatorErrors messages)\<rparr>
     | ResponseText t \<Rightarrow> errorInfo status (httpStatusToErrorCode status) t
     | ResponseBody (Some (MText t)) \<Rightarrow> errorInfo status (httpStatusToErrorCode status) t
     | _ \<Rightarrow> errorInfo status (httpStatusToErrorCode status) message)"
| "extractErrorInfo (PrismaKnownExc code message) = prismaErrorToErrorInfo code"
| "extractErrorInfo (ErrorExc message) =
     errorInfo 500 INTERNAL_SERVER_ERROR ''An unexpected error occurred. Please try again later.''"
| "extractErrorInfo (ThrownValue t) =
     errorInfo 500 INTERNAL_SERVER_ERROR ''An unexpected error occurred. Please try again later.''"

section \<open>The filter\<close>

text \<open>\<open>a || b\<close> on header values; an array is truthy.\<close>

fun orHeader :: "header option \<Rightarrow> header option \<Rightarrow> header option" where
  "orHeader None b = b"
| "orHeader (Some h) b = (if h = OneValue [] then b else Some h)"

fun headerText :: "header option \<Rightarrow> string" where
  "headerText None = ''-''"
| "headerText (Some (OneValue s)) = s"
| "headerText (Some (ManyValues ss)) = joinWith '','' ss"

definition requestIdOf :: "http_request \<Rightarrow> TracingContext option \<Rightarrow> header option" where
  "requestIdOf request scope =
     orHeader (rq_headers request ''x-request-id'')
       (orHeader (rq_headers request ''x-correlation-id'')
         (map_option (\<lambda>ctx. OneValue (tc_correlationId ctx)) scope))"

text \<open>The second argument of the error log: the stack of an \<open>Error\<close>, the text of anything else.\<close>

fun stackText :: "string \<Rightarrow> exception \<Rightarrow> string" where
  "stackText stack (ThrownValue t) = t"
| "stackText stack _ = stack"

text \<open>
  The status, the body and the log entry; the arrow of the log line is outside ASCII, here in its
  UTF-8 encoding.
\<close>

definition filter_catch ::
  "http_request \<Rightarrow> TracingContext option \<Rightarrow> int \<Rightarrow> string \<Rightarrow> exception \<Rightarrow>
   nat \<times> ErrorResponse \<times> level \<times> string list" where
  "filter_catch request scope time stack exception =
    (let info = extractErrorInfo exception;
         requestId = requestIdOf request scope;
         line = ''['' @ headerText requestId @ ''] '' @ rq_method request @ '' '' @ rq_url request @ '' '' @
           [CHR 0xE2, CHR 0x86, CHR 0x92] @ '' '' @ showNat (ei_status info) @ '' '' @
           errorCodeText (ei_code info) @ '': '' @ ei_message info
     in (ei_status info,
         \<lparr>er_success = False, er_code = errorCodeText (ei_code info), er_message = ei_message info,
          er_details = ei_details info, er_timestamp = toISOString time, er_path = rq_url request,
          er_requestId = requestId\<rparr>,
         if ei_status info \<ge> 500 then (Error, [line, stackText stack exception]) else (Warn, [line])))"

text \<open>
  The exceptions of the services as the filter sees them. The subclasses of \<open>HttpException\<close> answer
  with an object that holds their message; \<open>HttpException\<close> itself with the text.
\<close>

fun thrown :: "error \<Rightarrow> exception" where
  "thrown (BadRequestException m) = HttpExc 400 (ResponseBody (Some (MText m))) m"
| "thrown (UnauthorizedException m) = HttpExc 401 (ResponseBody (Some (MText m))) m"
| "thrown (NotFoundException m) = HttpExc 404 (ResponseBody (Some (MText m))) m"
| "thrown (ConflictException m) = HttpExc 409 (ResponseBody (Some (MText m))) m"
| "thrown (HttpException m status) = HttpExc status (ResponseText m) m"
| "thrown (PrismaException (PrismaClientKnownRequestError code)) = PrismaKnownExc code code"
| "thrown (PrismaException PrismaClientValidationError) = ErrorExc ''PrismaClientValidationError''"
| "thrown (PlainError m) = ErrorExc m"
| "thrown (CodedError name code m) = ErrorExc m"

section \<open>Grouping of validation messages\<close>

text \<open>The reference: the fields in the order of their first message, each with its messages in order.\<close>

definition firstOccurrences :: "'a list \<Rightarrow> 'a list" where
  "firstOccurrences xs = rev (remdups (rev xs))"

definition groupedErrors :: "string list \<Rightarrow> ValidationFieldError list" where
  "groupedErrors messages =
    map (\<lambda>f. \<lparr>ve_field = f, ve_constraints = filter (\<lambda>m. fieldOf m = f) messages\<rparr>)
      (firstOccurrences (map fieldOf messages))"

lemma firstOccurrences_snoc:
  "firstOccurrences (xs @ [x]) = (if x \<in> set xs then firstOccurrences xs else firstOccurrences xs @ [x])"
  by (simp add: firstOccurrences_def)

lemma firstOccurrences_set [simp]: "set (firstOccurrences xs) = set xs" "distinct (firstOccurrences xs)"
  by (simp_all add: firstOccurrences_def)

lemma pushField_old:
  "f \<in> set fs \<Longrightarrow> distinct fs \<Longrightarrow>
     pushField f m (map (\<lambda>f. (f, g f)) fs) = map (\<lambda>f'. (f', if f' = f then g f' @ [m] else g f')) fs"
  by (induction fs) (auto intro!: map_cong)

lemma pushField_new:
  "f \<notin> set fs \<Longrightarrow> pushField f m (map (\<lambda>f. (f, g f)) fs) = map (\<lambda>f. (f, g f)) fs @ [(f, [m])]"
  by (induction fs) auto

lemma pushed_fields:
  "fold (\<lambda>msg. pushField (fieldOf msg) msg) messages [] =
     map (\<lambda>f. (f, filter (\<lambda>m. fieldOf m = f) messages)) (firstOccurrences (map fieldOf messages))"
proof (induction messages rule: rev_induct)
  case Nil
  then show ?case by (simp add: firstOccurrences_def)
next
  case (snoc m ms)
  show ?case
  proof (cases "fieldOf m \<in> fieldOf ` set ms")
    case True
    then show ?thesis using snoc by (simp add: pushField_old firstOccurrences_snoc)
  next
    case False
    then have "filter (\<lambda>x. fieldOf x = fieldOf m) ms = []" by (metis (mono_tags, lifting) filter_False imageI)
    with False snoc show ?thesis
      by (auto simp: pushField_new firstOccurrences_snoc intro!: map_cong)
  qed
qed

lemma count_list_filter: "count_list (filter P xs) x = (if P x then count_list xs x else 0)"
  by (induction xs) auto

lemma count_grouped:
  "distinct fs \<Longrightarrow> count_list (concat (map (\<lambda>f. filter (\<lambda>m. fieldOf m = f) ms) fs)) m =
     (if fieldOf m \<in> set fs then count_list ms m else 0)"
  by (induction fs) (auto simp: count_list_filter)

section \<open>Properties\<close>

text \<open>
  C35. Validation messages are grouped by field and none is lost: the filter's table of fields equals
  the reference, no field occurs twice, and every message is reported exactly as often as it was
  raised.
\<close>

theorem validation_errors_grouped:
  "parseClassValidatorErrors messages = groupedErrors messages \<and>
   distinct (map ve_field (parseClassValidatorErrors messages)) \<and>
   count_list (concat (map ve_constraints (parseClassValidatorErrors messages))) m = count_list messages m"
proof -
  have eq: "parseClassValidatorErrors messages = groupedErrors messages"
    by (simp add: parseClassValidatorErrors_def groupedErrors_def pushed_fields)
  have "count_list messages m = 0" if "fieldOf m \<notin> fieldOf ` set messages"
    using that by (auto simp: count_list_0_iff)
  then show ?thesis
    unfolding eq by (auto simp: groupedErrors_def comp_def count_grouped)
qed

text \<open>
  C34. What an error response reveals. Errors of the services that are not HTTP exceptions are answered
  with a fixed text: the response does not depend on the message of the error and has no details. The
  status is a client error only for the five database codes the filter knows.
\<close>

theorem internal_errors_hidden:
  assumes "\<not> isHttpException e"
  shows "let (status, response, lev, log) = filter_catch request scope time stack (thrown e) in
    er_message response \<in> {''An unexpected error occurred. Please try again later.'', ''A database error occurred.'',
      ''The provided value is too long for a database field.'', ''A record with the provided data already exists.'',
      ''The referenced resource does not exist.'', ''A required value cannot be null.'',
      ''The requested database record was not found.''} \<and>
    er_details response = None \<and> er_success response = False \<and> status \<in> {400, 404, 409, 422, 500} \<and>
    (status < 500 \<longrightarrow> (\<exists>code. e = PrismaException (PrismaClientKnownRequestError code) \<and>
       code \<in> {''P2000'', ''P2002'', ''P2003'', ''P2011'', ''P2025''}))"
proof (cases e rule: thrown.cases)
qed (insert assms, simp_all add: filter_catch_def Let_def errorInfo_def prismaErrorToErrorInfo_def split: option.splits)

definition sampleRequestGet :: http_request where
  "sampleRequestGet = sampleGet\<lparr>rq_headers := Map.empty\<rparr>"

theorem internal_errors_hidden_witness:
  "er_message (fst (snd (filter_catch sampleRequestGet None 0 ''stack'' (thrown (PlainError ''password is hunter2''))))) \<noteq> ''password is hunter2'' \<and>
   fst (filter_catch sampleRequestGet None 0 ''stack'' (thrown (PlainError ''password is hunter2''))) = 500"
proof -
  have "\<not> isHttpException (PlainError ''password is hunter2'')" by simp
  from internal_errors_hidden [OF this, of sampleRequestGet None 0 "''stack''"]
  show ?thesis by (auto simp: Let_def split: prod.splits)
qed

text \<open>
  The code of an HTTP error. The services' HTTP exceptions keep their status and message, and the
  code is the one of the table; a client error the table does not list, such as 413 for a file that is
  too large, is reported with the code of an internal server error.
\<close>

theorem http_error_code:
  assumes "thrown e = HttpExc status response m"
  shows "extractErrorInfo (thrown e) = errorInfo status (httpStatusToErrorCode status) m \<and>
    (status \<notin> {400, 401, 403, 404, 409, 422, 429, 503} \<longrightarrow>
      er_code (fst (snd (filter_catch request scope time stack (thrown e)))) = ''INTERNAL_SERVER_ERROR'' \<and>
      fst (filter_catch request scope time stack (thrown e)) = status)"
proof -
  have info: "extractErrorInfo (thrown e) = errorInfo status (httpStatusToErrorCode status) m"
    using assms by (cases e rule: thrown.cases) auto
  moreover have "httpStatusToErrorCode status = INTERNAL_SERVER_ERROR"
    if "status \<notin> {400, 401, 403, 404, 409, 422, 429, 503}"
    using that by (simp add: httpStatusToErrorCode_def)
  ultimately show ?thesis by (simp add: filter_catch_def Let_def errorInfo_def)
qed

theorem http_error_code_witness:
  "er_code (fst (snd (filter_catch sampleRequestGet None 0 '''' (thrown (HttpException ''File too large'' 413))))) = ''INTERNAL_SERVER_ERROR''"
  using http_error_code [of "HttpException ''File too large'' 413" 413 _ _ sampleRequestGet None 0 "''''"] by simp

text \<open>
  The identifier an error response quotes. For a request that went through the correlation
  middleware the response quotes the identifier of the scope, which every log entry of the request
  carries, unless the client sent a header \<open>x-request-id\<close>: then it quotes that header, unchecked.
\<close>

theorem error_quotes_request_id:
  assumes "correlationIdHandler own fresh req = (req1, headers, ctx)" "isUuid fresh"
  shows "er_requestId (fst (snd (filter_catch req1 (Some ctx) time stack exc))) =
    (if rq_headers req ''x-request-id'' = None \<or> rq_headers req ''x-request-id'' = Some (OneValue [])
     then Some (OneValue (tc_correlationId ctx)) else rq_headers req ''x-request-id'')"
proof -
  have "\<not> isUuid []" by code_simp
  then have "tc_correlationId ctx \<noteq> []"
    using correlation_id_uuid [OF assms] by auto
  moreover have "rq_headers req1 ''x-request-id'' = rq_headers req ''x-request-id''"
    "rq_headers req1 ''x-correlation-id'' = Some (OneValue (tc_correlationId ctx))"
    using assms(1) by (auto simp: correlationIdHandler_def Let_def)
  ultimately show ?thesis
    by (cases "rq_headers req ''x-request-id''") (simp_all add: filter_catch_def Let_def requestIdOf_def)
qed

theorem error_quotes_request_id_witness:
  "let (req1, headers, ctx) = correlationIdHandler (\<lambda>v. []) sampleUuid sampleRequestGet in
   er_requestId (fst (snd (filter_catch req1 (Some ctx) 0 '''' (thrown (PlainError ''x''))))) =
     Some (OneValue (tc_correlationId ctx))"
proof -
  obtain req1 headers ctx where one: "correlationIdHandler (\<lambda>v. []) sampleUuid sampleRequestGet = (req1, headers, ctx)"
    by (metis prod_cases3)
  have "isUuid sampleUuid" by code_simp
  from error_quotes_request_id [OF one this] one show ?thesis by (simp add: sampleRequestGet_def)
qed

end
