(* ===== verification/Storage.thy ===== *)
theory Storage
  imports ErrorFilter
begin

text \<open>
  \<open>storage/storage.service.ts\<close>, \<open>storage/ipfs-pin.processor.ts\<close> and \<open>storage/storage.controller.ts\<close>:
  uploads to S3, presigned URLs, pinning on IPFS directly or through the queue, and image
  optimisation. S3, the IPFS client, the Bull queue, sharp and the file system are parameters that
  work on a state \<open>'w\<close> of their own; the service itself keeps the IPFS client and the promise of
  its initialisation. \<open>InternalServerErrorException\<close> and \<open>ServiceUnavailableException\<close> are
  \<open>HttpException\<close> with status 500 and 503.
\<close>

section \<open>Types\<close>

datatype s3_command =
    PutObject string string "(string \<times> string \<times> nat) option"
  | DeleteObject string string

record uploaded_file =
  up_originalname :: string
  up_mimetype :: string
  up_size :: nat
  up_buffer :: string

text \<open>
  \<open>ipfsInit w\<close> is how the race of loading the client and the five-second timer settles when it is
  started in \<open>w\<close>; \<open>ipfsCat\<close> gives the number of chunks of the object.
\<close>

record 'w storage_env =
  st_bucket :: string
  st_region :: "string option"
  st_maxFileSize :: nat
  st_now :: int
  st_random :: "nat \<Rightarrow> rat"
  st_js :: js_library
  fireS3 :: "('w, string) sm \<Rightarrow> ('w, string) sm"
  fireIpfsAdd :: "('w, string) sm \<Rightarrow> ('w, string) sm"
  fireIpfsCat :: "('w, bool) sm \<Rightarrow> ('w, bool) sm"
  firePinQueue :: "('w, unit) sm \<Rightarrow> ('w, unit) sm"
  s3Send :: "s3_command \<Rightarrow> ('w, string) sm"
  signUrl :: "s3_command \<Rightarrow> nat \<Rightarrow> ('w, string) sm"
  ipfsInit :: "'w \<Rightarrow> error + unit"
  ipfsAdd :: "string \<Rightarrow> ('w, string) sm"
  ipfsCat :: "string \<Rightarrow> ('w, nat) sm"
  pinQueueAdd :: "jsval \<Rightarrow> ('w, unit) sm"
  jsonForm :: "jsval \<Rightarrow> jsval"
  sharpAvailable :: bool
  resolvePath :: "string \<Rightarrow> string"
  existsSync :: "'w \<Rightarrow> string \<Rightarrow> bool"
  isFile :: "'w \<Rightarrow> string \<Rightarrow> bool"
  extname :: "string \<Rightarrow> string"
  sharpJpeg :: "string \<Rightarrow> nat \<Rightarrow> nat \<Rightarrow> ('w, string) sm"

record 'w storage_state =
  ss_ipfs :: bool
  ss_ipfsPromise :: "(error + unit) option"
  ss_outside :: 'w

definition outside :: "('w, 'a) sm \<Rightarrow> ('w storage_state, 'a) sm" where
  "outside m = zoom ss_outside ss_outside_update m"

section \<open>Configuration\<close>

record storage_config =
  cfg_region :: "string option"
  cfg_accessKeyId :: "string option"
  cfg_secretAccessKey :: "string option"
  cfg_bucket :: "string option"
  cfg_maxFileSize :: "nat option"

definition DEFAULT_MAX_FILE_SIZE :: nat where
  "DEFAULT_MAX_FILE_SIZE = 10 * 1024 * 1024"

definition DEFAULT_PRESIGN_EXPIRY :: nat where
  "DEFAULT_PRESIGN_EXPIRY = 3600"

text \<open>The constructor: the bucket and the size limit of the service, or the error it throws.\<close>

definition newStorageService :: "storage_config \<Rightarrow> error + string \<times> nat" where
  "newStorageService config =
    (let bucket = (case cfg_bucket config of None \<Rightarrow> [] | Some b \<Rightarrow> b);
         maxFileSize = (case cfg_maxFileSize config of
           None \<Rightarrow> DEFAULT_MAX_FILE_SIZE | Some n \<Rightarrow> if n = 0 then DEFAULT_MAX_FILE_SIZE else n)
     in if \<not> given (cfg_region config) \<or> \<not> given (cfg_accessKeyId config) \<or>
          \<not> given (cfg_secretAccessKey config) \<or> bucket = []
        then Inl (PlainError (''AWS S3 configuration is incomplete. Ensure AWS_REGION, AWS_ACCESS_KEY_ID, '' @
          ''AWS_SECRET_ACCESS_KEY, and AWS_S3_BUCKET are set in your environment.''))
        else Inr (bucket, maxFileSize))"

section \<open>StorageService\<close>

definition ALLOWED_MIME_TYPES :: "string list" where
  "ALLOWED_MIME_TYPES =
    [''image/jpeg'', ''image/png'', ''image/webp'', ''image/gif'', ''application/pdf'', ''text/plain'',
     ''text/csv'', ''application/json'', ''application/zip'']"

text \<open>The promise is created once; a settled promise keeps its outcome.\<close>

definition getIpfs :: "'w storage_env \<Rightarrow> ('w storage_state, unit) sm" where
  "getIpfs env s =
    (if ss_ipfs s then (Inr (), s)
     else
       let s1 = (case ss_ipfsPromise s of
                   None \<Rightarrow> s\<lparr>ss_ipfsPromise := Some (ipfsInit env (ss_outside s))\<rparr> | Some p \<Rightarrow> s)
       in case the (ss_ipfsPromise s1) of
            Inl e \<Rightarrow> (Inl e, s1)
          | Inr _ \<Rightarrow> (Inr (), s1\<lparr>ss_ipfs := True\<rparr>))"

definition onS3 :: "'w storage_env \<Rightarrow> ('w, string) sm \<Rightarrow> ('w storage_state, string) sm" where
  "onS3 env task = outside (withResilience (\<lambda>_. returnM ()) (st_random env) (fireS3 env) task (Some AWS_S3_POLICY) None)"

definition isKeyChar :: "char \<Rightarrow> bool" where
  "isKeyChar ch \<longleftrightarrow> isAlnum ch \<or> ch \<in> {CHR ''.'', CHR ''_'', CHR ''-''}"

definition sanitisedName :: "string \<Rightarrow> string" where
  "sanitisedName name = map (\<lambda>ch. if isKeyChar ch then ch else CHR ''_'') name"

text \<open>\<open>prefix.replace(/\/+$/, '')\<close>\<close>

definition dropSlashes :: "string \<Rightarrow> string" where
  "dropSlashes s = rev (dropWhile (\<lambda>ch. ch = CHR ''/'') (rev s))"

definition uploadKey :: "int \<Rightarrow> string \<Rightarrow> string option \<Rightarrow> string" where
  "uploadKey timestamp original pre =
    (let name = showInt timestamp @ ''-'' @ sanitisedName original
     in if given pre then dropSlashes (the pre) @ ''/'' @ name else name)"

definition objectUrl :: "'w storage_env \<Rightarrow> string \<Rightarrow> string" where
  "objectUrl env key = ''https://'' @ st_bucket env @ ''.s3.'' @
     (case st_region env of None \<Rightarrow> ''undefined'' | Some r \<Rightarrow> r) @ ''.amazonaws.com/'' @ key"

definition uploadFile ::
  "'w storage_env \<Rightarrow> uploaded_file option \<Rightarrow> string option \<Rightarrow> ('w storage_state, string \<times> string) sm" where
  "uploadFile env uploaded pre =
    (case uploaded of
       None \<Rightarrow> throwM (PlainError ''Cannot read properties of undefined'')
     | Some file \<Rightarrow>
       (if up_mimetype file \<notin> set ALLOWED_MIME_TYPES then
          throwM (BadRequestException (''MIME type \"'' @ up_mimetype file @ ''\" is not allowed. Accepted: '' @
            joinWith '', '' ALLOWED_MIME_TYPES))
        else if up_size file > st_maxFileSize env then
          throwM (BadRequestException (''File size '' @ showNat (up_size file) @ '' exceeds the maximum of '' @
            showNat (st_maxFileSize env) @ '' bytes.''))
        else
          let key = uploadKey (st_now env) (up_originalname file) pre
          in catchM
               (bindM (onS3 env (s3Send env
                  (PutObject (st_bucket env) key (Some (up_buffer file, up_mimetype file, up_size file))))) (\<lambda>etag.
                returnM (key, objectUrl env key)))
               (\<lambda>error. throwM (HttpException ''Failed to upload file to S3'' 500))))"

definition getPresignedUrl :: "'w storage_env \<Rightarrow> string \<Rightarrow> nat option \<Rightarrow> ('w storage_state, string) sm" where
  "getPresignedUrl env key expiresIn =
    catchM (onS3 env (signUrl env (PutObject (st_bucket env) key None) (orElse expiresIn DEFAULT_PRESIGN_EXPIRY)))
      (\<lambda>error. throwM (HttpException ''Failed to generate presigned URL'' 500))"

definition deleteObject :: "'w storage_env \<Rightarrow> string \<Rightarrow> ('w storage_state, unit) sm" where
  "deleteObject env key =
    catchM (bindM (onS3 env (s3Send env (DeleteObject (st_bucket env) key))) (\<lambda>_. returnM ()))
      (\<lambda>error. throwM (HttpException ''Failed to delete object from S3'' 500))"

definition queuePinProjectMetadata :: "'w storage_env \<Rightarrow> jsval \<Rightarrow> ('w storage_state, unit) sm" where
  "queuePinProjectMetadata env metadata =
    outside (withResilience (\<lambda>_. returnM ()) (st_random env) (firePinQueue env)
      (pinQueueAdd env metadata) (Some BULL_QUEUE_POLICY) None)"

text \<open>\<open>JSON.stringify(metadata)\<close> runs inside the task and may throw.\<close>

definition addMetadata :: "'w storage_env \<Rightarrow> jsval \<Rightarrow> ('w, string) sm" where
  "addMetadata env metadata =
    (case jclone (jsonForm env) metadata of
       Inl e \<Rightarrow> throwM e
     | Inr v \<Rightarrow> ipfsAdd env (jsonText (st_js env) v))"

definition pinProjectMetadata :: "'w storage_env \<Rightarrow> jsval \<Rightarrow> ('w storage_state, string) sm" where
  "pinProjectMetadata env metadata =
    catchM
      (bindM (getIpfs env) (\<lambda>_. outside (withResilience (\<lambda>_. returnM ()) (st_random env) (fireIpfsAdd env)
         (addMetadata env metadata) (Some IPFS_POLICY) None)))
      (\<lambda>error. throwM (HttpException ''Failed to pin metadata to IPFS'' 503))"

definition allowedExtensions :: "string list" where
  "allowedExtensions = [''.jpg'', ''.jpeg'', ''.png'', ''.webp'', ''.gif'', ''.bmp'', ''.tiff'']"

definition optimizeImage :: "'w storage_env \<Rightarrow> string \<Rightarrow> nat \<Rightarrow> nat \<Rightarrow> ('w storage_state, string) sm" where
  "optimizeImage env imagePath width height s =
    (let resolvedPath = resolvePath env imagePath; ext = toLowerCase (extname env resolvedPath) in
     if \<not> sharpAvailable env then
       (Inl (HttpException ''Image optimization service is unavailable. Native dependencies are missing.'' 503), s)
     else if \<not> existsSync env (ss_outside s) resolvedPath then
       (Inl (BadRequestException (''Image path does not exist: '' @ imagePath)), s)
     else if \<not> isFile env (ss_outside s) resolvedPath then
       (Inl (BadRequestException (''Path is not a file: '' @ imagePath)), s)
     else if ext \<notin> set allowedExtensions then
       (Inl (BadRequestException (''Invalid image format: '' @ ext @ ''. Allowed: '' @ joinWith '', '' allowedExtensions)), s)
     else catchM (outside (sharpJpeg env resolvedPath width height))
       (\<lambda>error. throwM (BadRequestException ''Failed to optimize image. Ensure the file is a valid image.'')) s)"

text \<open>
  \<open>return withResilience(\<dots>)\<close> without \<open>await\<close>: the promise leaves the \<open>try\<close> block before it settles,
  so only a failure of \<open>getIpfs\<close> is caught.
\<close>

definition verifyIPFSHash :: "'w storage_env \<Rightarrow> string \<Rightarrow> ('w storage_state, bool) sm" where
  "verifyIPFSHash env hash s =
    (case getIpfs env s of
       (Inl error, s1) \<Rightarrow> (Inr False, s1)
     | (Inr _, s1) \<Rightarrow>
        outside (withResilience (\<lambda>_. returnM ()) (st_random env) (fireIpfsCat env)
          (bindM (ipfsCat env hash) (\<lambda>chunks. returnM (chunks > 0))) (Some IPFS_POLICY) None) s1)"

section \<open>IpfsPinProcessor and StorageController\<close>

definition handlePinJob :: "'w storage_env \<Rightarrow> jsval \<Rightarrow> ('w storage_state, unit) sm" where
  "handlePinJob env metadata =
    catchM (bindM (pinProjectMetadata env metadata) (\<lambda>cid. returnM ())) (\<lambda>error. throwM error)"

definition optimizeAndUploadBanner :: "'w storage_env \<Rightarrow> string \<Rightarrow> nat \<Rightarrow> nat \<Rightarrow> ('w storage_state, string) sm" where
  "optimizeAndUploadBanner env imagePath width height =
    bindM (optimizeImage env imagePath width height) (\<lambda>optimizedImage.
      pinProjectMetadata env (JObj [(''image'', JStr (base64 optimizedImage))]))"

definition controller_getPresignedUrl :: "'w storage_env \<Rightarrow> string \<Rightarrow> nat option \<Rightarrow> ('w storage_state, (string \<times> string) list) sm" where
  "controller_getPresignedUrl env key expiresIn =
    bindM (getPresignedUrl env key expiresIn) (\<lambda>url. returnM [(''url'', url)])"

definition controller_deleteObject :: "'w storage_env \<Rightarrow> string \<Rightarrow> ('w storage_state, (string \<times> bool) list) sm" where
  "controller_deleteObject env key = bindM (deleteObject env key) (\<lambda>_. returnM [(''deleted'', True)])"

section \<open>What the operations do\<close>



lemma name_chars: "list_all isKeyChar (showInt t @ ''-'' @ sanitisedName original)"
proof -
  have "list_all isKeyChar (showNat n)" for n
    using showNat_numeral [of n] by (auto simp: list_all_iff isKeyChar_def isAlnum_def)
  moreover have "isKeyChar (CHR ''-'')" "isKeyChar (CHR ''_'')" by (simp_all add: isKeyChar_def)
  ultimately show ?thesis by (auto simp: showInt_def sanitisedName_def list_all_iff)
qed

lemma uploadKey_shape:
  "\<exists>p name. uploadKey t original pre = p @ name \<and> list_all isKeyChar name \<and> (\<not> given pre \<longrightarrow> p = []) \<and>
     (given pre \<longrightarrow> p = dropSlashes (the pre) @ ''/'')"
  using name_chars [of t original] unfolding uploadKey_def Let_def
  by (cases "given pre") (metis append.assoc append_Nil)+

lemma onS3_run:
  assumes "lawfulBreaker (fireS3 env)" "onS3 env task s = (r, s')"
  shows "\<forall>x. r = Inr x \<longrightarrow> (\<exists>w. task w = (Inr x, ss_outside s'))"
proof -
  obtain w' where run: "withResilience (\<lambda>_. returnM ()) (st_random env) (fireS3 env) task (Some AWS_S3_POLICY) None (ss_outside s) = (r, w')"
    and s': "s' = s\<lparr>ss_outside := w'\<rparr>"
    using assms(2) by (auto simp: onS3_def outside_def zoom_def split: prod.splits)
  have "keeps (\<lambda>_. True) task" by (simp add: keepsI)
  from resilience_run [OF assms(1) this _ run] s' show ?thesis by auto
qed

lemma uploadFile_accepted:
  assumes "up_mimetype file \<in> set ALLOWED_MIME_TYPES" "up_size file \<le> st_maxFileSize env"
    and "key = uploadKey (st_now env) (up_originalname file) pre"
    and "onS3 env (s3Send env (PutObject (st_bucket env) key (Some (up_buffer file, up_mimetype file, up_size file)))) s = (q, s1)"
  shows "uploadFile env (Some file) pre s =
    ((case q of Inl _ \<Rightarrow> Inl (HttpException ''Failed to upload file to S3'' 500) | Inr _ \<Rightarrow> Inr (key, objectUrl env key)), s1)"
  using assms(1,2,4) unfolding assms(3)
  by (cases q) (simp_all add: uploadFile_def Let_def catchM_def bindM_def)

text \<open>A task that always fails the same way fails so under the retry policy.\<close>

lemma resilienceLoop_fails:
  assumes "task s = (Inl e, s)" "\<not> isCircuitOpenError e"
  shows "k > 0 \<or> e0 = e \<Longrightarrow> resilienceLoop (\<lambda>_. returnM ()) rnd (\<lambda>task. task) task retry None n k a e0 s = (Inl e, s)"
proof (induction k arbitrary: a e0)
  case 0
  then show ?case using assms by simp
next
  case (Suc k)
  then show ?case using assms by (auto simp: bindM_def split: option.split)
qed

lemma resilience_fails:
  assumes "task s = (Inl e, s)" "\<not> isCircuitOpenError e"
  shows "withResilience (\<lambda>_. returnM ()) rnd (\<lambda>task. task) task retry None s = (Inl e, s)"
  unfolding withResilience_def Let_def
  by (rule resilienceLoop_fails) (use assms in \<open>auto split: option.split\<close>)

lemma getIpfs_failed:
  "\<not> ss_ipfs s \<Longrightarrow> ss_ipfsPromise s = Some (Inl e) \<Longrightarrow> getIpfs env s = (Inl e, s)"
  by (simp add: getIpfs_def)

lemma getIpfs_first_failure:
  "\<not> ss_ipfs s \<Longrightarrow> ss_ipfsPromise s = None \<Longrightarrow> ipfsInit env (ss_outside s) = Inl e \<Longrightarrow>
     getIpfs env s = (Inl e, s\<lparr>ss_ipfsPromise := Some (Inl e)\<rparr>)"
  by (simp add: getIpfs_def)

section \<open>Properties\<close>


text \<open>
  A presigned URL lets its holder write. The URL the endpoint hands out, whose documentation
  speaks of reading, is the signature of a command that puts an object under the requested key.
\<close>

theorem presigned_url_writes:
  assumes "lawfulBreaker (fireS3 env)" "getPresignedUrl env key expiresIn s = (Inr url, s')"
  shows "\<exists>w. signUrl env (PutObject (st_bucket env) key None) (case expiresIn of None \<Rightarrow> 3600 | Some n \<Rightarrow> n) w
    = (Inr url, ss_outside s')"
proof -
  have e: "orElse expiresIn DEFAULT_PRESIGN_EXPIRY = (case expiresIn of None \<Rightarrow> 3600 | Some n \<Rightarrow> n)"
    by (cases expiresIn) (simp_all add: DEFAULT_PRESIGN_EXPIRY_def)
  have "onS3 env (signUrl env (PutObject (st_bucket env) key None) (case expiresIn of None \<Rightarrow> 3600 | Some n \<Rightarrow> n)) s = (Inr url, s')"
    using assms(2) unfolding getPresignedUrl_def e by (auto simp: catchM_def split: prod.splits sum.splits)
  from onS3_run [OF assms(1) this] show ?thesis by blast
qed

text \<open>
  One failed start disables IPFS for good. When the client cannot be loaded in time, the rejected
  promise is kept: from then on every pin fails with 503 and every verification answers false, without
  trying again, whatever the state of the node.
\<close>

theorem ipfs_failure_permanent:
  assumes "\<not> ss_ipfs s" "ss_ipfsPromise s = None" "ipfsInit env (ss_outside s) = Inl e"
    and "pinProjectMetadata env metadata s = (r, s1)"
  shows "r = Inl (HttpException ''Failed to pin metadata to IPFS'' 503) \<and>
    pinProjectMetadata later m (s1\<lparr>ss_outside := w\<rparr>) =
      (Inl (HttpException ''Failed to pin metadata to IPFS'' 503), s1\<lparr>ss_outside := w\<rparr>) \<and>
    verifyIPFSHash later hash (s1\<lparr>ss_outside := w\<rparr>) = (Inr False, s1\<lparr>ss_outside := w\<rparr>)"
proof -
  have s1: "r = Inl (HttpException ''Failed to pin metadata to IPFS'' 503)" "s1 = s\<lparr>ss_ipfsPromise := Some (Inl e)\<rparr>"
    using assms(4) getIpfs_first_failure [OF assms(1-3)] by (simp_all add: pinProjectMetadata_def catchM_def bindM_def)
  have "getIpfs later (s1\<lparr>ss_outside := w\<rparr>) = (Inl e, s1\<lparr>ss_outside := w\<rparr>)"
    by (rule getIpfs_failed) (simp_all add: s1 assms(1))
  with s1(1) show ?thesis
    by (simp add: pinProjectMetadata_def verifyIPFSHash_def catchM_def bindM_def)
qed

text \<open>
  A verification that cannot read throws. The promise of the read is returned without being
  awaited, so the handler that turns errors into the answer false never sees them.
\<close>

theorem verify_hash_throws:
  assumes "ss_ipfs s" "fireIpfsCat env = (\<lambda>task. task)" "ipfsCat env hash (ss_outside s) = (Inl e, ss_outside s)"
    and "\<not> isCircuitOpenError e"
  shows "verifyIPFSHash env hash s = (Inl e, s)"
proof -
  have "bindM (ipfsCat env hash) (\<lambda>chunks. returnM (chunks > 0)) (ss_outside s) = (Inl e, ss_outside s)"
    using assms(3) by (simp add: bindM_def)
  from resilience_fails [where task = "bindM (ipfsCat env hash) (\<lambda>chunks. returnM (chunks > 0))", OF this assms(4)]
    assms(1,2) show ?thesis
    by (simp add: verifyIPFSHash_def getIpfs_def outside_def zoom_def)
qed

section \<open>A concrete store\<close>

definition memoryStorage :: "(string list) storage_env" where
  "memoryStorage = \<lparr>st_bucket = ''b'', st_region = Some ''eu'', st_maxFileSize = 100, st_now = 1000, st_random = (\<lambda>n. 0),
     st_js = \<lparr>textOf = (\<lambda>v. []), ownEntries = (\<lambda>v. [])\<rparr>,
     fireS3 = (\<lambda>task. task), fireIpfsAdd = (\<lambda>task. task), fireIpfsCat = (\<lambda>task. task), firePinQueue = (\<lambda>task. task),
     s3Send = (\<lambda>cmd w. case cmd of PutObject b k content \<Rightarrow> (Inr ''etag'', k # w) | DeleteObject b k \<Rightarrow> (Inr '''', removeAll k w)),
     signUrl = (\<lambda>cmd n w. case cmd of PutObject b k content \<Rightarrow> (Inr (''put:'' @ k), w) | DeleteObject b k \<Rightarrow> (Inr (''delete:'' @ k), w)),
     ipfsInit = (\<lambda>w. Inl (PlainError ''IPFS client initialization timed out'')),
     ipfsAdd = (\<lambda>t w. (Inr ''Qm1'', w)), ipfsCat = (\<lambda>h w. (Inl (PlainError ''not found''), w)),
     pinQueueAdd = (\<lambda>m w. (Inr (), w)), jsonForm = (\<lambda>v. JNull), sharpAvailable = True, resolvePath = (\<lambda>p. p),
     existsSync = (\<lambda>w p. True), isFile = (\<lambda>w p. True), extname = (\<lambda>p. ''.png''), sharpJpeg = (\<lambda>p x y w. (Inr ''jpeg'', w))\<rparr>"

definition freshStorage :: "(string list) storage_state" where
  "freshStorage = \<lparr>ss_ipfs = False, ss_ipfsPromise = None, ss_outside = []\<rparr>"

definition sampleFile :: uploaded_file where
  "sampleFile = \<lparr>up_originalname = ''my file.pdf'', up_mimetype = ''application/pdf'', up_size = 10, up_buffer = ''data''\<rparr>"

lemma memoryStorage_fire [simp]: "fireS3 memoryStorage = (\<lambda>task. task)" "fireIpfsCat memoryStorage = (\<lambda>task. task)"
  by (simp_all add: memoryStorage_def)


theorem presigned_url_writes_witness:
  "fst (getPresignedUrl memoryStorage ''k'' None freshStorage) = Inr ''put:k'' \<and>
   (\<exists>w. fst (signUrl memoryStorage (PutObject ''b'' ''k'' None) 3600 w) = Inr ''put:k'')"
proof -
  have run: "getPresignedUrl memoryStorage ''k'' None freshStorage = (Inr ''put:k'', freshStorage)" by code_simp
  have "st_bucket memoryStorage = ''b''" by (simp add: memoryStorage_def)
  with presigned_url_writes [OF _ run]
  obtain w where "signUrl memoryStorage (PutObject ''b'' ''k'' None) 3600 w = (Inr ''put:k'', ss_outside freshStorage)"
    by auto
  then have "fst (signUrl memoryStorage (PutObject ''b'' ''k'' None) 3600 w) = Inr ''put:k''" by simp
  with run show ?thesis by (metis fst_conv)
qed

theorem ipfs_failure_permanent_witness:
  "let s1 = snd (pinProjectMetadata memoryStorage JNull freshStorage);
       healthy = memoryStorage\<lparr>ipfsInit := (\<lambda>w. Inr ()), ipfsCat := (\<lambda>h w. (Inr 1, w))\<rparr>
   in verifyIPFSHash healthy ''Qm1'' (s1\<lparr>ss_outside := []\<rparr>) = (Inr False, s1\<lparr>ss_outside := []\<rparr>)"
proof -
  obtain r s1 where one: "pinProjectMetadata memoryStorage JNull freshStorage = (r, s1)"
    by (cases "pinProjectMetadata memoryStorage JNull freshStorage") auto
  have "\<not> ss_ipfs freshStorage" "ss_ipfsPromise freshStorage = None"
    "ipfsInit memoryStorage (ss_outside freshStorage) = Inl (PlainError ''IPFS client initialization timed out'')"
    by (simp_all add: freshStorage_def memoryStorage_def)
  from ipfs_failure_permanent [OF this one] one show ?thesis by (simp add: Let_def)
qed

theorem verify_hash_throws_witness:
  "verifyIPFSHash memoryStorage ''Qm1'' (freshStorage\<lparr>ss_ipfs := True\<rparr>) =
     (Inl (PlainError ''not found''), freshStorage\<lparr>ss_ipfs := True\<rparr>)"
  by (rule verify_hash_throws) (simp_all add: memoryStorage_def freshStorage_def)

end
