(* ===== verification/Config.thy ===== *)
theory Config
  imports Storage
begin

text \<open>
  Start-up and shut-down: validation of the environment (\<open>config/env.validation.ts\<close>), the
  configuration namespaces (\<open>config/*.config.ts\<close>), and the parts of \<open>main.ts\<close> with logic of their
  own, which are the CORS check, the request time-out and the graceful shutdown. class-transformer
  and class-validator are parameters; \<open>lawfulValidator\<close> states what the documentation of the
  decorators promises.
\<close>

section \<open>Environment variables\<close>

datatype decorator =
    IsString
  | IsNumber
  | IsBoolean
  | IsEnum "string list"
  | IsUrl "string list" bool
  | MinLength nat
  | IsOptional

text \<open>Each property with its decorators and its initial value; \<open>IsUrl\<close> has the protocols and \<open>require_tld\<close>.\<close>

definition EnvironmentVariables :: "(string \<times> decorator list \<times> jsval) list" where
  "EnvironmentVariables =
    [(''NODE_ENV'', [IsEnum [''development'', ''production'', ''test'']], JUndef),
     (''PORT'', [IsNumber], JUndef),
     (''API_PREFIX'', [IsString], JUndef),
     (''DATABASE_HOST'', [IsString], JUndef),
     (''DATABASE_PORT'', [IsNumber], JUndef),
     (''DATABASE_USERNAME'', [IsString], JUndef),
     (''DATABASE_PASSWORD'', [IsString], JUndef),
     (''DATABASE_NAME'', [IsString], JUndef),
     (''DATABASE_LOGGING'', [IsString, IsOptional], JStr ''error,warn''),
     (''DATABASE_MAX_QUERY_EXECUTION_TIME'', [IsNumber, IsOptional], JNum 1000),
     (''DATABASE_SSL_ENABLED'', [IsBoolean, IsOptional], JBool False),
     (''DATABASE_SSL_REJECT_UNAUTHORIZED'', [IsBoolean, IsOptional], JBool False),
     (''REDIS_URL'', [IsUrl [''redis'', ''rediss''] False, IsOptional], JStr ''redis://localhost:6379''),
     (''REDIS_DB'', [IsNumber, IsOptional], JNum 0),
     (''AWS_REGION'', [IsString], JUndef),
     (''AWS_ACCESS_KEY_ID'', [IsString], JUndef),
     (''AWS_SECRET_ACCESS_KEY'', [IsString], JUndef),
     (''AWS_S3_BUCKET'', [IsString], JUndef),
     (''SENDGRID_API_KEY'', [IsString], JUndef),
     (''SENDGRID_FROM_EMAIL'', [IsString, IsOptional], JStr ''noreply@novafund.xyz''),
     (''VAPID_PUBLIC_KEY'', [IsString], JUndef),
     (''VAPID_PRIVATE_KEY'', [IsString], JUndef),
     (''VAPID_SUBJECT_EMAIL'', [IsString, IsOptional], JStr ''admin@novafund.xyz''),
     (''EMAIL_QUEUE_MAX_ATTEMPTS'', [IsNumber, IsOptional], JNum 5),
     (''PUSH_QUEUE_MAX_ATTEMPTS'', [IsNumber, IsOptional], JNum 5),
     (''JWT_SECRET'', [IsString, MinLength 32], JUndef),
     (''ENCRYPTION_KEYS'', [IsString], JUndef),
     (''JWT_REFRESH_SECRET'', [IsString, MinLength 32, IsOptional], JUndef),
     (''JWT_EXPIRATION'', [IsNumber], JUndef),
     (''JWT_REFRESH_TOKEN_TTL_DAYS'', [IsNumber, IsOptional], JNum 7),
     (''AUTH_MAX_SESSIONS_PER_USER'', [IsNumber, IsOptional], JNum 5),
     (''STELLAR_NETWORK'', [IsString], JUndef),
     (''STELLAR_HORIZON_URL'', [IsUrl [] False], JUndef),
     (''STELLAR_RPC_URL'', [IsString], JUndef),
     (''STELLAR_NETWORK_PASSPHRASE'', [IsString], JUndef),
     (''PROJECT_LAUNCH_CONTRACT_ID'', [IsString], JUndef),
     (''ESCROW_CONTRACT_ID'', [IsString], JUndef),
     (''INDEXER_POLL_INTERVAL_MS'', [IsNumber], JUndef),
     (''THROTTLE_DEFAULT_TTL'', [IsNumber, IsOptional], JNum 900000),
     (''THROTTLE_DEFAULT_LIMIT'', [IsNumber, IsOptional], JNum 100),
     (''THROTTLE_AUTH_TTL'', [IsNumber, IsOptional], JNum 900000),
     (''THROTTLE_AUTH_LIMIT'', [IsNumber, IsOptional], JNum 5),
     (''RATE_LIMIT_REDIS_ENABLED'', [IsBoolean, IsOptional], JBool False),
     (''LOG_LEVEL'', [IsString, IsOptional], JStr ''info''),
     (''CORS_ALLOWED_ORIGINS'', [IsString, IsOptional], JStr ''http://localhost:3000,http://localhost:4200''),
     (''REQUEST_TIMEOUT_MS'', [IsNumber, IsOptional], JNum 30000),
     (''HEADERS_TIMEOUT_MS'', [IsNumber, IsOptional], JNum 60000),
     (''KEEP_ALIVE_TIMEOUT_MS'', [IsNumber, IsOptional], JNum 65000)]"

fun satisfies :: "(string list \<Rightarrow> bool \<Rightarrow> string \<Rightarrow> bool) \<Rightarrow> jsval \<Rightarrow> decorator \<Rightarrow> bool" where
  "satisfies isUrl v IsString = (case v of JStr s \<Rightarrow> True | _ \<Rightarrow> False)"
| "satisfies isUrl v IsNumber = (case v of JNum q \<Rightarrow> True | _ \<Rightarrow> False)"
| "satisfies isUrl v IsBoolean = (case v of JBool b \<Rightarrow> True | _ \<Rightarrow> False)"
| "satisfies isUrl v (IsEnum values) = (case v of JStr s \<Rightarrow> s \<in> set values | _ \<Rightarrow> False)"
| "satisfies isUrl v (IsUrl protocols tld) = (case v of JStr s \<Rightarrow> isUrl protocols tld s | _ \<Rightarrow> False)"
| "satisfies isUrl v (MinLength n) = (case v of JStr s \<Rightarrow> n \<le> length s | _ \<Rightarrow> False)"
| "satisfies isUrl v IsOptional = True"

definition fieldOk :: "(string list \<Rightarrow> bool \<Rightarrow> string \<Rightarrow> bool) \<Rightarrow> decorator list \<Rightarrow> jsval \<Rightarrow> bool" where
  "fieldOk isUrl ds v \<longleftrightarrow>
     (IsOptional \<in> set ds \<and> (v = JUndef \<or> v = JNull)) \<or> list_all (satisfies isUrl v) ds"

record validator =
  plainToInstance :: "(string \<Rightarrow> string option) \<Rightarrow> string \<Rightarrow> jsval"
  validateSync :: "(string \<Rightarrow> jsval) \<Rightarrow> string list"

definition lawfulValidator :: "(string list \<Rightarrow> bool \<Rightarrow> string \<Rightarrow> bool) \<Rightarrow> validator \<Rightarrow> bool" where
  "lawfulValidator isUrl cv \<longleftrightarrow>
     (\<forall>v. validateSync cv v = [] \<longleftrightarrow> list_all (\<lambda>(name, ds, d). fieldOk isUrl ds (v name)) EnvironmentVariables)"

section \<open>validateEnv\<close>

definition WEAK_JWT_PLACEHOLDERS :: "string list" where
  "WEAK_JWT_PLACEHOLDERS =
    [''your-jwt-secret-key-change-in-production'', ''your-refresh-secret-key-change-in-production'',
     ''secret'', ''changeme'', ''password'']"

text \<open>\<open>s.includes(p)\<close>\<close>

definition containsText :: "string \<Rightarrow> string \<Rightarrow> bool" where
  "containsText s p \<longleftrightarrow> list_ex (\<lambda>i. take (length p) (drop i s) = p) [0..<Suc (length s)]"

definition assertJwtStrength :: "string \<Rightarrow> string \<Rightarrow> jsval \<Rightarrow> error + unit" where
  "assertJwtStrength value fieldName nodeEnv =
    (if list_ex (containsText (toLowerCase value)) WEAK_JWT_PLACEHOLDERS then
       Inl (PlainError (fieldName @ '' contains a placeholder value. '' @
         ''Replace it with a strong random secret: openssl rand -base64 48''))
     else if nodeEnv = JStr ''production'' \<and>
       (\<not> list_ex isUpper value \<or> \<not> list_ex isLower value \<or> \<not> list_ex isDigit value \<or>
        \<not> list_ex (\<lambda>ch. \<not> isAlnum ch) value) then
       Inl (PlainError (fieldName @ '' does not meet production complexity requirements. '' @
         ''It must contain uppercase, lowercase, digit, and special characters. '' @
         ''Generate one with: openssl rand -base64 48''))
     else Inr ())"

definition textOr :: "jsval \<Rightarrow> string" where
  "textOr v = (case v of JStr s \<Rightarrow> s | _ \<Rightarrow> [])"

definition validateEnv :: "validator \<Rightarrow> (string \<Rightarrow> string option) \<Rightarrow> error + (string \<Rightarrow> jsval)" where
  "validateEnv cv config =
    (let v = plainToInstance cv config; errors = validateSync cv v in
     if errors \<noteq> [] then Inl (PlainError (joinWith '','' errors))
     else case assertJwtStrength (textOr (v ''JWT_SECRET'')) ''JWT_SECRET'' (v ''NODE_ENV'') of
       Inl e \<Rightarrow> Inl e
     | Inr _ \<Rightarrow>
        (if textOr (v ''JWT_REFRESH_SECRET'') = [] then Inr v
         else case assertJwtStrength (textOr (v ''JWT_REFRESH_SECRET'')) ''JWT_REFRESH_SECRET'' (v ''NODE_ENV'') of
           Inl e \<Rightarrow> Inl e
         | Inr _ \<Rightarrow> Inr v))"

section \<open>Configuration namespaces\<close>

text \<open>\<open>process.env.KEY || default\<close>\<close>

definition envOr :: "(string \<Rightarrow> string option) \<Rightarrow> string \<Rightarrow> string \<Rightarrow> string" where
  "envOr penv key d = (case penv key of None \<Rightarrow> d | Some v \<Rightarrow> if v = [] then d else v)"

record AppConfig =
  ac_nodeEnv :: string
  ac_port :: "rat option"
  ac_apiPrefix :: string
  ac_encryptionKeys :: string

definition appConfig :: "(string \<Rightarrow> string option) \<Rightarrow> AppConfig" where
  "appConfig penv =
    \<lparr>ac_nodeEnv = envOr penv ''NODE_ENV'' ''development'', ac_port = parseInt10 (envOr penv ''PORT'' ''3000''),
     ac_apiPrefix = envOr penv ''API_PREFIX'' ''api'', ac_encryptionKeys = envOr penv ''ENCRYPTION_KEYS'' ''''\<rparr>"

record NotificationConfig =
  nc_sendgridApiKey :: string
  nc_sendgridFromEmail :: string
  nc_vapidPublicKey :: string
  nc_vapidPrivateKey :: string
  nc_vapidSubjectEmail :: string

definition notificationConfig :: "(string \<Rightarrow> string option) \<Rightarrow> NotificationConfig" where
  "notificationConfig penv =
    \<lparr>nc_sendgridApiKey = envOr penv ''SENDGRID_API_KEY'' '''',
     nc_sendgridFromEmail = envOr penv ''SENDGRID_FROM_EMAIL'' ''noreply@novafund.xyz'',
     nc_vapidPublicKey = envOr penv ''VAPID_PUBLIC_KEY'' '''', nc_vapidPrivateKey = envOr penv ''VAPID_PRIVATE_KEY'' '''',
     nc_vapidSubjectEmail = envOr penv ''VAPID_SUBJECT_EMAIL'' ''admin@novafund.xyz''\<rparr>"

record StorageConfig =
  sc_ipfsHost :: string
  sc_ipfsPort :: "rat option"
  sc_ipfsProtocol :: string
  sc_region :: string
  sc_accessKeyId :: string
  sc_secretAccessKey :: string
  sc_s3Bucket :: string

definition storageConfig :: "(string \<Rightarrow> string option) \<Rightarrow> StorageConfig" where
  "storageConfig penv =
    \<lparr>sc_ipfsHost = envOr penv ''IPFS_HOST'' ''localhost'', sc_ipfsPort = parseInt10 (envOr penv ''IPFS_PORT'' ''5001''),
     sc_ipfsProtocol = envOr penv ''IPFS_PROTOCOL'' ''http'', sc_region = envOr penv ''AWS_REGION'' '''',
     sc_accessKeyId = envOr penv ''AWS_ACCESS_KEY_ID'' '''', sc_secretAccessKey = envOr penv ''AWS_SECRET_ACCESS_KEY'' '''',
     sc_s3Bucket = envOr penv ''AWS_S3_BUCKET'' ''''\<rparr>"

record StellarNetworkConfig =
  sn_network :: string
  sn_horizonUrl :: string
  sn_rpcUrl :: string
  sn_networkPassphrase :: string
  sn_projectLaunchContractId :: string
  sn_escrowContractId :: string
  sn_profitDistributionContractId :: "string option"
  sn_subscriptionPoolContractId :: "string option"
  sn_governanceContractId :: "string option"
  sn_reputationContractId :: "string option"

definition stellarConfig :: "(string \<Rightarrow> string option) \<Rightarrow> StellarNetworkConfig" where
  "stellarConfig penv =
    \<lparr>sn_network = envOr penv ''STELLAR_NETWORK'' ''testnet'',
     sn_horizonUrl = envOr penv ''STELLAR_HORIZON_URL'' ''https://horizon-testnet.stellar.org'',
     sn_rpcUrl = envOr penv ''STELLAR_RPC_URL'' ''https://soroban-testnet.stellar.org'',
     sn_networkPassphrase = envOr penv ''STELLAR_NETWORK_PASSPHRASE'' ''Test SDF Network ; September 2015'',
     sn_projectLaunchContractId = envOr penv ''PROJECT_LAUNCH_CONTRACT_ID'' '''',
     sn_escrowContractId = envOr penv ''ESCROW_CONTRACT_ID'' '''',
     sn_profitDistributionContractId = penv ''PROFIT_DISTRIBUTION_CONTRACT_ID'',
     sn_subscriptionPoolContractId = penv ''SUBSCRIPTION_POOL_CONTRACT_ID'',
     sn_governanceContractId = penv ''GOVERNANCE_CONTRACT_ID'',
     sn_reputationContractId = penv ''REPUTATION_CONTRACT_ID''\<rparr>"

record IndexerConfig =
  ix_pollIntervalMs :: "rat option"
  ix_startLedger :: "rat option option"
  ix_reorgDepthThreshold :: "rat option"
  ix_maxEventsPerFetch :: "rat option"

text \<open>\<open>None\<close> inside a field is \<open>NaN\<close>; \<open>startLedger\<close> is absent when the variable is unset or empty.\<close>

definition indexerConfig :: "(string \<Rightarrow> string option) \<Rightarrow> IndexerConfig" where
  "indexerConfig penv =
    \<lparr>ix_pollIntervalMs = parseInt10 (envOr penv ''INDEXER_POLL_INTERVAL_MS'' ''5000''),
     ix_startLedger = (if given (penv ''INDEXER_START_LEDGER'') then Some (parseInt10 (the (penv ''INDEXER_START_LEDGER''))) else None),
     ix_reorgDepthThreshold = parseInt10 (envOr penv ''INDEXER_REORG_DEPTH_THRESHOLD'' ''5''),
     ix_maxEventsPerFetch = parseInt10 (envOr penv ''INDEXER_MAX_EVENTS_PER_FETCH'' ''100'')\<rparr>"

section \<open>main.ts\<close>

definition corsAllowedOrigins :: "string \<Rightarrow> string list" where
  "corsAllowedOrigins value = map trim (splitOn (CHR '','') value)"

text \<open>The origin callback: a request without origin is allowed.\<close>

definition corsOrigin :: "string list \<Rightarrow> string option \<Rightarrow> error + bool" where
  "corsOrigin allowed origin =
    (if \<not> given origin then Inr True
     else if the origin \<in> set allowed then Inr True
     else Inl (PlainError ''Not allowed by CORS''))"

text \<open>What the time-out of a request sends: status, \<open>error\<close> and \<open>message\<close>; nothing once headers are out.\<close>

definition requestTimeout :: "js_library \<Rightarrow> bool \<Rightarrow> nat \<Rightarrow> (nat \<times> string \<times> string) option" where
  "requestTimeout js headersSent ms =
    (if headersSent then None
     else Some (408, ''Request Timeout'', ''Request exceeded '' @ numText js (of_nat ms / 1000) @ '' second limit''))"

text \<open>The state of the shutdown: the flag, the timer that forces the exit, and the exit code.\<close>

record shutdown =
  isShuttingDown :: bool
  forceExitTimer :: bool
  closing :: bool
  exitCode :: "nat option"

datatype shutdown_event = Signal | AppClosed | CloseFailed | TimerFires

fun gracefulShutdown :: "shutdown_event \<Rightarrow> shutdown \<Rightarrow> shutdown" where
  "gracefulShutdown Signal s =
    (if isShuttingDown s then s else s\<lparr>isShuttingDown := True, forceExitTimer := True, closing := True\<rparr>)"
| "gracefulShutdown AppClosed s = s\<lparr>forceExitTimer := False, closing := False, exitCode := Some 0\<rparr>"
| "gracefulShutdown CloseFailed s = s\<lparr>forceExitTimer := False, closing := False, exitCode := Some 1\<rparr>"
| "gracefulShutdown TimerFires s = s\<lparr>exitCode := Some 1\<rparr>"

text \<open>
  \<open>app.close()\<close> settles only while it runs, the timer fires only while it is armed, and after
  \<open>process.exit\<close> nothing happens.
\<close>

inductive shutdown_step :: "shutdown \<Rightarrow> shutdown_event \<Rightarrow> shutdown \<Rightarrow> bool" where
  on_signal: "exitCode s = None \<Longrightarrow> shutdown_step s Signal (gracefulShutdown Signal s)"
| on_closed: "exitCode s = None \<Longrightarrow> closing s \<Longrightarrow> shutdown_step s AppClosed (gracefulShutdown AppClosed s)"
| on_failed: "exitCode s = None \<Longrightarrow> closing s \<Longrightarrow> shutdown_step s CloseFailed (gracefulShutdown CloseFailed s)"
| on_timer: "exitCode s = None \<Longrightarrow> forceExitTimer s \<Longrightarrow> shutdown_step s TimerFires (gracefulShutdown TimerFires s)"

inductive shutdown_run :: "shutdown \<Rightarrow> shutdown_event list \<Rightarrow> shutdown \<Rightarrow> bool" where
  run_nil: "shutdown_run s [] s"
| run_snoc: "shutdown_run s es t \<Longrightarrow> shutdown_step t e u \<Longrightarrow> shutdown_run s (es @ [e]) u"

definition running :: shutdown where
  "running = \<lparr>isShuttingDown = False, forceExitTimer = False, closing = False, exitCode = None\<rparr>"

inductive_cases shutdown_stepE: "shutdown_step s e t"

section \<open>Properties\<close>

definition strongSecret :: "jsval \<Rightarrow> string \<Rightarrow> bool" where
  "strongSecret nodeEnv s \<longleftrightarrow> (\<forall>p\<in>set WEAK_JWT_PLACEHOLDERS. \<not> containsText (toLowerCase s) p) \<and>
     (nodeEnv = JStr ''production'' \<longrightarrow> list_ex isUpper s \<and> list_ex isLower s \<and> list_ex isDigit s \<and>
        list_ex (\<lambda>ch. \<not> isAlnum ch) s)"

lemma assertJwtStrength_ok: "assertJwtStrength s f n = Inr u \<longleftrightarrow> strongSecret n s"
  by (auto simp: assertJwtStrength_def strongSecret_def list_ex_iff)

lemma field_listed:
  "map_of EnvironmentVariables name = Some (ds, d) \<Longrightarrow>
     list_all (\<lambda>(name, ds, d). fieldOk isUrl ds (v name)) EnvironmentVariables \<Longrightarrow> fieldOk isUrl ds (v name)"
  by (auto simp: list_all_iff dest!: map_of_SomeD)

lemma secret_fields:
  "map_of EnvironmentVariables ''JWT_SECRET'' = Some ([IsString, MinLength 32], JUndef)"
  "map_of EnvironmentVariables ''JWT_REFRESH_SECRET'' = Some ([IsString, MinLength 32, IsOptional], JUndef)"
  by code_simp+

lemma required_secret: "fieldOk isUrl [IsString, MinLength 32] v \<Longrightarrow> \<exists>s. v = JStr s \<and> 32 \<le> length s"
  by (cases v) (auto simp: fieldOk_def)

lemma optional_secret:
  "fieldOk isUrl [IsString, MinLength 32, IsOptional] v \<Longrightarrow> v = JUndef \<or> v = JNull \<or> (\<exists>s. v = JStr s \<and> 32 \<le> length s)"
  by (cases v) (auto simp: fieldOk_def)

text \<open>
  C37. What an accepted environment guarantees. When start-up validation accepts, every declared
  variable meets its decorators; the JWT secret has at least 32 characters, contains none of the
  known placeholders in any case and, in production, has upper case, lower case, digits and special
  characters; the refresh secret, when set, the same.
\<close>

theorem accepted_environment:
  assumes "lawfulValidator isUrl cv" "validateEnv cv config = Inr v"
  shows "list_all (\<lambda>(name, ds, d). fieldOk isUrl ds (v name)) EnvironmentVariables \<and>
    (\<exists>s. v ''JWT_SECRET'' = JStr s \<and> 32 \<le> length s \<and> strongSecret (v ''NODE_ENV'') s) \<and>
    (v ''JWT_REFRESH_SECRET'' = JUndef \<or> v ''JWT_REFRESH_SECRET'' = JNull \<or>
     (\<exists>s. v ''JWT_REFRESH_SECRET'' = JStr s \<and> 32 \<le> length s \<and> strongSecret (v ''NODE_ENV'') s))"
proof -
  have v: "validateSync cv v = []" "assertJwtStrength (textOr (v ''JWT_SECRET'')) ''JWT_SECRET'' (v ''NODE_ENV'') = Inr ()"
    "textOr (v ''JWT_REFRESH_SECRET'') = [] \<or>
      assertJwtStrength (textOr (v ''JWT_REFRESH_SECRET'')) ''JWT_REFRESH_SECRET'' (v ''NODE_ENV'') = Inr ()"
    using assms(2) by (auto simp: validateEnv_def Let_def split: if_splits sum.splits)
  with assms(1) have all: "list_all (\<lambda>(name, ds, d). fieldOk isUrl ds (v name)) EnvironmentVariables"
    by (simp add: lawfulValidator_def)
  obtain s where s: "v ''JWT_SECRET'' = JStr s" "32 \<le> length s"
    using required_secret [OF field_listed [OF secret_fields(1) all]] by blast
  with v(2) have "strongSecret (v ''NODE_ENV'') s" by (simp only: assertJwtStrength_ok textOr_def jsval.case)
  moreover have "v ''JWT_REFRESH_SECRET'' = JUndef \<or> v ''JWT_REFRESH_SECRET'' = JNull \<or>
     (\<exists>s. v ''JWT_REFRESH_SECRET'' = JStr s \<and> 32 \<le> length s \<and> strongSecret (v ''NODE_ENV'') s)"
    using optional_secret [OF field_listed [OF secret_fields(2) all]] v(3) by (auto simp: assertJwtStrength_ok textOr_def)
  ultimately show ?thesis using all s by blast
qed

definition simpleValidator :: validator where
  "simpleValidator =
    \<lparr>plainToInstance = (\<lambda>config name.
       case map_of EnvironmentVariables name of
         None \<Rightarrow> JUndef
       | Some (ds, d) \<Rightarrow>
          (case config name of
             None \<Rightarrow> d
           | Some s \<Rightarrow> (if IsNumber \<in> set ds then (case parseInt10 s of None \<Rightarrow> JUndef | Some q \<Rightarrow> JNum q)
                       else if IsBoolean \<in> set ds then JBool (s \<noteq> []) else JStr s))),
     validateSync = (\<lambda>v. map fst (filter (\<lambda>(name, ds, d). \<not> fieldOk (\<lambda>ps tld s. s \<noteq> []) ds (v name)) EnvironmentVariables))\<rparr>"

lemma simpleValidator_lawful: "lawfulValidator (\<lambda>ps tld s. s \<noteq> []) simpleValidator"
  by (auto simp: lawfulValidator_def simpleValidator_def filter_empty_conv list_all_iff)

definition sampleEnvironment :: "string \<Rightarrow> string option" where
  "sampleEnvironment name =
    (case map_of EnvironmentVariables name of
       None \<Rightarrow> None
     | Some (ds, d) \<Rightarrow> (if IsOptional \<in> set ds then None else if IsNumber \<in> set ds then Some ''1''
         else if MinLength 32 \<in> set ds then Some ''Abcdefgh+0123456789/abcdefghijklm''
         else if ds = [IsString] then Some ''x'' else if name = ''NODE_ENV'' then Some ''production'' else Some ''http://h''))"

text \<open>The value of a variable with the decorators \<open>ds\<close> and the initial value \<open>d\<close> in the sample.\<close>

definition sampleValue :: "string \<Rightarrow> decorator list \<Rightarrow> jsval \<Rightarrow> jsval" where
  "sampleValue name ds d =
    (if IsOptional \<in> set ds then d else if IsNumber \<in> set ds then JNum 1
     else if MinLength 32 \<in> set ds then JStr ''Abcdefgh+0123456789/abcdefghijklm''
     else if ds = [IsString] then JStr ''x'' else if name = ''NODE_ENV'' then JStr ''production'' else JStr ''http://h'')"

lemma names_distinct: "distinct (map fst EnvironmentVariables)"
  by code_simp

lemma samples_ok: "list_all (\<lambda>(name, ds, d). IsBoolean \<in> set ds \<longrightarrow> IsOptional \<in> set ds) EnvironmentVariables"
    "list_all (\<lambda>(name, ds, d). fieldOk (\<lambda>ps tld s. s \<noteq> []) ds (sampleValue name ds d)) EnvironmentVariables"
  by code_simp+

abbreviation sampleInstance :: "string \<Rightarrow> jsval" where
  "sampleInstance \<equiv> plainToInstance simpleValidator sampleEnvironment"

lemma sample_one: "parseInt10 ''1'' = Some 1"
  by code_simp

lemma sampleInstance_value:
  assumes "map_of EnvironmentVariables name = Some (ds, d)"
  shows "sampleInstance name = sampleValue name ds d"
proof -
  have "IsBoolean \<in> set ds \<longrightarrow> IsOptional \<in> set ds"
    using samples_ok(1) map_of_SomeD [OF assms] by (auto simp: list_all_iff)
  with assms sample_one show ?thesis
    by (auto simp: simpleValidator_def sampleEnvironment_def sampleValue_def)
qed

lemma sample_accepted: "validateEnv simpleValidator sampleEnvironment = Inr sampleInstance"
proof -
  have "map_of EnvironmentVariables name = Some (ds, d)" if "(name, ds, d) \<in> set EnvironmentVariables" for name ds d
    using names_distinct that by (rule map_of_is_SomeI)
  then have "list_all (\<lambda>(name, ds, d). fieldOk (\<lambda>ps tld s. s \<noteq> []) ds (sampleInstance name)) EnvironmentVariables"
    using samples_ok(2) by (fastforce simp: list_all_iff sampleInstance_value)
  then have "validateSync simpleValidator sampleInstance = []"
    using simpleValidator_lawful by (simp only: lawfulValidator_def)
  moreover have "sampleInstance ''JWT_SECRET'' = JStr ''Abcdefgh+0123456789/abcdefghijklm''"
    "sampleInstance ''JWT_REFRESH_SECRET'' = JUndef"
    using secret_fields [THEN sampleInstance_value] by (simp_all add: sampleValue_def)
  moreover have "assertJwtStrength ''Abcdefgh+0123456789/abcdefghijklm'' ''JWT_SECRET'' env = Inr ()" for env
    unfolding assertJwtStrength_ok strongSecret_def by code_simp
  ultimately show ?thesis
    unfolding validateEnv_def Let_def textOr_def by (simp only: simp_thms if_False if_True sum.case jsval.case)
qed

theorem accepted_environment_witness:
  "\<exists>s. validateEnv simpleValidator sampleEnvironment = Inr sampleInstance \<and> sampleInstance ''JWT_SECRET'' = JStr s \<and>
     32 \<le> length s \<and> strongSecret (sampleInstance ''NODE_ENV'') s"
  using accepted_environment [OF simpleValidator_lawful sample_accepted] sample_accepted by blast

text \<open>
  The generator the error messages recommend, \<open>openssl rand -base64 48\<close>, does not guarantee an
  accepted secret: a text of letters and digits only is refused in production, whatever its length.
\<close>

theorem alphanumeric_secret_refused:
  assumes "list_all isAlnum secret"
  shows "\<exists>e. assertJwtStrength secret name (JStr ''production'') = Inl e"
proof -
  have "\<not> strongSecret (JStr ''production'') secret"
    using assms by (auto simp: strongSecret_def list_all_iff list_ex_iff)
  then show ?thesis using assertJwtStrength_ok [of secret name "JStr ''production''"]
    by (cases "assertJwtStrength secret name (JStr ''production'')") auto
qed

text \<open>
  From an accepted environment to the storage service. The decorators accept empty texts, so the
  service starts exactly when the four AWS variables of the accepted environment are not empty; then
  it has the configured bucket and a positive size limit.
\<close>

definition textField :: "(string \<Rightarrow> jsval) \<Rightarrow> string \<Rightarrow> string option" where
  "textField v k = (case v k of JStr s \<Rightarrow> Some s | _ \<Rightarrow> None)"

text \<open>What \<open>ConfigService.get\<close> gives the constructor.\<close>

definition storageSettings :: "(string \<Rightarrow> jsval) \<Rightarrow> nat option \<Rightarrow> storage_config" where
  "storageSettings v maxSize =
    \<lparr>cfg_region = textField v ''AWS_REGION'', cfg_accessKeyId = textField v ''AWS_ACCESS_KEY_ID'',
     cfg_secretAccessKey = textField v ''AWS_SECRET_ACCESS_KEY'', cfg_bucket = textField v ''AWS_S3_BUCKET'',
     cfg_maxFileSize = maxSize\<rparr>"

lemma aws_fields:
  "map_of EnvironmentVariables ''AWS_REGION'' = Some ([IsString], JUndef)"
  "map_of EnvironmentVariables ''AWS_ACCESS_KEY_ID'' = Some ([IsString], JUndef)"
  "map_of EnvironmentVariables ''AWS_SECRET_ACCESS_KEY'' = Some ([IsString], JUndef)"
  "map_of EnvironmentVariables ''AWS_S3_BUCKET'' = Some ([IsString], JUndef)"
  by code_simp+

lemma required_text: "fieldOk isUrl [IsString] v \<Longrightarrow> \<exists>s. v = JStr s"
  by (cases v) (auto simp: fieldOk_def)

theorem accepted_storage:
  assumes "lawfulValidator isUrl cv" "validateEnv cv config = Inr v"
  shows "(\<exists>n>0. newStorageService (storageSettings v maxSize) = Inr (the (textField v ''AWS_S3_BUCKET''), n)) \<longleftrightarrow>
    (\<forall>k\<in>{''AWS_REGION'', ''AWS_ACCESS_KEY_ID'', ''AWS_SECRET_ACCESS_KEY'', ''AWS_S3_BUCKET''}. v k \<noteq> JStr [])"
proof -
  have all: "list_all (\<lambda>(name, ds, d). fieldOk isUrl ds (v name)) EnvironmentVariables"
    using assms by (auto simp: lawfulValidator_def validateEnv_def Let_def split: if_splits sum.splits)
  obtain a b c d where "v ''AWS_REGION'' = JStr a" "v ''AWS_ACCESS_KEY_ID'' = JStr b"
    "v ''AWS_SECRET_ACCESS_KEY'' = JStr c" "v ''AWS_S3_BUCKET'' = JStr d"
    using aws_fields [THEN field_listed, OF all, THEN required_text] by blast
  then show ?thesis
    by (auto simp: newStorageService_def storageSettings_def textField_def given_def Let_def DEFAULT_MAX_FILE_SIZE_def
        split: option.split)
qed

theorem accepted_storage_witness:
  "\<exists>n>0. newStorageService (storageSettings sampleInstance None) = Inr (''x'', n)"
proof -
  have aws: "sampleInstance ''AWS_REGION'' = JStr ''x''" "sampleInstance ''AWS_ACCESS_KEY_ID'' = JStr ''x''"
    "sampleInstance ''AWS_SECRET_ACCESS_KEY'' = JStr ''x''" "sampleInstance ''AWS_S3_BUCKET'' = JStr ''x''"
    using aws_fields [THEN sampleInstance_value] by (simp_all add: sampleValue_def)
  then have "\<forall>k\<in>{''AWS_REGION'', ''AWS_ACCESS_KEY_ID'', ''AWS_SECRET_ACCESS_KEY'', ''AWS_S3_BUCKET''}. sampleInstance k \<noteq> JStr []"
    by simp
  then have "\<exists>n>0. newStorageService (storageSettings sampleInstance None) = Inr (the (textField sampleInstance ''AWS_S3_BUCKET''), n)"
    by (simp only: accepted_storage [OF simpleValidator_lawful sample_accepted])
  moreover have "the (textField sampleInstance ''AWS_S3_BUCKET'') = ''x''" using aws(4) by (simp add: textField_def)
  ultimately show ?thesis by (simp only:)
qed

definition terminal :: "shutdown_event \<Rightarrow> bool" where
  "terminal e \<longleftrightarrow> e \<noteq> Signal"

lemma shutdown_run_inv:
  assumes "shutdown_run s0 es s" "s0 = running"
  shows "(closing s \<longrightarrow> isShuttingDown s) \<and> (forceExitTimer s \<longrightarrow> isShuttingDown s) \<and>
    (isShuttingDown s \<and> exitCode s = None \<longrightarrow> forceExitTimer s \<and> closing s) \<and>
    (exitCode s = None \<longrightarrow> filter terminal es = []) \<and>
    (\<forall>c. exitCode s = Some c \<longrightarrow> (\<exists>e. filter terminal es = [e] \<and> (c = 0 \<and> e = AppClosed \<or> c = 1 \<and> e \<noteq> AppClosed)))"
  using assms
proof (induction rule: shutdown_run.induct)
  case (run_nil s)
  then show ?case by (simp add: running_def)
next
  case (run_snoc s es t e u)
  note inv = run_snoc.IH [OF run_snoc.prems]
  from run_snoc.hyps(2) show ?case
  proof (cases rule: shutdown_step.cases)
    case on_signal
    with inv show ?thesis by (cases "isShuttingDown t") (simp_all add: terminal_def)
  next
    case on_closed
    with inv show ?thesis by (simp add: terminal_def)
  next
    case on_failed
    with inv show ?thesis by (simp add: terminal_def)
  next
    case on_timer
    with inv show ?thesis by (simp add: terminal_def)
  qed
qed



end
