(* ===== verification/Controllers.thy ===== *)
theory Controllers
  imports Lifecycle Responses Config
begin

text \<open>
  The HTTP controllers whose methods do more than pass their arguments on: \<open>UserController\<close>,
  \<open>InsuranceController\<close> and \<open>NotificationController\<close>, and what happens around a handler, the response
  interceptor on success and the exception filter on failure. The URL parser, the base64 decoder
  and the class of decimals are parameters.
\<close>

section \<open>From values to bodies\<close>

text \<open>The text and the own members of a \<open>Prisma.Decimal\<close>.\<close>

record decimal_class =
  dc_text :: "rat \<Rightarrow> string"
  dc_members :: "rat \<Rightarrow> (string \<times> body) list"

definition lawfulDecimal :: "decimal_class \<Rightarrow> bool" where
  "lawfulDecimal dc \<longleftrightarrow>
    (\<forall>q. numeric (dc_text dc q) \<and> ''d'' \<in> fst ` set (dc_members dc q) \<and> ''toString'' \<notin> fst ` set (dc_members dc q) \<and>
       datesOk (BInst (dc_text dc q) (dc_members dc q)) \<and> unmarked (BInst (dc_text dc q) (dc_members dc q)))"

fun bodyOf :: "decimal_class \<Rightarrow> jsval \<Rightarrow> body" where
  "bodyOf dc JUndef = BUndef"
| "bodyOf dc JNull = BNull"
| "bodyOf dc (JBool b) = BBool b"
| "bodyOf dc (JNum q) = BNum q"
| "bodyOf dc (JBigInt i) = BBigInt i"
| "bodyOf dc (JStr s) = BStr s"
| "bodyOf dc (JDate t) = BDate (Some t)"
| "bodyOf dc (JDecimal q) = BInst (dc_text dc q) (dc_members dc q)"
| "bodyOf dc (JBuffer s) = BInst s []"
| "bodyOf dc (JAddress s) = BInst s []"
| "bodyOf dc (JArr xs) = BArr (map (bodyOf dc) xs)"
| "bodyOf dc (JObj ms) = BObj (map (\<lambda>(k, v). (k, bodyOf dc v)) ms)"

record web_env =
  we_env :: env
  we_decimal :: decimal_class
  we_js :: js_library
  we_times :: "user \<Rightarrow> int \<times> int"
  validUrl :: "string \<Rightarrow> bool"
  base64Length :: "string \<Rightarrow> nat"

section \<open>Around a handler\<close>

datatype http_reply = Success body | Failure nat ErrorResponse

text \<open>An exception of the handler or of the interceptor goes to the exception filter.\<close>

definition respond ::
  "http_request \<Rightarrow> TracingContext option \<Rightarrow> int \<Rightarrow> ('s, body) sm \<Rightarrow> 's \<Rightarrow> http_reply \<times> 's" where
  "respond request scope time handler s =
    (case handler s of
       (Inl e, s') \<Rightarrow> (let (status, response, l, log) = filter_catch request scope time '''' (thrown e) in (Failure status response, s'))
     | (Inr b, s') \<Rightarrow>
        (case formatResponse b of
           Inr r \<Rightarrow> (Success r, s')
         | Inl e \<Rightarrow> (let (status, response, l, log) = filter_catch request scope time '''' (thrown e) in (Failure status response, s'))))"

section \<open>UserController\<close>

definition mapUserResponse :: "web_env \<Rightarrow> user \<Rightarrow> error + body" where
  "mapUserResponse we u =
    (let js = bodyOf (we_decimal we); created = fst (we_times we u); updated = snd (we_times we u) in
     transform (BObj
      [(''id'', BStr (rowId u)), (''walletAddress'', BStr (walletAddress u)),
       (''reputationScore'', BNum (of_int (reputationScore u))), (''trustScore'', BNum (of_int (trustScore u))),
       (''email'', js (orNull JStr (email u))),
       (''profileData'', (case profileData u of
          None \<Rightarrow> BNull
        | Some v \<Rightarrow> if truthy v then js (sanitizeObject (entriesOf (we_env we)) 0 v) else BNull)),
       (''createdAt'', BDate (Some created)), (''updatedAt'', BDate (Some updated))]))"

definition controller_getUsers :: "web_env \<Rightarrow> int \<Rightarrow> int \<Rightarrow> (db, PaginatedUsers) sm" where
  "controller_getUsers we page limit = service_findPaginated (we_env we) page limit"

definition controller_getUser :: "web_env \<Rightarrow> string \<Rightarrow> (db, body) sm" where
  "controller_getUser we i =
     bindM (service_findById (we_env we) i) (\<lambda>user. liftE (mapUserResponse we user))"

definition controller_getUserByWallet :: "web_env \<Rightarrow> string \<Rightarrow> (db, body) sm" where
  "controller_getUserByWallet we address =
     bindM (service_findByWallet (we_env we) address) (\<lambda>user. liftE (mapUserResponse we user))"

definition controller_updateUser :: "web_env \<Rightarrow> string \<Rightarrow> UpdateUserDto \<Rightarrow> (db, body) sm" where
  "controller_updateUser we i updateData =
     bindM (service_update (we_env we) i updateData) (\<lambda>user. liftE (mapUserResponse we user))"

definition controller_deleteUser :: "web_env \<Rightarrow> string \<Rightarrow> (db, body) sm" where
  "controller_deleteUser we i =
     bindM (service_delete (we_env we) i) (\<lambda>(userId, deleted).
       returnM (BObj [(''success'', BBool True), (''id'', BStr userId),
         (''deletedAt'', case deleted of None \<Rightarrow> BNull | Some t \<Rightarrow> BDate (Some t))]))"

section \<open>InsuranceController\<close>

definition serialised :: "web_env \<Rightarrow> jsval \<Rightarrow> ('s, body) sm" where
  "serialised we v = liftE (transform (bodyOf (we_decimal we) v))"

definition controller_purchase :: "web_env \<Rightarrow> string \<Rightarrow> string \<Rightarrow> RiskType \<Rightarrow> rat \<Rightarrow> (world, body) sm" where
  "controller_purchase we userId poolId riskType coverageAmount =
     bindM (purchasePolicy (we_env we) userId poolId riskType coverageAmount) (\<lambda>policy. serialised we (policyJs policy))"

definition controller_createClaim :: "web_env \<Rightarrow> string \<Rightarrow> rat \<Rightarrow> (world, body) sm" where
  "controller_createClaim we policyId claimAmount =
     bindM (createClaim (we_env we) policyId claimAmount) (\<lambda>claim. serialised we (claimJs claim))"

definition controller_assessClaim :: "web_env \<Rightarrow> string \<Rightarrow> (world, body) sm" where
  "controller_assessClaim we claimId =
     bindM (assessClaim (we_env we) claimId) (\<lambda>claim. serialised we (claimWithPolicyJs claim))"

definition controller_payClaim :: "web_env \<Rightarrow> string \<Rightarrow> (world, body) sm" where
  "controller_payClaim we claimId =
     bindM (payClaim (we_env we) claimId) (\<lambda>claim. serialised we (claimWithPolicyJs claim))"

definition controller_createReinsurance :: "web_env \<Rightarrow> string \<Rightarrow> rat \<Rightarrow> rat \<Rightarrow> (world, body) sm" where
  "controller_createReinsurance we poolId coverageLimit premiumRate =
     bindM (inStore (createContract (we_env we) poolId coverageLimit premiumRate)) (\<lambda>contract. serialised we (contractJs contract))"

definition controller_releaseReinsurance :: "web_env \<Rightarrow> string \<Rightarrow> (world, body) sm" where
  "controller_releaseReinsurance we contractId =
     bindM (inStore (releaseContract (we_env we) contractId)) (\<lambda>contract. serialised we (contractJs contract))"

definition controller_cancelPolicy :: "web_env \<Rightarrow> string \<Rightarrow> (world, body) sm" where
  "controller_cancelPolicy we policyId =
     bindM (inStore (cancelPolicy (we_env we) policyId)) (\<lambda>policy. serialised we (policyJs policy))"

definition controller_expirePolicy :: "web_env \<Rightarrow> string \<Rightarrow> (world, body) sm" where
  "controller_expirePolicy we policyId =
     bindM (inStore (expirePolicy (we_env we) policyId)) (\<lambda>policy. serialised we (policyJs policy))"

section \<open>NotificationController\<close>

definition controller_notify ::
  "web_env \<Rightarrow> string \<Rightarrow> NotificationType \<Rightarrow> string \<Rightarrow> string \<Rightarrow> jsval \<Rightarrow> (world, body) sm" where
  "controller_notify we userId ty title message data =
     bindM (notify (we_env we) userId ty title message data) (\<lambda>_. returnM (BObj [(''accepted'', BBool True)]))"

definition ensureActiveUser :: "env \<Rightarrow> string \<Rightarrow> (db, unit) sm" where
  "ensureActiveUser env userId =
     bindM (usersOp env (\<lambda>e t. d_findFirst e t ((whereOf (\<lambda>r. rowId r = userId))\<lparr>w_deletedAt := Some IsNull\<rparr>))) (\<lambda>user.
       case user of
         None \<Rightarrow> throwM (NotFoundException (''User with ID '' @ userId @ '' not found''))
       | Some _ \<Rightarrow> returnM ())"

definition settingsUpsert ::
  "env \<Rightarrow> string \<Rightarrow> (notification_setting \<Rightarrow> notification_setting) \<Rightarrow> (db, notification_setting) sm" where
  "settingsUpsert env userId f = zoom notificationSettings notificationSettings_update
     (d_upsert (notificationSettingE (prisma env)) (now env) (whereOf (\<lambda>r. ns_userId r = userId))
        (rowOf (f (defaultSettings userId))) (setOf f))"

definition controller_getSettings :: "web_env \<Rightarrow> string \<Rightarrow> (db, notification_setting) sm" where
  "controller_getSettings we userId =
     bindM (ensureActiveUser (we_env we) userId) (\<lambda>_. settingsUpsert (we_env we) userId (\<lambda>r. r))"

record UpdateNotificationSettingsDto =
  us_emailEnabled :: "bool option"
  us_pushEnabled :: "bool option"
  us_notifyContributions :: "bool option"
  us_notifyMilestones :: "bool option"
  us_notifyDeadlines :: "bool option"

definition applySettings :: "UpdateNotificationSettingsDto \<Rightarrow> notification_setting \<Rightarrow> notification_setting" where
  "applySettings dto r = r\<lparr>
     emailEnabled := orElse (us_emailEnabled dto) (emailEnabled r),
     pushEnabled := orElse (us_pushEnabled dto) (pushEnabled r),
     notifyContributions := orElse (us_notifyContributions dto) (notifyContributions r),
     notifyMilestones := orElse (us_notifyMilestones dto) (notifyMilestones r),
     notifyDeadlines := orElse (us_notifyDeadlines dto) (notifyDeadlines r)\<rparr>"

definition settingsJs :: "UpdateNotificationSettingsDto \<Rightarrow> jsval" where
  "settingsJs dto = (let item = (\<lambda>k v. case v of None \<Rightarrow> [] | Some b \<Rightarrow> [(k, JBool b)]) in
     JObj (item ''emailEnabled'' (us_emailEnabled dto) @ item ''pushEnabled'' (us_pushEnabled dto) @
       item ''notifyContributions'' (us_notifyContributions dto) @ item ''notifyMilestones'' (us_notifyMilestones dto) @
       item ''notifyDeadlines'' (us_notifyDeadlines dto)))"

definition controller_updateSettings ::
  "web_env \<Rightarrow> string \<Rightarrow> UpdateNotificationSettingsDto \<Rightarrow> (db, notification_setting) sm" where
  "controller_updateSettings we userId settings =
     bindM (ensureActiveUser (we_env we) userId) (\<lambda>_.
     bindM (settingsUpsert (we_env we) userId (applySettings settings)) (\<lambda>result.
     bindM (auditService_log (we_env we) Audit_UPDATE ''NotificationSetting'' userId JUndef (settingsJs settings)
       None (Some ''Notification settings updated'')) (\<lambda>_.
     returnM result)))"

record PushSubscriptionDto =
  ps_endpoint :: string
  ps_p256dh :: string
  ps_auth :: string
  ps_expirationTime :: "string option"

definition subscriptionJs :: "PushSubscriptionDto \<Rightarrow> jsval" where
  "subscriptionJs sub = JObj ([(''endpoint'', JStr (ps_endpoint sub)),
     (''keys'', JObj [(''p256dh'', JStr (ps_p256dh sub)), (''auth'', JStr (ps_auth sub))])] @
     (case ps_expirationTime sub of None \<Rightarrow> [] | Some t \<Rightarrow> [(''expirationTime'', JStr t)]))"

text \<open>The exception for an empty key is thrown inside the \<open>try\<close> block and replaced by the other one.\<close>

definition subscribeToPush :: "web_env \<Rightarrow> string \<Rightarrow> PushSubscriptionDto \<Rightarrow> (db, body) sm" where
  "subscribeToPush we userId sub =
    (if ps_endpoint sub = [] \<or> ps_p256dh sub = [] \<or> ps_auth sub = [] then
       throwM (BadRequestException ''Invalid push subscription format'')
     else if \<not> validUrl we (ps_endpoint sub) then throwM (BadRequestException ''Invalid endpoint URL'')
     else if base64Length we (ps_p256dh sub) = 0 \<or> base64Length we (ps_auth sub) = 0 then
       throwM (BadRequestException ''Invalid key encoding'')
     else
       bindM (ensureActiveUser (we_env we) userId) (\<lambda>_.
       bindM (liftE (encrypt (we_env we) (jsonText (we_js we) (subscriptionJs sub)))) (\<lambda>encryptedSubscription.
       bindM (updateUser (we_env we) userId (\<lambda>r. r\<lparr>pushSubscription := Some (JStr encryptedSubscription)\<rparr>)) (\<lambda>_.
       returnM (BObj [(''success'', BBool True)])))))"

section \<open>Replies of the insurance endpoints\<close>

lemma transform_leaf [simp]:
  "transform BNull = Inr BNull" "transform BUndef = Inr BUndef" "transform (BBool b) = Inr (BBool b)"
  "transform (BNum q) = Inr (BNum q)" "transform (BStr s) = Inr (BStr s)"
  "transform (BBigInt i) = Inr (BStr (showInt i))" "transform (BDate (Some t)) = Inr (BStr (toISOString t))"
  by (simp_all add: transform.simps needsSerialization_def isPrismaDecimal_def)

lemma transform_decimal:
  assumes "lawfulDecimal dc"
  shows "transform (BInst (dc_text dc q) (dc_members dc q)) = Inr (BStr (dc_text dc q))"
proof -
  have law: "numeric (dc_text dc q)" "''d'' \<in> fst ` set (dc_members dc q)" "''toString'' \<notin> fst ` set (dc_members dc q)"
    using assms by (simp_all add: lawfulDecimal_def)
  then have "isPrismaDecimal (BInst (dc_text dc q) (dc_members dc q))"
    by (force simp: isPrismaDecimal_def Let_def list_ex_iff)
  with law show ?thesis by (simp add: transform.simps needsSerialization_def)
qed

text \<open>Values of the kinds the database returns.\<close>

fun fromDatabase :: "jsval \<Rightarrow> bool" where
  "fromDatabase (JBuffer s) = False"
| "fromDatabase (JAddress s) = False"
| "fromDatabase (JArr xs) = list_all fromDatabase xs"
| "fromDatabase (JObj ms) = list_all (\<lambda>(k, v). fromDatabase v) ms"
| "fromDatabase _ = True"

lemma transformEntries_all:
  "(\<And>k x. (k, x) \<in> set ms \<Longrightarrow> \<exists>b. transform x = Inr b \<and> P b) \<Longrightarrow>
     \<exists>ns. transformEntries ms = Inr ns \<and> (\<forall>(k, b)\<in>set ns. k \<noteq> ''__proto__'' \<and> P b) \<and> fst ` set ns \<subseteq> fst ` set ms"
proof (induction ms)
  case (Cons m ms)
  obtain k x where m: "m = (k, x)" by (cases m)
  obtain b where b: "transform x = Inr b" "P b" using Cons.prems [of k x] m by auto
  obtain ns where "transformEntries ms = Inr ns" "\<forall>(k, b)\<in>set ns. k \<noteq> ''__proto__'' \<and> P b"
    "fst ` set ns \<subseteq> fst ` set ms" using Cons by (metis list.set_intros(2))
  with m b show ?case by (auto simp: put_def)
qed simp

lemma transformArray_all:
  "(\<And>x. x \<in> set xs \<Longrightarrow> \<exists>b. transform x = Inr b \<and> P b) \<Longrightarrow> \<exists>ys. transformArray xs = Inr ys \<and> list_all P ys"
proof (induction xs)
  case (Cons x xs)
  then obtain b ys where "transform x = Inr b" "P b" "transformArray xs = Inr ys" "list_all P ys"
    by (metis list.set_intros(1,2))
  then show ?case by simp
qed simp

lemma transform_object:
  "transform (BObj ms) = (case transformEntries ms of Inl e \<Rightarrow> Inl e | Inr ns \<Rightarrow> Inr (BObj ns))"
  "transform (BArr xs) = (case transformArray xs of Inl e \<Rightarrow> Inl e | Inr ys \<Rightarrow> Inr (BArr ys))"
  using plain_object_special [of ms]
  by (simp add: transform.simps) (simp add: transform.simps needsSerialization_def isPrismaDecimal_def)

lemma transformEntries_keys: "transformEntries ms = Inr ns \<Longrightarrow> fst ` set ns \<subseteq> fst ` set ms"
proof (induction ms arbitrary: ns)
  case (Cons m ms)
  obtain k x where m: "m = (k, x)" by (cases m)
  with Cons.prems obtain y ns' where ns: "transformEntries ms = Inr ns'" "ns = put k y ns'"
    by (auto split: sum.splits)
  then have "fst ` set ns \<subseteq> insert k (fst ` set ns')" by (simp add: put_def subset_insertI)
  also have "\<dots> \<subseteq> insert k (fst ` set ms)" using Cons.IH [OF ns(1)] by (rule insert_mono)
  finally show ?case by (simp add: m)
qed simp

lemma transform_keys:
  "transform (BObj ms) = Inr b \<Longrightarrow> \<exists>ns. b = BObj ns \<and> fst ` set ns \<subseteq> fst ` set ms"
  using transformEntries_keys [of ms] by (auto simp: transform_object split: sum.splits)

lemma transform_bodyOf:
  assumes "lawfulDecimal dc" "fromDatabase v"
  shows "\<exists>b. transform (bodyOf dc v) = Inr b \<and> plainJson b \<and> bdepth b \<le> jdepth v"
  using assms
proof (induction dc v rule: bodyOf.induct)
  case (8 dc q)
  then show ?case by (auto simp: transform_decimal)
next
  case (11 dc xs)
  have "\<exists>b. transform x = Inr b \<and> plainJson b \<and> bdepth b \<le> fold max (map jdepth xs) 0"
    if "x \<in> set (map (bodyOf dc) xs)" for x
  proof -
    from that obtain y where y: "x = bodyOf dc y" "y \<in> set xs" by auto
    then have "jdepth y \<le> fold max (map jdepth xs) 0" by (intro fold_max_ge) simp
    with "11.IH" [OF y(2) "11.prems"(1)] "11.prems"(2) y show ?thesis by (fastforce simp: list_all_iff)
  qed
  from transformArray_all [OF this] obtain ys where "transformArray (map (bodyOf dc) xs) = Inr ys"
    "list_all (\<lambda>b. plainJson b \<and> bdepth b \<le> fold max (map jdepth xs) 0) ys" by blast
  then show ?case by (auto simp: transform_object list_all_iff intro!: fold_max_le)
next
  case (12 dc ms)
  let ?n = "fold max (map (jdepth \<circ> snd) ms) 0"
  have item: "\<exists>b. transform x = Inr b \<and> plainJson b \<and> bdepth b \<le> ?n"
    if "(k, x) \<in> set (map (\<lambda>(k, v). (k, bodyOf dc v)) ms)" for k x
  proof -
    from that obtain y where y: "x = bodyOf dc y" "(k, y) \<in> set ms" by auto
    then have "jdepth y \<le> ?n" by (intro fold_max_ge) force
    with "12.IH" [OF y(2) refl "12.prems"(1)] "12.prems"(2) y show ?thesis by (fastforce simp: list_all_iff)
  qed
  have "\<exists>ns. transformEntries (map (\<lambda>(k, v). (k, bodyOf dc v)) ms) = Inr ns \<and>
      (\<forall>(k, b)\<in>set ns. k \<noteq> ''__proto__'' \<and> (plainJson b \<and> bdepth b \<le> ?n)) \<and>
      fst ` set ns \<subseteq> fst ` set (map (\<lambda>(k, v). (k, bodyOf dc v)) ms)"
    by (rule transformEntries_all) (rule item)
  then obtain ns where "transformEntries (map (\<lambda>(k, v). (k, bodyOf dc v)) ms) = Inr ns"
    "\<forall>(k, b)\<in>set ns. k \<noteq> ''__proto__'' \<and> plainJson b \<and> bdepth b \<le> ?n" by blast
  moreover from this(2) have "fold max (map (bdepth \<circ> snd) ns) 0 \<le> ?n" by (intro fold_max_le) auto
  ultimately show ?case by (auto simp: transform_object list_all_iff)
qed auto

lemma plainJson_facts:
  "plainJson b \<Longrightarrow> datesOk b" "plainJson b \<Longrightarrow> instancesUnmarked b"
  by (induction b rule: plainJson.induct) (fastforce simp: list_all_iff)+

text \<open>The rows the insurance services return.\<close>

definition insuranceRow :: "jsval \<Rightarrow> bool" where
  "insuranceRow v \<longleftrightarrow> (\<exists>p. v = policyJs p) \<or> (\<exists>r. v = claimJs r) \<or> (\<exists>rp. v = claimWithPolicyJs rp) \<or> (\<exists>r. v = contractJs r)"

lemma insuranceRow_object:
  assumes "insuranceRow v"
  obtains ms where "v = JObj ms" "''success'' \<notin> fst ` set ms" "''data'' \<notin> fst ` set ms"
    "fromDatabase v" "jdepth v \<le> 11"
proof -
  have row: "fromDatabase (policyJs p)" "jdepth (policyJs p) = 1" for p
    by (auto simp: policyJs_def orNull_def split: option.split)
  have "\<exists>ms. v = JObj ms \<and> ''success'' \<notin> fst ` set ms \<and> ''data'' \<notin> fst ` set ms \<and> fromDatabase v \<and> jdepth v \<le> 11"
    using assms row unfolding insuranceRow_def
    by (elim disjE exE)
      (simp_all add: policyJs_def [abs_def] claimJs_def claimMembers_def claimWithPolicyJs_def contractJs_def orNull_def split: option.split)
  then show ?thesis using that by blast
qed

text \<open>An object that the controller serialised is answered with plain data and without the marker.\<close>

lemma serialised_reply:
  assumes "lawfulDecimal (we_decimal we)" "insuranceRow v"
  shows "\<exists>b d. transform (bodyOf (we_decimal we) v) = Inr b \<and>
    formatResponse b = Inr (BObj [(''success'', BBool True), (''data'', d)]) \<and> plainJson d \<and> unmarked d"
proof -
  obtain ms where ms: "v = JObj ms" "''success'' \<notin> fst ` set ms" "''data'' \<notin> fst ` set ms" "fromDatabase v" "jdepth v \<le> 11"
    using insuranceRow_object [OF assms(2)] .
  obtain b where b: "transform (bodyOf (we_decimal we) v) = Inr b" "plainJson b" "bdepth b \<le> jdepth v"
    using transform_bodyOf [OF assms(1) ms(4)] by blast
  obtain ns where ns: "b = BObj ns" "fst ` set ns \<subseteq> fst ` set ms"
    using b(1) transform_keys [of "map (\<lambda>(k, v). (k, bodyOf (we_decimal we) v)) ms" b] ms(1) by (auto simp: image_image case_prod_beta)
  have no: "map_of ns ''success'' = None" "map_of ns ''data'' = None"
    using ns(2) ms(2,3) by (auto simp: map_of_eq_None_iff)
  then have shape: "\<not> isEnvelope b" "\<not> isPaged b"
    by (simp_all add: isEnvelope_def isPaged_def member_def ns(1))
  then have pay: "payload b = b" by (simp add: payload_def)
  let ?v = "stripSoftDeleteMetadata 0 b"
  obtain d where d: "transform ?v = Inr d" "plainJson d"
    using transform_ok(1) [OF strip_datesOk(1) [OF plainJson_facts(1) [OF b(2)]]] by blast
  have "?v = prune b" using strip_prune(1) [of 0 b] b(3) ms(5) by simp
  then have "unmarked d"
    using prune_unmarked(1) [OF plainJson_facts(2) [OF b(2)]] transform_unmarked(1) [OF _ d(1)] by simp
  with b(1) d shape pay show ?thesis
    by (auto simp: formatResponse_def serializeSpecialTypes_def metaOf_def)
qed

section \<open>Properties\<close>

lemma encrypt_nonempty: "encrypt env p = Inr c \<Longrightarrow> c \<noteq> []"
  by (auto simp: encrypt_def Let_def split: option.splits prod.splits)

definition insuranceHandlers ::
  "web_env \<Rightarrow> string \<Rightarrow> string \<Rightarrow> RiskType \<Rightarrow> rat \<Rightarrow> rat \<Rightarrow> (world, body) sm list" where
  "insuranceHandlers we i j risk amount rate =
    [controller_purchase we i j risk amount, controller_createClaim we i amount, controller_assessClaim we i,
     controller_payClaim we i, controller_createReinsurance we i amount rate, controller_releaseReinsurance we i,
     controller_cancelPolicy we i, controller_expirePolicy we i]"

lemma serialised_Inr: "serialised we v s = (Inr b, s') \<longleftrightarrow> transform (bodyOf (we_decimal we) v) = Inr b \<and> s' = s"
  by (cases "transform (bodyOf (we_decimal we) v)") (auto simp: serialised_def liftE_def)

lemma serialised_row:
  assumes "bindM m (\<lambda>x. serialised we (f x)) w = (Inr b, w')" "\<And>x. insuranceRow (f x)"
  shows "\<exists>v. insuranceRow v \<and> transform (bodyOf (we_decimal we) v) = Inr b"
  using assms(1) by (rule bindM_InrE) (auto simp: serialised_Inr intro: assms(2))

lemma insuranceHandlers_serialise:
  assumes "handler \<in> set (insuranceHandlers we i j risk amount rate)" "handler w = (Inr b, w')"
  shows "\<exists>v. insuranceRow v \<and> transform (bodyOf (we_decimal we) v) = Inr b"
proof -

  have rows: "insuranceRow (policyJs p)" "insuranceRow (claimJs c)" "insuranceRow (claimWithPolicyJs cp)" "insuranceRow (contractJs r)"
    for p c cp r unfolding insuranceRow_def by blast+
  have "\<forall>h\<in>set (insuranceHandlers we i j risk amount rate). h w = (Inr b, w') \<longrightarrow>
      (\<exists>v. insuranceRow v \<and> transform (bodyOf (we_decimal we) v) = Inr b)"
    unfolding insuranceHandlers_def list.set ball_simps(5,7) controller_purchase_def controller_createClaim_def
      controller_assessClaim_def controller_payClaim_def controller_createReinsurance_def controller_releaseReinsurance_def
      controller_cancelPolicy_def controller_expirePolicy_def
    by (intro conjI impI TrueI; erule serialised_row; rule rows)
  with assms show ?thesis by blast
qed

text \<open>
  C32. What the insurance endpoints answer. Whenever a handler of the insurance controller succeeds,
  the client receives a success whose data holds no bigint, date, decimal or class instance and no
  soft-delete marker at any depth; the state is the one the service left.
\<close>

theorem insurance_replies_safe:
  assumes "lawfulDecimal (we_decimal we)" "handler \<in> set (insuranceHandlers we i j risk amount rate)"
    and "handler w = (Inr b, w')"
  shows "\<exists>d. respond request scope time handler w = (Success (BObj [(''success'', BBool True), (''data'', d)]), w') \<and>
    plainJson d \<and> unmarked d"
proof -
  obtain v where "insuranceRow v" "transform (bodyOf (we_decimal we) v) = Inr b"
    using insuranceHandlers_serialise [OF assms(2,3)] by blast
  with serialised_reply [OF assms(1)] obtain d where
    "formatResponse b = Inr (BObj [(''success'', BBool True), (''data'', d)])" "plainJson d" "unmarked d"
    by (metis sum.inject(2))
  with assms(3) show ?thesis by (simp add: respond_def)
qed

text \<open>
  Deleting a user reveals the marker. The handler answers with a finished response, which the
  interceptor passes on unchanged: the client receives the soft-delete timestamp.
\<close>

theorem delete_reply_reveals_marker:
  assumes "runtime (we_env we)" "controller_deleteUser we i s = (Inr b, s')"
  shows "respond request scope time (controller_deleteUser we i) s = (Success b, s') \<and>
    member b ''deletedAt'' = Some (BDate (Some (now (we_env we)))) \<and> \<not> unmarked b"
proof -
  from assms(2) obtain r t1 u t2 t3 where
    u: "service_findById (we_env we) i s = (Inr r, t1)" "cascadeSoftDelete (we_env we) i (now (we_env we)) t1 = (Inr u, t2)"
    and b: "b = BObj [(''success'', BBool True), (''id'', BStr (rowId u)),
      (''deletedAt'', case deletedAt u of None \<Rightarrow> BNull | Some t \<Rightarrow> BDate (Some t))]"
    unfolding controller_deleteUser_def service_delete_def
    by (auto simp: bindM_Inr_iff)
  obtain u0 where "userOf t1 i = Some u0"
    using u(1) service_findById_run [OF assms(1), of i s] by (auto split: if_splits option.splits)
  from cascade_run [OF assms(1) this, of "now (we_env we)"] u(2) have "deletedAt u = Some (now (we_env we))"
    by auto
  then have "b = BObj [(''success'', BBool True), (''id'', BStr (rowId u)), (''deletedAt'', BDate (Some (now (we_env we))))]"
    using b by simp
  then show ?thesis using assms(2)
    by (simp add: respond_def formatResponse_def isEnvelope_def member_def)
qed

text \<open>
  A push subscription comes back. When the endpoint accepts a subscription of a user, the contact
  data the notification service reads afterwards hold exactly that subscription, decrypted and parsed,
  and it is the one a push job would use; nobody else's data change.
\<close>

theorem subscription_roundtrip:
  assumes "runtime (we_env we)" "lawfulCipher (we_env we)" "CHR '':'' \<notin> set (activeKeyVersion (we_env we))"
    and "jsonParse (we_env we) (jsonText (we_js we) (subscriptionJs sub)) = Some (subscriptionJs sub)"
    and "isValidCuid userId" "subscribeToPush we userId sub s = (Inr b, s')"
  shows "(\<exists>ct. getDecryptedContact (we_env we) userId s' = (Inr ct, s') \<and>
      getPushSubscription (we_env we) (ct_pushSubscription ct) = Some (subscriptionJs sub)) \<and>
    (\<forall>j. j \<noteq> userId \<longrightarrow> userOf s' j = userOf s j)"
proof -
  let ?env = "we_env we"
  from assms(6) have fields: "ps_endpoint sub \<noteq> []" "ps_p256dh sub \<noteq> []" "ps_auth sub \<noteq> []"
    by (auto simp: subscribeToPush_def split: if_splits)
  obtain u c where u: "userOf s userId = Some u" and c: "encrypt ?env (jsonText (we_js we) (subscriptionJs sub)) = Inr c"
    and s': "s' = s\<lparr>users := updateFirst (live (\<lambda>r. rowId r = userId)) (\<lambda>r. r\<lparr>pushSubscription := Some (JStr c)\<rparr>) (users s)\<rparr>"
    using assms(1,6)
    by (auto simp: subscribeToPush_def ensureActiveUser_def updateUser_def usersOp_def bindM_Inr_iff zoom_Inr_iff liftE_def
        userOf_def split: if_splits option.splits sum.splits)
  have user: "userOf s' j = (if j = userId then Some (u\<lparr>pushSubscription := Some (JStr c)\<rparr>) else userOf s j)" for j
    using u by (simp add: userOf_def s' find_live_updateFirst)
  have dec: "decrypt ?env c = Inr (jsonText (we_js we) (subscriptionJs sub))"
    by (rule encrypt_decrypt_gen [OF assms(2,3) c])
  have "c \<noteq> []" using encrypt_nonempty [OF c] .
  then have "pushSubscription (decryptUser ?env (u\<lparr>pushSubscription := Some (JStr c)\<rparr>)) = Some (subscriptionJs sub)"
    using dec assms(4) by (simp add: decryptUser_def Let_def split: option.split sum.split)
  moreover have "isPushSubscription (subscriptionJs sub)"
    by (simp add: isPushSubscription_def subscriptionJs_def)
  then have "getPushSubscription ?env (Some (subscriptionJs sub)) = Some (subscriptionJs sub)"
    by (simp add: getPushSubscription_def subscriptionJs_def)
  moreover have "find (live (\<lambda>r. rowId r = userId)) (users s') = Some (u\<lparr>pushSubscription := Some (JStr c)\<rparr>)"
    using user [of userId] by (simp add: userOf_def)
  ultimately have "\<exists>ct. getDecryptedContact ?env userId s' = (Inr ct, s') \<and>
      getPushSubscription ?env (ct_pushSubscription ct) = Some (subscriptionJs sub)"
    using assms(1,5)
    by (simp add: getDecryptedContact_def findWithSettings_def usersOp_def bindM_def zoom_def Let_def)
  with user show ?thesis by simp
qed

lemma mapUserResponse_email:
  assumes "mapUserResponse we u = Inr b"
  shows "member b ''email'' = Some (case email u of None \<Rightarrow> BNull | Some e \<Rightarrow> BStr e)"
  using assms
  by (cases "email u") (auto simp: mapUserResponse_def Let_def transform_object put_def member_def orNull_def split: sum.splits)

lemma liftE_Inr: "liftE r s = (Inr a, s') \<longleftrightarrow> r = Inr a \<and> s' = s"
  by (cases r) (auto simp: liftE_def)

lemma service_update_email:
  assumes "runtime env" "dto_email dto = Some m" "service_update env i dto s = (Inr u, s')"
  shows "\<exists>c. encrypt env (sanitizeString m) = Inr c \<and> email u = Some c \<and> userOf s' i = Some u"
proof -
  have "isValidCuid i" using assms(3) by (auto simp: service_update_def split: if_splits)
  with assms(3) have run: "bindM (service_findById env i) (\<lambda>_.
       bindM (optM (dto_email dto) (\<lambda>m. liftE (encrypt env (sanitizeString m)))) (\<lambda>mail.
       bindM (optM (dto_profileData dto) (\<lambda>v. liftE (jsonClone (toJSON env) (sanitizeObject (entriesOf env) 0 v)))) (\<lambda>prof.
       bindM (optM (dto_pushSubscription dto) (\<lambda>p. liftE (encrypt env (sanitizeString p)))) (\<lambda>push.
       bindM (service_findById env i) (\<lambda>beforeUser.
       bindM (transaction (updateUser env i (setProfile mail prof push))) (\<lambda>updatedUser.
       bindM (liftE (snapshotDiff env (profileJs beforeUser) (profileJs updatedUser))) (\<lambda>(beforeState, afterState).
       bindM (auditService_log env Audit_UPDATE ''User'' i beforeState afterState None (Some ''Profile updated'')) (\<lambda>_.
       returnM updatedUser)))))))) s = (Inr u, s')"
    by (simp only: service_update_def simp_thms if_True if_False)
  from run obtain mail prof push t t' bs as where
    mail: "optM (dto_email dto) (\<lambda>m. liftE (encrypt env (sanitizeString m))) s = (Inr mail, s)"
    and up: "transaction (updateUser env i (setProfile mail prof push)) t = (Inr u, t')"
    and log: "auditService_log env Audit_UPDATE ''User'' i bs as None (Some ''Profile updated'') t' = (Inr (), s')"
    by (elim bindM_InrE) (fastforce simp: service_findById_run [OF assms(1)] optM_def liftE_Inr assms(2) bindM_Inr_iff
        split: if_splits option.splits prod.splits)
  obtain c where c: "encrypt env (sanitizeString m) = Inr c" "mail = Some c"
    using mail by (auto simp: optM_def assms(2) bindM_Inr_iff liftE_Inr)
  obtain r where r: "userOf t i = Some r" "u = setProfile mail prof push r"
    and t': "users t' = updateFirst (live (\<lambda>x. rowId x = i)) (setProfile mail prof push) (users t)"
    using up assms(1) by (auto simp: transaction_Inr_iff updateUser_def usersOp_def zoom_Inr_iff userOf_def split: option.splits)
  have "users s' = users t'"
    using log auditService_log_frame [OF assms(1), of Audit_UPDATE "''User''" i bs as None "Some ''Profile updated''" t'] by auto
  moreover have "rowId (setProfile mail prof push x) = rowId x" "deletedAt (setProfile mail prof push x) = deletedAt x" for x
    by (simp_all add: setProfile_def)
  ultimately have "userOf s' i = Some u"
    using r t' by (simp add: userOf_def find_live_updateFirst)
  moreover have "email u = Some c" using r(2) c(2) by (simp add: setProfile_def)
  ultimately show ?thesis using c(1) by blast
qed

text \<open>
  The reply to a profile update shows the stored form. After a successful update of the e-mail
  address the client receives its ciphertext, whereas reading the same user answers with the plain
  address.
\<close>

theorem update_reply_ciphertext:
  assumes "runtime (we_env we)" "lawfulCipher (we_env we)" "CHR '':'' \<notin> set (activeKeyVersion (we_env we))"
    and "dto_email dto = Some m" "controller_updateUser we i dto s = (Inr b, s')"
  shows "\<exists>c. encrypt (we_env we) (sanitizeString m) = Inr c \<and> member b ''email'' = Some (BStr c) \<and>
    (\<forall>b2 s2. controller_getUser we i s' = (Inr b2, s2) \<longrightarrow> member b2 ''email'' = Some (BStr (sanitizeString m)))"
proof -
  obtain u where u: "service_update (we_env we) i dto s = (Inr u, s')" "mapUserResponse we u = Inr b"
    using assms(5) by (auto simp: controller_updateUser_def bindM_Inr_iff liftE_Inr)
  obtain c where c: "encrypt (we_env we) (sanitizeString m) = Inr c" "email u = Some c" "userOf s' i = Some u"
    using service_update_email [OF assms(1,4) u(1)] by blast
  have "email (decryptUser (we_env we) u) = Some (sanitizeString m)"
    using encrypt_decrypt_gen [OF assms(2,3) c(1)] encrypt_nonempty [OF c(1)] c(2)
    by (simp add: decryptUser_def Let_def split: option.split sum.split jsval.split)
  then have "member b2 ''email'' = Some (BStr (sanitizeString m))" if "controller_getUser we i s' = (Inr b2, s2)" for b2 s2
    using that c(3) mapUserResponse_email [of we "decryptUser (we_env we) u" b2]
    by (auto simp: controller_getUser_def bindM_Inr_iff liftE_Inr service_findById_run [OF assms(1)] split: if_splits)
  with mapUserResponse_email [OF u(2)] c show ?thesis by auto
qed

section \<open>A concrete application\<close>

definition sampleDecimal :: decimal_class where
  "sampleDecimal = \<lparr>dc_text = (\<lambda>q. ''0''), dc_members = (\<lambda>q. [(''d'', BArr []), (''e'', BNum 0), (''s'', BNum 1)])\<rparr>"

lemma sampleDecimal_lawful: "lawfulDecimal sampleDecimal"
proof -
  have "numeric ''0''" by code_simp
  then show ?thesis by (simp add: lawfulDecimal_def sampleDecimal_def)
qed

definition sampleWeb :: "env \<Rightarrow> web_env" where
  "sampleWeb env = \<lparr>we_env = env, we_decimal = sampleDecimal,
     we_js = \<lparr>textOf = (\<lambda>v. []), ownEntries = (\<lambda>v. [])\<rparr>, we_times = (\<lambda>u. (0, 0)),
     validUrl = (\<lambda>s. True), base64Length = length\<rparr>"

lemma sampleWeb_fields [simp]:
  "we_env (sampleWeb env) = env" "we_decimal (sampleWeb env) = sampleDecimal"
  "we_js (sampleWeb env) = \<lparr>textOf = (\<lambda>v. []), ownEntries = (\<lambda>v. [])\<rparr>"
  by (simp_all add: sampleWeb_def)

theorem insurance_replies_safe_witness:
  "\<exists>d w'. respond sampleGet None 0 (controller_purchase (sampleWeb memoryEnv) ''user-1'' ''pool-1'' PROJECT_FAILURE 40) Lifecycle.emptyWorld =
     (Success (BObj [(''success'', BBool True), (''data'', d)]), w') \<and> plainJson d \<and> unmarked d"
proof -
  obtain p w' where "purchasePolicy memoryEnv ''user-1'' ''pool-1'' PROJECT_FAILURE 40 Lifecycle.emptyWorld = (Inr p, w')"
    using sample_purchased by blast
  moreover have "insuranceRow (policyJs p)" unfolding insuranceRow_def by blast
  then obtain b where "transform (bodyOf sampleDecimal (policyJs p)) = Inr b"
    using serialised_reply [of "sampleWeb memoryEnv" "policyJs p"] sampleDecimal_lawful by auto
  ultimately have "controller_purchase (sampleWeb memoryEnv) ''user-1'' ''pool-1'' PROJECT_FAILURE 40 Lifecycle.emptyWorld = (Inr b, w')"
    by (simp add: controller_purchase_def bindM_def serialised_def liftE_def)
  moreover have "controller_purchase (sampleWeb memoryEnv) ''user-1'' ''pool-1'' PROJECT_FAILURE 40
      \<in> set (insuranceHandlers (sampleWeb memoryEnv) ''user-1'' ''pool-1'' PROJECT_FAILURE 40 0)"
    unfolding insuranceHandlers_def list.set by (rule insertI1)
  ultimately show ?thesis
    using insurance_replies_safe [where we = "sampleWeb memoryEnv" and request = sampleGet and scope = None and time = 0
        and handler = "controller_purchase (sampleWeb memoryEnv) ''user-1'' ''pool-1'' PROJECT_FAILURE 40"]
      sampleDecimal_lawful unfolding sampleWeb_fields by blast
qed

end
