(* ===== verification/Access.thy ===== *)
theory Access
  imports Auth Controllers
begin

text \<open>
  Who may call what: \<open>auth/guards/jwt-auth.guard.ts\<close> with \<open>auth/decorators/public.decorator.ts\<close>, and
  \<open>auth/auth.controller.ts\<close>. The guard is installed for every route. What it inherits from passport is
  a parameter, given the strategy's \<open>validate\<close>; its documented behaviour is the hypothesis
  \<open>lawfulPassport\<close>.
\<close>

section \<open>JwtAuthGuard\<close>

text \<open>
  \<open>bearerToken\<close> is the token \<open>ExtractJwt.fromAuthHeaderAsBearerToken()\<close> finds and \<open>verifyJwt t token\<close>
  the payload of a token whose signature is right and that has not expired at \<open>t\<close>.
  \<open>superCanActivate validate t request\<close> is the inherited \<open>canActivate\<close>, with the user it leaves in the
  request.
\<close>

record passport =
  bearerToken :: "http_request \<Rightarrow> string option"
  verifyJwt :: "int \<Rightarrow> string \<Rightarrow> AccessTokenPayload option"
  superCanActivate :: "(string \<Rightarrow> (db, (string \<times> string) option) sm) \<Rightarrow> int \<Rightarrow> http_request \<Rightarrow> (db, string \<times> string) sm"

text \<open>\<open>@Public()\<close> sets the metadata \<open>isPublic\<close> to true; \<open>metadata\<close> is what the reflector finds for the route.\<close>

definition isPublic :: "bool option \<Rightarrow> bool" where
  "isPublic metadata \<longleftrightarrow> metadata = Some True"

definition canActivate ::
  "passport \<Rightarrow> env \<Rightarrow> bool option \<Rightarrow> http_request \<Rightarrow> (db, (string \<times> string) option) sm" where
  "canActivate pp env metadata request =
    (if isPublic metadata then returnM None
     else bindM (superCanActivate pp (jwt_validate env) (now env) request) (\<lambda>user. returnM (Some user)))"

section \<open>AuthController\<close>

text \<open>A handler receives the user the guard left in the request.\<close>

definition guarded ::
  "passport \<Rightarrow> env \<Rightarrow> bool option \<Rightarrow> http_request \<Rightarrow>
   ((string \<times> string) option \<Rightarrow> ('c auth_state, 'a) sm) \<Rightarrow> ('c auth_state, 'a) sm" where
  "guarded pp env metadata request handler =
     bindM (onDb (canActivate pp env metadata request)) handler"

definition post_walletLogin ::
  "passport \<Rightarrow> 'c auth_env \<Rightarrow> http_request \<Rightarrow> string \<Rightarrow> string \<Rightarrow> string option \<Rightarrow> ('c auth_state, TokenPairResponse) sm" where
  "post_walletLogin pp ae request userId nonce fingerprint =
     guarded pp (ah_env ae) (Some True) request (\<lambda>_. walletLogin ae userId nonce fingerprint)"

definition post_refreshTokens ::
  "passport \<Rightarrow> 'c auth_env \<Rightarrow> http_request \<Rightarrow> string \<Rightarrow> string option \<Rightarrow> string option \<Rightarrow> ('c auth_state, TokenPairResponse) sm" where
  "post_refreshTokens pp ae request token fingerprint ip =
     guarded pp (ah_env ae) (Some True) request (\<lambda>_. onDb (refreshTokens ae token fingerprint ip))"

text \<open>\<open>req.user?.id\<close> is the empty text for a request without a user, which the guard excludes.\<close>

definition post_logout ::
  "passport \<Rightarrow> 'c auth_env \<Rightarrow> http_request \<Rightarrow> string option \<Rightarrow> ('c auth_state, nat) sm" where
  "post_logout pp ae request token =
     guarded pp (ah_env ae) None request (\<lambda>user.
       onDb (logout ae (case user of None \<Rightarrow> [] | Some (userId, wallet) \<Rightarrow> userId) token))"

section \<open>What the guard lets through\<close>

definition tokenUserOf :: "passport \<Rightarrow> env \<Rightarrow> http_request \<Rightarrow> db \<Rightarrow> user option" where
  "tokenUserOf pp env request s =
    (case Option.bind (bearerToken pp request) (verifyJwt pp (now env)) of
       None \<Rightarrow> None
     | Some jwtClaims \<Rightarrow> if isValidCuid (sub jwtClaims) then userOf s (sub jwtClaims) else None)"

text \<open>
  Passport refuses a request without a verified token, and one whose validation finds no user; otherwise
  the user of the request is the one \<open>validate\<close> returned for the subject of the token.
\<close>

definition lawfulPassport :: "passport \<Rightarrow> bool" where
  "lawfulPassport pp \<longleftrightarrow> (\<forall>validate t request. superCanActivate pp validate t request =
    (case Option.bind (bearerToken pp request) (verifyJwt pp t) of
       None \<Rightarrow> throwM (UnauthorizedException ''Unauthorized'')
     | Some jwtClaims \<Rightarrow>
         bindM (validate (sub jwtClaims)) (\<lambda>user.
           case user of None \<Rightarrow> throwM (UnauthorizedException ''Unauthorized'') | Some u \<Rightarrow> returnM u)))"

lemma canActivate_run:
  assumes "runtime env" "lawfulPassport pp"
  shows "canActivate pp env metadata request s =
    (if isPublic metadata then (Inr None, s)
     else case tokenUserOf pp env request s of
       None \<Rightarrow> (Inl (UnauthorizedException ''Unauthorized''), s)
     | Some u \<Rightarrow> (Inr (Some (rowId u, walletAddress u)), s))"
  using assms(2)
  by (simp add: canActivate_def lawfulPassport_def tokenUserOf_def jwt_validate_def bindM_def catchM_def
      service_findById_run [OF assms(1)] split: option.split)

lemma guarded_run:
  assumes "runtime env" "lawfulPassport pp"
  shows "guarded pp env metadata request handler s =
    (if isPublic metadata then handler None s
     else case tokenUserOf pp env request (adb s) of
       None \<Rightarrow> (Inl (UnauthorizedException ''Unauthorized''), s)
     | Some u \<Rightarrow> handler (Some (rowId u, walletAddress u)) s)"
  by (simp add: guarded_def onDb_def zoom_def bindM_def canActivate_run [OF assms] split: option.split)

lemma guarded_public: "guarded pp env (Some True) request handler = handler None"
  by (rule ext) (simp add: guarded_def onDb_def zoom_def bindM_def canActivate_def isPublic_def)

text \<open>
  C12. A route that is not public runs its handler only for a verified user. Unless the request
  carries a verified, unexpired token whose subject is a live user, the answer is 401 and nothing
  changes; otherwise the handler runs on the unchanged state with exactly that user. A public route
  never looks at the token.
\<close>

theorem guard_authenticates:
  assumes "runtime env" "lawfulPassport pp"
  shows "(\<not> isPublic metadata \<longrightarrow>
      guarded pp env metadata request handler s =
        (case tokenUserOf pp env request (adb s) of
           None \<Rightarrow> (Inl (UnauthorizedException ''Unauthorized''), s)
         | Some u \<Rightarrow> handler (Some (rowId u, walletAddress u)) s)) \<and>
    (isPublic metadata \<longrightarrow> guarded pp env metadata request handler s = handler None s) \<and>
    (\<forall>u. tokenUserOf pp env request (adb s) = Some u \<longrightarrow> u \<in> set (users (adb s)) \<and> deletedAt u = None \<and>
       (\<exists>token jwtClaims. bearerToken pp request = Some token \<and> verifyJwt pp (now env) token = Some jwtClaims \<and> rowId u = sub jwtClaims))"
proof (intro conjI impI allI)
  show "guarded pp env metadata request handler s =
      (case tokenUserOf pp env request (adb s) of
         None \<Rightarrow> (Inl (UnauthorizedException ''Unauthorized''), s)
       | Some u \<Rightarrow> handler (Some (rowId u, walletAddress u)) s)" if "\<not> isPublic metadata"
    using that by (simp only: guarded_run [OF assms] if_False)
  show "guarded pp env metadata request handler s = handler None s" if "isPublic metadata"
    using that by (simp only: guarded_run [OF assms] if_True)
  fix u assume "tokenUserOf pp env request (adb s) = Some u"
  then obtain token jwtClaims where *: "bearerToken pp request = Some token" "verifyJwt pp (now env) token = Some jwtClaims"
    "userOf (adb s) (sub jwtClaims) = Some u"
    by (auto simp: tokenUserOf_def bind_eq_Some_conv split: option.splits if_splits)
  then have "u \<in> set (users (adb s)) \<and> live (\<lambda>r. rowId r = sub jwtClaims) u"
    unfolding userOf_def by (auto simp: find_Some_iff)
  then have "u \<in> set (users (adb s))" "deletedAt u = None" "rowId u = sub jwtClaims" by (auto simp: live_def)
  with * show "u \<in> set (users (adb s))" "deletedAt u = None"
    "\<exists>token jwtClaims. bearerToken pp request = Some token \<and> verifyJwt pp (now env) token = Some jwtClaims \<and> rowId u = sub jwtClaims"
    by blast+
qed

section \<open>From login to access\<close>

text \<open>A token verifies until it expires.\<close>

definition lawfulJwt :: "passport \<Rightarrow> 'c auth_env \<Rightarrow> int \<Rightarrow> bool" where
  "lawfulJwt pp ae t \<longleftrightarrow> (\<forall>jwtClaims. verifyJwt pp t (signJwt ae jwtClaims) = Some jwtClaims)"

lemma users_tokensOp: "keeps (\<lambda>s. users s = us) (tokensOp env f)"
  unfolding tokensOp_def by (rule keeps_zoom_frame) simp

lemma users_log: "runtime env \<Longrightarrow> keeps (\<lambda>s. users s = us) (auditService_log env act ty i b a h r)"
proof (rule keepsI)
  fix s :: db assume "runtime env" "users s = us"
  then show "users (snd (auditService_log env act ty i b a h r s)) = us"
    using auditService_log_frame [of env act ty i b a h r s] by auto
qed

lemma users_find: "runtime env \<Longrightarrow> keeps (\<lambda>s. users s = us) (service_findById env i)"
  by (rule keepsI) (simp add: service_findById_run split: option.split)

lemma users_issueTokens: "keeps (\<lambda>s. users s = us) (issueTokens ae user f fp)"
  unfolding issueTokens_def createRefreshToken_def createToken_def enforceSessionLimit_def countActiveForUser_def
    revokeToken_def Let_def
  by (intro keeps_rules users_tokensOp)

lemma users_onCache: "keeps (\<lambda>s. users (adb s) = us) (onCache m)"
  by (auto simp: keeps_def onCache_def zoom_def split: prod.splits)

lemma users_login:
  assumes "runtime (ah_env ae)"
  shows "keeps (\<lambda>s. users (adb s) = us) (walletLogin ae u n fp)"
  unfolding walletLogin_def Let_def
  by (intro keeps_bind keeps_onDb users_onCache users_find [OF assms] users_log [OF assms] users_issueTokens
      keeps_case_prod keeps_return)

lemma issued_access: "issueTokens ae user f fp t = (Inr (a, k), t') \<Longrightarrow> a = signAccessToken ae (rowId user) (walletAddress user)"
  unfolding issueTokens_def transaction_Inr_iff by (auto simp: bindM_Inr_iff)

lemma login_inv:
  assumes "runtime (ah_env ae)" "walletLogin ae u n fp s = (Inr p, s')"
  shows "\<exists>usr. isValidCuid u \<and> userOf (adb s') u = Some usr \<and> access_token p = signAccessToken ae u (walletAddress usr)"
proof -
  have same: "users (adb s') = users (adb s)"
    using keepsD [OF users_login [OF assms(1)], of s "users (adb s)" u n fp] assms(2) by simp
  obtain a s1 user d where cache: "onCache (consumeNonceForUser (ah_nonce ae) n u) s = (Inr a, s1)"
    and find: "service_findById (ah_env ae) u (adb s1) = (Inr user, d)"
    and token: "access_token p = signAccessToken ae (rowId user) (walletAddress user)"
    using assms(2) unfolding walletLogin_def onDb_def Let_def
    by (auto simp: bindM_Inr_iff zoom_Inr_iff tokenPair_def dest!: issued_access)
  have "users (adb s1) = users (adb s)"
    using keepsD [OF users_onCache, of s "users (adb s)" "consumeNonceForUser (ah_nonce ae) n u"] cache by simp
  moreover obtain usr where usr: "isValidCuid u" "userOf (adb s1) u = Some usr" "user = decryptUser (ah_env ae) usr"
    using find by (auto simp: service_findById_run [OF assms(1)] split: if_splits option.splits)
  ultimately have "userOf (adb s') u = Some usr" by (simp add: userOf_def same)
  with usr token userOf_id [OF usr(2)] show ?thesis by auto
qed

text \<open>
  C13. A login opens the guarded routes. While the access token of a successful login verifies, a
  request that carries it is let through as the user who logged in, with the wallet address stored
  for them.
\<close>

theorem login_grants_access:
  assumes "runtime (ah_env ae)" "runtime env" "lawfulPassport pp" "lawfulJwt pp ae (now env)"
    and "post_walletLogin pp ae request userId nonce fingerprint s = (Inr p, s')"
    and "bearerToken pp later = Some (access_token p)" "\<not> isPublic metadata"
  shows "\<exists>usr. userOf (adb s') userId = Some usr \<and>
    guarded pp env metadata later handler s' = handler (Some (userId, walletAddress usr)) s'"
proof -
  have "walletLogin ae userId nonce fingerprint s = (Inr p, s')"
    using assms(5) by (simp add: post_walletLogin_def guarded_public)
  from login_inv [OF assms(1) this] obtain usr where usr: "isValidCuid userId" "userOf (adb s') userId = Some usr"
    and token: "access_token p = signAccessToken ae userId (walletAddress usr)" by blast
  have "verifyJwt pp (now env) (access_token p) =
      Some \<lparr>sub = userId, pay_walletAddress = walletAddress usr, pay_type = ''access''\<rparr>"
    using assms(4) by (simp only: lawfulJwt_def token signAccessToken_def simp_thms)
  then have "tokenUserOf pp env later (adb s') = Some usr"
    using usr assms(6) by (simp add: tokenUserOf_def)
  with usr(2) userOf_id [OF usr(2)] assms(7) show ?thesis
    by (intro exI [of _ usr]) (simp add: guarded_run [OF assms(2,3)])
qed

section \<open>Deleted users\<close>

lemma find_stamped:
  assumes "distinct (map rowId us)" "\<And>r. deletedAt (f r) \<noteq> None"
  shows "find (live (\<lambda>r. rowId r = i)) (updateFirst (live (\<lambda>r. rowId r = i)) f us) = None"
  using assms by (induction us) (auto simp: live_def find_None_iff, metis imageI)

lemma deleted_user:
  assumes "runtime env" "distinct (map rowId (users s))" "service_delete env i s = (Inr r, s')"
  shows "userOf s' i = None"
proof -
  from assms(3) obtain u0 d1 u d2 x where find: "service_findById env i s = (Inr u0, d1)"
    and cascade: "cascadeSoftDelete env i (now env) d1 = (Inr u, d2)"
    and log: "auditService_log env Audit_DELETE ''User'' i (deletedJs i None) (deletedJs i (deletedAt u))
              None (Some ''User soft-deleted'') d2 = (Inr x, s')"
    unfolding service_delete_def by (auto simp: bindM_Inr_iff)
  obtain usr where usr: "userOf s i = Some usr" "d1 = s"
    using find by (auto simp: service_findById_run [OF assms(1)] split: if_splits option.splits)
  have "users d2 = updateFirst (live (\<lambda>r. rowId r = i)) (stamp (now env)) (users s)"
    using cascade_run [OF assms(1) usr(1), of "now env"] cascade usr(2) by auto
  moreover have "users s' = users d2"
    using keepsD [OF users_log [OF assms(1)], of d2 "users d2" Audit_DELETE "''User''" i "deletedJs i None"
        "deletedJs i (deletedAt u)" None "Some ''User soft-deleted''"] unfolding log by simp
  ultimately show ?thesis
    using find_stamped [OF assms(2), of "stamp (now env)" i] by (simp add: userOf_def stamp_def)
qed

lemma rotate_unknown_user:
  assumes "runtime (ah_env ae)" "userOf s (rt_userId r) = None"
  shows "\<exists>e. rotate ae r token fp s = (Inl e, s)"
  using assms(2) by (simp add: rotate_def bindM_def service_findById_run [OF assms(1)])

text \<open>
  C14. A deleted user is locked out at once. After a user has been deleted, every guarded route
  answers 401 to every token issued for them, expired or not, and none of their refresh tokens can
  be exchanged, although the deletion does not revoke them.
\<close>

theorem deleted_user_locked_out:
  assumes "runtime env" "runtime (ah_env ae)" "lawfulPassport pp" "distinct (map rowId (users (adb s)))"
    and "service_delete env i (adb s) = (Inr r, adb s')"
    and "\<forall>jwt jwtClaims. bearerToken pp request = Some jwt \<and> verifyJwt pp (now (ah_env ae)) jwt = Some jwtClaims \<longrightarrow> sub jwtClaims = i"
  shows "(\<not> isPublic metadata \<longrightarrow>
      guarded pp (ah_env ae) metadata request handler s' = (Inl (UnauthorizedException ''Unauthorized''), s')) \<and>
    (\<forall>stored. tokenOf (adb s') token = Some stored \<and> rt_userId stored = i \<longrightarrow>
      (\<exists>e. fst (post_refreshTokens pp ae any token fp ip s') = Inl e))"
proof (intro conjI impI allI)
  have gone: "userOf (adb s') i = None" by (rule deleted_user [OF assms(1,4,5)])
  have "tokenUserOf pp (ah_env ae) request (adb s') = None"
    using gone assms(6) by (auto simp: tokenUserOf_def bind_eq_Some_conv split: option.split)
  then show "guarded pp (ah_env ae) metadata request handler s' = (Inl (UnauthorizedException ''Unauthorized''), s')"
    if "\<not> isPublic metadata"
    using that by (simp add: guarded_run [OF assms(2,3)])
  fix stored assume stored: "tokenOf (adb s') token = Some stored \<and> rt_userId stored = i"
  have refuse: "\<exists>e. fst (refuse ae act x b a reason message t) = Inl e" for act x b a reason message t
    by (simp add: refuse_def bindM_def split: prod.split sum.split)
  have "\<exists>e. fst (refreshTokens ae token fp ip (adb s')) = Inl e"
  proof -
    have "findByToken (ah_env ae) token (adb s') = (Inr (Some stored), adb s')" using stored assms(2) by simp
    moreover obtain e where "rotate ae stored token fp (adb s') = (Inl e, adb s')"
      using rotate_unknown_user [OF assms(2), of "adb s'" stored token fp] gone stored by auto
    ultimately show ?thesis
      unfolding refreshTokens_def bindM_Inr [where m = "findByToken (ah_env ae) token"] option.case
      using refuse by (simp only: bindM_Inr [where m = "findByToken (ah_env ae) token"] option.case)
        (auto simp: bindM_def [of "transaction _"] split: prod.split sum.split)
  qed
  then show "\<exists>e. fst (post_refreshTokens pp ae any token fp ip s') = Inl e"
    by (auto simp: post_refreshTokens_def guarded_public onDb_def zoom_def split: prod.split)
qed

section \<open>Logging out\<close>

lemma logout_audited:
  assumes "runtime (ah_env ae)" "auditAccepts (ah_env ae)" "revokeForLogout ae u token t = (Inr n, t')"
  shows "\<exists>l. logout ae u token t = (Inr n, t'\<lparr>auditLogs := l\<rparr>)"
proof -
  have nb: "noBig (JObj [(''activeTokens'', JNum (of_nat n))])" "noBig (JObj [(''reason'', JStr x)])" for x by simp_all
  show ?thesis
    unfolding logout_def bindM_Inr [where m = "revokeForLogout ae u token", OF assms(3)]
    apply (subst bindM_Inr, rule runtime.auditService_log_run [OF assms(1,2) nb])
    apply (simp only: returnM_run)
    apply (rule exI, rule refl)
    done
qed

lemma revoke_all: "runtime (ah_env ae) \<Longrightarrow> revokeForLogout ae u None t =
   (Inr (length (filter (openToken (\<lambda>r. rt_userId r = u)) (refreshTokenRows t))),
    t\<lparr>refreshTokenRows := revokeAll (now (ah_env ae)) (\<lambda>r. rt_userId r = u) (refreshTokenRows t)\<rparr>)"
  by (simp add: revokeForLogout_def transaction_def)

lemma revoke_foreign:
  "runtime (ah_env ae) \<Longrightarrow> tokenOf t token = Some r \<Longrightarrow> rt_userId r \<noteq> u \<Longrightarrow> token \<noteq> [] \<Longrightarrow>
   revokeForLogout ae u (Some token) t = (Inr 0, t)"
  by (simp add: revokeForLogout_def transaction_def bindM_def)


section \<open>A concrete verifier\<close>

text \<open>A signer that writes the three texts of the payload one after the other, and its inverse.\<close>

definition packText :: "string \<Rightarrow> string" where
  "packText s = concat (map (\<lambda>ch. [CHR ''x'', ch]) s) @ ''y''"

fun unpackText :: "string \<Rightarrow> string \<times> string" where
  "unpackText (a # b # r) = (if a = CHR ''x'' then (case unpackText r of (s, q) \<Rightarrow> (b # s, q)) else ([], b # r))"
| "unpackText [a] = ([], [])"
| "unpackText [] = ([], [])"

lemma unpack_pack: "unpackText (packText s @ r) = (s, r)"
proof (induction s)
  case Nil
  then show ?case by (cases r) (simp_all add: packText_def)
qed (simp add: packText_def)

definition packClaims :: "AccessTokenPayload \<Rightarrow> string" where
  "packClaims c = packText (sub c) @ packText (pay_walletAddress c) @ packText (pay_type c)"

definition unpackClaims :: "string \<Rightarrow> AccessTokenPayload" where
  "unpackClaims t =
    (let (s, r) = unpackText t; (w, q) = unpackText r; (k, z) = unpackText q
     in \<lparr>sub = s, pay_walletAddress = w, pay_type = k\<rparr>)"

lemma unpack_claims: "unpackClaims (packClaims c) = c"
proof -
  have "unpackText (packText k) = (k, [])" for k using unpack_pack [of k "[]"] by simp
  then show ?thesis by (simp add: unpackClaims_def packClaims_def unpack_pack)
qed

definition jwtAuth :: "memory_cache auth_env" where
  "jwtAuth = (sampleAuth 5)\<lparr>signJwt := packClaims\<rparr>"

definition samplePassport :: "string option \<Rightarrow> passport" where
  "samplePassport token = \<lparr>bearerToken = (\<lambda>request. token), verifyJwt = (\<lambda>t text. Some (unpackClaims text)),
     superCanActivate = (\<lambda>validate t request.
       case token of
         None \<Rightarrow> throwM (UnauthorizedException ''Unauthorized'')
       | Some text \<Rightarrow> bindM (validate (sub (unpackClaims text))) (\<lambda>user.
           case user of None \<Rightarrow> throwM (UnauthorizedException ''Unauthorized'') | Some u \<Rightarrow> returnM u))\<rparr>"

lemma samplePassport_lawful: "lawfulPassport (samplePassport token)"
  by (simp add: lawfulPassport_def samplePassport_def split: option.split)

abbreviation sampleJwt :: string where
  "sampleJwt \<equiv> packClaims \<lparr>sub = ''user-1'', pay_walletAddress = walletAddress tokenUser, pay_type = ''access''\<rparr>"

lemma jwtAuth_fields:
  "ah_env jwtAuth = ah_env (sampleAuth 5)" "ah_nonce jwtAuth = ah_nonce (sampleAuth 5)" "signJwt jwtAuth = packClaims"
  "randomFamily jwtAuth = randomFamily (sampleAuth 5)" "tokenRow jwtAuth u f fp t = tokenRow (sampleAuth 5) u f fp t"
  by (simp_all add: jwtAuth_def tokenRow_def hashFingerprint_def [abs_def])

lemma jwt_lawful: "lawfulJwt (samplePassport token) jwtAuth t"
  by (simp add: lawfulJwt_def samplePassport_def jwtAuth_fields unpack_claims)

lemma jwt_user: "userOf s ''user-1'' = Some u \<Longrightarrow> tokenUserOf (samplePassport (Some sampleJwt)) env request s = Some u"
  using sample_login_facts(1) by (simp add: tokenUserOf_def samplePassport_def unpack_claims)

theorem guard_authenticates_witness:
  "guarded (samplePassport None) memoryEnv None sampleGet (\<lambda>user. returnM user) loginState =
     (Inl (UnauthorizedException ''Unauthorized''), loginState) \<and>
   guarded (samplePassport (Some sampleJwt)) memoryEnv None sampleGet (\<lambda>user. returnM user) loginState =
     (Inr (Some (rowId tokenUser, walletAddress tokenUser)), loginState)"
proof -
  have "tokenUserOf (samplePassport None) memoryEnv sampleGet (adb loginState) = None"
    by (simp add: tokenUserOf_def samplePassport_def)
  moreover have "tokenUserOf (samplePassport (Some sampleJwt)) memoryEnv sampleGet (adb loginState) = Some tokenUser"
    by (rule jwt_user [OF sample_login_facts(2)])
  moreover have "\<not> isPublic None" by (simp add: isPublic_def)
  ultimately show ?thesis
    using guard_authenticates [OF memoryEnv_laws samplePassport_lawful, of None None sampleGet "\<lambda>user. returnM user" loginState]
      guard_authenticates [OF memoryEnv_laws samplePassport_lawful, of None "Some sampleJwt" sampleGet "\<lambda>user. returnM user" loginState]
    by (simp only: option.case returnM_run simp_thms)
qed

theorem login_grants_access_witness:
  "\<exists>p s' w. post_walletLogin (samplePassport (Some sampleJwt)) jwtAuth sampleGet ''user-1'' ''abc'' None loginState = (Inr p, s') \<and>
     guarded (samplePassport (Some sampleJwt)) memoryEnv None sampleGet (\<lambda>user. returnM user) s' = (Inr (Some (''user-1'', w)), s')"
proof -
  obtain p s' where login: "walletLogin jwtAuth ''user-1'' ''abc'' None loginState = (Inr p, s')" "access_token p = sampleJwt"
    using public_nonce_login [of jwtAuth, unfolded jwtAuth_fields, OF sampleAuth_laws(1,2) sample_login_nonce(1)
        memoryNonce_reliable(1) sample_fields(3) login_nonce sample_login_nonce(3,2) sample_login_facts(1,2) refl
        sample_login_facts(3,4)] by blast
  have run: "post_walletLogin (samplePassport (Some sampleJwt)) jwtAuth sampleGet ''user-1'' ''abc'' None loginState = (Inr p, s')"
    using login(1) by (simp add: post_walletLogin_def guarded_public)
  have "bearerToken (samplePassport (Some sampleJwt)) sampleGet = Some (access_token p)" "\<not> isPublic None"
    by (simp_all add: samplePassport_def login(2) isPublic_def)
  from login_grants_access [OF _ memoryEnv_laws samplePassport_lawful jwt_lawful run this, of "\<lambda>user. returnM user"] sampleAuth_laws(1) run show ?thesis
    unfolding jwtAuth_fields returnM_run by blast
qed

lemma delete_returns:
  assumes "runtime env" "auditAccepts env" "isValidCuid i" "userOf s i = Some u"
  shows "\<exists>r s'. service_delete env i s = (Inr r, s')"
proof -
  have find: "service_findById env i s = (Inr (decryptUser env u), s)"
    using assms(3,4) by (simp add: service_findById_run [OF assms(1)])
  obtain s1 where cascade: "cascadeSoftDelete env i (now env) s = (Inr (stamp (now env) u), s1)"
    using cascade_run [OF assms(1,4), of "now env"] by blast
  have nb: "noBig (deletedJs i d)" for d by (cases d) (simp_all add: deletedJs_def orNull_def)
  show ?thesis
    unfolding service_delete_def
    apply (subst bindM_Inr, rule find)
    apply (subst bindM_Inr, rule cascade)
    apply (subst bindM_Inr, rule runtime.auditService_log_run [OF assms(1,2) nb nb])
    apply (simp only: returnM_run)
    apply (rule exI, rule exI, rule refl)
    done
qed

theorem deleted_user_locked_out_witness:
  "\<exists>s'. guarded (samplePassport (Some sampleJwt)) (ah_env jwtAuth) None sampleGet (\<lambda>user. returnM ()) s' =
     (Inl (UnauthorizedException ''Unauthorized''), (s' :: memory_cache auth_state))"
proof -
  obtain r d where "service_delete (ah_env jwtAuth) ''user-1'' (adb loginState) = (Inr r, d)"
    using delete_returns [OF _ _ sample_login_facts(1,2)] sampleAuth_laws(1,2) unfolding jwtAuth_fields by blast
  then have run: "service_delete (ah_env jwtAuth) ''user-1'' (adb loginState) = (Inr r, adb (loginState\<lparr>adb := d\<rparr>))" by simp
  have ids: "distinct (map rowId (users (adb loginState)))" by (simp add: loginState_def tokenDb_def)
  let ?pp = "samplePassport (Some sampleJwt)"
  have jwt: "\<forall>t c. bearerToken ?pp sampleGet = Some t \<and> verifyJwt ?pp (now (ah_env jwtAuth)) t = Some c \<longrightarrow> sub c = ''user-1''"
    by (auto simp: samplePassport_def unpack_claims)
  have "runtime (ah_env jwtAuth)" by (simp add: jwtAuth_fields)
  from deleted_user_locked_out [where metadata = None and handler = "\<lambda>user. returnM ()",
      OF this this samplePassport_lawful ids run jwt] show ?thesis
    unfolding isPublic_def by blast
qed


end
