(* ===== verification/Spec2Isabelle.thy ===== *)
theory Spec2Isabelle
  imports Reachability Indexer Idempotency Access
begin

text \<open>
  Verification of the Stellar Insured backend, a NestJS application over PostgreSQL, Redis and a Stellar RPC
  endpoint. All paths below are relative to \<open>src/src/\<close>.

  \<^bold>\<open>The program.\<close> A client request enters through the correlation middleware, is handled by a controller that calls
  one service, and leaves through the response interceptor or, when something threw, through the exception filter.
  Services reach the database through repositories over the Prisma client, on which a middleware is installed that turns
  deletions into soft deletions and hides deleted rows. Three services keep the core state: the insurance services (pools,
  policies, claims, reinsurance) with their audit trail, the authentication service (nonces, refresh tokens) and the
  indexer, which polls contract events, decodes them and applies them to projects, contributions and milestones. Background
  jobs retry e-mails, warn of deadlines, clean idempotency keys and pin metadata.

  \<^bold>\<open>Style.\<close> A method \<open>async f(x): Promise<T>\<close> is a function into \<open>('s, 't) sm\<close>, that is a function from the state to
  a result (\<open>Inl\<close> an exception of the datatype \<open>error\<close>, \<open>Inr\<close> a value) and the next state (theory \<open>Prelude\<close>). \<open>transaction\<close>
  gives the state back when its body throws. Interleaving inside one method is not modelled except where a theorem says so:
  a step is a whole service call, or the separate reads and writes of the race in \<open>Nonce\<close>.

  \<^bold>\<open>Theories and sources.\<close>
  \<^item> \<open>Prelude\<close>, \<open>JsLib\<close>, \<open>JsConvert\<close>, \<open>Once\<close>: the monad and the exceptions; regular expressions with backtracking,
    strings and dates of JavaScript; number conversions; the contract of an operation that takes effect at most once.
  \<^item> \<open>Prisma\<close>, \<open>Schema\<close>, \<open>SoftDelete\<close>, \<open>Repositories\<close>: the database boundary, \<open>prisma/schema.prisma\<close> as records and
    datatypes, \<open>prisma.soft-delete.middleware.ts\<close>, \<open>prisma.service.ts\<close>, \<open>prisma.soft-delete.service.ts\<close> and
    \<open>common/repositories/{base,soft-delete,mock}.repository.ts\<close>. Reads never return a deleted row, a deletion can be undone
    exactly, and the repositories meet one abstract contract.
  \<^item> \<open>Redaction\<close>, \<open>Resilience\<close>, \<open>Sanitization\<close>, \<open>Encryption\<close>, \<open>Runtime\<close>: \<open>common/utils/log-redaction.util.ts\<close>,
    \<open>common/resilience\<close>, \<open>common/utils/sanitization.util.ts\<close>, \<open>encryption/encryption.service.ts\<close>, and the world a request
    runs in. Redaction reaches every depth; every text encrypted under an accepted key configuration decrypts to itself.
  \<^item> \<open>AuditTrail\<close>, \<open>Pool\<close>, \<open>Insurance\<close>, \<open>Claims\<close>, \<open>Lifecycle\<close>, \<open>Reachability\<close>: \<open>insurance/services/audit.service.ts\<close>,
    \<open>insurance/{pool,pricing,insurance,claim,reinsurance}.service.ts\<close> and their repositories. The pool operations refine an
    abstract capital ledger, assessment refines a decision table and returns, failures are atomic, a purchase that is
    cancelled restores the ledger, and along every sequence of calls records evolve only in the allowed ways.
  \<^item> \<open>Reputation\<close>, \<open>User\<close>, \<open>Notification\<close>: \<open>reputation/\<close>, \<open>user/user.service.ts\<close>, \<open>notification/services\<close> and
    \<open>notification/tasks\<close>. Scores stay in range and do not depend on the order of activities; deleting a user leaves none of
    their rows live.
  \<^item> \<open>XdrDecoder\<close>, \<open>EventHandlers\<close>, \<open>LedgerTracker\<close>, \<open>Indexer\<close>: \<open>indexer/services\<close> and \<open>indexer/types\<close>. Parsed events
    have the payload interface of their type, events are handled at most once, the cursor never moves back in a poll, paging
    ends, and a poll cannot touch the insurance tables.
  \<^item> \<open>Nonce\<close>, \<open>Auth\<close>, \<open>Access\<close>, \<open>Idempotency\<close>: \<open>nonce/\<close>, \<open>auth/auth.service.ts\<close> with its token repository and JWT
    strategy, \<open>auth/guards/jwt-auth.guard.ts\<close> with \<open>auth/auth.controller.ts\<close>, \<open>interceptors/\<close>. A nonce is consumed at most
    once, rotation detects reuse, the session limit holds, guarded routes run only for a verified live user, a login opens
    them and a deletion closes them, and a retry of a request returns the stored response.
  \<^item> \<open>Tracing\<close>, \<open>ErrorFilter\<close>, \<open>Responses\<close>, \<open>Storage\<close>, \<open>Config\<close>, \<open>Controllers\<close>: \<open>middleware/correlation-id.middleware.ts\<close>,
    \<open>common/tracing\<close>, \<open>config/winston.config.ts\<close>, \<open>common/filters\<close>, \<open>common/interceptors\<close>, \<open>storage/\<close>, \<open>config/\<close>, the
    CORS decision, the time-out and the shutdown of \<open>main.ts\<close>, and the user, insurance and notification controllers. Error
    responses hide internal errors, responses are plain JSON without the soft-delete marker, uploads are checked, an
    accepted environment has strong secrets, and a shutdown ends exactly once.

  \<^bold>\<open>Interfaces.\<close> \<open>prisma_engine\<close> states what the database promises and \<open>soft_delete_delegate\<close> extends it by the installed
  middleware; \<open>prisma_client\<close> and \<open>runtime\<close> gather one such delegate per model. They are interpreted on an in-memory table
  engine with the model's own middleware installed (\<open>memory\<close>, \<open>memory_client\<close>, \<open>memory_runtime\<close>), which also runs the
  witnesses. \<open>capital_ledger\<close> and \<open>total_capital_ledger\<close> are the contract of the pool service, \<open>repository\<close> that of the
  repositories, interpreted both on the mock and on the Prisma repository, and \<open>at_most_once\<close> that of nonces and of the
  event processor.

  \<^bold>\<open>Parameters.\<close> Code outside the repository is an argument, with documented behaviour as a named hypothesis:
  the engine (\<open>prisma_engine\<close>), the opossum breaker (\<open>lawfulBreaker\<close>), the Redis cache (\<open>lawfulCache\<close>, \<open>reliable\<close>),
  AES-GCM (\<open>lawfulCipher\<close>), decimal.js (\<open>lawfulDecimal\<close>), class-validator (\<open>lawfulValidator\<close>), the JWT signer and verifier (\<open>lawfulJwt\<close>);
  SHA-256,
  random texts, the clock, stellar-sdk, S3, IPFS, sharp, SendGrid, web-push and Bull have no law unless a theorem names one.

  \<^bold>\<open>Bounds.\<close> Recursive functions are total. The page loop of the indexer, which need not end, takes fuel: five times
  the page limit plus one requests suffice when each page that names a next page has an event, and for endless empty pages
  no fuel suffices; both are proved. Redaction and the removal of the soft-delete marker keep the depth limits of the code.
  Amounts are rationals, dates are integers of milliseconds, identifiers from the chain go through the 53-bit rounding
  of \<open>Number\<close>.

  \<^bold>\<open>Not modelled.\<close> NestJS modules and dependency injection, DTO classes that only carry decorators, the
  throttler guard, Swagger, the transports of winston, health checks, the SQL migrations, and code no module installs
  (usage examples, audit interceptor, log sanitiser middleware). Notification delivery outside the queue processors, and
  query variants of the entity repositories that no service calls, are left out.
\<close>

end
